(* ===== verification/Prelude.thy ===== *)
theory Prelude
  imports Main "HOL-Library.Word" "HOL-Library.Multiset" "HOL-Library.Sublist"
begin

text \<open>
  Shared vocabulary of the development: the parts of the Go language and of its
  standard library that the fleet manager uses (byte strings, the functions of
  package \<^verbatim>\<open>strings\<close>, the verbs of \<^verbatim>\<open>fmt.Sprintf\<close>, 32-bit integers), the
  collections of facts the component theories add to, and generic lemmas on
  lists and options.

  A Go string is a HOL \<^typ>\<open>string\<close>, one \<^typ>\<open>char\<close> per byte.  A Go \<^verbatim>\<open>int\<close> is an
  \<^typ>\<open>int\<close>; an \<^verbatim>\<open>int32\<close> is a \<^typ>\<open>32 word\<close> read by \<^const>\<open>sint\<close>.  A pointer that may be
  \<^verbatim>\<open>nil\<close> is an option.  A Go function returning \<^verbatim>\<open>(T, error)\<close> is a sum, \<^const>\<open>Inl\<close> the
  error.
\<close>

section \<open>Collections of facts\<close>

named_theorems go_string \<open>facts on Go strings\<close>
named_theorems http_class \<open>codes and HTTP statuses of the error constructors\<close>
named_theorems status_frame \<open>fields an operation does not touch\<close>
named_theorems db_laws \<open>what a successful database operation did\<close>

section \<open>Types\<close>

type_synonym int32 = "32 word"
type_synonym time = int

section \<open>Package strings\<close>

definition HasPrefix :: "string \<Rightarrow> string \<Rightarrow> bool" where
  "HasPrefix s p \<longleftrightarrow> take (length p) s = p"

definition HasSuffix :: "string \<Rightarrow> string \<Rightarrow> bool" where
  "HasSuffix s p \<longleftrightarrow> HasPrefix (rev s) (rev p)"

definition TrimPrefix :: "string \<Rightarrow> string \<Rightarrow> string" where
  "TrimPrefix s p = (if HasPrefix s p then drop (length p) s else s)"

text \<open>Letter case is folded for the ASCII letters, the only ones in the identifiers the
  program compares.\<close>

definition lower_char :: "char \<Rightarrow> char" where
  "lower_char c = (let n = of_char c :: nat in if 65 \<le> n \<and> n \<le> 90 then char_of (n + 32) else c)"

definition ToLower :: "string \<Rightarrow> string" where
  "ToLower = map lower_char"

definition EqualFold :: "string \<Rightarrow> string \<Rightarrow> bool" where
  "EqualFold s t \<longleftrightarrow> ToLower s = ToLower t"

fun Contains_str :: "string \<Rightarrow> string \<Rightarrow> bool" where
  "Contains_str [] p \<longleftrightarrow> p = []"
| "Contains_str (c # s) p \<longleftrightarrow> HasPrefix (c # s) p \<or> Contains_str s p"

text \<open>\<^verbatim>\<open>strings.Replace(s, old, new, 1)\<close>: the first occurrence.\<close>

fun Replace1 :: "string \<Rightarrow> string \<Rightarrow> string \<Rightarrow> string" where
  "Replace1 [] old new = (if old = [] then new else [])"
| "Replace1 (c # s) old new =
     (if HasPrefix (c # s) old then new @ drop (length old) (c # s) else c # Replace1 s old new)"

text \<open>\<^verbatim>\<open>strings.Split(s, sep)\<close> for a separator of one byte.\<close>

fun Split :: "string \<Rightarrow> char \<Rightarrow> string list" where
  "Split [] d = [[]]"
| "Split (c # s) d =
     (if c = d then [] # Split s d
      else (case Split s d of [] \<Rightarrow> [[c]] | w # ws \<Rightarrow> (c # w) # ws))"

fun Join :: "string list \<Rightarrow> string \<Rightarrow> string" where
  "Join [] sep = []"
| "Join [s] sep = s"
| "Join (s # t # ss) sep = s @ sep @ Join (t # ss) sep"

text \<open>The ASCII white space of \<^verbatim>\<open>strings.TrimSpace\<close>.\<close>

definition is_space :: "char \<Rightarrow> bool" where
  "is_space c \<longleftrightarrow> (of_char c :: nat) \<in> {9, 10, 11, 12, 13, 32}"

definition TrimSpace :: "string \<Rightarrow> string" where
  "TrimSpace s = rev (dropWhile is_space (rev (dropWhile is_space s)))"

text \<open>The built-in \<^verbatim>\<open><\<close> on strings: byte-wise lexicographic.\<close>

fun str_less :: "string \<Rightarrow> string \<Rightarrow> bool" where
  "str_less [] t \<longleftrightarrow> t \<noteq> []"
| "str_less (c # s) [] \<longleftrightarrow> False"
| "str_less (c # s) (d # t) \<longleftrightarrow>
     (of_char c :: nat) < of_char d \<or> (c = d \<and> str_less s t)"

section \<open>Package fmt\<close>

text \<open>Arguments of \<^verbatim>\<open>fmt.Sprintf\<close>.  \<open>FVal\<close> carries the Go type name and the rendering of a
  value the verbs \<^verbatim>\<open>%v\<close> and \<^verbatim>\<open>%s\<close> print through its own methods.\<close>

datatype fmtarg = FStr string | FInt int | FBool bool | FVal string string

fun nat_str :: "nat \<Rightarrow> string" where
  "nat_str n = (if n < 10 then [char_of (48 + n)]
                else nat_str (n div 10) @ [char_of (48 + n mod 10)])"

declare nat_str.simps [simp del]

definition Itoa :: "int \<Rightarrow> string" where
  "Itoa i = (if i < 0 then CHR ''-'' # nat_str (nat (- i)) else nat_str (nat i))"

fun arg_type :: "fmtarg \<Rightarrow> string" where
  "arg_type (FStr s) = ''string''"
| "arg_type (FInt i) = ''int''"
| "arg_type (FBool b) = ''bool''"
| "arg_type (FVal ty s) = ty"

fun arg_text :: "fmtarg \<Rightarrow> string" where
  "arg_text (FStr s) = s"
| "arg_text (FInt i) = Itoa i"
| "arg_text (FBool b) = (if b then ''true'' else ''false'')"
| "arg_text (FVal ty s) = s"

text \<open>\<^verbatim>\<open>strconv.Quote\<close> on the double quote and the backslash.\<close>

definition go_quote :: "string \<Rightarrow> string" where
  "go_quote s = CHR 0x22 # concat (map (\<lambda>c. if c = CHR 0x22 \<or> c = CHR 0x5C then [CHR 0x5C, c] else [c]) s) @ [CHR 0x22]"

definition verb_ok :: "char \<Rightarrow> fmtarg \<Rightarrow> bool" where
  "verb_ok v a \<longleftrightarrow> v = CHR ''v'' \<or>
     (case a of FStr s \<Rightarrow> v = CHR ''s'' \<or> v = CHR ''q''
              | FInt i \<Rightarrow> v = CHR ''d''
              | FBool b \<Rightarrow> v = CHR ''t''
              | FVal ty s \<Rightarrow> v = CHR ''s'' \<or> v = CHR ''q'')"

definition fmt_arg :: "char \<Rightarrow> fmtarg \<Rightarrow> string" where
  "fmt_arg v a =
     (if verb_ok v a then (if v = CHR ''q'' then go_quote (arg_text a) else arg_text a)
      else ''%!'' @ [v] @ ''('' @ arg_type a @ ''='' @ arg_text a @ '')'')"

definition fmt_extra :: "fmtarg list \<Rightarrow> string" where
  "fmt_extra as = (if as = [] then ''''
     else ''%!(EXTRA '' @ Join (map (\<lambda>a. arg_type a @ ''='' @ arg_text a) as) '', '' @ '')'')"

text \<open>The verbs are scanned from left to right; an argument without a verb and a verb without
  an argument are reported in the text, as package \<^verbatim>\<open>fmt\<close> does.\<close>

fun fmt_go :: "string \<Rightarrow> fmtarg list \<Rightarrow> string" where
  "fmt_go [] as = fmt_extra as"
| "fmt_go [c] as = (if c = CHR ''%'' then ''%!(NOVERB)'' @ fmt_extra as else c # fmt_extra as)"
| "fmt_go (c # v # s) as =
     (if c \<noteq> CHR ''%'' then c # fmt_go (v # s) as
      else if v = CHR ''%'' then v # fmt_go s as
      else if v = CHR ''+'' then fmt_go (c # s) as
      else (case as of [] \<Rightarrow> ''%!'' @ [v] @ ''(MISSING)'' @ fmt_go s []
            | a # as' \<Rightarrow> fmt_arg v a @ fmt_go s as'))"

definition Sprintf :: "string \<Rightarrow> fmtarg list \<Rightarrow> string" where
  "Sprintf f as = fmt_go f as"

section \<open>Generic lemmas\<close>

lemma HasPrefix_iff_prefix [go_string]: "HasPrefix s p \<longleftrightarrow> prefix p s"
  unfolding HasPrefix_def by (metis append_eq_conv_conj prefix_def append_take_drop_id)

lemma HasPrefix_append [simp]: "HasPrefix (p @ s) p"
  by (simp add: HasPrefix_def)

lemma HasPrefix_refl [simp]: "HasPrefix s s"
  by (simp add: HasPrefix_def)

lemma HasPrefix_Nil [simp]: "HasPrefix s []"
  by (simp add: HasPrefix_def)

lemma Join_Split [go_string]: "Join (Split s d) [d] = s"
proof (induction s d rule: Split.induct)
  case (2 c s d)
  show ?case
  proof (cases "Split s d")
    case Nil
    then show ?thesis using 2 by (auto split: if_splits)
  next
    case (Cons w ws)
    then show ?thesis using 2 by (cases ws) (auto split: if_splits)
  qed
qed simp

lemma Split_not_Nil [simp]: "Split s d \<noteq> []"
  by (induction s d rule: Split.induct) (auto split: list.splits)

lemma str_less_irrefl [simp]: "\<not> str_less s s"
  by (induction s) auto

lemma str_less_trans [go_string]: "str_less s t \<Longrightarrow> str_less t u \<Longrightarrow> str_less s u"
proof (induction s t arbitrary: u rule: str_less.induct)
  case (3 c s d t)
  then show ?case by (cases u) auto
qed (auto elim: str_less.elims)

lemma str_less_linear [go_string]: "str_less s t \<or> s = t \<or> str_less t s"
proof (induction s t rule: str_less.induct)
  case (1 t)
  then show ?case by (cases t) auto
next
  case (3 c s d t)
  then show ?case using linorder_less_linear[of "of_char c :: nat" "of_char d"] by auto
qed simp

lemma fmt_extra_Nil [simp]: "fmt_extra [] = ''''"
  by (simp add: fmt_extra_def)

lemma fmt_go_plain: "CHR ''%'' \<notin> set f \<Longrightarrow> fmt_go f as = f @ fmt_extra as"
  by (induction f as rule: fmt_go.induct) auto

lemma Sprintf_plain: "CHR ''%'' \<notin> set f \<Longrightarrow> Sprintf f [] = f"
  by (simp add: Sprintf_def fmt_go_plain)

text \<open>The first element satisfying a predicate, as a search loop with an early return finds it.\<close>

lemma find_Some_split:
  "List.find P xs = Some x \<longleftrightarrow>
     (\<exists>ys zs. xs = ys @ x # zs \<and> P x \<and> (\<forall>y \<in> set ys. \<not> P y))"
  (is "?l = ?r")
proof
  show "?l \<Longrightarrow> ?r"
  proof (induction xs)
    case (Cons a xs)
    show ?case
    proof (cases "P a")
      case True
      then show ?thesis using Cons.prems by - (rule exI[of _ "[]"], rule exI[of _ xs], auto)
    next
      case False
      then obtain ys zs where "xs = ys @ x # zs" "P x" "\<forall>y \<in> set ys. \<not> P y"
        using Cons by auto
      then show ?thesis using False by - (rule exI[of _ "a # ys"], rule exI[of _ zs], auto)
    qed
  qed simp
  have "\<forall>y \<in> set ys. \<not> P y \<Longrightarrow> P x \<Longrightarrow> List.find P (ys @ x # zs) = Some x" for ys zs
    by (induction ys) auto
  then show "?r \<Longrightarrow> ?l" by auto
qed

lemma find_in_set: "List.find P xs = Some x \<Longrightarrow> x \<in> set xs \<and> P x"
  by (auto simp: find_Some_split)

lemma sum_list_filter_le:
  fixes f :: "'a \<Rightarrow> nat"
  shows "sum_list (map f (filter P xs)) \<le> sum_list (map f xs)"
  by (induction xs) auto

end
