(* ===== verification/Go_Errors.thy ===== *)
theory Go_Errors
  imports Prelude
begin

text \<open>
  Package \<^verbatim>\<open>pkg/errors\<close>: the service error with its code, reason and HTTP status, the table
  of known errors, the constructors, the builder, and the flattening error list.  The lemmas
  show that the table is a function from codes to statuses, which status every constructor
  produces, that the translation of an HTTP status keeps its class, and that
  \<^verbatim>\<open>ErrorList.AddErrors\<close> leaves no nested list behind.

  A Go \<^verbatim>\<open>error\<close> value is a \<open>goerror\<close>.  \<open>NilServiceError\<close> is the interface value that holds a nil
  \<^verbatim>\<open>*ServiceError\<close>: it differs from the nil interface, so \<^verbatim>\<open>err != nil\<close> holds for it.  Stack traces
  carry no behaviour and are left out, so \<^verbatim>\<open>errors.WithStack\<close> is the identity.
\<close>

section \<open>Types\<close>

(* src/pkg/errors/errors.go:422-433 ServiceError *)
datatype ServiceError =
  ServiceError (Code: int) (Reason: string) (HttpCode: int) (cause: "goerror option") (recoverable: bool)
and goerror =
  ErrorString string
| Sentinel string
| WithMessage goerror string
| ServiceErr ServiceError
| NilServiceError
| ErrorListErr "goerror list"

type_synonym 'a svc = "ServiceError + 'a"
type_synonym 'a err = "goerror + 'a"

text \<open>The outcome of code that may also panic.\<close>

datatype 'a go = Ok 'a | Err goerror | Panic string

section \<open>Codes and default reasons\<close>

text \<open>The constants of lines 20 to 213 of \<^verbatim>\<open>errors.go\<close>, under their names.\<close>

definition ERROR_CODE_PREFIX :: string where "ERROR_CODE_PREFIX = ''KAFKAS-MGMT''"

definition ERROR_HREF :: string where "ERROR_HREF = ''/api/kafkas_mgmt/v1/errors/''"

definition CONNECTOR_MGMT_ERROR_CODE_PREFIX :: string where "CONNECTOR_MGMT_ERROR_CODE_PREFIX = ''CONNECTOR-MGMT''"

definition CONNECTOR_MGMT_ERROR_HREF :: string where "CONNECTOR_MGMT_ERROR_HREF = ''/api/connector_mgmt/v1/errors/''"

definition ErrorForbidden :: int where "ErrorForbidden = 4"

definition ErrorForbiddenReason :: string where "ErrorForbiddenReason = ''Forbidden to perform this action''"

definition ErrorMaxAllowedInstanceReached :: int where "ErrorMaxAllowedInstanceReached = 5"

definition ErrorMaxAllowedInstanceReachedReason :: string where "ErrorMaxAllowedInstanceReachedReason = ''Forbidden to create more instances than the maximum allowed''"

definition ErrorConflict :: int where "ErrorConflict = 6"

definition ErrorConflictReason :: string where "ErrorConflictReason = ''An entity with the specified unique values already exists''"

definition ErrorNotFound :: int where "ErrorNotFound = 7"

definition ErrorNotFoundReason :: string where "ErrorNotFoundReason = ''Resource not found''"

definition ErrorValidation :: int where "ErrorValidation = 8"

definition ErrorValidationReason :: string where "ErrorValidationReason = ''General validation failure''"

definition ErrorGeneral :: int where "ErrorGeneral = 9"

definition ErrorGeneralReason :: string where "ErrorGeneralReason = ''Unspecified error''"

definition ErrorNotImplemented :: int where "ErrorNotImplemented = 10"

definition ErrorNotImplementedReason :: string where "ErrorNotImplementedReason = ''HTTP Method not implemented for this endpoint''"

definition ErrorUnauthorized :: int where "ErrorUnauthorized = 11"

definition ErrorUnauthorizedReason :: string where "ErrorUnauthorizedReason = ''Account is unauthorized to perform this action''"

definition ErrorTermsNotAccepted :: int where "ErrorTermsNotAccepted = 12"

definition ErrorTermsNotAcceptedReason :: string where "ErrorTermsNotAcceptedReason = ''Required terms have not been accepted''"

definition ErrorUnauthenticated :: int where "ErrorUnauthenticated = 15"

definition ErrorUnauthenticatedReason :: string where "ErrorUnauthenticatedReason = ''Account authentication could not be verified''"

definition ErrorMalformedRequest :: int where "ErrorMalformedRequest = 17"

definition ErrorMalformedRequestReason :: string where "ErrorMalformedRequestReason = ''Unable to read request body''"

definition ErrorServiceIsUnderMaintenance :: int where "ErrorServiceIsUnderMaintenance = 18"

definition ErrorServiceIsUnderMaintenanceReason :: string where "ErrorServiceIsUnderMaintenanceReason = ''Unable to perform this action, as the service is currently under maintenance''"

definition ErrorBadRequest :: int where "ErrorBadRequest = 21"

definition ErrorBadRequestReason :: string where "ErrorBadRequestReason = ''Bad request''"

definition ErrorFailedToParseSearch :: int where "ErrorFailedToParseSearch = 23"

definition ErrorFailedToParseSearchReason :: string where "ErrorFailedToParseSearchReason = ''Failed to parse search query''"

definition ErrorTooManyKafkaInstancesReached :: int where "ErrorTooManyKafkaInstancesReached = 24"

definition ErrorTooManyKafkaInstancesReachedReason :: string where "ErrorTooManyKafkaInstancesReachedReason = ''The maximum number of allowed kafka instances has been reached''"

definition ErrorGone :: int where "ErrorGone = 25"

definition ErrorGoneReason :: string where "ErrorGoneReason = ''Resource gone''"

definition ErrorSyncActionNotSupported :: int where "ErrorSyncActionNotSupported = 103"

definition ErrorSyncActionNotSupportedReason :: string where "ErrorSyncActionNotSupportedReason = ''Synchronous action is not supported, use async=true parameter''"

definition ErrorFailedToCreateSSOClient :: int where "ErrorFailedToCreateSSOClient = 106"

definition ErrorFailedToCreateSSOClientReason :: string where "ErrorFailedToCreateSSOClientReason = ''Failed to create kafka client in the mas sso''"

definition ErrorFailedToGetSSOClientSecret :: int where "ErrorFailedToGetSSOClientSecret = 107"

definition ErrorFailedToGetSSOClientSecretReason :: string where "ErrorFailedToGetSSOClientSecretReason = ''Failed to get kafka client secret from the mas sso''"

definition ErrorFailedToGetSSOClient :: int where "ErrorFailedToGetSSOClient = 108"

definition ErrorFailedToGetSSOClientReason :: string where "ErrorFailedToGetSSOClientReason = ''Failed to get kafka client from the mas sso''"

definition ErrorFailedToDeleteSSOClient :: int where "ErrorFailedToDeleteSSOClient = 109"

definition ErrorFailedToDeleteSSOClientReason :: string where "ErrorFailedToDeleteSSOClientReason = ''Failed to delete kafka client from the mas sso''"

definition ErrorFailedToCreateServiceAccount :: int where "ErrorFailedToCreateServiceAccount = 110"

definition ErrorFailedToCreateServiceAccountReason :: string where "ErrorFailedToCreateServiceAccountReason = ''Failed to create service account''"

definition ErrorFailedToGetServiceAccount :: int where "ErrorFailedToGetServiceAccount = 111"

definition ErrorFailedToGetServiceAccountReason :: string where "ErrorFailedToGetServiceAccountReason = ''Failed to get service account''"

definition ErrorFailedToDeleteServiceAccount :: int where "ErrorFailedToDeleteServiceAccount = 112"

definition ErrorFailedToDeleteServiceAccountReason :: string where "ErrorFailedToDeleteServiceAccountReason = ''Failed to delete service account''"

definition ErrorServiceAccountNotFound :: int where "ErrorServiceAccountNotFound = 113"

definition ErrorServiceAccountNotFoundReason :: string where "ErrorServiceAccountNotFoundReason = ''Failed to find service account''"

definition ErrorMaxLimitForServiceAccountsReached :: int where "ErrorMaxLimitForServiceAccountsReached = 115"

definition ErrorMaxLimitForServiceAccountsReachedReason :: string where "ErrorMaxLimitForServiceAccountsReachedReason = ''Max limit for the service account creation has reached''"

definition ErrorInsufficientQuota :: int where "ErrorInsufficientQuota = 120"

definition ErrorInsufficientQuotaReason :: string where "ErrorInsufficientQuotaReason = ''Insufficient quota''"

definition ErrorFailedToCheckQuota :: int where "ErrorFailedToCheckQuota = 121"

definition ErrorFailedToCheckQuotaReason :: string where "ErrorFailedToCheckQuotaReason = ''Failed to check quota''"

definition ErrorProviderNotSupported :: int where "ErrorProviderNotSupported = 30"

definition ErrorProviderNotSupportedReason :: string where "ErrorProviderNotSupportedReason = ''Provider not supported''"

definition ErrorRegionNotSupported :: int where "ErrorRegionNotSupported = 31"

definition ErrorRegionNotSupportedReason :: string where "ErrorRegionNotSupportedReason = ''Region not supported''"

definition ErrorMalformedKafkaClusterName :: int where "ErrorMalformedKafkaClusterName = 32"

definition ErrorMalformedKafkaClusterNameReason :: string where "ErrorMalformedKafkaClusterNameReason = ''Kafka cluster name is invalid''"

definition ErrorMinimumFieldLength :: int where "ErrorMinimumFieldLength = 33"

definition ErrorMinimumFieldLengthReason :: string where "ErrorMinimumFieldLengthReason = ''Minimum field length not reached''"

definition ErrorMaximumFieldLength :: int where "ErrorMaximumFieldLength = 34"

definition ErrorMaximumFieldLengthReason :: string where "ErrorMaximumFieldLengthReason = ''Maximum field length has been depassed''"

definition ErrorDuplicateKafkaClusterName :: int where "ErrorDuplicateKafkaClusterName = 36"

definition ErrorDuplicateKafkaClusterNameReason :: string where "ErrorDuplicateKafkaClusterNameReason = ''Kafka cluster name is already used''"

definition ErrorFieldValidationError :: int where "ErrorFieldValidationError = 37"

definition ErrorFieldValidationErrorReason :: string where "ErrorFieldValidationErrorReason = ''Field validation failed''"

definition ErrorUnableToSendErrorResponse :: int where "ErrorUnableToSendErrorResponse = 1000"

definition ErrorUnableToSendErrorResponseReason :: string where "ErrorUnableToSendErrorResponseReason = ''An unexpected error happened, please check the log of the service for details''"

definition ErrorMalformedServiceAccountName :: int where "ErrorMalformedServiceAccountName = 38"

definition ErrorMalformedServiceAccountNameReason :: string where "ErrorMalformedServiceAccountNameReason = ''Service account name is invalid''"

definition ErrorMalformedServiceAccountDesc :: int where "ErrorMalformedServiceAccountDesc = 39"

definition ErrorMalformedServiceAccountDescReason :: string where "ErrorMalformedServiceAccountDescReason = ''Service account desc is invalid''"

definition ErrorMalformedServiceAccountId :: int where "ErrorMalformedServiceAccountId = 40"

definition ErrorMalformedServiceAccountIdReason :: string where "ErrorMalformedServiceAccountIdReason = ''Service account id is invalid''"

definition ErrorInstanceTypeNotSupported :: int where "ErrorInstanceTypeNotSupported = 41"

definition ErrorInstanceTypeNotSupportedReason :: string where "ErrorInstanceTypeNotSupportedReason = ''Instance Type not supported''"

definition ErrorInstancePlanNotSupported :: int where "ErrorInstancePlanNotSupported = 42"

definition ErrorInstancePlanNotSupportedReason :: string where "ErrorInstancePlanNotSupportedReason = ''Instance plan not supported''"

definition ErrorBillingAccountInvalid :: int where "ErrorBillingAccountInvalid = 43"

definition ErrorBillingAccountInvalidReason :: string where "ErrorBillingAccountInvalidReason = ''Billing account id missing or invalid''"

definition ErrorDuplicateClusterId :: int where "ErrorDuplicateClusterId = 44"

definition ErrorDuplicateClusterIdReason :: string where "ErrorDuplicateClusterIdReason = ''Enterprise cluster ID is already used''"

definition ErrorInvalidClusterId :: int where "ErrorInvalidClusterId = 45"

definition ErrorInvalidClusterIdReason :: string where "ErrorInvalidClusterIdReason = ''Enterprise cluster ID is invalid''"

definition ErrorInvalidExternalClusterId :: int where "ErrorInvalidExternalClusterId = 46"

definition ErrorInvalidExternalClusterIdReason :: string where "ErrorInvalidExternalClusterIdReason = ''Enterprise external cluster ID is invalid''"

definition ErrorInvalidDnsName :: int where "ErrorInvalidDnsName = 47"

definition ErrorInvalidDnsNameReason :: string where "ErrorInvalidDnsNameReason = ''Dns name is invalid''"

definition ErrorTooManyRequests :: int where "ErrorTooManyRequests = 429"

definition ErrorTooManyRequestsReason :: string where "ErrorTooManyRequestsReason = ''Too many requests''"

lemmas error_codes = ErrorForbidden_def ErrorMaxAllowedInstanceReached_def ErrorConflict_def ErrorNotFound_def ErrorValidation_def ErrorGeneral_def ErrorNotImplemented_def ErrorUnauthorized_def ErrorTermsNotAccepted_def ErrorUnauthenticated_def ErrorMalformedRequest_def ErrorServiceIsUnderMaintenance_def ErrorBadRequest_def ErrorFailedToParseSearch_def ErrorTooManyKafkaInstancesReached_def ErrorGone_def ErrorSyncActionNotSupported_def ErrorFailedToCreateSSOClient_def ErrorFailedToGetSSOClientSecret_def ErrorFailedToGetSSOClient_def ErrorFailedToDeleteSSOClient_def ErrorFailedToCreateServiceAccount_def ErrorFailedToGetServiceAccount_def ErrorFailedToDeleteServiceAccount_def ErrorServiceAccountNotFound_def ErrorMaxLimitForServiceAccountsReached_def ErrorInsufficientQuota_def ErrorFailedToCheckQuota_def ErrorProviderNotSupported_def ErrorRegionNotSupported_def ErrorMalformedKafkaClusterName_def ErrorMinimumFieldLength_def ErrorMaximumFieldLength_def ErrorDuplicateKafkaClusterName_def ErrorFieldValidationError_def ErrorUnableToSendErrorResponse_def ErrorMalformedServiceAccountName_def ErrorMalformedServiceAccountDesc_def ErrorMalformedServiceAccountId_def ErrorInstanceTypeNotSupported_def ErrorInstancePlanNotSupported_def ErrorBillingAccountInvalid_def ErrorDuplicateClusterId_def ErrorInvalidClusterId_def ErrorInvalidExternalClusterId_def ErrorInvalidDnsName_def ErrorTooManyRequests_def

section \<open>The table of errors\<close>

(* src/pkg/errors/errors.go:273-323 Errors *)
definition Errors :: "ServiceError list" where
  "Errors = [
    ServiceError ErrorForbidden ErrorForbiddenReason 403 None False,
    ServiceError ErrorMaxAllowedInstanceReached ErrorMaxAllowedInstanceReachedReason 403 None False,
    ServiceError ErrorTooManyKafkaInstancesReached ErrorTooManyKafkaInstancesReachedReason 403 None False,
    ServiceError ErrorTooManyRequests ErrorTooManyRequestsReason 429 None False,
    ServiceError ErrorConflict ErrorConflictReason 409 None False,
    ServiceError ErrorNotFound ErrorNotFoundReason 404 None False,
    ServiceError ErrorGone ErrorGoneReason 410 None False,
    ServiceError ErrorValidation ErrorValidationReason 400 None False,
    ServiceError ErrorGeneral ErrorGeneralReason 500 None False,
    ServiceError ErrorNotImplemented ErrorNotImplementedReason 405 None False,
    ServiceError ErrorUnauthorized ErrorUnauthorizedReason 403 None False,
    ServiceError ErrorTermsNotAccepted ErrorTermsNotAcceptedReason 403 None False,
    ServiceError ErrorUnauthenticated ErrorUnauthenticatedReason 401 None False,
    ServiceError ErrorMalformedRequest ErrorMalformedRequestReason 400 None False,
    ServiceError ErrorServiceIsUnderMaintenance ErrorServiceIsUnderMaintenanceReason 403 None False,
    ServiceError ErrorBadRequest ErrorBadRequestReason 400 None False,
    ServiceError ErrorFailedToParseSearch ErrorFailedToParseSearchReason 400 None False,
    ServiceError ErrorSyncActionNotSupported ErrorSyncActionNotSupportedReason 400 None False,
    ServiceError ErrorFailedToCreateSSOClient ErrorFailedToCreateSSOClientReason 500 None False,
    ServiceError ErrorFailedToGetSSOClientSecret ErrorFailedToGetSSOClientSecretReason 500 None False,
    ServiceError ErrorFailedToGetSSOClient ErrorFailedToGetSSOClientReason 500 None False,
    ServiceError ErrorFailedToDeleteSSOClient ErrorFailedToDeleteSSOClientReason 500 None False,
    ServiceError ErrorFailedToCreateServiceAccount ErrorFailedToCreateServiceAccountReason 500 None False,
    ServiceError ErrorFailedToGetServiceAccount ErrorFailedToGetServiceAccountReason 500 None False,
    ServiceError ErrorServiceAccountNotFound ErrorServiceAccountNotFoundReason 404 None False,
    ServiceError ErrorFailedToDeleteServiceAccount ErrorFailedToDeleteServiceAccountReason 500 None False,
    ServiceError ErrorProviderNotSupported ErrorProviderNotSupportedReason 400 None False,
    ServiceError ErrorRegionNotSupported ErrorRegionNotSupportedReason 400 None False,
    ServiceError ErrorInstanceTypeNotSupported ErrorInstanceTypeNotSupportedReason 400 None False,
    ServiceError ErrorMalformedKafkaClusterName ErrorMalformedKafkaClusterNameReason 400 None False,
    ServiceError ErrorMinimumFieldLength ErrorMinimumFieldLengthReason 400 None False,
    ServiceError ErrorMaximumFieldLength ErrorMaximumFieldLengthReason 400 None False,
    ServiceError ErrorDuplicateKafkaClusterName ErrorDuplicateKafkaClusterNameReason 409 None False,
    ServiceError ErrorUnableToSendErrorResponse ErrorUnableToSendErrorResponseReason 500 None False,
    ServiceError ErrorFieldValidationError ErrorFieldValidationErrorReason 400 None False,
    ServiceError ErrorInsufficientQuota ErrorInsufficientQuotaReason 403 None False,
    ServiceError ErrorFailedToCheckQuota ErrorFailedToCheckQuotaReason 500 None False,
    ServiceError ErrorMalformedServiceAccountName ErrorMalformedServiceAccountNameReason 400 None False,
    ServiceError ErrorMalformedServiceAccountDesc ErrorMalformedServiceAccountDescReason 400 None False,
    ServiceError ErrorMalformedServiceAccountId ErrorMalformedServiceAccountIdReason 400 None False,
    ServiceError ErrorMaxLimitForServiceAccountsReached ErrorMaxLimitForServiceAccountsReachedReason 403 None False,
    ServiceError ErrorInstancePlanNotSupported ErrorInstancePlanNotSupportedReason 400 None False,
    ServiceError ErrorBillingAccountInvalid ErrorBillingAccountInvalidReason 400 None False,
    ServiceError ErrorDuplicateClusterId ErrorDuplicateClusterIdReason 409 None False,
    ServiceError ErrorInvalidClusterId ErrorInvalidClusterIdReason 400 None False,
    ServiceError ErrorInvalidExternalClusterId ErrorInvalidExternalClusterIdReason 400 None False,
    ServiceError ErrorInvalidDnsName ErrorInvalidDnsNameReason 400 None False]"

(* src/pkg/errors/errors.go:264-271 Find *)
definition Find :: "int \<Rightarrow> ServiceError option" where
  "Find code = List.find (\<lambda>err. Code err = code) Errors"

(* src/pkg/errors/errors.go:440-464 NewWithCause *)
definition NewWithCause :: "int \<Rightarrow> goerror option \<Rightarrow> string \<Rightarrow> fmtarg list \<Rightarrow> ServiceError" where
  "NewWithCause code c reason values =
     (let err = (case Find code of Some e \<Rightarrow> e
                 | None \<Rightarrow> ServiceError ErrorGeneral ''unspecified error'' 500 None False);
          r = (if reason \<noteq> '''' then Sprintf reason values else Reason err)
      in ServiceError (Code err) r (HttpCode err) c (recoverable err))"

(* src/pkg/errors/errors.go:436-438 New *)
definition New :: "int \<Rightarrow> string \<Rightarrow> fmtarg list \<Rightarrow> ServiceError" where
  "New code reason values = NewWithCause code None reason values"

section \<open>Constructors\<close>

text \<open>The constructors from line 595 on, under their names: each fixes the code of \<^const>\<open>New\<close> or \<^const>\<open>NewWithCause\<close>.\<close>

definition NotFound :: "string \<Rightarrow> fmtarg list \<Rightarrow> ServiceError" where
  "NotFound reason values = New ErrorNotFound reason values"

definition GeneralError :: "string \<Rightarrow> fmtarg list \<Rightarrow> ServiceError" where
  "GeneralError reason values = New ErrorGeneral reason values"

definition Unauthorized :: "string \<Rightarrow> fmtarg list \<Rightarrow> ServiceError" where
  "Unauthorized reason values = New ErrorUnauthorized reason values"

definition TermsNotAccepted :: "string \<Rightarrow> fmtarg list \<Rightarrow> ServiceError" where
  "TermsNotAccepted reason values = New ErrorTermsNotAccepted reason values"

definition Unauthenticated :: "string \<Rightarrow> fmtarg list \<Rightarrow> ServiceError" where
  "Unauthenticated reason values = New ErrorUnauthenticated reason values"

definition Forbidden :: "string \<Rightarrow> fmtarg list \<Rightarrow> ServiceError" where
  "Forbidden reason values = New ErrorForbidden reason values"

definition Maintenance :: "string \<Rightarrow> fmtarg list \<Rightarrow> ServiceError" where
  "Maintenance reason values = New ErrorServiceIsUnderMaintenance reason values"

definition MaximumAllowedInstanceReached :: "string \<Rightarrow> fmtarg list \<Rightarrow> ServiceError" where
  "MaximumAllowedInstanceReached reason values = New ErrorMaxAllowedInstanceReached reason values"

definition TooManyKafkaInstancesReached :: "string \<Rightarrow> fmtarg list \<Rightarrow> ServiceError" where
  "TooManyKafkaInstancesReached reason values = New ErrorTooManyKafkaInstancesReached reason values"

definition NotImplemented :: "string \<Rightarrow> fmtarg list \<Rightarrow> ServiceError" where
  "NotImplemented reason values = New ErrorNotImplemented reason values"

definition Conflict :: "string \<Rightarrow> fmtarg list \<Rightarrow> ServiceError" where
  "Conflict reason values = New ErrorConflict reason values"

definition Validation :: "string \<Rightarrow> fmtarg list \<Rightarrow> ServiceError" where
  "Validation reason values = New ErrorValidation reason values"

definition MalformedRequest :: "string \<Rightarrow> fmtarg list \<Rightarrow> ServiceError" where
  "MalformedRequest reason values = New ErrorMalformedRequest reason values"

definition BadRequest :: "string \<Rightarrow> fmtarg list \<Rightarrow> ServiceError" where
  "BadRequest reason values = New ErrorBadRequest reason values"

definition FailedToParseSearch :: "string \<Rightarrow> fmtarg list \<Rightarrow> ServiceError" where
  "FailedToParseSearch reason values = New ErrorFailedToParseSearch (Sprintf ''%s: %s'' [FStr ErrorFailedToParseSearchReason, FStr reason]) values"

definition SyncActionNotSupported :: ServiceError where
  "SyncActionNotSupported = New ErrorSyncActionNotSupported ErrorSyncActionNotSupportedReason []"

definition FailedToCreateSSOClient :: "string \<Rightarrow> fmtarg list \<Rightarrow> ServiceError" where
  "FailedToCreateSSOClient reason values = New ErrorFailedToCreateSSOClient reason values"

definition FailedToGetSSOClientSecret :: "string \<Rightarrow> fmtarg list \<Rightarrow> ServiceError" where
  "FailedToGetSSOClientSecret reason values = New ErrorFailedToGetSSOClientSecret reason values"

definition FailedToGetSSOClient :: "string \<Rightarrow> fmtarg list \<Rightarrow> ServiceError" where
  "FailedToGetSSOClient reason values = New ErrorFailedToGetSSOClient reason values"

definition FailedToDeleteSSOClient :: "string \<Rightarrow> fmtarg list \<Rightarrow> ServiceError" where
  "FailedToDeleteSSOClient reason values = New ErrorFailedToDeleteSSOClient reason values"

definition FailedToCreateServiceAccount :: "string \<Rightarrow> fmtarg list \<Rightarrow> ServiceError" where
  "FailedToCreateServiceAccount reason values = New ErrorFailedToCreateServiceAccount reason values"

definition FailedToDeleteServiceAccount :: "string \<Rightarrow> fmtarg list \<Rightarrow> ServiceError" where
  "FailedToDeleteServiceAccount reason values = New ErrorFailedToDeleteServiceAccount reason values"

definition MaxLimitForServiceAccountReached :: "string \<Rightarrow> fmtarg list \<Rightarrow> ServiceError" where
  "MaxLimitForServiceAccountReached reason values = New ErrorMaxLimitForServiceAccountsReached reason values"

definition FailedToGetServiceAccount :: "string \<Rightarrow> fmtarg list \<Rightarrow> ServiceError" where
  "FailedToGetServiceAccount reason values = New ErrorFailedToGetServiceAccount reason values"

definition ServiceAccountNotFound :: "string \<Rightarrow> fmtarg list \<Rightarrow> ServiceError" where
  "ServiceAccountNotFound reason values = New ErrorServiceAccountNotFound reason values"

definition RegionNotSupported :: "string \<Rightarrow> fmtarg list \<Rightarrow> ServiceError" where
  "RegionNotSupported reason values = New ErrorRegionNotSupported reason values"

definition InstanceTypeNotSupported :: "string \<Rightarrow> fmtarg list \<Rightarrow> ServiceError" where
  "InstanceTypeNotSupported reason values = New ErrorInstanceTypeNotSupported reason values"

definition ProviderNotSupported :: "string \<Rightarrow> fmtarg list \<Rightarrow> ServiceError" where
  "ProviderNotSupported reason values = New ErrorProviderNotSupported reason values"

definition InstancePlanNotSupported :: "string \<Rightarrow> fmtarg list \<Rightarrow> ServiceError" where
  "InstancePlanNotSupported reason values = New ErrorInstancePlanNotSupported reason values"

definition MalformedKafkaClusterName :: "string \<Rightarrow> fmtarg list \<Rightarrow> ServiceError" where
  "MalformedKafkaClusterName reason values = New ErrorMalformedKafkaClusterName reason values"

definition MalformedServiceAccountName :: "string \<Rightarrow> fmtarg list \<Rightarrow> ServiceError" where
  "MalformedServiceAccountName reason values = New ErrorMalformedServiceAccountName reason values"

definition MalformedServiceAccountDesc :: "string \<Rightarrow> fmtarg list \<Rightarrow> ServiceError" where
  "MalformedServiceAccountDesc reason values = New ErrorMalformedServiceAccountDesc reason values"

definition MalformedServiceAccountId :: "string \<Rightarrow> fmtarg list \<Rightarrow> ServiceError" where
  "MalformedServiceAccountId reason values = New ErrorMalformedServiceAccountId reason values"

definition InvalidExternalClusterId :: "string \<Rightarrow> fmtarg list \<Rightarrow> ServiceError" where
  "InvalidExternalClusterId reason values = New ErrorInvalidExternalClusterId reason values"

definition InvalidClusterId :: "string \<Rightarrow> fmtarg list \<Rightarrow> ServiceError" where
  "InvalidClusterId reason values = New ErrorInvalidClusterId reason values"

definition InvalidDnsName :: "string \<Rightarrow> fmtarg list \<Rightarrow> ServiceError" where
  "InvalidDnsName reason values = New ErrorInvalidDnsName reason values"

definition DuplicateKafkaClusterName :: ServiceError where
  "DuplicateKafkaClusterName = New ErrorDuplicateKafkaClusterName ErrorDuplicateKafkaClusterNameReason []"

definition DuplicateClusterId :: ServiceError where
  "DuplicateClusterId = New ErrorDuplicateClusterId ErrorDuplicateClusterIdReason []"

definition MinimumFieldLengthNotReached :: "string \<Rightarrow> fmtarg list \<Rightarrow> ServiceError" where
  "MinimumFieldLengthNotReached reason values = New ErrorMinimumFieldLength reason values"

definition MaximumFieldLengthExceeded :: "string \<Rightarrow> fmtarg list \<Rightarrow> ServiceError" where
  "MaximumFieldLengthExceeded reason values = New ErrorMaximumFieldLength reason values"

definition UnableToSendErrorResponse :: ServiceError where
  "UnableToSendErrorResponse = New ErrorUnableToSendErrorResponse ErrorUnableToSendErrorResponseReason []"

definition FailedToParseQueryParms :: "string \<Rightarrow> fmtarg list \<Rightarrow> ServiceError" where
  "FailedToParseQueryParms reason values = New ErrorBadRequest reason values"

(* src/pkg/errors/errors.go:769-773 FieldValidationError *)
definition FieldValidationError :: "string \<Rightarrow> fmtarg list \<Rightarrow> ServiceError" where
  "FieldValidationError reason values = New ErrorFieldValidationError (Sprintf ''%s: %s'' [FStr ErrorFieldValidationErrorReason, FStr reason]) values"

definition InsufficientQuotaError :: "string \<Rightarrow> fmtarg list \<Rightarrow> ServiceError" where
  "InsufficientQuotaError reason values = New ErrorInsufficientQuota (Sprintf ''%s: %s'' [FStr ErrorInsufficientQuotaReason, FStr reason]) values"

definition FailedToCheckQuota :: "string \<Rightarrow> fmtarg list \<Rightarrow> ServiceError" where
  "FailedToCheckQuota reason values = New ErrorFailedToCheckQuota (Sprintf ''%s: %s'' [FStr ErrorFailedToCheckQuotaReason, FStr reason]) values"

definition InvalidBillingAccount :: "string \<Rightarrow> fmtarg list \<Rightarrow> ServiceError" where
  "InvalidBillingAccount reason values = New ErrorBillingAccountInvalid (Sprintf ''%s: %s'' [FStr ErrorBillingAccountInvalidReason, FStr reason]) values"

section \<open>Error texts and predicates\<close>

(* src/pkg/errors/errors.go:591-593 CodeStr *)
definition CodeStr :: "int \<Rightarrow> string" where
  "CodeStr code = Sprintf ''%s-%d'' [FStr ERROR_CODE_PREFIX, FInt code]"

definition Href :: "int \<Rightarrow> string" where
  "Href code = Sprintf ''%s%d'' [FStr ERROR_HREF, FInt code]"

text \<open>Calling \<^verbatim>\<open>Error\<close> on a nil \<^verbatim>\<open>*ServiceError\<close> panics; the verbs of package \<^verbatim>\<open>fmt\<close> recover and
  print the text below.\<close>

(* src/pkg/errors/errors.go:216-233 ErrorList.Error *)
definition ErrorList_text :: "string list \<Rightarrow> string" where
  "ErrorList_text ts =
     Sprintf ''[%s]'' [FStr (case ts of [] \<Rightarrow> ''''
       | t # rest \<Rightarrow> foldl (\<lambda>res err. Sprintf ''%s;%s'' [FStr res, FStr err]) t rest)]"

(* src/pkg/errors/errors.go:485-491 ServiceError.Error *)
fun ServiceError_Error :: "ServiceError \<Rightarrow> string" and err_Error :: "goerror \<Rightarrow> string" where
  "ServiceError_Error (ServiceError code reason http (Some c) rec) =
     Sprintf (''%s: %s'' @ [CHR 0x0A] @ '' caused by: %s'') [FStr (CodeStr code), FStr reason, FStr (err_Error c)]"
| "ServiceError_Error (ServiceError code reason http None rec) =
     Sprintf ''%s: %s'' [FStr (CodeStr code), FStr reason]"
| "err_Error (ErrorString s) = s"
| "err_Error (Sentinel s) = s"
| "err_Error (WithMessage e m) = m @ '': '' @ err_Error e"
| "err_Error (ServiceErr e) = ServiceError_Error e"
| "err_Error NilServiceError = ''<nil>''"
| "err_Error (ErrorListErr es) = ErrorList_text (map err_Error es)"

(* src/pkg/errors/errors.go:467-469 ServiceError.Unwrap *)
definition ServiceError_Unwrap :: "ServiceError \<Rightarrow> goerror option" where
  "ServiceError_Unwrap e = cause e"

(* src/pkg/errors/errors.go:493-495 ServiceError.Recoverable *)
definition ServiceError_Recoverable :: "ServiceError \<Rightarrow> bool" where
  "ServiceError_Recoverable e = recoverable e"

(* src/pkg/errors/errors.go:496-498 ServiceError.AsError *)
definition AsError :: "ServiceError \<Rightarrow> goerror" where
  "AsError e = ErrorString (Sprintf (ServiceError_Error e) [])"

(* src/pkg/errors/errors.go:500-502 ServiceError.Is404 *)
definition Is404 :: "ServiceError \<Rightarrow> bool" where
  "Is404 e \<longleftrightarrow> Code e = Code (NotFound '''' [])"

(* src/pkg/errors/errors.go:504-506 ServiceError.IsConflict *)
definition IsConflict :: "ServiceError \<Rightarrow> bool" where
  "IsConflict e \<longleftrightarrow> Code e = Code (Conflict '''' [])"

(* src/pkg/errors/errors.go:508-510 ServiceError.IsForbidden *)
definition IsForbidden :: "ServiceError \<Rightarrow> bool" where
  "IsForbidden e \<longleftrightarrow> Code e = Code (Forbidden '''' [])"

(* src/pkg/errors/errors.go:512-514 ServiceError.IsFailedToCreateSSOClient *)
definition IsFailedToCreateSSOClient :: "ServiceError \<Rightarrow> bool" where
  "IsFailedToCreateSSOClient e \<longleftrightarrow> Code e = Code (FailedToCreateSSOClient '''' [])"

(* src/pkg/errors/errors.go:516-518 ServiceError.IsClientErrorClass *)
definition IsClientErrorClass :: "ServiceError \<Rightarrow> bool" where
  "IsClientErrorClass e \<longleftrightarrow> HttpCode e \<ge> 400 \<and> HttpCode e < 500"

(* src/pkg/errors/errors.go:520-522 ServiceError.IsServerErrorClass *)
definition IsServerErrorClass :: "ServiceError \<Rightarrow> bool" where
  "IsServerErrorClass e \<longleftrightarrow> HttpCode e \<ge> 500"

(* src/pkg/errors/errors.go:524-526 ServiceError.IsFailedToGetSSOClientSecret *)
definition IsFailedToGetSSOClientSecret :: "ServiceError \<Rightarrow> bool" where
  "IsFailedToGetSSOClientSecret e \<longleftrightarrow> Code e = Code (FailedToGetSSOClientSecret '''' [])"

(* src/pkg/errors/errors.go:528-530 ServiceError.IsFailedToGetSSOClient *)
definition IsFailedToGetSSOClient :: "ServiceError \<Rightarrow> bool" where
  "IsFailedToGetSSOClient e \<longleftrightarrow> Code e = Code (FailedToGetSSOClient '''' [])"

(* src/pkg/errors/errors.go:532-534 ServiceError.IsFailedToDeleteSSOClient *)
definition IsFailedToDeleteSSOClient :: "ServiceError \<Rightarrow> bool" where
  "IsFailedToDeleteSSOClient e \<longleftrightarrow> Code e = Code (FailedToDeleteSSOClient '''' [])"

(* src/pkg/errors/errors.go:536-538 ServiceError.IsFailedToCreateServiceAccount *)
definition IsFailedToCreateServiceAccount :: "ServiceError \<Rightarrow> bool" where
  "IsFailedToCreateServiceAccount e \<longleftrightarrow> Code e = Code (FailedToCreateServiceAccount '''' [])"

(* src/pkg/errors/errors.go:540-542 ServiceError.IsFailedToGetServiceAccount *)
definition IsFailedToGetServiceAccount :: "ServiceError \<Rightarrow> bool" where
  "IsFailedToGetServiceAccount e \<longleftrightarrow> Code e = Code (FailedToGetServiceAccount '''' [])"

(* src/pkg/errors/errors.go:544-546 ServiceError.IsFailedToDeleteServiceAccount *)
definition IsFailedToDeleteServiceAccount :: "ServiceError \<Rightarrow> bool" where
  "IsFailedToDeleteServiceAccount e \<longleftrightarrow> Code e = Code (FailedToDeleteServiceAccount '''' [])"

(* src/pkg/errors/errors.go:548-550 ServiceError.IsServiceAccountNotFound *)
definition IsServiceAccountNotFound :: "ServiceError \<Rightarrow> bool" where
  "IsServiceAccountNotFound e \<longleftrightarrow> Code e = Code (ServiceAccountNotFound '''' [])"

(* src/pkg/errors/errors.go:552-554 ServiceError.IsMaxLimitForServiceAccountReached *)
definition IsMaxLimitForServiceAccountReached :: "ServiceError \<Rightarrow> bool" where
  "IsMaxLimitForServiceAccountReached e \<longleftrightarrow> Code e = ErrorMaxLimitForServiceAccountsReached"

(* src/pkg/errors/errors.go:556-558 ServiceError.IsBadRequest *)
definition IsBadRequest :: "ServiceError \<Rightarrow> bool" where
  "IsBadRequest e \<longleftrightarrow> Code e = Code (BadRequest '''' [])"

(* src/pkg/errors/errors.go:559-561 ServiceError.InSufficientQuota *)
definition InSufficientQuota :: "ServiceError \<Rightarrow> bool" where
  "InSufficientQuota e \<longleftrightarrow> Code e = Code (InsufficientQuotaError '''' [])"

(* src/pkg/errors/errors.go:563-565 ServiceError.IsFailedToCheckQuota *)
definition IsFailedToCheckQuota :: "ServiceError \<Rightarrow> bool" where
  "IsFailedToCheckQuota e \<longleftrightarrow> Code e = Code (FailedToCheckQuota '''' [])"

(* src/pkg/errors/errors.go:567-569 ServiceError.IsInstanceTypeNotSupported *)
definition IsInstanceTypeNotSupported :: "ServiceError \<Rightarrow> bool" where
  "IsInstanceTypeNotSupported e \<longleftrightarrow> Code e = ErrorInstanceTypeNotSupported"

(* src/pkg/errors/errors.go:571-589 ServiceError.AsOpenapiError *)
record OpenapiError =
  oe_Kind :: string
  oe_Id :: string
  oe_Href :: string
  oe_Code :: string
  oe_Reason :: string
  oe_OperationId :: string

(* src/pkg/errors/errors.go:571-589 ServiceError.AsOpenapiError *)
definition AsOpenapiError :: "ServiceError \<Rightarrow> string \<Rightarrow> string \<Rightarrow> OpenapiError" where
  "AsOpenapiError e operationID basePath =
     (let connector = Contains_str basePath ''/api/connector_mgmt/'';
          href = (if connector then Replace1 (Href (Code e)) ERROR_HREF CONNECTOR_MGMT_ERROR_HREF
                  else Href (Code e));
          code = (if connector then Replace1 (CodeStr (Code e)) ERROR_CODE_PREFIX CONNECTOR_MGMT_ERROR_CODE_PREFIX
                  else CodeStr (Code e))
      in \<lparr>oe_Kind = ''Error'', oe_Id = Itoa (Code e), oe_Href = href, oe_Code = code,
          oe_Reason = Reason e, oe_OperationId = operationID\<rparr>)"

(* src/pkg/errors/errors.go:325-353 NewErrorFromHTTPStatusCode *)
definition NewErrorFromHTTPStatusCode :: "int \<Rightarrow> string \<Rightarrow> fmtarg list \<Rightarrow> ServiceError" where
  "NewErrorFromHTTPStatusCode httpCode reason values =
     (if httpCode \<ge> 400 \<and> httpCode < 500 then
        (if httpCode = 401 then Unauthorized reason values
         else if httpCode = 403 then Forbidden reason values
         else if httpCode = 404 then NotFound reason values
         else if httpCode = 405 then NotImplemented reason values
         else if httpCode = 409 then Conflict reason values
         else BadRequest reason values)
      else if httpCode \<ge> 500 then GeneralError reason values
      else GeneralError reason values)"

text \<open>The result is a pointer: the conversion of an interface that holds a nil
  \<^verbatim>\<open>*ServiceError\<close> is that nil pointer.\<close>

(* src/pkg/errors/errors.go:355-362 ToServiceError *)
fun ToServiceError :: "goerror \<Rightarrow> ServiceError option" where
  "ToServiceError (ServiceErr e) = Some e"
| "ToServiceError NilServiceError = None"
| "ToServiceError err = Some (GeneralError (err_Error err) [])"

section \<open>The builder\<close>

text \<open>The builder embeds a \<^verbatim>\<open>ServiceError\<close>; its methods update the embedded value.\<close>

(* src/pkg/errors/errors.go:376-378 NewServiceErrorBuilder *)
definition NewServiceErrorBuilder :: ServiceError where
  "NewServiceErrorBuilder = ServiceError 0 '''' 0 None False"

(* src/pkg/errors/errors.go:391-394 serviceErrorBuilder.WithCode *)
fun WithCode :: "int \<Rightarrow> ServiceError \<Rightarrow> ServiceError" where
  "WithCode code (ServiceError c r h ca rec) = ServiceError code r h ca rec"

(* src/pkg/errors/errors.go:396-399 serviceErrorBuilder.WithReason *)
fun WithReason :: "string \<Rightarrow> fmtarg list \<Rightarrow> ServiceError \<Rightarrow> ServiceError" where
  "WithReason reason values (ServiceError c r h ca rec) = ServiceError c (Sprintf reason values) h ca rec"

(* src/pkg/errors/errors.go:401-404 serviceErrorBuilder.WithHttpCode *)
fun WithHttpCode :: "int \<Rightarrow> ServiceError \<Rightarrow> ServiceError" where
  "WithHttpCode httpCode (ServiceError c r h ca rec) = ServiceError c r httpCode ca rec"

(* src/pkg/errors/errors.go:406-409 serviceErrorBuilder.WithCause *)
fun WithCause :: "goerror \<Rightarrow> ServiceError \<Rightarrow> ServiceError" where
  "WithCause err (ServiceError c r h ca rec) = ServiceError c r h (Some err) rec"

(* src/pkg/errors/errors.go:411-414 serviceErrorBuilder.Recoverable *)
fun Recoverable :: "ServiceError \<Rightarrow> ServiceError" where
  "Recoverable (ServiceError c r h ca rec) = ServiceError c r h ca True"

(* src/pkg/errors/errors.go:384-389 serviceErrorBuilder.Wrap *)
definition Wrap :: "ServiceError \<Rightarrow> ServiceError \<Rightarrow> ServiceError" where
  "Wrap serviceError seb =
     WithCause (ServiceErr serviceError) (WithCode (Code serviceError) (WithReason (Reason serviceError) [] seb))"

(* src/pkg/errors/errors.go:416-420 serviceErrorBuilder.Build *)
definition Build :: "ServiceError \<Rightarrow> ServiceError" where
  "Build seb =
     (let err = NewWithCause (Code seb) (cause seb) (ServiceError_Error seb) [FStr (Reason seb)]
      in ServiceError (Code err) (Reason err) (HttpCode err) (cause err) (recoverable seb))"

section \<open>Error lists\<close>

text \<open>\<^verbatim>\<open>errors.As(err, &errList)\<close>: the first \<^verbatim>\<open>ErrorList\<close> on the chain of wrapped errors.  On a chain that ends
  in a nil \<^verbatim>\<open>*ServiceError\<close> the Go function panics, since \<^verbatim>\<open>Unwrap\<close> reads the cause of the nil pointer; the functions below are
  about the other chains, and no caller in the modelled code adds such an error to a list.\<close>

(* src/pkg/errors/errors.go:244-253 ErrorList.AddErrors *)
fun as_ErrorList :: "goerror \<Rightarrow> goerror list option" where
  "as_ErrorList (ErrorListErr es) = Some es"
| "as_ErrorList (WithMessage e m) = as_ErrorList e"
| "as_ErrorList (ServiceErr (ServiceError code reason http (Some c) rec)) = as_ErrorList c"
| "as_ErrorList err = None"

lemma as_ErrorList_size: "as_ErrorList err = Some es \<Longrightarrow> size_list size es < size err"
  by (induction err rule: as_ErrorList.induct) auto

(* src/pkg/errors/errors.go:244-253 ErrorList.AddErrors *)
function AddErrors :: "goerror list \<Rightarrow> goerror list \<Rightarrow> goerror list" where
  "AddErrors e [] = e"
| "AddErrors e (err # errs) =
     (case as_ErrorList err of
        Some errList \<Rightarrow> AddErrors (AddErrors e errList) errs
      | None \<Rightarrow> AddErrors (e @ [err]) errs)"
  by pat_completeness auto
termination
  by (relation "measure (\<lambda>(e, errs). size_list size errs)") (auto dest: as_ErrorList_size)

(* src/pkg/errors/errors.go:235-237 ErrorList.IsEmpty *)
definition ErrorList_IsEmpty :: "goerror list \<Rightarrow> bool" where
  "ErrorList_IsEmpty e \<longleftrightarrow> length e = 0"

(* src/pkg/errors/errors.go:256-258 ErrorList.ToErrorSlice *)
definition ToErrorSlice :: "goerror list \<Rightarrow> goerror list" where
  "ToErrorSlice e = e"

section \<open>Facts about the table\<close>

lemma Errors_codes_distinct: "distinct (map Code Errors)"
  by (simp add: Errors_def error_codes)

lemma Errors_not_recoverable: "e \<in> set Errors \<Longrightarrow> \<not> recoverable e \<and> cause e = None"
  by (auto simp: Errors_def)

lemma Errors_http_range: "e \<in> set Errors \<Longrightarrow> 400 \<le> HttpCode e \<and> HttpCode e \<le> 500"
  by (auto simp: Errors_def)

lemma Find_in_table: "Find code = Some e \<Longrightarrow> e \<in> set Errors \<and> Code e = code"
  by (auto simp: Find_def dest: find_in_set)

lemma Find_complete: "e \<in> set Errors \<Longrightarrow> Find (Code e) = Some e"
proof -
  assume e: "e \<in> set Errors"
  then obtain e' where f: "Find (Code e) = Some e'"
    by (cases "Find (Code e)") (auto simp: Find_def find_None_iff)
  then have "e' \<in> set Errors" "Code e' = Code e" by (auto dest: Find_in_table)
  then have "e' = e" using e Errors_codes_distinct by (auto simp: distinct_map dest: inj_onD)
  then show ?thesis using f by simp
qed

lemma Find_row:
  "Find code = Some e \<Longrightarrow> Code e = code \<and> 400 \<le> HttpCode e \<and> HttpCode e \<le> 500 \<and> \<not> recoverable e"
  using Find_in_table[of code e] Errors_http_range[of e] Errors_not_recoverable[of e] by simp

lemma New_simps:
  "Code (NewWithCause code c r vs) = (case Find code of Some e \<Rightarrow> code | None \<Rightarrow> ErrorGeneral)"
  "HttpCode (NewWithCause code c r vs) = (case Find code of Some e \<Rightarrow> HttpCode e | None \<Rightarrow> 500)"
  "cause (NewWithCause code c r vs) = c"
  "\<not> recoverable (NewWithCause code c r vs)"
  by (cases "Find code"; simp add: NewWithCause_def Let_def Find_row)+

lemma New_code: "Find code = Some e \<Longrightarrow> Code (New code r vs) = code"
  and New_http: "Find code = Some e \<Longrightarrow> HttpCode (New code r vs) = HttpCode e"
  by (simp_all add: New_def New_simps)

lemma Find_rows:
  "Find ErrorForbidden = Some (ServiceError ErrorForbidden ErrorForbiddenReason 403 None False)"
  "Find ErrorMaxAllowedInstanceReached = Some (ServiceError ErrorMaxAllowedInstanceReached ErrorMaxAllowedInstanceReachedReason 403 None False)"
  "Find ErrorTooManyKafkaInstancesReached = Some (ServiceError ErrorTooManyKafkaInstancesReached ErrorTooManyKafkaInstancesReachedReason 403 None False)"
  "Find ErrorTooManyRequests = Some (ServiceError ErrorTooManyRequests ErrorTooManyRequestsReason 429 None False)"
  "Find ErrorConflict = Some (ServiceError ErrorConflict ErrorConflictReason 409 None False)"
  "Find ErrorNotFound = Some (ServiceError ErrorNotFound ErrorNotFoundReason 404 None False)"
  "Find ErrorGone = Some (ServiceError ErrorGone ErrorGoneReason 410 None False)"
  "Find ErrorValidation = Some (ServiceError ErrorValidation ErrorValidationReason 400 None False)"
  "Find ErrorGeneral = Some (ServiceError ErrorGeneral ErrorGeneralReason 500 None False)"
  "Find ErrorNotImplemented = Some (ServiceError ErrorNotImplemented ErrorNotImplementedReason 405 None False)"
  "Find ErrorUnauthorized = Some (ServiceError ErrorUnauthorized ErrorUnauthorizedReason 403 None False)"
  "Find ErrorTermsNotAccepted = Some (ServiceError ErrorTermsNotAccepted ErrorTermsNotAcceptedReason 403 None False)"
  "Find ErrorUnauthenticated = Some (ServiceError ErrorUnauthenticated ErrorUnauthenticatedReason 401 None False)"
  "Find ErrorMalformedRequest = Some (ServiceError ErrorMalformedRequest ErrorMalformedRequestReason 400 None False)"
  "Find ErrorServiceIsUnderMaintenance = Some (ServiceError ErrorServiceIsUnderMaintenance ErrorServiceIsUnderMaintenanceReason 403 None False)"
  "Find ErrorBadRequest = Some (ServiceError ErrorBadRequest ErrorBadRequestReason 400 None False)"
  "Find ErrorFailedToParseSearch = Some (ServiceError ErrorFailedToParseSearch ErrorFailedToParseSearchReason 400 None False)"
  "Find ErrorSyncActionNotSupported = Some (ServiceError ErrorSyncActionNotSupported ErrorSyncActionNotSupportedReason 400 None False)"
  "Find ErrorFailedToCreateSSOClient = Some (ServiceError ErrorFailedToCreateSSOClient ErrorFailedToCreateSSOClientReason 500 None False)"
  "Find ErrorFailedToGetSSOClientSecret = Some (ServiceError ErrorFailedToGetSSOClientSecret ErrorFailedToGetSSOClientSecretReason 500 None False)"
  "Find ErrorFailedToGetSSOClient = Some (ServiceError ErrorFailedToGetSSOClient ErrorFailedToGetSSOClientReason 500 None False)"
  "Find ErrorFailedToDeleteSSOClient = Some (ServiceError ErrorFailedToDeleteSSOClient ErrorFailedToDeleteSSOClientReason 500 None False)"
  "Find ErrorFailedToCreateServiceAccount = Some (ServiceError ErrorFailedToCreateServiceAccount ErrorFailedToCreateServiceAccountReason 500 None False)"
  "Find ErrorFailedToGetServiceAccount = Some (ServiceError ErrorFailedToGetServiceAccount ErrorFailedToGetServiceAccountReason 500 None False)"
  "Find ErrorServiceAccountNotFound = Some (ServiceError ErrorServiceAccountNotFound ErrorServiceAccountNotFoundReason 404 None False)"
  "Find ErrorFailedToDeleteServiceAccount = Some (ServiceError ErrorFailedToDeleteServiceAccount ErrorFailedToDeleteServiceAccountReason 500 None False)"
  "Find ErrorProviderNotSupported = Some (ServiceError ErrorProviderNotSupported ErrorProviderNotSupportedReason 400 None False)"
  "Find ErrorRegionNotSupported = Some (ServiceError ErrorRegionNotSupported ErrorRegionNotSupportedReason 400 None False)"
  "Find ErrorInstanceTypeNotSupported = Some (ServiceError ErrorInstanceTypeNotSupported ErrorInstanceTypeNotSupportedReason 400 None False)"
  "Find ErrorMalformedKafkaClusterName = Some (ServiceError ErrorMalformedKafkaClusterName ErrorMalformedKafkaClusterNameReason 400 None False)"
  "Find ErrorMinimumFieldLength = Some (ServiceError ErrorMinimumFieldLength ErrorMinimumFieldLengthReason 400 None False)"
  "Find ErrorMaximumFieldLength = Some (ServiceError ErrorMaximumFieldLength ErrorMaximumFieldLengthReason 400 None False)"
  "Find ErrorDuplicateKafkaClusterName = Some (ServiceError ErrorDuplicateKafkaClusterName ErrorDuplicateKafkaClusterNameReason 409 None False)"
  "Find ErrorUnableToSendErrorResponse = Some (ServiceError ErrorUnableToSendErrorResponse ErrorUnableToSendErrorResponseReason 500 None False)"
  "Find ErrorFieldValidationError = Some (ServiceError ErrorFieldValidationError ErrorFieldValidationErrorReason 400 None False)"
  "Find ErrorInsufficientQuota = Some (ServiceError ErrorInsufficientQuota ErrorInsufficientQuotaReason 403 None False)"
  "Find ErrorFailedToCheckQuota = Some (ServiceError ErrorFailedToCheckQuota ErrorFailedToCheckQuotaReason 500 None False)"
  "Find ErrorMalformedServiceAccountName = Some (ServiceError ErrorMalformedServiceAccountName ErrorMalformedServiceAccountNameReason 400 None False)"
  "Find ErrorMalformedServiceAccountDesc = Some (ServiceError ErrorMalformedServiceAccountDesc ErrorMalformedServiceAccountDescReason 400 None False)"
  "Find ErrorMalformedServiceAccountId = Some (ServiceError ErrorMalformedServiceAccountId ErrorMalformedServiceAccountIdReason 400 None False)"
  "Find ErrorMaxLimitForServiceAccountsReached = Some (ServiceError ErrorMaxLimitForServiceAccountsReached ErrorMaxLimitForServiceAccountsReachedReason 403 None False)"
  "Find ErrorInstancePlanNotSupported = Some (ServiceError ErrorInstancePlanNotSupported ErrorInstancePlanNotSupportedReason 400 None False)"
  "Find ErrorBillingAccountInvalid = Some (ServiceError ErrorBillingAccountInvalid ErrorBillingAccountInvalidReason 400 None False)"
  "Find ErrorDuplicateClusterId = Some (ServiceError ErrorDuplicateClusterId ErrorDuplicateClusterIdReason 409 None False)"
  "Find ErrorInvalidClusterId = Some (ServiceError ErrorInvalidClusterId ErrorInvalidClusterIdReason 400 None False)"
  "Find ErrorInvalidExternalClusterId = Some (ServiceError ErrorInvalidExternalClusterId ErrorInvalidExternalClusterIdReason 400 None False)"
  "Find ErrorInvalidDnsName = Some (ServiceError ErrorInvalidDnsName ErrorInvalidDnsNameReason 400 None False)"
  by (simp_all add: Find_def Errors_def error_codes)

lemma constructor_class [simp, http_class]:
  "Code (NotFound r vs) = ErrorNotFound" "HttpCode (NotFound r vs) = 404"
  "Code (GeneralError r vs) = ErrorGeneral" "HttpCode (GeneralError r vs) = 500"
  "Code (Unauthorized r vs) = ErrorUnauthorized" "HttpCode (Unauthorized r vs) = 403"
  "Code (TermsNotAccepted r vs) = ErrorTermsNotAccepted" "HttpCode (TermsNotAccepted r vs) = 403"
  "Code (Unauthenticated r vs) = ErrorUnauthenticated" "HttpCode (Unauthenticated r vs) = 401"
  "Code (Forbidden r vs) = ErrorForbidden" "HttpCode (Forbidden r vs) = 403"
  "Code (Maintenance r vs) = ErrorServiceIsUnderMaintenance" "HttpCode (Maintenance r vs) = 403"
  "Code (MaximumAllowedInstanceReached r vs) = ErrorMaxAllowedInstanceReached" "HttpCode (MaximumAllowedInstanceReached r vs) = 403"
  "Code (TooManyKafkaInstancesReached r vs) = ErrorTooManyKafkaInstancesReached" "HttpCode (TooManyKafkaInstancesReached r vs) = 403"
  "Code (NotImplemented r vs) = ErrorNotImplemented" "HttpCode (NotImplemented r vs) = 405"
  "Code (Conflict r vs) = ErrorConflict" "HttpCode (Conflict r vs) = 409"
  "Code (Validation r vs) = ErrorValidation" "HttpCode (Validation r vs) = 400"
  "Code (MalformedRequest r vs) = ErrorMalformedRequest" "HttpCode (MalformedRequest r vs) = 400"
  "Code (BadRequest r vs) = ErrorBadRequest" "HttpCode (BadRequest r vs) = 400"
  "Code (FailedToParseSearch r vs) = ErrorFailedToParseSearch" "HttpCode (FailedToParseSearch r vs) = 400"
  "Code SyncActionNotSupported = ErrorSyncActionNotSupported" "HttpCode SyncActionNotSupported = 400"
  "Code (FailedToCreateSSOClient r vs) = ErrorFailedToCreateSSOClient" "HttpCode (FailedToCreateSSOClient r vs) = 500"
  "Code (FailedToGetSSOClientSecret r vs) = ErrorFailedToGetSSOClientSecret" "HttpCode (FailedToGetSSOClientSecret r vs) = 500"
  "Code (FailedToGetSSOClient r vs) = ErrorFailedToGetSSOClient" "HttpCode (FailedToGetSSOClient r vs) = 500"
  "Code (FailedToDeleteSSOClient r vs) = ErrorFailedToDeleteSSOClient" "HttpCode (FailedToDeleteSSOClient r vs) = 500"
  "Code (FailedToCreateServiceAccount r vs) = ErrorFailedToCreateServiceAccount" "HttpCode (FailedToCreateServiceAccount r vs) = 500"
  "Code (FailedToDeleteServiceAccount r vs) = ErrorFailedToDeleteServiceAccount" "HttpCode (FailedToDeleteServiceAccount r vs) = 500"
  "Code (MaxLimitForServiceAccountReached r vs) = ErrorMaxLimitForServiceAccountsReached" "HttpCode (MaxLimitForServiceAccountReached r vs) = 403"
  "Code (FailedToGetServiceAccount r vs) = ErrorFailedToGetServiceAccount" "HttpCode (FailedToGetServiceAccount r vs) = 500"
  "Code (ServiceAccountNotFound r vs) = ErrorServiceAccountNotFound" "HttpCode (ServiceAccountNotFound r vs) = 404"
  "Code (RegionNotSupported r vs) = ErrorRegionNotSupported" "HttpCode (RegionNotSupported r vs) = 400"
  "Code (InstanceTypeNotSupported r vs) = ErrorInstanceTypeNotSupported" "HttpCode (InstanceTypeNotSupported r vs) = 400"
  "Code (ProviderNotSupported r vs) = ErrorProviderNotSupported" "HttpCode (ProviderNotSupported r vs) = 400"
  "Code (InstancePlanNotSupported r vs) = ErrorInstancePlanNotSupported" "HttpCode (InstancePlanNotSupported r vs) = 400"
  "Code (MalformedKafkaClusterName r vs) = ErrorMalformedKafkaClusterName" "HttpCode (MalformedKafkaClusterName r vs) = 400"
  "Code (MalformedServiceAccountName r vs) = ErrorMalformedServiceAccountName" "HttpCode (MalformedServiceAccountName r vs) = 400"
  "Code (MalformedServiceAccountDesc r vs) = ErrorMalformedServiceAccountDesc" "HttpCode (MalformedServiceAccountDesc r vs) = 400"
  "Code (MalformedServiceAccountId r vs) = ErrorMalformedServiceAccountId" "HttpCode (MalformedServiceAccountId r vs) = 400"
  "Code (InvalidExternalClusterId r vs) = ErrorInvalidExternalClusterId" "HttpCode (InvalidExternalClusterId r vs) = 400"
  "Code (InvalidClusterId r vs) = ErrorInvalidClusterId" "HttpCode (InvalidClusterId r vs) = 400"
  "Code (InvalidDnsName r vs) = ErrorInvalidDnsName" "HttpCode (InvalidDnsName r vs) = 400"
  "Code DuplicateKafkaClusterName = ErrorDuplicateKafkaClusterName" "HttpCode DuplicateKafkaClusterName = 409"
  "Code DuplicateClusterId = ErrorDuplicateClusterId" "HttpCode DuplicateClusterId = 409"
  "Code (MinimumFieldLengthNotReached r vs) = ErrorMinimumFieldLength" "HttpCode (MinimumFieldLengthNotReached r vs) = 400"
  "Code (MaximumFieldLengthExceeded r vs) = ErrorMaximumFieldLength" "HttpCode (MaximumFieldLengthExceeded r vs) = 400"
  "Code UnableToSendErrorResponse = ErrorUnableToSendErrorResponse" "HttpCode UnableToSendErrorResponse = 500"
  "Code (FailedToParseQueryParms r vs) = ErrorBadRequest" "HttpCode (FailedToParseQueryParms r vs) = 400"
  "Code (FieldValidationError r vs) = ErrorFieldValidationError" "HttpCode (FieldValidationError r vs) = 400"
  "Code (InsufficientQuotaError r vs) = ErrorInsufficientQuota" "HttpCode (InsufficientQuotaError r vs) = 403"
  "Code (FailedToCheckQuota r vs) = ErrorFailedToCheckQuota" "HttpCode (FailedToCheckQuota r vs) = 500"
  "Code (InvalidBillingAccount r vs) = ErrorBillingAccountInvalid" "HttpCode (InvalidBillingAccount r vs) = 400"
  by (simp_all add: NotFound_def GeneralError_def Unauthorized_def TermsNotAccepted_def Unauthenticated_def Forbidden_def Maintenance_def MaximumAllowedInstanceReached_def TooManyKafkaInstancesReached_def NotImplemented_def Conflict_def Validation_def MalformedRequest_def BadRequest_def FailedToParseSearch_def SyncActionNotSupported_def FailedToCreateSSOClient_def FailedToGetSSOClientSecret_def FailedToGetSSOClient_def FailedToDeleteSSOClient_def FailedToCreateServiceAccount_def FailedToDeleteServiceAccount_def MaxLimitForServiceAccountReached_def FailedToGetServiceAccount_def ServiceAccountNotFound_def RegionNotSupported_def InstanceTypeNotSupported_def ProviderNotSupported_def InstancePlanNotSupported_def MalformedKafkaClusterName_def MalformedServiceAccountName_def MalformedServiceAccountDesc_def MalformedServiceAccountId_def InvalidExternalClusterId_def InvalidClusterId_def InvalidDnsName_def DuplicateKafkaClusterName_def DuplicateClusterId_def MinimumFieldLengthNotReached_def MaximumFieldLengthExceeded_def UnableToSendErrorResponse_def FailedToParseQueryParms_def FieldValidationError_def InsufficientQuotaError_def FailedToCheckQuota_def InvalidBillingAccount_def
    Find_rows New_code New_http)

section \<open>Facts about error lists\<close>

lemma AddErrors_append_aux:
  "AddErrors (a @ e) errs = a @ AddErrors e errs"
proof (induction e errs arbitrary: a rule: AddErrors.induct)
  case (2 e err errs)
  show ?case
  proof (cases "as_ErrorList err")
    case None
    then show ?thesis using 2(1)[OF None, of a] by simp
  next
    case (Some l)
    then show ?thesis using 2(2)[OF Some, of a] 2(3)[OF Some, of a] by simp
  qed
qed simp

lemma AddErrors_append: "AddErrors e errs = e @ AddErrors [] errs"
  using AddErrors_append_aux[of e "[]"] by simp

text \<open>The reference for \<^verbatim>\<open>AddErrors\<close>, by recursion on the error and not on the list that collects: the errors at the
  leaves of nested lists, from left to right.  An error that neither is nor wraps a list is its own leaf; the message of an
  error that wraps a list is dropped.\<close>

fun error_leaves :: "goerror \<Rightarrow> goerror list" where
  "error_leaves (ErrorListErr es) = concat (map error_leaves es)"
| "error_leaves (WithMessage e m) = (if as_ErrorList e = None then [WithMessage e m] else error_leaves e)"
| "error_leaves (ServiceErr (ServiceError code reason http (Some e) rec)) =
     (if as_ErrorList e = None then [ServiceErr (ServiceError code reason http (Some e) rec)] else error_leaves e)"
| "error_leaves err = [err]"

lemma error_leaves_list: "as_ErrorList err = Some es \<Longrightarrow> error_leaves err = concat (map error_leaves es)"
  by (induction err rule: error_leaves.induct) auto

lemma error_leaves_single: "as_ErrorList err = None \<Longrightarrow> error_leaves err = [err]"
  by (induction err rule: error_leaves.induct) auto

lemma AddErrors_error_leaves: "AddErrors e errs = e @ concat (map error_leaves errs)"
proof (induction e errs rule: AddErrors.induct)
  case (2 e err errs)
  show ?case
  proof (cases "as_ErrorList err")
    case None
    then show ?thesis using 2(1)[OF None] error_leaves_single[OF None] by simp
  next
    case (Some l)
    then show ?thesis using 2(2)[OF Some] 2(3)[OF Some] error_leaves_list[OF Some] by simp
  qed
qed simp

lemma AddErrors_flat:
  "\<forall>x \<in> set e. as_ErrorList x = None \<Longrightarrow> \<forall>x \<in> set (AddErrors e errs). as_ErrorList x = None"
proof (induction e errs rule: AddErrors.induct)
  case (2 e err errs)
  show ?case
  proof (cases "as_ErrorList err")
    case None
    have "\<forall>x \<in> set (e @ [err]). as_ErrorList x = None" using None 2(4) by auto
    from 2(1)[OF None this] show ?thesis by (simp only: AddErrors.simps None option.case)
  next
    case (Some l)
    from 2(3)[OF Some 2(2)[OF Some 2(4)]] show ?thesis by (simp only: AddErrors.simps Some option.case)
  qed
qed (simp only: AddErrors.simps)

lemma AddErrors_idle: "\<forall>x \<in> set errs. as_ErrorList x = None \<Longrightarrow> AddErrors e errs = e @ errs"
  by (induction errs arbitrary: e) simp_all

section \<open>Properties\<close>

text \<open>C20. \<^verbatim>\<open>NewWithCause\<close> keeps the requested code exactly when the table of errors has it and
  falls back to the general error otherwise; the error it returns is a row of the table, carries
  the given cause, is not recoverable, and its HTTP status belongs to exactly one of the client and
  the server class.\<close>

theorem NewWithCause_table:
  "(Code (NewWithCause code c r vs) = code \<longleftrightarrow> code \<in> Code ` set Errors) \<and>
   (\<exists>e \<in> set Errors. Code (NewWithCause code c r vs) = Code e \<and> HttpCode (NewWithCause code c r vs) = HttpCode e) \<and>
   cause (NewWithCause code c r vs) = c \<and> \<not> recoverable (NewWithCause code c r vs) \<and>
   (IsClientErrorClass (NewWithCause code c r vs) \<noteq> IsServerErrorClass (NewWithCause code c r vs))"
proof (cases "Find code")
  case None
  then have n: "code \<notin> Code ` set Errors" by (auto simp: Find_def find_None_iff)
  have g: "ServiceError ErrorGeneral ErrorGeneralReason 500 None False \<in> set Errors" by (simp add: Errors_def)
  then have "ErrorGeneral \<in> Code ` set Errors" by (rule rev_image_eqI) simp
  then have "code \<noteq> ErrorGeneral" using n by auto
  moreover have "\<exists>e \<in> set Errors. ErrorGeneral = Code e \<and> 500 = HttpCode e" by (rule bexI[OF _ g]) simp
  ultimately show ?thesis using None n
    by (simp add: New_simps IsClientErrorClass_def IsServerErrorClass_def)
next
  case (Some e)
  then have e: "e \<in> set Errors" "Code e = code" by (auto dest: Find_in_table)
  then show ?thesis using Some Find_row[OF Some]
    by (auto simp: New_simps IsClientErrorClass_def IsServerErrorClass_def intro!: bexI[of _ e])
qed

text \<open>Translating an HTTP status into a service error keeps its class: the result is a
  client error exactly for the statuses 400 to 499, and a server error for all others.\<close>

theorem NewErrorFromHTTPStatusCode_class:
  "(IsClientErrorClass (NewErrorFromHTTPStatusCode h r vs) \<longleftrightarrow> 400 \<le> h \<and> h < 500) \<and>
   (IsServerErrorClass (NewErrorFromHTTPStatusCode h r vs) \<longleftrightarrow> h < 400 \<or> 500 \<le> h)"
  by (auto simp: NewErrorFromHTTPStatusCode_def IsClientErrorClass_def IsServerErrorClass_def)

text \<open>C21. \<^verbatim>\<open>AddErrors\<close> appends, behind the errors that are there, every error at a leaf of the given errors, in
  order and none twice or left out: an error that neither is nor wraps a list goes in as it is, and a nested list is replaced by
  its leaves.  No appended error is or wraps a list.\<close>

theorem AddErrors_unrolls:
  "AddErrors e errs = e @ concat (map error_leaves errs) \<and>
   (as_ErrorList err = None \<longrightarrow> AddErrors e [err] = e @ [err]) \<and>
   AddErrors e [WithMessage (ErrorListErr (errs @ [ErrorListErr errs])) m] = e @ concat (map error_leaves errs) @ concat (map error_leaves errs) \<and>
   filter (\<lambda>x. as_ErrorList x \<noteq> None) (concat (map error_leaves errs)) = []"
proof (intro conjI impI)
  show "AddErrors e errs = e @ concat (map error_leaves errs)" by (rule AddErrors_error_leaves)
  show "AddErrors e [err] = e @ [err]" if "as_ErrorList err = None" using that by simp
  show "AddErrors e [WithMessage (ErrorListErr (errs @ [ErrorListErr errs])) m] = e @ concat (map error_leaves errs) @ concat (map error_leaves errs)"
    by (simp only: AddErrors_error_leaves) simp
  have "\<forall>x \<in> set (AddErrors [] errs). as_ErrorList x = None" by (rule AddErrors_flat) simp
  then show "filter (\<lambda>x. as_ErrorList x \<noteq> None) (concat (map error_leaves errs)) = []" unfolding AddErrors_error_leaves by (simp add: filter_empty_conv)
qed

theorem AddErrors_unrolls_witness:
  "as_ErrorList (ErrorString ''a'') = None \<and> AddErrors [] [ErrorString ''a''] = [ErrorString ''a''] \<and>
   AddErrors [ErrorString ''x''] [WithMessage (ErrorListErr ([ErrorString ''a''] @ [ErrorListErr [ErrorString ''a'']])) ''m''] =
     [ErrorString ''x'', ErrorString ''a'', ErrorString ''a'']"
  using AddErrors_unrolls[of "[]" "[ErrorString ''a'']" "ErrorString ''a''" "''m''"]
    AddErrors_unrolls[of "[ErrorString ''x'']" "[ErrorString ''a'']" "ErrorString ''a''" "''m''"] by simp

text \<open>C22. The builder does not honour \<^verbatim>\<open>WithHttpCode\<close>: the status of the built error is that of
  its code in the table, whatever status was set.  Cause, code lookup and the recoverable flag are
  kept.\<close>

theorem Build_ignores_WithHttpCode:
  "HttpCode (Build (WithHttpCode h b)) = HttpCode (Build b) \<and>
   HttpCode (Build b) = (case Find (Code b) of Some e \<Rightarrow> HttpCode e | None \<Rightarrow> 500) \<and>
   cause (Build b) = cause b \<and> recoverable (Build b) = recoverable b"
  by (cases b) (simp add: Build_def New_simps Let_def)

end
