(* ===== verification/Go_Arrays.thy ===== *)
theory Go_Arrays
  imports Prelude
begin

text \<open>
  Packages \<^verbatim>\<open>pkg/shared\<close> and \<^verbatim>\<open>pkg/shared/utils/arrays\<close>: the slice helpers and the string
  predicates the services are written with.  Every loop is translated as the accumulation the
  source performs; the lemmas give its meaning in terms of the list library, so that the component
  proofs never unfold a loop again.

  A \<^verbatim>\<open>T string | *string\<close> type parameter is used with plain strings by the services, and with
  pointers, here \<^typ>\<open>string option\<close>, by the request presenters; both instances are given where
  they differ.
\<close>

section \<open>Slices\<close>

definition ElementNotFound :: int where
  "ElementNotFound = - 1"

text \<open>The loop of \<^verbatim>\<open>FindFirst\<close>; the second result is \<^const>\<open>None\<close> where the source returns the zero
  value of the element type.\<close>

(* src/pkg/shared/utils/arrays/generic_array_utils.go:24-28 FindFirst *)
fun FindFirst_loop :: "int \<Rightarrow> 'a list \<Rightarrow> ('a \<Rightarrow> bool) \<Rightarrow> int \<times> 'a option" where
  "FindFirst_loop i [] predicate = (ElementNotFound, None)"
| "FindFirst_loop i (val # vals) predicate =
     (if predicate val then (i, Some val) else FindFirst_loop (i + 1) vals predicate)"

(* src/pkg/shared/utils/arrays/generic_array_utils.go:23-31 FindFirst *)
definition FindFirst :: "'a list \<Rightarrow> ('a \<Rightarrow> bool) \<Rightarrow> int \<times> 'a option" where
  "FindFirst vals predicate = FindFirst_loop 0 vals predicate"

(* src/pkg/shared/utils/arrays/generic_array_utils.go:34-43 Filter *)
definition Filter :: "'a list \<Rightarrow> ('a \<Rightarrow> bool) \<Rightarrow> 'a list" where
  "Filter vals predicate = foldl (\<lambda>res val. if predicate val then res @ [val] else res) [] vals"

(* src/pkg/shared/utils/arrays/generic_array_utils.go:46-52 Map *)
definition Map :: "'a list \<Rightarrow> ('a \<Rightarrow> 'b) \<Rightarrow> 'b list" where
  "Map vals mapper = foldl (\<lambda>res val. res @ [mapper val]) [] vals"

(* src/pkg/shared/utils/arrays/generic_array_utils.go:55-60 AnyMatch *)
definition AnyMatch :: "'a list \<Rightarrow> ('a \<Rightarrow> bool) \<Rightarrow> bool" where
  "AnyMatch vals predicate \<longleftrightarrow> fst (FindFirst vals predicate) \<noteq> - 1"

(* src/pkg/shared/utils/arrays/generic_array_utils.go:63-65 NoneMatch *)
definition NoneMatch :: "'a list \<Rightarrow> ('a \<Rightarrow> bool) \<Rightarrow> bool" where
  "NoneMatch vals predicate \<longleftrightarrow> \<not> AnyMatch vals predicate"

(* src/pkg/shared/utils/arrays/generic_array_utils.go:68-75 AllMatch *)
fun AllMatch :: "'a list \<Rightarrow> ('a \<Rightarrow> bool) \<Rightarrow> bool" where
  "AllMatch [] predicate \<longleftrightarrow> True"
| "AllMatch (val # vals) predicate \<longleftrightarrow> (if \<not> predicate val then False else AllMatch vals predicate)"

(* src/pkg/shared/utils/arrays/generic_array_utils.go:81-88 Reduce *)
fun Reduce :: "'a list \<Rightarrow> ('b \<Rightarrow> 'a \<Rightarrow> 'b) \<Rightarrow> 'b \<Rightarrow> 'b" where
  "Reduce [] reducer res = res"
| "Reduce (val # vals) reducer res = Reduce vals reducer (reducer res val)"

(* src/pkg/shared/utils/arrays/generic_array_utils.go:92-94 Contains *)
definition Contains :: "'a list \<Rightarrow> 'a \<Rightarrow> bool" where
  "Contains vals s \<longleftrightarrow> AnyMatch vals (\<lambda>x. x = s)"

(* src/pkg/shared/utils/arrays/generic_array_utils.go:105-107 IsEmpty *)
definition IsEmpty :: "'a list \<Rightarrow> bool" where
  "IsEmpty vals \<longleftrightarrow> length vals = 0"

section \<open>Strings\<close>

(* src/pkg/shared/util.go:63-78 StringEmpty *)
definition StringEmpty :: "string \<Rightarrow> bool" where
  "StringEmpty x \<longleftrightarrow> x = ''''"

(* src/pkg/shared/util.go:63-78 StringEmpty *)
definition StringEmptyPtr :: "string option \<Rightarrow> bool" where
  "StringEmptyPtr x \<longleftrightarrow> (case x of None \<Rightarrow> True | Some s \<Rightarrow> s = '''')"

(* src/pkg/shared/util.go:82-103 StringEqualsIgnoreCase *)
definition StringEqualsIgnoreCase :: "string \<Rightarrow> string \<Rightarrow> bool" where
  "StringEqualsIgnoreCase s1 s2 \<longleftrightarrow> EqualFold s1 s2"

(* src/pkg/shared/util.go:82-103 StringEqualsIgnoreCase *)
definition StringEqualsIgnoreCasePtr :: "string option \<Rightarrow> string option \<Rightarrow> bool" where
  "StringEqualsIgnoreCasePtr s1 s2 \<longleftrightarrow>
     (case (s1, s2) of (None, None) \<Rightarrow> True | (Some v1, Some v2) \<Rightarrow> EqualFold v1 v2 | _ \<Rightarrow> False)"

(* src/pkg/shared/util.go:107-124 StringHasPrefixIgnoreCase *)
definition StringHasPrefixIgnoreCase :: "string \<Rightarrow> string \<Rightarrow> bool" where
  "StringHasPrefixIgnoreCase s p \<longleftrightarrow> HasPrefix (ToLower s) (ToLower p)"

(* src/pkg/shared/util.go:128-145 StringHasSuffixIgnoreCase *)
definition StringHasSuffixIgnoreCase :: "string \<Rightarrow> string \<Rightarrow> bool" where
  "StringHasSuffixIgnoreCase s p \<longleftrightarrow> HasSuffix (ToLower s) (ToLower p)"

section \<open>Predicates\<close>

(* src/pkg/shared/utils/arrays/common_predicates.go:8-10 IsNotNilPredicate *)
definition IsNotNilPredicate :: "'a option \<Rightarrow> bool" where
  "IsNotNilPredicate x \<longleftrightarrow> x \<noteq> None"

(* src/pkg/shared/utils/arrays/common_predicates.go:13-15 IsNilPredicate *)
definition IsNilPredicate :: "'a option \<Rightarrow> bool" where
  "IsNilPredicate x \<longleftrightarrow> x = None"

(* src/pkg/shared/utils/arrays/common_predicates.go:18-20 StringNotEmptyPredicate *)
definition StringNotEmptyPredicate :: "string \<Rightarrow> bool" where
  "StringNotEmptyPredicate x \<longleftrightarrow> \<not> StringEmpty x"

(* src/pkg/shared/utils/arrays/common_predicates.go:23-25 StringEmptyPredicate *)
definition StringEmptyPredicate :: "string \<Rightarrow> bool" where
  "StringEmptyPredicate x \<longleftrightarrow> StringEmpty x"

(* src/pkg/shared/utils/arrays/common_predicates.go:27-31 EqualsPredicate *)
definition EqualsPredicate :: "'a \<Rightarrow> 'a \<Rightarrow> bool" where
  "EqualsPredicate value = (\<lambda>x. x = value)"

(* src/pkg/shared/utils/arrays/common_predicates.go:33-37 StringEqualsIgnoreCasePredicate *)
definition StringEqualsIgnoreCasePredicate :: "string \<Rightarrow> string \<Rightarrow> bool" where
  "StringEqualsIgnoreCasePredicate value = (\<lambda>x. StringEqualsIgnoreCase x value)"

text \<open>The argument of the returned closure is the prefix, and the captured value the string
  that is searched.\<close>

(* src/pkg/shared/utils/arrays/common_predicates.go:39-43 StringHasPrefixIgnoreCasePredicate *)
definition StringHasPrefixIgnoreCasePredicate :: "string \<Rightarrow> string \<Rightarrow> bool" where
  "StringHasPrefixIgnoreCasePredicate value = (\<lambda>prefix. StringHasPrefixIgnoreCase value prefix)"

(* src/pkg/shared/utils/arrays/common_predicates.go:45-49 StringHasNotPrefixIgnoreCasePredicate *)
definition StringHasNotPrefixIgnoreCasePredicate :: "string \<Rightarrow> string \<Rightarrow> bool" where
  "StringHasNotPrefixIgnoreCasePredicate value = (\<lambda>prefix. \<not> StringHasPrefixIgnoreCase value prefix)"

(* src/pkg/shared/utils/arrays/common_predicates.go:51-55 StringHasSuffixIgnoreCasePredicate *)
definition StringHasSuffixIgnoreCasePredicate :: "string \<Rightarrow> string \<Rightarrow> bool" where
  "StringHasSuffixIgnoreCasePredicate value = (\<lambda>suffix. StringHasSuffixIgnoreCase value suffix)"

(* src/pkg/shared/utils/arrays/common_predicates.go:57-61 StringHasNotSuffixIgnoreCasePredicate *)
definition StringHasNotSuffixIgnoreCasePredicate :: "string \<Rightarrow> string \<Rightarrow> bool" where
  "StringHasNotSuffixIgnoreCasePredicate value = (\<lambda>suffix. \<not> StringHasSuffixIgnoreCase value suffix)"

(* src/pkg/shared/utils/arrays/common_predicates.go:64-73 CompositePredicateAll *)
fun CompositePredicateAll :: "('a \<Rightarrow> bool) list \<Rightarrow> 'a \<Rightarrow> bool" where
  "CompositePredicateAll [] x \<longleftrightarrow> True"
| "CompositePredicateAll (p # ps) x \<longleftrightarrow> (if \<not> p x then False else CompositePredicateAll ps x)"

(* src/pkg/shared/utils/arrays/common_predicates.go:76-85 CompositePredicateAny *)
fun CompositePredicateAny :: "('a \<Rightarrow> bool) list \<Rightarrow> 'a \<Rightarrow> bool" where
  "CompositePredicateAny [] x \<longleftrightarrow> False"
| "CompositePredicateAny (p # ps) x \<longleftrightarrow> (if p x then True else CompositePredicateAny ps x)"

section \<open>The loops as list functions\<close>

lemma FindFirst_loop_find:
  "snd (FindFirst_loop i vals predicate) = List.find predicate vals"
  "0 \<le> i \<Longrightarrow> fst (FindFirst_loop i vals predicate) \<noteq> - 1 \<longleftrightarrow> List.find predicate vals \<noteq> None"
  by (induction vals arbitrary: i) (auto simp: ElementNotFound_def)

lemma FindFirst_snd [simp]: "snd (FindFirst vals predicate) = List.find predicate vals"
  by (simp add: FindFirst_def FindFirst_loop_find)

lemma FindFirst_fst: "fst (FindFirst vals predicate) \<noteq> - 1 \<longleftrightarrow> List.find predicate vals \<noteq> None"
  by (simp add: FindFirst_def FindFirst_loop_find)

lemma AnyMatch_iff [simp]: "AnyMatch vals predicate \<longleftrightarrow> (\<exists>x \<in> set vals. predicate x)"
  by (auto simp: AnyMatch_def FindFirst_fst find_None_iff)

lemma NoneMatch_iff [simp]: "NoneMatch vals predicate \<longleftrightarrow> (\<forall>x \<in> set vals. \<not> predicate x)"
  by (simp add: NoneMatch_def)

lemma AllMatch_iff [simp]: "AllMatch vals predicate \<longleftrightarrow> (\<forall>x \<in> set vals. predicate x)"
  by (induction vals) auto

lemma Contains_iff [simp]: "Contains vals s \<longleftrightarrow> s \<in> set vals"
  by (auto simp: Contains_def)

lemma foldl_filter: "foldl (\<lambda>res val. if p val then res @ [val] else res) acc xs = acc @ filter p xs"
  by (induction xs arbitrary: acc) auto

lemma Filter_eq [simp]: "Filter vals p = filter p vals"
  by (simp add: Filter_def foldl_filter)

lemma foldl_map: "foldl (\<lambda>res val. res @ [f val]) acc xs = acc @ map f xs"
  by (induction xs arbitrary: acc) auto

lemma Map_eq [simp]: "Map vals f = map f vals"
  by (simp add: Map_def foldl_map)

lemma Reduce_foldl [simp]: "Reduce vals f a = foldl f a vals"
  by (induction vals arbitrary: a) auto

lemma CompositePredicateAll_iff [simp]: "CompositePredicateAll ps x \<longleftrightarrow> (\<forall>p \<in> set ps. p x)"
  by (induction ps) auto

lemma CompositePredicateAny_iff [simp]: "CompositePredicateAny ps x \<longleftrightarrow> (\<exists>p \<in> set ps. p x)"
  by (induction ps) auto

section \<open>Properties\<close>

text \<open>\<^verbatim>\<open>FindFirst\<close> returns the position and the value of the first element that satisfies the
  predicate: nothing before it does; without such an element it returns position -1 and no value.\<close>

theorem FindFirst_first:
  "FindFirst vals p =
     (if \<exists>x \<in> set vals. p x
      then (int (length (takeWhile (\<lambda>x. \<not> p x) vals)), Some (vals ! length (takeWhile (\<lambda>x. \<not> p x) vals)))
      else (- 1, None))"
proof -
  have "FindFirst_loop i vals p =
     (if \<exists>x \<in> set vals. p x
      then (i + int (length (takeWhile (\<lambda>x. \<not> p x) vals)), Some (vals ! length (takeWhile (\<lambda>x. \<not> p x) vals)))
      else (- 1, None))" for i
    by (induction vals arbitrary: i) (auto simp: ElementNotFound_def)
  from this[of 0] show ?thesis by (simp add: FindFirst_def)
qed

end
