(* ===== verification/String_Scanner.thy ===== *)
theory String_Scanner
  imports Go_Arrays
begin

text \<open>
  Package \<^verbatim>\<open>pkg/shared/utils/stringscanner\<close>: the scanner interface with its two
  implementations, the character scanner and the SQL scanner, and the iteration of Go over the
  runes of a string.  The locale \<open>token_stream\<close> is the contract of the interface; both scanners
  are interpretations of it, so the loop that drains a scanner sees every token exactly once.
  The tokens of the SQL scanner are disjoint pieces of the text, in order, at their positions, and
  nothing but spaces is lost.
\<close>

section \<open>Runes of a string\<close>

text \<open>A rune is kept as its UTF-8 encoding.  \<open>decode_len\<close> is the number of bytes of the first
  rune of a string, 0 when its bytes are not valid UTF-8.\<close>

definition cont_byte :: "nat \<Rightarrow> bool" where
  "cont_byte b \<longleftrightarrow> 128 \<le> b \<and> b \<le> 191"

definition decode_bytes :: "nat list \<Rightarrow> nat" where
  "decode_bytes bs =
    (case bs of
       [] \<Rightarrow> 0
     | b0 # r \<Rightarrow>
        (if b0 < 128 then 1
         else if 194 \<le> b0 \<and> b0 \<le> 223 then (case r of b1 # _ \<Rightarrow> if cont_byte b1 then 2 else 0 | _ \<Rightarrow> 0)
         else if 224 \<le> b0 \<and> b0 \<le> 239 then
           (case r of b1 # b2 # _ \<Rightarrow>
              if cont_byte b1 \<and> cont_byte b2 \<and> (b0 = 224 \<longrightarrow> 160 \<le> b1) \<and> (b0 = 237 \<longrightarrow> b1 \<le> 159) then 3 else 0
            | _ \<Rightarrow> 0)
         else if 240 \<le> b0 \<and> b0 \<le> 244 then
           (case r of b1 # b2 # b3 # _ \<Rightarrow>
              if cont_byte b1 \<and> cont_byte b2 \<and> cont_byte b3 \<and> (b0 = 240 \<longrightarrow> 144 \<le> b1) \<and> (b0 = 244 \<longrightarrow> b1 \<le> 143) then 4 else 0
            | _ \<Rightarrow> 0)
         else 0))"

definition decode_len :: "string \<Rightarrow> nat" where
  "decode_len s = decode_bytes (map of_char (take 4 s))"

definition replacement_rune :: string where
  "replacement_rune = [CHR 0xEF, CHR 0xBF, CHR 0xBD]"

text \<open>\<^verbatim>\<open>for i, r := range s\<close>: the byte offset of every rune and the rune; an invalid byte gives the
  replacement character and is one byte wide.\<close>

function go_runes :: "nat \<Rightarrow> string \<Rightarrow> (nat \<times> string) list" where
  "go_runes i [] = []"
| "go_runes i (c # s) =
     (let n = decode_len (c # s) in
      if n = 0 then (i, replacement_rune) # go_runes (i + 1) s
      else (i, take n (c # s)) # go_runes (i + n) (drop (n - 1) s))"
  by pat_completeness auto
termination
  by (relation "measure (\<lambda>(i, s). length s)") auto

text \<open>A text that is valid UTF-8: no byte decodes to the replacement character.\<close>

function valid_utf8 :: "string \<Rightarrow> bool" where
  "valid_utf8 [] \<longleftrightarrow> True"
| "valid_utf8 (c # s) \<longleftrightarrow> (let n = decode_len (c # s) in n \<noteq> 0 \<and> valid_utf8 (drop (n - 1) s))"
  by pat_completeness auto
termination
  by (relation "measure length") auto

definition ascii :: "string \<Rightarrow> bool" where
  "ascii s \<longleftrightarrow> (\<forall>c \<in> set s. (of_char c :: nat) < 128)"

text \<open>\<^verbatim>\<open>string(b)\<close> for a byte \<open>b\<close>: the encoding of the code point \<open>b\<close>.\<close>

definition string_of_byte :: "char \<Rightarrow> string" where
  "string_of_byte c = (let n = of_char c :: nat in
     if n < 128 then [c] else [char_of (192 + n div 64), char_of (128 + n mod 64)])"

section \<open>Tokens\<close>

(* src/pkg/shared/utils/stringscanner/scanner.go:4-11 Token *)
record Token =
  TokenType :: int
  TokenValue :: string
  Position :: int

definition OP :: int where "OP = 0"

definition BRACE :: int where "BRACE = 1"

definition LITERAL :: int where "LITERAL = 2"

definition QUOTED_LITERAL :: int where "QUOTED_LITERAL = 3"

definition NO_TOKEN :: int where "NO_TOKEN = 4"

section \<open>The SQL scanner\<close>

(* src/pkg/shared/utils/stringscanner/sql_string_scanner.go:15-18 scanner *)
record scanner =
  tokens :: "Token list"
  pos :: int

text \<open>The local variables of \<^verbatim>\<open>Init\<close>: the tokens already sent to the scanner, the pieces of the
  current token, its type and the two flags.\<close>

(* src/pkg/shared/utils/stringscanner/sql_string_scanner.go:23-27 scanner.Init *)
record scan =
  sent :: "Token list"
  current :: "Token list"
  currentTokenType :: int
  quoted :: bool
  escaped :: bool

(* src/pkg/shared/utils/stringscanner/sql_string_scanner.go:29-39 scanner.Init.sendCurrentTokens *)
definition sendCurrentTokens :: "scan \<Rightarrow> scan" where
  "sendCurrentTokens st =
     (let res = concat (map TokenValue (current st)) in
      st\<lparr>sent := (if res \<noteq> '''' then
                   sent st @ [\<lparr>TokenType = currentTokenType st, TokenValue = res,
                               Position = Position (hd (current st))\<rparr>]
                 else sent st),
         current := [], currentTokenType := NO_TOKEN\<rparr>)"

definition push :: "int \<Rightarrow> string \<Rightarrow> nat \<Rightarrow> scan \<Rightarrow> scan" where
  "push ty v i st = st\<lparr>current := current st @ [\<lparr>TokenType = ty, TokenValue = v, Position = int i\<rparr>]\<rparr>"

definition emit :: "int \<Rightarrow> string \<Rightarrow> nat \<Rightarrow> scan \<Rightarrow> scan" where
  "emit ty v i st = st\<lparr>sent := sent st @ [\<lparr>TokenType = ty, TokenValue = v, Position = int i\<rparr>]\<rparr>"

(* src/pkg/shared/utils/stringscanner/sql_string_scanner.go:42-108 scanner.Init *)
definition scan_rune :: "scan \<Rightarrow> nat \<times> string \<Rightarrow> scan" where
  "scan_rune st ir = (case ir of (i, r) \<Rightarrow>
     if r = '' '' then
       (if quoted st then push LITERAL '' '' i st else sendCurrentTokens st)
     else if r = '','' then
       (if quoted st then push LITERAL r i st else emit LITERAL r i (sendCurrentTokens st))
     else if r = ''('' \<or> r = '')'' then emit BRACE r i (sendCurrentTokens st)
     else if r = ''='' \<or> r = ''<'' \<or> r = ''>'' then
       (let st' = (if currentTokenType st \<noteq> NO_TOKEN \<and> currentTokenType st \<noteq> OP
                   then sendCurrentTokens st else st)
        in (push OP r i st')\<lparr>currentTokenType := OP\<rparr>)
     else if r = [CHR 0x5C] then
       (if quoted st then push QUOTED_LITERAL r i (st\<lparr>escaped := True\<rparr>)
        else (let st' = (if currentTokenType st \<noteq> NO_TOKEN \<and> currentTokenType st \<noteq> LITERAL
                            \<and> currentTokenType st \<noteq> QUOTED_LITERAL
                         then sendCurrentTokens st else st)
              in push LITERAL r i (st'\<lparr>currentTokenType := LITERAL\<rparr>)))
     else if r = [CHR 0x27] then
       (if quoted st then
          (let st1 = push QUOTED_LITERAL r i st;
               st2 = (if \<not> escaped st1 then (sendCurrentTokens st1)\<lparr>quoted := False, currentTokenType := NO_TOKEN\<rparr>
                      else st1)
           in st2\<lparr>escaped := False\<rparr>)
        else push OP r i ((sendCurrentTokens st)\<lparr>quoted := True, currentTokenType := QUOTED_LITERAL\<rparr>))
     else
       (let st' = (if currentTokenType st \<noteq> NO_TOKEN \<and> currentTokenType st \<noteq> LITERAL
                      \<and> currentTokenType st \<noteq> QUOTED_LITERAL
                   then sendCurrentTokens st else st)
        in push LITERAL r i (st'\<lparr>currentTokenType := LITERAL\<rparr>)))"

(* src/pkg/shared/utils/stringscanner/sql_string_scanner.go:22-111 scanner.Init *)
definition scanner_Init :: "string \<Rightarrow> scanner \<Rightarrow> scanner" where
  "scanner_Init txt s =
     (let st = foldl scan_rune
                 \<lparr>sent = tokens s, current = [], currentTokenType = NO_TOKEN, quoted = False, escaped = False\<rparr>
                 (go_runes 0 txt)
      in s\<lparr>tokens := sent (sendCurrentTokens st)\<rparr>)"

(* src/pkg/shared/utils/stringscanner/sql_string_scanner.go:113-119 scanner.Next *)
definition scanner_Next :: "scanner \<Rightarrow> bool \<times> scanner" where
  "scanner_Next s =
     (if pos s < int (length (tokens s)) - 1 then (True, s\<lparr>pos := pos s + 1\<rparr>) else (False, s))"

(* src/pkg/shared/utils/stringscanner/sql_string_scanner.go:121-127 scanner.Peek *)
definition scanner_Peek :: "scanner \<Rightarrow> bool \<times> Token option" where
  "scanner_Peek s =
     (if pos s < int (length (tokens s)) - 1 then (True, Some (tokens s ! nat (pos s + 1))) else (False, None))"

text \<open>A panic is the result \<^const>\<open>None\<close>.\<close>

(* src/pkg/shared/utils/stringscanner/sql_string_scanner.go:129-135 scanner.Token *)
definition scanner_Token :: "scanner \<Rightarrow> Token option" where
  "scanner_Token s =
     (if pos s < 0 \<or> pos s \<ge> int (length (tokens s)) then None else Some (tokens s ! nat (pos s)))"

(* src/pkg/shared/utils/stringscanner/sql_string_scanner.go:137-141 NewSQLScanner *)
definition NewSQLScanner :: scanner where
  "NewSQLScanner = \<lparr>tokens = [], pos = - 1\<rparr>"

section \<open>The character scanner\<close>

(* src/pkg/shared/utils/stringscanner/simple_string_scanner.go:13-16 simpleStringScanner *)
record simpleStringScanner =
  simple_value :: string
  simple_pos :: int

definition ALPHA :: int where "ALPHA = 0"

definition DIGIT :: int where "DIGIT = 1"

definition DECIMALPOINT :: int where "DECIMALPOINT = 2"

definition SYMBOL :: int where "SYMBOL = 3"

text \<open>The first rune of the value of a token is the byte it was made from.\<close>

(* src/pkg/shared/utils/stringscanner/simple_string_scanner.go:54-69 updateTokenType *)
definition updateTokenType :: "Token \<Rightarrow> Token" where
  "updateTokenType token =
     (case go_runes 0 (TokenValue token) of
        (_, [c]) # _ \<Rightarrow>
          (let n = of_char c :: nat in
           token\<lparr>TokenType :=
             (if (97 \<le> n \<and> n \<le> 122) \<or> (65 \<le> n \<and> n \<le> 90) then ALPHA
              else if 48 \<le> n \<and> n \<le> 57 then DIGIT
              else if n = 46 then DECIMALPOINT
              else SYMBOL)\<rparr>)
      | _ \<Rightarrow> token\<lparr>TokenType := SYMBOL\<rparr>)"

definition byte_token :: "string \<Rightarrow> nat \<Rightarrow> Token" where
  "byte_token v i = updateTokenType \<lparr>TokenType = 0, TokenValue = string_of_byte (v ! i), Position = int i\<rparr>"

(* src/pkg/shared/utils/stringscanner/simple_string_scanner.go:18-24 simpleStringScanner.Next *)
definition simple_Next :: "simpleStringScanner \<Rightarrow> bool \<times> simpleStringScanner" where
  "simple_Next s =
     (if simple_pos s < int (length (simple_value s)) - 1 then (True, s\<lparr>simple_pos := simple_pos s + 1\<rparr>)
      else (False, s))"

(* src/pkg/shared/utils/stringscanner/simple_string_scanner.go:26-35 simpleStringScanner.Peek *)
definition simple_Peek :: "simpleStringScanner \<Rightarrow> bool \<times> Token option" where
  "simple_Peek s =
     (if simple_pos s < int (length (simple_value s)) - 1
      then (True, Some (byte_token (simple_value s) (nat (simple_pos s + 1))))
      else (False, None))"

text \<open>Indexing the string at position -1 and the explicit panic are both \<^const>\<open>None\<close>.\<close>

(* src/pkg/shared/utils/stringscanner/simple_string_scanner.go:37-47 simpleStringScanner.Token *)
definition simple_Token :: "simpleStringScanner \<Rightarrow> Token option" where
  "simple_Token s =
     (if simple_pos s < int (length (simple_value s)) then
        (if simple_pos s < 0 then None else Some (byte_token (simple_value s) (nat (simple_pos s))))
      else None)"

(* src/pkg/shared/utils/stringscanner/simple_string_scanner.go:49-52 simpleStringScanner.Init *)
definition simple_Init :: "string \<Rightarrow> simpleStringScanner \<Rightarrow> simpleStringScanner" where
  "simple_Init v s = s\<lparr>simple_pos := - 1, simple_value := v\<rparr>"

(* src/pkg/shared/utils/stringscanner/simple_string_scanner.go:71-73 NewSimpleScanner *)
definition NewSimpleScanner :: simpleStringScanner where
  "NewSimpleScanner = \<lparr>simple_value = '''', simple_pos = 0\<rparr>"

section \<open>Lemmas on runes\<close>

lemma decode_len_ascii: "(of_char c :: nat) < 128 \<Longrightarrow> decode_len (c # s) = 1"
  by (simp add: decode_len_def decode_bytes_def)

lemma decode_bytes_le: "decode_bytes bs \<le> length bs"
  by (auto simp: decode_bytes_def split: list.splits)

lemma decode_len_le: "decode_len s \<le> length s"
  using decode_bytes_le[of "map of_char (take 4 s)"] by (simp add: decode_len_def)

lemma ascii_simps [simp]: "ascii []" "ascii (c # s) \<longleftrightarrow> (of_char c :: nat) < 128 \<and> ascii s"
  "ascii (s @ t) \<longleftrightarrow> ascii s \<and> ascii t"
  by (auto simp: ascii_def)

lemma go_runes_ascii:
  "ascii s \<Longrightarrow> go_runes i s = zip [i..<i + length s] (map (\<lambda>c. [c]) s)"
  by (induction s arbitrary: i) (simp_all add: decode_len_ascii upt_conv_Cons Let_def del: upt_Suc)

lemma ascii_valid: "ascii s \<Longrightarrow> valid_utf8 s"
  by (induction s) (simp_all add: decode_len_ascii Let_def)

text \<open>The runes of a text behind a valid one: decoding looks no further than the rune it decodes.\<close>

lemma decode_len_append:
  assumes "decode_len s \<noteq> 0"
  shows "decode_len (s @ t) = decode_len s"
proof (cases s)
  case (Cons a r)
  show ?thesis
  proof (cases r)
    case r: (Cons b r')
    show ?thesis
    proof (cases r')
      case r': (Cons c r'')
      then show ?thesis using assms Cons r
        by (cases r''; cases t) (simp_all add: decode_len_def decode_bytes_def split: if_splits)
    next
      case Nil
      then show ?thesis using assms Cons r by (cases t) (simp_all add: decode_len_def decode_bytes_def split: if_splits)
    qed
  next
    case Nil
    then show ?thesis using assms Cons by (cases t) (simp_all add: decode_len_def decode_bytes_def split: if_splits)
  qed
qed (use assms in \<open>simp add: decode_len_def decode_bytes_def\<close>)

lemma go_runes_offset: "map snd (go_runes i s) = map snd (go_runes j s)"
proof (induction i s arbitrary: j rule: go_runes.induct)
  case (2 i c s)
  define n where "n = decode_len (c # s)"
  show ?case
    using 2(1)[OF n_def, of "j + 1"] 2(2)[OF n_def, of "j + n"]
    by (cases "n = 0") (simp_all add: Let_def flip: n_def)
qed simp

lemma go_runes_append:
  "valid_utf8 s \<Longrightarrow> map snd (go_runes i (s @ t)) = map snd (go_runes i s) @ map snd (go_runes i t)"
proof (induction i s rule: go_runes.induct)
  case (2 i c s)
  define n where "n = decode_len (c # s)"
  have n: "n \<noteq> 0" "valid_utf8 (drop (n - 1) s)" "n \<le> Suc (length s)"
    using 2(3) decode_len_le[of "c # s"] by (auto simp: n_def Let_def)
  have a: "decode_len (c # s @ t) = n" using decode_len_append[of "c # s" t] n(1) by (simp add: n_def)
  have "map snd (go_runes (i + n) (drop (n - 1) s @ t)) =
      map snd (go_runes (i + n) (drop (n - 1) s)) @ map snd (go_runes i t)"
    using 2(2)[OF n_def _ n(2)] n(1) go_runes_offset[of "i + n" t i] by simp
  moreover have "drop (n - 1) (s @ t) = drop (n - 1) s @ t" "take n (c # s @ t) = take n (c # s)" using n(1,3) by (cases n; simp)+
  ultimately show ?case using n(1) a by (simp add: Let_def flip: n_def)
qed simp

lemma go_runes_concat: "valid_utf8 s \<Longrightarrow> concat (map snd (go_runes i s)) = s"
proof (induction i s rule: go_runes.induct)
  case (2 i c s)
  define n where "n = decode_len (c # s)"
  have n: "n \<noteq> 0" "valid_utf8 (drop (n - 1) s)" using 2(3) by (auto simp: n_def Let_def)
  have "take n (c # s) @ drop (n - 1) s = c # s" using n(1) append_take_drop_id[of n "c # s"] by (cases n) auto
  then show ?case using 2(2)[OF n_def _ n(2)] n(1) by (simp add: Let_def flip: n_def)
qed simp

lemma go_runes_length: "length (go_runes i s) \<le> length s"
proof (induction i s rule: go_runes.induct)
  case (2 i c s)
  define n where "n = decode_len (c # s)"
  show ?case using 2(1)[OF n_def] 2(2)[OF n_def] by (cases "n = 0") (simp_all add: Let_def flip: n_def)
qed simp

text \<open>The runes of a text lie side by side in it.\<close>

fun placed :: "nat \<Rightarrow> (nat \<times> string) list \<Rightarrow> string \<Rightarrow> bool" where
  "placed i [] txt \<longleftrightarrow> txt = []"
| "placed i ((j, r) # rs) txt \<longleftrightarrow>
     j = i \<and> r \<noteq> [] \<and> take (length r) txt = r \<and> placed (i + length r) rs (drop (length r) txt)"

lemma go_runes_placed: "valid_utf8 s \<Longrightarrow> placed i (go_runes i s) s"
proof (induction i s rule: go_runes.induct)
  case (2 i c s)
  define n where "n = decode_len (c # s)"
  have n: "n \<noteq> 0" "valid_utf8 (drop (n - 1) s)" "n \<le> Suc (length s)"
    using 2(3) decode_len_le[of "c # s"] by (auto simp: n_def Let_def)
  have d: "drop n (c # s) = drop (n - 1) s" using n(1) by (cases n) auto
  have l: "length (take n (c # s)) = n" using n(3) by simp
  have "placed (i + n) (go_runes (i + n) (drop (n - 1) s)) (drop (n - 1) s)"
    using 2(2)[OF n_def _ n(2)] n(1) by simp
  then show ?case using n(1) l d by (simp add: n_def[symmetric] Let_def)
qed simp

section \<open>The contract of a scanner\<close>

text \<open>The loop \<^verbatim>\<open>for s.Next() { use(s.Token()) }\<close>, for at most \<open>n\<close> rounds.\<close>

fun drain :: "nat \<Rightarrow> ('s \<Rightarrow> bool \<times> 's) \<Rightarrow> ('s \<Rightarrow> Token option) \<Rightarrow> 's \<Rightarrow> Token option list \<times> 's" where
  "drain 0 nxt tok s = ([], s)"
| "drain (Suc n) nxt tok s =
     (case nxt s of (ok, s') \<Rightarrow>
        if ok then (case drain n nxt tok s' of (ts, s'') \<Rightarrow> (tok s' # ts, s'')) else ([], s'))"

locale token_stream =
  fixes nxt :: "'s \<Rightarrow> bool \<times> 's"
    and peek :: "'s \<Rightarrow> bool \<times> Token option"
    and tok :: "'s \<Rightarrow> Token option"
    and inv :: "'s \<Rightarrow> bool"
    and remaining :: "'s \<Rightarrow> Token list"
  assumes next_end: "inv s \<Longrightarrow> remaining s = [] \<Longrightarrow> nxt s = (False, s)"
    and next_more: "inv s \<Longrightarrow> remaining s = t # ts \<Longrightarrow>
          \<exists>s'. nxt s = (True, s') \<and> inv s' \<and> remaining s' = ts \<and> tok s' = Some t"
    and peek_hd: "inv s \<Longrightarrow>
          peek s = (remaining s \<noteq> [], case remaining s of [] \<Rightarrow> None | t # _ \<Rightarrow> Some t)"
begin

lemma peek_agrees:
  assumes "inv s" "nxt s = (True, s')"
  shows "peek s = (True, tok s')"
  using assms next_end[of s] next_more[of s] peek_hd[of s] by (cases "remaining s") auto

lemma drain_all:
  "inv s \<Longrightarrow> length (remaining s) \<le> n \<Longrightarrow>
     \<exists>s'. drain n nxt tok s = (map Some (remaining s), s') \<and> inv s' \<and> nxt s' = (False, s')"
proof (induction n arbitrary: s)
  case (Suc n)
  show ?case
  proof (cases "remaining s")
    case Nil
    then show ?thesis using Suc.prems next_end[of s] by auto
  next
    case (Cons t ts)
    then obtain s1 where s1: "nxt s = (True, s1)" "inv s1" "remaining s1 = ts" "tok s1 = Some t"
      using next_more[OF Suc.prems(1)] by blast
    then obtain s' where "drain n nxt tok s1 = (map Some ts, s')" "inv s'" "nxt s' = (False, s')"
      using Suc.IH[of s1] Suc.prems(2) Cons by auto
    then show ?thesis using s1 Cons by auto
  qed
qed (auto intro: next_end)

end

lemma drop_nth_Cons: "i < length xs \<Longrightarrow> drop i xs = t # ts \<Longrightarrow> xs ! i = t \<and> drop (Suc i) xs = ts"
  by (metis Cons_nth_drop_Suc list.inject)

lemma sql_stream:
  "token_stream scanner_Next scanner_Peek scanner_Token (\<lambda>s. - 1 \<le> pos s) (\<lambda>s. drop (nat (pos s + 1)) (tokens s))"
proof
  fix s :: scanner and t ts
  assume p: "- 1 \<le> pos s"
  show "scanner_Next s = (False, s)" if "drop (nat (pos s + 1)) (tokens s) = []"
    using that p by (auto simp: scanner_Next_def)
  show "\<exists>s'. scanner_Next s = (True, s') \<and> - 1 \<le> pos s' \<and> drop (nat (pos s' + 1)) (tokens s') = ts \<and> scanner_Token s' = Some t"
    if d: "drop (nat (pos s + 1)) (tokens s) = t # ts"
  proof -
    have l: "nat (pos s + 1) < length (tokens s)" using d by (metis drop_eq_Nil list.distinct(1) not_less)
    have "nat (2 + pos s) = Suc (nat (pos s + 1))" using p by auto
    then show ?thesis using l p drop_nth_Cons[OF l d]
      by (auto simp: scanner_Next_def scanner_Token_def add.commute)
  qed
  show "scanner_Peek s = (drop (nat (pos s + 1)) (tokens s) \<noteq> [],
          case drop (nat (pos s + 1)) (tokens s) of [] \<Rightarrow> None | t # _ \<Rightarrow> Some t)"
  proof (cases "nat (pos s + 1) < length (tokens s)")
    case True
    then show ?thesis using p by (auto simp: scanner_Peek_def Cons_nth_drop_Suc[symmetric])
  qed (use p in \<open>auto simp: scanner_Peek_def\<close>)
qed

interpretation sql: token_stream scanner_Next scanner_Peek scanner_Token
  "\<lambda>s. - 1 \<le> pos s" "\<lambda>s. drop (nat (pos s + 1)) (tokens s)"
  by (rule sql_stream)

definition simple_remaining :: "simpleStringScanner \<Rightarrow> Token list" where
  "simple_remaining s = map (byte_token (simple_value s)) [nat (simple_pos s + 1)..<length (simple_value s)]"

interpretation simple: token_stream simple_Next simple_Peek simple_Token
  "\<lambda>s. - 1 \<le> simple_pos s" simple_remaining
proof
  fix s :: simpleStringScanner and t ts
  assume p: "- 1 \<le> simple_pos s"
  show "simple_Next s = (False, s)" if "simple_remaining s = []"
    using that p by (auto simp: simple_Next_def simple_remaining_def)
  show "\<exists>s'. simple_Next s = (True, s') \<and> - 1 \<le> simple_pos s' \<and> simple_remaining s' = ts \<and> simple_Token s' = Some t"
    if d: "simple_remaining s = t # ts"
  proof -
    have l: "nat (simple_pos s + 1) < length (simple_value s)"
      using d by (auto simp: simple_remaining_def dest: upt_eq_Cons_conv[THEN iffD1])
    have "nat (2 + simple_pos s) = Suc (nat (simple_pos s + 1))" using p by auto
    then show ?thesis using l p d
      by (auto simp: simple_Next_def simple_Token_def simple_remaining_def upt_conv_Cons)
  qed
  show "simple_Peek s = (simple_remaining s \<noteq> [], case simple_remaining s of [] \<Rightarrow> None | t # _ \<Rightarrow> Some t)"
    using p by (auto simp: simple_Peek_def simple_remaining_def upt_conv_Cons)
qed

section \<open>The tokens of the SQL scanner\<close>

text \<open>The pieces a scan has produced so far: the tokens it sent and the one it is building.\<close>

definition piece :: "Token \<Rightarrow> int \<times> string" where
  "piece t = (Position t, TokenValue t)"

definition pending :: "Token list \<Rightarrow> (int \<times> string) list" where
  "pending cur = (if cur = [] then [] else [(Position (hd cur), concat (map TokenValue cur))])"

definition pieces :: "scan \<Rightarrow> (int \<times> string) list" where
  "pieces st = map piece (sent st) @ pending (current st)"

definition not_space :: "char \<Rightarrow> bool" where
  "not_space c \<longleftrightarrow> c \<noteq> CHR '' ''"

text \<open>A piece is the part of the text at its position.\<close>

definition piece_of :: "string \<Rightarrow> int \<times> string \<Rightarrow> bool" where
  "piece_of X pv \<longleftrightarrow> 0 \<le> fst pv \<and> snd pv \<noteq> [] \<and> take (length (snd pv)) (drop (nat (fst pv)) X) = snd pv"

definition piece_end :: "int \<times> string \<Rightarrow> int" where
  "piece_end pv = fst pv + int (length (snd pv))"

definition covers :: "string \<Rightarrow> nat \<Rightarrow> (int \<times> string) list \<Rightarrow> bool" where
  "covers X k ps \<longleftrightarrow> (\<forall>p \<in> set ps. piece_of X p \<and> piece_end p \<le> int k) \<and>
     sorted_wrt (\<lambda>p q. piece_end p \<le> fst q) ps \<and>
     filter not_space (concat (map snd ps)) = filter not_space (take k X)"

definition scan_inv :: "string \<Rightarrow> nat \<Rightarrow> scan \<Rightarrow> bool" where
  "scan_inv X k st \<longleftrightarrow> covers X k (pieces st) \<and>
     (\<forall>t \<in> set (current st). TokenValue t \<noteq> []) \<and>
     (\<forall>p \<in> set (pending (current st)). piece_end p = int k)"

definition rune_at :: "string \<Rightarrow> nat \<Rightarrow> string \<Rightarrow> bool" where
  "rune_at X k r \<longleftrightarrow> r \<noteq> [] \<and> take (length r) (drop k X) = r"

lemma take_rune: "rune_at X k r \<Longrightarrow> take (k + length r) X = take k X @ r"
  by (simp add: rune_at_def take_add)

lemma covers_append:
  assumes "covers X k ps" "rune_at X k r"
  shows "covers X (k + length r) (ps @ [(int k, r)])"
  using assms take_rune[OF assms(2)]
  by (auto simp: covers_def piece_of_def piece_end_def rune_at_def sorted_wrt_append)

lemma covers_extend:
  assumes "covers X k (ps @ [(p, v)])" "piece_end (p, v) = int k" "rune_at X k r"
  shows "covers X (k + length r) (ps @ [(p, v @ r)])"
proof -
  have k: "k = nat p + length v" "0 \<le> p" "take (length v) (drop (nat p) X) = v" "v \<noteq> []"
    using assms(1,2) by (auto simp: covers_def piece_of_def piece_end_def)
  have "drop (length v) (drop (nat p) X) = drop k X" using k(1) by (simp add: add.commute)
  then have "take (length v + length r) (drop (nat p) X) = v @ r"
    using k(3) assms(3) by (simp only: take_add rune_at_def)
  then show ?thesis
    using assms(1) k take_rune[OF assms(3)]
    by (fastforce simp: covers_def piece_of_def piece_end_def sorted_wrt_append)
qed

lemma covers_skip:
  assumes "covers X k ps" "rune_at X k '' ''"
  shows "covers X (k + 1) ps"
  using assms take_rune[OF assms(2)] by (fastforce simp: covers_def not_space_def)

lemma concat_map_Nil: "\<forall>t \<in> set ts. f t \<noteq> [] \<Longrightarrow> concat (map f ts) = [] \<longleftrightarrow> ts = []"
  by (cases ts) auto

lemma send_current [simp]: "current (sendCurrentTokens st) = []"
  by (simp add: sendCurrentTokens_def Let_def)

lemma send_flags [simp]: "quoted (sendCurrentTokens st) = quoted st" "escaped (sendCurrentTokens st) = escaped st"
  by (simp_all add: sendCurrentTokens_def Let_def)

lemma send_pieces:
  "\<forall>t \<in> set (current st). TokenValue t \<noteq> [] \<Longrightarrow> pieces (sendCurrentTokens st) = pieces st"
  using concat_map_Nil[of "current st" TokenValue]
  by (auto simp: pieces_def sendCurrentTokens_def Let_def pending_def piece_def)

lemma scan_inv_send: "scan_inv X k st \<Longrightarrow> scan_inv X k (sendCurrentTokens st)"
  by (simp add: scan_inv_def send_pieces pending_def)

lemma scan_inv_push:
  assumes "scan_inv X k st" "rune_at X k r"
  shows "scan_inv X (k + length r) (push ty r k st)"
proof (cases "current st = []")
  case True
  then show ?thesis using assms covers_append[of X k "pieces st" r]
    by (auto simp: scan_inv_def pieces_def push_def pending_def piece_end_def rune_at_def)
next
  case False
  then show ?thesis
    using assms covers_extend[of X k "map piece (sent st)" "Position (hd (current st))" "concat (map TokenValue (current st))" r]
    by (auto simp: scan_inv_def pieces_def push_def pending_def piece_end_def rune_at_def)
qed

lemma scan_inv_emit:
  assumes "scan_inv X k st" "rune_at X k r" "current st = []"
  shows "scan_inv X (k + length r) (emit ty r k st)"
  using assms covers_append[of X k "pieces st" r]
  by (auto simp: scan_inv_def pieces_def emit_def pending_def piece_def)

lemma scan_inv_flags [simp]:
  "scan_inv X k (st\<lparr>currentTokenType := a\<rparr>) = scan_inv X k st"
  "scan_inv X k (st\<lparr>quoted := b\<rparr>) = scan_inv X k st"
  "scan_inv X k (st\<lparr>escaped := b\<rparr>) = scan_inv X k st"
  by (simp_all add: scan_inv_def pieces_def)

lemma scan_inv_skip:
  assumes "scan_inv X k st" "rune_at X k '' ''" "current st = []"
  shows "scan_inv X (k + 1) st"
  using covers_skip[of X k "pieces st"] assms by (simp add: scan_inv_def pending_def)

lemma scan_inv_steps:
  "scan_inv X k st \<Longrightarrow> rune_at X k r \<Longrightarrow> k' = k + length r \<Longrightarrow> scan_inv X k' (push ty r k st)"
  "scan_inv X k st \<Longrightarrow> rune_at X k r \<Longrightarrow> k' = k + length r \<Longrightarrow> scan_inv X k' (emit ty r k (sendCurrentTokens st))"
  "scan_inv X k st \<Longrightarrow> rune_at X k '' '' \<Longrightarrow> k' = k + 1 \<Longrightarrow> scan_inv X k' (sendCurrentTokens st)"
  using scan_inv_push scan_inv_emit scan_inv_send scan_inv_skip send_current by blast+

lemma scan_inv_if:
  "(b \<Longrightarrow> scan_inv X k x) \<Longrightarrow> (\<not> b \<Longrightarrow> scan_inv X k y) \<Longrightarrow> scan_inv X k (if b then x else y)"
  by simp

lemma scan_inv_rune:
  assumes "scan_inv X k st" "rune_at X k r"
  shows "scan_inv X (k + length r) (scan_rune st (k, r))"
proof (cases "r = '' ''")
  case True
  then show ?thesis using assms by (simp add: scan_rune_def scan_inv_steps)
next
  case False
  have "scan_inv X k' (scan_rune st (k, r))" if "k' = k + length r" for k'
    unfolding scan_rune_def Let_def prod.case if_not_P[OF False]
    by (intro scan_inv_if scan_inv_flags[THEN iffD2] scan_inv_steps(1,2) scan_inv_send assms that)
  then show ?thesis by blast
qed

lemma scan_inv_runes:
  "placed k rs (drop k X) \<Longrightarrow> k \<le> length X \<Longrightarrow> scan_inv X k st \<Longrightarrow> scan_inv X (length X) (foldl scan_rune st rs)"
proof (induction rs arbitrary: k st)
  case (Cons jr rs)
  obtain j r where jr: "jr = (j, r)" by (cases jr)
  have r: "j = k" "rune_at X k r" "placed (k + length r) rs (drop (k + length r) X)"
    using Cons.prems(1) by (auto simp: jr rune_at_def add.commute)
  have "length r \<le> length X - k" using r(2) by (metis length_drop length_take min.cobounded1 rune_at_def min.absorb_iff2)
  then have "k + length r \<le> length X" using Cons.prems(2) by simp
  then show ?case using Cons.IH[OF r(3)] scan_inv_rune[OF Cons.prems(3) r(2)] by (simp add: jr r(1))
qed simp

lemma scanner_Init_covers:
  assumes "valid_utf8 txt"
  shows "covers txt (length txt) (map piece (tokens (scanner_Init txt NewSQLScanner)))"
proof -
  define st where "st = foldl scan_rune \<lparr>sent = [], current = [], currentTokenType = NO_TOKEN, quoted = False, escaped = False\<rparr> (go_runes 0 txt)"
  have "scan_inv txt (length txt) st"
    unfolding st_def
    by (rule scan_inv_runes[of 0])
       (simp_all add: go_runes_placed assms scan_inv_def covers_def pieces_def pending_def)
  then have "scan_inv txt (length txt) (sendCurrentTokens st)" by (rule scan_inv_send)
  then have "covers txt (length txt) (map piece (sent (sendCurrentTokens st)))"
    by (simp add: scan_inv_def pieces_def pending_def)
  moreover have "tokens (scanner_Init txt NewSQLScanner) = sent (sendCurrentTokens st)"
    by (simp add: scanner_Init_def NewSQLScanner_def st_def)
  ultimately show ?thesis by simp
qed

section \<open>Properties\<close>

text \<open>C15. The SQL scanner splits a valid UTF-8 text faithfully: the tokens a fresh scanner produces
  are, in order, disjoint pieces of the text, each equal to the text at its position, and apart from
  spaces every byte of the text is in exactly one of them.\<close>

theorem scanner_Init_pieces:
  assumes "valid_utf8 txt"
  shows "(\<forall>t \<in> set (tokens (scanner_Init txt NewSQLScanner)).
           0 \<le> Position t \<and> TokenValue t \<noteq> [] \<and>
           take (length (TokenValue t)) (drop (nat (Position t)) txt) = TokenValue t) \<and>
         sorted_wrt (\<lambda>t u. Position t + int (length (TokenValue t)) \<le> Position u)
           (tokens (scanner_Init txt NewSQLScanner)) \<and>
         filter not_space (concat (map TokenValue (tokens (scanner_Init txt NewSQLScanner)))) = filter not_space txt"
  using scanner_Init_covers[OF assms]
  by (auto simp: covers_def piece_of_def piece_def piece_end_def sorted_wrt_map comp_def)

theorem scanner_Init_pieces_witness:
  "valid_utf8 ''a = b, c'' \<and>
   map TokenValue (tokens (scanner_Init ''a = b, c'' NewSQLScanner)) = [''a'', ''='', ''b'', '','', ''c''] \<and>
   filter not_space (concat (map TokenValue (tokens (scanner_Init ''a = b, c'' NewSQLScanner)))) = ''a=b,c''"
proof -
  have v: "valid_utf8 ''a = b, c''" by code_simp
  have "map TokenValue (tokens (scanner_Init ''a = b, c'' NewSQLScanner)) = [''a'', ''='', ''b'', '','', ''c'']"
    by code_simp
  moreover have "filter not_space ''a = b, c'' = ''a=b,c''" by code_simp
  ultimately show ?thesis using v scanner_Init_pieces[OF v] by simp
qed

end
