(* ===== verification/Go_Regexp.thy ===== *)
theory Go_Regexp
  imports String_Scanner
begin

text \<open>
  The part of Go's package \<^verbatim>\<open>regexp\<close> the program uses: the syntax of its patterns (literals,
  escapes, classes, groups, alternation, repetition and the anchors) and matching over the runes
  of a string.  Patterns stay the strings the source writes; \<open>rparse\<close> reads them.
\<close>

section \<open>Syntax\<close>

datatype regex =
  REps
| RBegin
| REnd
| RClass bool "(char \<times> char) list"
| RSeq regex regex
| RAlt regex regex
| RStar regex

definition lit :: "char \<Rightarrow> regex" where
  "lit c = RClass False [(c, c)]"

text \<open>A frame of the parser is a group that is open: its finished alternatives and the items
  of the alternative being read, the last one first.\<close>

type_synonym frame = "regex list \<times> regex list"

fun seq_of :: "regex list \<Rightarrow> regex" where
  "seq_of [] = REps"
| "seq_of [r] = r"
| "seq_of (r # rs) = RSeq (seq_of rs) r"

fun alt_of :: "regex list \<Rightarrow> regex" where
  "alt_of [] = REps"
| "alt_of [r] = r"
| "alt_of (r # rs) = RAlt r (alt_of rs)"

definition close_frame :: "frame \<Rightarrow> regex" where
  "close_frame f = alt_of (rev (seq_of (snd f) # fst f))"

fun push_item :: "regex \<Rightarrow> frame list \<Rightarrow> frame list" where
  "push_item r [] = []"
| "push_item r ((alts, items) # fs) = (alts, r # items) # fs"

fun repeat_item :: "(regex \<Rightarrow> regex) \<Rightarrow> frame list \<Rightarrow> frame list option" where
  "repeat_item f ((alts, r # items) # fs) = Some ((alts, f r # items) # fs)"
| "repeat_item f _ = None"

text \<open>Reading a pattern; \<open>rclass\<close> reads the ranges of a bracket expression.  A pattern outside
  this syntax is rejected.\<close>

fun rparse :: "frame list \<Rightarrow> string \<Rightarrow> regex option"
  and rclass :: "bool \<Rightarrow> (char \<times> char) list \<Rightarrow> frame list \<Rightarrow> string \<Rightarrow> regex option" where
  "rparse [f] [] = Some (close_frame f)"
| "rparse _ [] = None"
| "rparse fs (c # s) =
     (if c = CHR ''('' then rparse (([], []) # fs) s
      else if c = CHR '')'' then
        (case fs of f # g # fs' \<Rightarrow> rparse (push_item (close_frame f) (g # fs')) s | _ \<Rightarrow> None)
      else if c = CHR ''|'' then
        (case fs of (alts, items) # fs' \<Rightarrow> rparse ((seq_of items # alts, []) # fs') s | _ \<Rightarrow> None)
      else if c = CHR ''*'' then
        (case repeat_item RStar fs of Some fs' \<Rightarrow> rparse fs' s | None \<Rightarrow> None)
      else if c = CHR ''+'' then
        (case repeat_item (\<lambda>r. RSeq r (RStar r)) fs of Some fs' \<Rightarrow> rparse fs' s | None \<Rightarrow> None)
      else if c = CHR ''?'' then
        (case repeat_item (\<lambda>r. RAlt r REps) fs of Some fs' \<Rightarrow> rparse fs' s | None \<Rightarrow> None)
      else if c = CHR ''^'' then rparse (push_item RBegin fs) s
      else if c = CHR ''$'' then rparse (push_item REnd fs) s
      else if c = CHR ''['' then
        (case s of d # s' \<Rightarrow> if d = CHR ''^'' then rclass True [] fs s' else rclass False [] fs (d # s') | [] \<Rightarrow> None)
      else if c = CHR 0x5C then
        (case s of d # s' \<Rightarrow> rparse (push_item (if d = CHR ''d'' then RClass False [(CHR ''0'', CHR ''9'')] else lit d) fs) s'
         | [] \<Rightarrow> None)
      else if c = CHR ''{'' \<or> c = CHR ''.'' then None
      else rparse (push_item (lit c) fs) s)"
| "rclass neg rs fs [] = None"
| "rclass neg rs fs (c # s) =
     (if c = CHR '']'' then rparse (push_item (RClass neg (rev rs)) fs) s
      else (case s of
          d # e # s' \<Rightarrow> if d = CHR ''-'' \<and> e \<noteq> CHR '']'' then rclass neg ((c, e) # rs) fs s'
                        else rclass neg ((c, c) # rs) fs (d # e # s')
        | _ \<Rightarrow> rclass neg ((c, c) # rs) fs s))"

definition regexp_Compile :: "string \<Rightarrow> regex option" where
  "regexp_Compile p = rparse [([], [])] p"

section \<open>Matching\<close>

definition in_class :: "bool \<Rightarrow> (char \<times> char) list \<Rightarrow> string \<Rightarrow> bool" where
  "in_class neg rs r =
     ((case r of [c] \<Rightarrow> \<exists>ab \<in> set rs. (of_char (fst ab) :: nat) \<le> of_char c \<and> (of_char c :: nat) \<le> of_char (snd ab)
       | _ \<Rightarrow> False) \<noteq> neg)"

fun closure :: "nat \<Rightarrow> (nat \<Rightarrow> nat list) \<Rightarrow> nat list \<Rightarrow> nat list" where
  "closure 0 f S = S"
| "closure (Suc n) f S = remdups (S @ concat (map f (closure n f S)))"

text \<open>The positions at which a match that starts at position \<open>i\<close> can end, in the runes \<open>X\<close>.\<close>

fun ends :: "regex \<Rightarrow> string list \<Rightarrow> nat \<Rightarrow> nat list" where
  "ends REps X i = [i]"
| "ends RBegin X i = (if i = 0 then [i] else [])"
| "ends REnd X i = (if i = length X then [i] else [])"
| "ends (RClass neg rs) X i = (if i < length X \<and> in_class neg rs (X ! i) then [Suc i] else [])"
| "ends (RSeq a b) X i = concat (map (ends b X) (ends a X i))"
| "ends (RAlt a b) X i = ends a X i @ ends b X i"
| "ends (RStar a) X i = closure (length X) (ends a X) [i]"

text \<open>\<^verbatim>\<open>regexp.Match\<close>: some part of the text matches.\<close>

definition regex_match :: "regex \<Rightarrow> string \<Rightarrow> bool" where
  "regex_match r s = (let X = map snd (go_runes 0 s) in \<exists>i \<in> set [0..<Suc (length X)]. ends r X i \<noteq> [])"

definition regexp_Match :: "string \<Rightarrow> string \<Rightarrow> bool" where
  "regexp_Match p s = (case regexp_Compile p of None \<Rightarrow> False | Some r \<Rightarrow> regex_match r s)"

text \<open>\<^verbatim>\<open>FindString\<close> for a pattern that ends with \<^verbatim>\<open>$\<close>: every match ends at the end of the text, so the
  leftmost match is the suffix from the first position where one starts.  The empty string when
  there is none.\<close>

definition regexp_FindSuffix :: "string \<Rightarrow> string \<Rightarrow> string" where
  "regexp_FindSuffix p s =
     (case regexp_Compile p of None \<Rightarrow> ''''
      | Some r \<Rightarrow>
         (let X = map snd (go_runes 0 s) in
          case List.find (\<lambda>i. ends r X i \<noteq> []) [0..<Suc (length X)] of
            None \<Rightarrow> '''' | Some i \<Rightarrow> concat (drop i X)))"

section \<open>Sequences of classes between anchors\<close>

text \<open>A text matches \<open>^c\<^sub>1...c\<^sub>n$\<close> when its runes are members of the classes, one by one.\<close>

fun class_seq :: "regex \<Rightarrow> (bool \<times> (char \<times> char) list) list \<Rightarrow> regex" where
  "class_seq r [] = r"
| "class_seq r ((neg, rs) # cs) = class_seq (RSeq r (RClass neg rs)) cs"

definition class_ok :: "bool \<times> (char \<times> char) list \<Rightarrow> string \<Rightarrow> bool" where
  "class_ok c r = in_class (fst c) (snd c) r"

lemma class_seq_snoc: "class_seq r (cs @ [c]) = RSeq (class_seq r cs) (RClass (fst c) (snd c))"
  by (induction r cs rule: class_seq.induct) (cases c, auto)

lemma list_all2_right: "list_all2 P xs ys \<Longrightarrow> y \<in> set ys \<Longrightarrow> \<exists>x \<in> set xs. P x y"
  by (induction rule: list_all2_induct) auto

lemma ends_class_seq:
  "ends (class_seq RBegin cs) X i =
     (if i = 0 \<and> length cs \<le> length X \<and> list_all2 class_ok cs (take (length cs) X) then [length cs] else [])"
proof (induction cs rule: rev_induct)
  case (snoc c cs)
  show ?case
  proof (cases "length cs < length X")
    case True
    then have "take (length (cs @ [c])) X = take (length cs) X @ [X ! length cs]"
      by (simp add: take_Suc_conv_app_nth)
    then have "list_all2 class_ok (cs @ [c]) (take (length (cs @ [c])) X) \<longleftrightarrow>
        list_all2 class_ok cs (take (length cs) X) \<and> class_ok c (X ! length cs)"
      using True by (simp add: list_all2_append)
    then show ?thesis using True by (auto simp: class_seq_snoc snoc class_ok_def[symmetric])
  qed (simp add: class_seq_snoc snoc)
qed simp

lemma class_seq_match:
  "regex_match (RSeq (class_seq RBegin cs) REnd) s \<longleftrightarrow> list_all2 class_ok cs (map snd (go_runes 0 s))"
proof -
  define X where "X = map snd (go_runes 0 s)"
  have e: "ends (RSeq (class_seq RBegin cs) REnd) X i \<noteq> [] \<longleftrightarrow> i = 0 \<and> list_all2 class_ok cs X" for i
  proof (cases "length cs = length X")
    case False
    then have "\<not> list_all2 class_ok cs X" by (auto dest: list_all2_lengthD)
    then show ?thesis using False by (simp add: ends_class_seq)
  qed (simp add: ends_class_seq)
  show ?thesis unfolding regex_match_def Let_def X_def[symmetric] e by (auto simp del: upt_Suc)
qed

lemma in_class_single [simp]: "in_class False [(a, a)] r \<longleftrightarrow> r = [a]"
  by (auto simp: in_class_def split: list.splits)

lemma in_class_pair [simp]: "in_class False [(a, a), (b, b)] r \<longleftrightarrow> r = [a] \<or> r = [b]"
  by (auto simp: in_class_def split: list.splits)

lemma runes_single:
  "(\<forall>r \<in> set (map snd (go_runes i s)). length r = 1) \<Longrightarrow> concat (map snd (go_runes i s)) = s"
proof (induction i s rule: go_runes.induct)
  case (2 i c s)
  define n where "n = decode_len (c # s)"
  have "n = 1"
  proof (cases "n = 0")
    case True
    then show ?thesis using 2(3) by (simp add: n_def[symmetric] replacement_rune_def)
  next
    case False
    then show ?thesis using 2(3) decode_len_le[of "c # s"] by (simp add: n_def[symmetric])
  qed
  then show ?case using 2(2)[OF n_def] 2(3) by (simp add: n_def[symmetric])
qed simp

text \<open>A word of single-rune classes: the text has the same length, and its characters are
  members of the classes.\<close>

lemma class_seq_text:
  assumes "regex_match (RSeq (class_seq RBegin cs) REnd) s"
    and "\<forall>c \<in> set cs. \<not> fst c"
  obtains rs where "list_all2 class_ok cs rs" "s = concat rs"
proof -
  have m: "list_all2 class_ok cs (map snd (go_runes 0 s))" using assms(1) by (simp add: class_seq_match)
  have "length r = 1" if "class_ok c r" "\<not> fst c" for c r
    using that by (auto simp: class_ok_def in_class_def split: list.splits)
  then have "\<forall>r \<in> set (map snd (go_runes 0 s)). length r = 1"
    using list_all2_right[OF m] assms(2) by blast
  from that[OF m] runes_single[OF this] show ?thesis by simp
qed

lemma ToLower_append [simp]: "ToLower (s @ t) = ToLower s @ ToLower t"
  by (simp add: ToLower_def)

end
