(* ===== verification/State_Machine.thy ===== *)
theory State_Machine
  imports Go_Errors Go_Regexp "HOL-Library.AList"
begin

text \<open>
  Package \<^verbatim>\<open>pkg/shared/utils/state_machine\<close>: states, grammars, the builder that links the states,
  and the move to the next state.  The states of the source point at each other; here the builder's
  map from names to states is the store, and a state lists the names of its successors.
\<close>

section \<open>Definitions and grammars\<close>

text \<open>The \<^verbatim>\<open>OnNewToken\<close> field of a state definition is never read by the builder, which installs its
  own handler in every state; it is left out.\<close>

(* src/pkg/shared/utils/state_machine/statemachine_builder.go:8-13 StateDefinition *)
record StateDefinition =
  sd_Name :: string
  sd_Family :: string
  sd_AcceptPattern :: string

(* src/pkg/shared/utils/state_machine/statemachine_builder.go:20-23 TransitionDefinition *)
record TransitionDefinition =
  td_StateName :: string
  td_ValidTransitions :: "string list"

(* src/pkg/shared/utils/state_machine/statemachine_builder.go:15-18 StateMachineDefinition *)
record StateMachineDefinition =
  smd_States :: "StateDefinition list"
  smd_Transitions :: "TransitionDefinition list"

(* src/pkg/shared/utils/state_machine/grammar.go:12-15 TokenTransitions *)
record TokenTransitions =
  tt_TokenName :: string
  tt_ValidTransitions :: "string list"

(* src/pkg/shared/utils/state_machine/grammar.go:7-10 Grammar *)
record Grammar =
  g_Tokens :: "StateDefinition list"
  g_Transitions :: "TokenTransitions list"

(* src/pkg/shared/utils/state_machine/grammar.go:32-37 TokenTransitions.toStateTransitions *)
definition toStateTransitions :: "TokenTransitions \<Rightarrow> TransitionDefinition" where
  "toStateTransitions tt = \<lparr>td_StateName = tt_TokenName tt, td_ValidTransitions = tt_ValidTransitions tt\<rparr>"

(* src/pkg/shared/utils/state_machine/grammar.go:17-30 Grammar.toStateMachineDefinition *)
definition toStateMachineDefinition :: "Grammar \<Rightarrow> StateMachineDefinition" where
  "toStateMachineDefinition g =
     \<lparr>smd_States = foldl (\<lambda>ret token. ret @ [token]) [] (g_Tokens g),
      smd_Transitions = foldl (\<lambda>ret transition. ret @ [toStateTransitions transition]) [] (g_Transitions g)\<rparr>"

section \<open>States\<close>

(* src/pkg/shared/utils/state_machine/statemachine.go:12-19 ParsedToken *)
record ParsedToken =
  pt_Name :: string
  pt_Family :: string
  pt_Value :: string

(* src/pkg/shared/utils/state_machine/statemachine.go:22-42 State *)
record State =
  tokenName :: string
  family :: string
  acceptPattern :: string
  last_state :: bool
  isEof :: bool
  next_states :: "string list"

type_synonym stateMap = "(string \<times> State) list"

(* src/pkg/shared/utils/state_machine/statemachine_builder.go:3-6 StartState *)
definition StartState :: string where "StartState = ''__$$_START_$$__''"

(* src/pkg/shared/utils/state_machine/statemachine_builder.go:3-6 EndState *)
definition EndState :: string where "EndState = ''__$$_END_$$__''"

(* src/pkg/shared/utils/state_machine/statemachine.go:44-49 newStartState *)
definition newStartState :: State where
  "newStartState = \<lparr>tokenName = ''START'', family = '''', acceptPattern = ''^$'', last_state = False,
     isEof = False, next_states = []\<rparr>"

(* src/pkg/shared/utils/state_machine/statemachine.go:51-56 newEndState *)
definition newEndState :: State where
  "newEndState = \<lparr>tokenName = ''END'', family = '''', acceptPattern = '''', last_state = False,
     isEof = True, next_states = []\<rparr>"

(* src/pkg/shared/utils/state_machine/statemachine.go:58-61 State.accept *)
definition accept :: "State \<Rightarrow> string \<Rightarrow> bool" where
  "accept s v = regexp_Match (acceptPattern s) v"

(* src/pkg/shared/utils/state_machine/statemachine.go:84-87 State.Eof *)
definition Eof :: "State \<Rightarrow> bool" where
  "Eof s = last_state s"

text \<open>The handler is a nil-able callback that updates the caller's variables \<open>'p\<close>.  A successor name
  without a state is a nil pointer.\<close>

type_synonym 'p handler = "('p \<Rightarrow> ParsedToken \<Rightarrow> 'p go) option"

(* src/pkg/shared/utils/state_machine/statemachine.go:63-81 State.Move *)
fun Move_loop :: "stateMap \<Rightarrow> 'p handler \<Rightarrow> string list \<Rightarrow> string \<Rightarrow> 'p \<Rightarrow> (State \<times> 'p) go" where
  "Move_loop sm h [] v p = Err (ErrorString (Sprintf ''unexpected token `%s`'' [FStr v]))"
| "Move_loop sm h (n # ns) v p =
     (case map_of sm n of
        None \<Rightarrow> Panic ''nil pointer dereference''
      | Some next \<Rightarrow>
          if accept next v then
            (case h of
               None \<Rightarrow> Ok (next, p)
             | Some onNewToken \<Rightarrow>
                 (case onNewToken p \<lparr>pt_Name = tokenName next, pt_Family = family next, pt_Value = v\<rparr> of
                    Ok p' \<Rightarrow> Ok (next, p')
                  | Err e \<Rightarrow> Err e
                  | Panic m \<Rightarrow> Panic m))
          else Move_loop sm h ns v p)"

(* src/pkg/shared/utils/state_machine/statemachine.go:63-81 State.Move *)
definition Move :: "stateMap \<Rightarrow> 'p handler \<Rightarrow> State \<Rightarrow> string \<Rightarrow> 'p \<Rightarrow> (State \<times> 'p) go" where
  "Move sm h s v p = Move_loop sm h (next_states s) v p"

section \<open>Builders\<close>

text \<open>The state builder chain of the machine builder: family and pattern are set, and \<^verbatim>\<open>Build\<close> anchors
  the pattern at both ends.\<close>

(* src/pkg/shared/utils/state_machine/statemachine.go:129-137 stateBuilder.Build *)
definition stateBuilder_Build :: "State \<Rightarrow> State" where
  "stateBuilder_Build s =
     (let p1 = (if \<not> HasPrefix (acceptPattern s) ''^'' then Sprintf ''^%s'' [FStr (acceptPattern s)] else acceptPattern s);
          p2 = (if \<not> HasSuffix p1 ''$'' then Sprintf ''%s$'' [FStr p1] else p1)
      in s\<lparr>acceptPattern := p2\<rparr>)"

(* src/pkg/shared/utils/state_machine/statemachine.go:139-144 NewStateBuilder *)
definition NewStateBuilder :: "string \<Rightarrow> State" where
  "NewStateBuilder name = \<lparr>tokenName = name, family = '''', acceptPattern = '''', last_state = False,
     isEof = False, next_states = []\<rparr>"

(* src/pkg/shared/utils/state_machine/statemachine.go:114-117 stateBuilder.Family *)
definition stateBuilder_Family :: "string \<Rightarrow> State \<Rightarrow> State" where
  "stateBuilder_Family f s = s\<lparr>family := f\<rparr>"

(* src/pkg/shared/utils/state_machine/statemachine.go:119-122 stateBuilder.AcceptPattern *)
definition stateBuilder_AcceptPattern :: "string \<Rightarrow> State \<Rightarrow> State" where
  "stateBuilder_AcceptPattern p s = s\<lparr>acceptPattern := p\<rparr>"

text \<open>\<^verbatim>\<open>addNextState\<close>, on the store: dereferencing a missing state is a panic, here \<^const>\<open>None\<close>.\<close>

(* src/pkg/shared/utils/state_machine/statemachine.go:89-98 State.addNextState *)
definition addNextState :: "string \<Rightarrow> string \<Rightarrow> stateMap \<Rightarrow> stateMap option" where
  "addNextState cur target sm =
     (case (map_of sm target, map_of sm cur) of
        (Some n, Some s) \<Rightarrow>
          Some (if isEof n then AList.update cur (s\<lparr>last_state := True\<rparr>) sm
                else AList.update cur (s\<lparr>next_states := next_states s @ [target]\<rparr>) sm)
      | _ \<Rightarrow> None)"

fun addNextStates :: "string \<Rightarrow> string list \<Rightarrow> stateMap \<Rightarrow> stateMap option" where
  "addNextStates cur [] sm = Some sm"
| "addNextStates cur (t # ts) sm = (case addNextState cur t sm of None \<Rightarrow> None | Some sm' \<Rightarrow> addNextStates cur ts sm')"

fun addTransitions :: "TransitionDefinition list \<Rightarrow> stateMap \<Rightarrow> stateMap option" where
  "addTransitions [] sm = Some sm"
| "addTransitions (t # ts) sm =
     (case addNextStates (td_StateName t) (td_ValidTransitions t) sm of
        None \<Rightarrow> None | Some sm' \<Rightarrow> addTransitions ts sm')"

(* src/pkg/shared/utils/state_machine/statemachine_builder.go:60-86 stateMachineBuilder.Build *)
definition stateMachineBuilder_Build :: "StateMachineDefinition \<Rightarrow> stateMap option" where
  "stateMachineBuilder_Build d =
     (let sm0 = AList.update EndState newEndState (AList.update StartState newStartState []);
          sm1 = foldl (\<lambda>sm t. AList.update (sd_Name t)
                  (stateBuilder_Build (stateBuilder_AcceptPattern (sd_AcceptPattern t)
                     (stateBuilder_Family (sd_Family t) (NewStateBuilder (sd_Name t))))) sm) sm0 (smd_States d)
      in addTransitions (smd_Transitions d) sm1)"

(* src/pkg/shared/utils/state_machine/statemachine_builder.go:45-48 stateMachineBuilder.WithGrammar *)
definition WithGrammar :: "Grammar \<Rightarrow> StateMachineDefinition" where
  "WithGrammar g = toStateMachineDefinition g"

section \<open>What a move does\<close>

text \<open>A successful move goes to a successor that accepts the value, and runs the handler on it.\<close>

lemma Move_loop_Ok:
  "Move_loop sm h ns v p = Ok (s', p') \<Longrightarrow>
     \<exists>n \<in> set ns. map_of sm n = Some s' \<and> accept s' v \<and>
       (case h of None \<Rightarrow> p' = p
        | Some f \<Rightarrow> f p \<lparr>pt_Name = tokenName s', pt_Family = family s', pt_Value = v\<rparr> = Ok p')"
  by (induction sm h ns v p rule: Move_loop.induct) (auto split: option.splits if_splits go.splits)

lemma Move_Ok:
  assumes "Move sm (Some f) s v p = Ok (s', p')"
  obtains n where "n \<in> set (next_states s)" "map_of sm n = Some s'" "accept s' v"
    "f p \<lparr>pt_Name = tokenName s', pt_Family = family s', pt_Value = v\<rparr> = Ok p'"
  using Move_loop_Ok[of sm "Some f" "next_states s" v p s' p'] assms by (auto simp: Move_def)

end
