(* ===== verification/Query_Parser.thy ===== *)
theory Query_Parser
  imports State_Machine
begin

text \<open>
  Package \<^verbatim>\<open>pkg/services/queryparser\<close>: the search filter of the list endpoints, turned into a
  SQL fragment with placeholders and a list of values.  The grammar, the token handler and the
  loop over the scanner are those of the source.  The central result is that no user text reaches
  the SQL fragment except words of the grammar and names of valid columns; values only ever become
  placeholders.

  The conversion \<^verbatim>\<open>[]rune(s)\<close> yields a slice whose capacity the Go runtime chooses; the parameter
  \<open>rune_cap\<close> is that capacity as a function of the number of runes.
\<close>

section \<open>Constants\<close>

definition braceTokenFamily :: string where "braceTokenFamily = ''BRACE''"

definition opTokenFamily :: string where "opTokenFamily = ''OP''"

definition logicalOpTokenFamily :: string where "logicalOpTokenFamily = ''LOGICAL''"

definition columnTokenFamily :: string where "columnTokenFamily = ''COLUMN''"

definition othersTokenFamily :: string where "othersTokenFamily = ''OTHERS''"

definition valueTokenFamily :: string where "valueTokenFamily = ''VALUE''"

definition quotedValueTokenFamily :: string where "quotedValueTokenFamily = ''QUOTED''"

definition openBrace :: string where "openBrace = ''OPEN_BRACE''"

definition closedBrace :: string where "closedBrace = ''CLOSED_BRACE''"

definition tok_comma :: string where "tok_comma = ''COMMA''"

definition tok_column :: string where "tok_column = ''COLUMN''"

definition tok_value :: string where "tok_value = ''VALUE''"

definition quotedValue :: string where "quotedValue = ''QUOTED_VALUE''"

definition tok_eq :: string where "tok_eq = ''EQ''"

definition tok_notEq :: string where "tok_notEq = ''NOT_EQ''"

definition tok_like :: string where "tok_like = ''LIKE''"

definition tok_ilike :: string where "tok_ilike = ''ILIKE''"

definition tok_in :: string where "tok_in = ''IN''"

definition listOpenBrace :: string where "listOpenBrace = ''LIST_OPEN_BRACE''"

definition quotedValueInList :: string where "quotedValueInList = ''QUOTED_VALUE_IN_LIST''"

definition valueInList :: string where "valueInList = ''VALUE_IN_LIST''"

definition tok_and :: string where "tok_and = ''AND''"

definition tok_or :: string where "tok_or = ''OR''"

definition tok_not :: string where "tok_not = ''NOT''"

definition MaximumComplexity :: int where "MaximumComplexity = 10"

definition validColumns :: "string list" where
  "validColumns = [''region'', ''name'', ''cloud_provider'', ''status'', ''owner'', ''cluster_id'']"

lemmas token_names = braceTokenFamily_def opTokenFamily_def logicalOpTokenFamily_def columnTokenFamily_def othersTokenFamily_def valueTokenFamily_def quotedValueTokenFamily_def openBrace_def closedBrace_def tok_comma_def tok_column_def tok_value_def quotedValue_def tok_eq_def tok_notEq_def tok_like_def tok_ilike_def tok_in_def listOpenBrace_def quotedValueInList_def valueInList_def tok_and_def tok_or_def tok_not_def

section \<open>The grammar\<close>

(* src/pkg/services/queryparser/query_parser.go:166-206 queryParser.initStateMachine *)
definition query_grammar :: Grammar where
  "query_grammar = \<lparr>g_Tokens = [
    \<lparr>sd_Name = openBrace, sd_Family = braceTokenFamily, sd_AcceptPattern = [CHR 0x5C] @ ''(''\<rparr>,
    \<lparr>sd_Name = closedBrace, sd_Family = braceTokenFamily, sd_AcceptPattern = [CHR 0x5C] @ '')''\<rparr>,
    \<lparr>sd_Name = tok_column, sd_Family = columnTokenFamily, sd_AcceptPattern = ''[A-Za-z][A-Za-z0-9_]*''\<rparr>,
    \<lparr>sd_Name = tok_value, sd_Family = valueTokenFamily, sd_AcceptPattern = ''[^'' @ [CHR 0x27] @ ''][^ ^(^)]*''\<rparr>,
    \<lparr>sd_Name = quotedValue, sd_Family = quotedValueTokenFamily, sd_AcceptPattern = [CHR 0x27] @ ''([^'' @ [CHR 0x27] @ '']|'' @ [CHR 0x5C] @ [CHR 0x5C] @ [CHR 0x27] @ '')*'' @ [CHR 0x27]\<rparr>,
    \<lparr>sd_Name = tok_eq, sd_Family = opTokenFamily, sd_AcceptPattern = ''=''\<rparr>,
    \<lparr>sd_Name = tok_comma, sd_Family = '''', sd_AcceptPattern = '',''\<rparr>,
    \<lparr>sd_Name = tok_notEq, sd_Family = opTokenFamily, sd_AcceptPattern = ''<>''\<rparr>,
    \<lparr>sd_Name = tok_like, sd_Family = opTokenFamily, sd_AcceptPattern = ''[Ll][Ii][Kk][Ee]''\<rparr>,
    \<lparr>sd_Name = tok_ilike, sd_Family = opTokenFamily, sd_AcceptPattern = ''[Ii][Ll][Ii][Kk][Ee]''\<rparr>,
    \<lparr>sd_Name = tok_in, sd_Family = opTokenFamily, sd_AcceptPattern = ''[Ii][Nn]''\<rparr>,
    \<lparr>sd_Name = listOpenBrace, sd_Family = braceTokenFamily, sd_AcceptPattern = [CHR 0x5C] @ ''(''\<rparr>,
    \<lparr>sd_Name = quotedValueInList, sd_Family = quotedValueTokenFamily, sd_AcceptPattern = [CHR 0x27] @ ''([^'' @ [CHR 0x27] @ '']|'' @ [CHR 0x5C] @ [CHR 0x5C] @ [CHR 0x27] @ '')*'' @ [CHR 0x27]\<rparr>,
    \<lparr>sd_Name = valueInList, sd_Family = valueTokenFamily, sd_AcceptPattern = ''[^'' @ [CHR 0x27] @ ''][^ ^(^)]*''\<rparr>,
    \<lparr>sd_Name = tok_and, sd_Family = logicalOpTokenFamily, sd_AcceptPattern = ''[Aa][Nn][Dd]''\<rparr>,
    \<lparr>sd_Name = tok_or, sd_Family = logicalOpTokenFamily, sd_AcceptPattern = ''[Oo][Rr]''\<rparr>,
    \<lparr>sd_Name = tok_not, sd_Family = logicalOpTokenFamily, sd_AcceptPattern = ''[Nn][Oo][Tt]''\<rparr>],
   g_Transitions = [
    \<lparr>tt_TokenName = StartState, tt_ValidTransitions = [tok_column, openBrace]\<rparr>,
    \<lparr>tt_TokenName = openBrace, tt_ValidTransitions = [tok_column, openBrace]\<rparr>,
    \<lparr>tt_TokenName = tok_column, tt_ValidTransitions = [tok_eq, tok_notEq, tok_like, tok_ilike, tok_in, tok_not]\<rparr>,
    \<lparr>tt_TokenName = tok_eq, tt_ValidTransitions = [quotedValue, tok_value]\<rparr>,
    \<lparr>tt_TokenName = tok_notEq, tt_ValidTransitions = [quotedValue, tok_value]\<rparr>,
    \<lparr>tt_TokenName = tok_like, tt_ValidTransitions = [quotedValue, tok_value]\<rparr>,
    \<lparr>tt_TokenName = tok_ilike, tt_ValidTransitions = [quotedValue, tok_value]\<rparr>,
    \<lparr>tt_TokenName = quotedValue, tt_ValidTransitions = [tok_or, tok_and, closedBrace, EndState]\<rparr>,
    \<lparr>tt_TokenName = tok_value, tt_ValidTransitions = [tok_or, tok_and, closedBrace, EndState]\<rparr>,
    \<lparr>tt_TokenName = closedBrace, tt_ValidTransitions = [tok_or, tok_and, closedBrace, EndState]\<rparr>,
    \<lparr>tt_TokenName = tok_and, tt_ValidTransitions = [tok_column, openBrace]\<rparr>,
    \<lparr>tt_TokenName = tok_or, tt_ValidTransitions = [tok_column, openBrace]\<rparr>,
    \<lparr>tt_TokenName = tok_not, tt_ValidTransitions = [tok_in]\<rparr>,
    \<lparr>tt_TokenName = tok_in, tt_ValidTransitions = [listOpenBrace]\<rparr>,
    \<lparr>tt_TokenName = listOpenBrace, tt_ValidTransitions = [quotedValueInList, valueInList]\<rparr>,
    \<lparr>tt_TokenName = quotedValueInList, tt_ValidTransitions = [tok_comma, closedBrace]\<rparr>,
    \<lparr>tt_TokenName = valueInList, tt_ValidTransitions = [tok_comma, closedBrace]\<rparr>,
    \<lparr>tt_TokenName = tok_comma, tt_ValidTransitions = [quotedValueInList, valueInList]\<rparr>]\<rparr>"

(* src/pkg/services/queryparser/query_parser.go:208-211 queryParser.initStateMachine *)
definition query_machine :: "stateMap option" where
  "query_machine = stateMachineBuilder_Build (WithGrammar query_grammar)"

section \<open>The token handler\<close>

(* src/pkg/services/queryparser/query_parser.go:47-52 DBQuery *)
record DBQuery =
  Query :: string
  Values :: "string list"
  ValidColumns :: "string list"
  ColumnPrefix :: string

text \<open>The variables the closures of \<^verbatim>\<open>initStateMachine\<close> capture.\<close>

(* src/pkg/services/queryparser/query_parser.go:98-106 queryParser.initStateMachine *)
record parser_state =
  dbqry :: DBQuery
  complexity :: int
  openBraces :: int

(* src/pkg/services/queryparser/query_parser.go:107-118 countOpenBraces *)
definition countOpenBraces :: "string \<Rightarrow> parser_state \<Rightarrow> parser_state err" where
  "countOpenBraces tok p =
     (let p' = (if tok = ''('' then p\<lparr>openBraces := openBraces p + 1\<rparr>
                else if tok = '')'' then p\<lparr>openBraces := openBraces p - 1\<rparr> else p)
      in if openBraces p' < 0 then Inl (ErrorString (''unexpected '' @ [CHR 0x27] @ '')'' @ [CHR 0x27])) else Inr p')"

text \<open>\<^verbatim>\<open>strings.ReplaceAll\<close> of an escaped quote by a quote.\<close>

fun unescape :: "string \<Rightarrow> string" where
  "unescape (a # b # s) =
     (if a = CHR 0x5C \<and> b = CHR 0x27 then CHR 0x27 # unescape s else a # unescape (b # s))"
| "unescape s = s"

text \<open>\<^verbatim>\<open>string([]rune(tmp)[1 : len(tmp)-1])\<close>: the upper bound is the length in bytes, the slice is one
  of runes.  Between the number of runes and the capacity the slice is filled with zero runes; above
  the capacity the slice expression panics.\<close>

(* src/pkg/services/queryparser/query_parser.go:134-139 initStateMachine.onNewToken *)
definition strip_quotes :: "(nat \<Rightarrow> nat) \<Rightarrow> string \<Rightarrow> string option" where
  "strip_quotes rune_cap tmp =
     (if length tmp > 1 then
        (let rs = map snd (go_runes 0 tmp); hi = length tmp - 1 in
         if hi > rune_cap (length rs) then None
         else Some (concat (drop 1 (take hi (rs @ replicate (hi - length rs) [CHR 0x00])))))
      else Some tmp)"

definition add_query :: "string \<Rightarrow> parser_state \<Rightarrow> parser_state" where
  "add_query s p = p\<lparr>dbqry := (dbqry p)\<lparr>Query := Query (dbqry p) @ s\<rparr>\<rparr>"

definition add_value :: "string \<Rightarrow> parser_state \<Rightarrow> parser_state" where
  "add_value s p = p\<lparr>dbqry := (dbqry p)\<lparr>Values := Values (dbqry p) @ [s]\<rparr>\<rparr>"

definition column_text :: "DBQuery \<Rightarrow> string \<Rightarrow> string" where
  "column_text q columnName =
     (if ColumnPrefix q \<noteq> '''' \<and> \<not> HasPrefix columnName (ColumnPrefix q @ ''.'')
      then ColumnPrefix q @ ''.'' @ columnName else columnName)"

(* src/pkg/services/queryparser/query_parser.go:120-164 initStateMachine.onNewToken *)
definition onNewToken :: "(nat \<Rightarrow> nat) \<Rightarrow> parser_state \<Rightarrow> ParsedToken \<Rightarrow> parser_state go" where
  "onNewToken rune_cap p token =
     (if pt_Family token = braceTokenFamily then
        (case countOpenBraces (pt_Value token) p of
           Inl err \<Rightarrow> Err err
         | Inr p' \<Rightarrow> Ok (add_query (pt_Value token) p'))
      else if pt_Family token = valueTokenFamily then
        Ok (add_value (pt_Value token) (add_query '' ?'' p))
      else if pt_Family token = quotedValueTokenFamily then
        (case strip_quotes rune_cap (unescape (pt_Value token)) of
           None \<Rightarrow> Panic ''slice bounds out of range''
         | Some tmp \<Rightarrow> Ok (add_value tmp (add_query '' ?'' p)))
      else if pt_Family token = logicalOpTokenFamily then
        (let p' = p\<lparr>complexity := complexity p + 1\<rparr> in
         if complexity p' > MaximumComplexity
         then Err (ErrorString (Sprintf ''maximum number of permitted joins (%d) exceeded'' [FInt MaximumComplexity]))
         else Ok (add_query ('' '' @ pt_Value token @ '' '') p'))
      else if pt_Family token = columnTokenFamily then
        (let columnName = ToLower (pt_Value token) in
         if \<not> Contains (ValidColumns (dbqry p)) columnName
         then Err (ErrorString (Sprintf (''invalid column name: '' @ [CHR 0x27] @ ''%s'' @ [CHR 0x27] @ '', valid values are: %v'')
                [FStr (pt_Value token), FVal ''[]string'' (''['' @ Join (ValidColumns (dbqry p)) '' '' @ '']'')]))
         else Ok (add_query (column_text (dbqry p) columnName) p))
      else Ok (add_query ('' '' @ pt_Value token) p))"

section \<open>Parsing\<close>

(* src/pkg/services/queryparser/query_parser.go:213-219 queryParser.initStateMachine *)
definition checkUnbalancedBraces :: "parser_state \<Rightarrow> goerror option" where
  "checkUnbalancedBraces p =
     (if openBraces p > 0 then Some (ErrorString (''EOF while searching for closing brace '' @ [CHR 0x27] @ '')'' @ [CHR 0x27])) else None)"

(* src/pkg/services/queryparser/query_parser.go:228-234 queryParser.Parse *)
function parse_loop :: "(nat \<Rightarrow> nat) \<Rightarrow> stateMap \<Rightarrow> scanner \<Rightarrow> State \<Rightarrow> parser_state \<Rightarrow> (State \<times> parser_state) go" where
  "parse_loop rune_cap sm sc state p =
     (case scanner_Next sc of
        (False, _) \<Rightarrow> Ok (state, p)
      | (True, sc') \<Rightarrow>
         (case scanner_Token sc' of
            None \<Rightarrow> Panic ''invalid scanner position''
          | Some t \<Rightarrow>
             (case Move sm (Some (onNewToken rune_cap)) state (TokenValue t) p of
                Err err \<Rightarrow> Err (ErrorString (Sprintf ''[%d] error parsing the filter: %v''
                               [FInt (Position t + 1), FStr (err_Error err)]))
              | Panic m \<Rightarrow> Panic m
              | Ok (state', p') \<Rightarrow> parse_loop rune_cap sm sc' state' p')))"
  by pat_completeness auto
termination
  by (relation "measure (\<lambda>(c, sm, sc, s, p). nat (int (length (tokens sc)) - 1 - pos sc))")
     (auto simp: scanner_Next_def split: if_splits)

declare parse_loop.simps [simp del]

text \<open>\<^verbatim>\<open>strings.Trim(s, " ")\<close>.\<close>

definition trim_spaces :: "string \<Rightarrow> string" where
  "trim_spaces s = rev (dropWhile (\<lambda>c. c = CHR '' '') (rev (dropWhile (\<lambda>c. c = CHR '' '') s)))"

(* src/pkg/services/queryparser/query_parser.go:222-245 queryParser.Parse *)
definition Parse :: "(nat \<Rightarrow> nat) \<Rightarrow> string \<Rightarrow> DBQuery \<Rightarrow> DBQuery go" where
  "Parse rune_cap sql q =
     (case query_machine of
        None \<Rightarrow> Panic ''nil pointer dereference''
      | Some sm \<Rightarrow>
         (case map_of sm StartState of
            None \<Rightarrow> Panic ''nil pointer dereference''
          | Some start \<Rightarrow>
             (case parse_loop rune_cap sm (scanner_Init sql NewSQLScanner) start
                     \<lparr>dbqry = q, complexity = 0, openBraces = 0\<rparr> of
                Err e \<Rightarrow> Err e
              | Panic m \<Rightarrow> Panic m
              | Ok (state, p) \<Rightarrow>
                  if \<not> Eof state then Err (ErrorString ''EOF encountered while parsing string'')
                  else (case checkUnbalancedBraces p of
                      Some err \<Rightarrow> Err err
                    | None \<Rightarrow> Ok ((dbqry p)\<lparr>Query := trim_spaces (Query (dbqry p))\<rparr>)))))"

(* src/pkg/services/queryparser/query_parser.go:251-260 NewQueryParserWithColumnPrefix *)
definition NewQueryParserWithColumnPrefix :: "string \<Rightarrow> string list \<Rightarrow> DBQuery" where
  "NewQueryParserWithColumnPrefix columnsPrefix columns =
     \<lparr>Query = '''', Values = [],
      ValidColumns = (if length columns = 0 then validColumns else columns),
      ColumnPrefix = columnsPrefix\<rparr>"

(* src/pkg/services/queryparser/query_parser.go:247-249 NewQueryParser *)
definition NewQueryParser :: "string list \<Rightarrow> DBQuery" where
  "NewQueryParser columns = NewQueryParserWithColumnPrefix '''' columns"

section \<open>The words of the grammar\<close>

text \<open>Apart from column names and values, a state of the machine accepts one word, in any case.\<close>

definition fold_class :: "char \<Rightarrow> bool \<times> (char \<times> char) list" where
  "fold_class c = (let n = of_char c :: nat in
     if 97 \<le> n \<and> n \<le> 122 then (False, [(char_of (n - 32), char_of (n - 32)), (c, c)]) else (False, [(c, c)]))"

definition word_regex :: "string \<Rightarrow> regex" where
  "word_regex w = RSeq (class_seq RBegin (map fold_class w)) REnd"

definition grammar_words :: "(string \<times> string) list" where
  "grammar_words = [(braceTokenFamily, ''(''), (braceTokenFamily, '')''), (opTokenFamily, ''=''), (opTokenFamily, ''<>''),
     (opTokenFamily, ''like''), (opTokenFamily, ''ilike''), (opTokenFamily, ''in''), ('''', '',''),
     (logicalOpTokenFamily, ''and''), (logicalOpTokenFamily, ''or''), (logicalOpTokenFamily, ''not'')]"

definition good_state :: "State \<Rightarrow> bool" where
  "good_state s \<longleftrightarrow> family s \<in> set [columnTokenFamily, valueTokenFamily, quotedValueTokenFamily] \<or>
     (\<exists>fw \<in> set grammar_words. family s = fst fw \<and> regexp_Compile (acceptPattern s) = Some (word_regex (snd fw)))"

definition good_machine :: "stateMap \<Rightarrow> bool" where
  "good_machine sm \<longleftrightarrow> list_all (\<lambda>ns. list_all (\<lambda>t. case map_of sm t of None \<Rightarrow> False | Some s \<Rightarrow> good_state s) (next_states (snd ns))) sm"

definition sm_states :: "stateMap" where
  "sm_states = (case query_machine of Some sm \<Rightarrow> sm | None \<Rightarrow> [])"

text \<open>The patterns with repetition, and the table of all compiled patterns: evaluation looks a
  pattern up instead of reading it again.\<close>

definition column_regex :: regex where
  "column_regex = RSeq (RSeq (RSeq RBegin (RClass False [(CHR ''A'', CHR ''Z''), (CHR ''a'', CHR ''z'')]))
     (RStar (RClass False [(CHR ''A'', CHR ''Z''), (CHR ''a'', CHR ''z''), (CHR ''0'', CHR ''9''), (CHR ''_'', CHR ''_'')]))) REnd"

definition value_regex :: regex where
  "value_regex = RSeq (RSeq (RSeq RBegin (RClass True [(CHR 0x27, CHR 0x27)]))
     (RStar (RClass True [(CHR '' '', CHR '' ''), (CHR ''^'', CHR ''^''), (CHR ''('', CHR ''(''), (CHR ''^'', CHR ''^''), (CHR '')'', CHR '')'')]))) REnd"

definition quoted_regex :: regex where
  "quoted_regex = RSeq (RSeq (RSeq (RSeq RBegin (RClass False [(CHR 0x27, CHR 0x27)]))
     (RStar (RAlt (RClass True [(CHR 0x27, CHR 0x27)]) (RSeq (RClass False [(CHR 0x5C, CHR 0x5C)]) (RClass False [(CHR 0x27, CHR 0x27)])))))
     (RClass False [(CHR 0x27, CHR 0x27)])) REnd"

definition compiled :: "(string \<times> regex) list" where
  "compiled = [
    (''^'' @ [CHR 0x5C] @ ''($'', word_regex ''(''),
    (''^'' @ [CHR 0x5C] @ '')$'', word_regex '')''),
    (''^=$'', word_regex ''=''),
    (''^,$'', word_regex '',''),
    (''^<>$'', word_regex ''<>''),
    (''^[Ll][Ii][Kk][Ee]$'', word_regex ''like''),
    (''^[Ii][Ll][Ii][Kk][Ee]$'', word_regex ''ilike''),
    (''^[Ii][Nn]$'', word_regex ''in''),
    (''^[Aa][Nn][Dd]$'', word_regex ''and''),
    (''^[Oo][Rr]$'', word_regex ''or''),
    (''^[Nn][Oo][Tt]$'', word_regex ''not''),
    (''^[A-Za-z][A-Za-z0-9_]*$'', column_regex),
    (''^[^'' @ [CHR 0x27] @ ''][^ ^(^)]*$'', value_regex),
    (''^'' @ [CHR 0x27] @ ''([^'' @ [CHR 0x27] @ '']|'' @ [CHR 0x5C] @ [CHR 0x5C] @ [CHR 0x27] @ '')*'' @ [CHR 0x27] @ ''$'', quoted_regex)]"

lemma query_machine_value:
  "query_machine = Some [
    (''__$$_START_$$__'', \<lparr>tokenName = ''START'', family = '''', acceptPattern = ''^$'',
      last_state = False, isEof = False, next_states = [''COLUMN'', ''OPEN_BRACE'']\<rparr>),
    (''__$$_END_$$__'', \<lparr>tokenName = ''END'', family = '''', acceptPattern = '''',
      last_state = False, isEof = True, next_states = []\<rparr>),
    (''OPEN_BRACE'', \<lparr>tokenName = ''OPEN_BRACE'', family = ''BRACE'', acceptPattern = ''^'' @ [CHR 0x5C] @ ''($'',
      last_state = False, isEof = False, next_states = [''COLUMN'', ''OPEN_BRACE'']\<rparr>),
    (''CLOSED_BRACE'', \<lparr>tokenName = ''CLOSED_BRACE'', family = ''BRACE'', acceptPattern = ''^'' @ [CHR 0x5C] @ '')$'',
      last_state = True, isEof = False, next_states = [''OR'', ''AND'', ''CLOSED_BRACE'']\<rparr>),
    (''COLUMN'', \<lparr>tokenName = ''COLUMN'', family = ''COLUMN'', acceptPattern = ''^[A-Za-z][A-Za-z0-9_]*$'',
      last_state = False, isEof = False, next_states = [''EQ'', ''NOT_EQ'', ''LIKE'', ''ILIKE'', ''IN'', ''NOT'']\<rparr>),
    (''VALUE'', \<lparr>tokenName = ''VALUE'', family = ''VALUE'', acceptPattern = ''^[^'' @ [CHR 0x27] @ ''][^ ^(^)]*$'',
      last_state = True, isEof = False, next_states = [''OR'', ''AND'', ''CLOSED_BRACE'']\<rparr>),
    (''QUOTED_VALUE'', \<lparr>tokenName = ''QUOTED_VALUE'', family = ''QUOTED'', acceptPattern = ''^'' @ [CHR 0x27] @ ''([^'' @ [CHR 0x27] @ '']|'' @ [CHR 0x5C] @ [CHR 0x5C] @ [CHR 0x27] @ '')*'' @ [CHR 0x27] @ ''$'',
      last_state = True, isEof = False, next_states = [''OR'', ''AND'', ''CLOSED_BRACE'']\<rparr>),
    (''EQ'', \<lparr>tokenName = ''EQ'', family = ''OP'', acceptPattern = ''^=$'',
      last_state = False, isEof = False, next_states = [''QUOTED_VALUE'', ''VALUE'']\<rparr>),
    (''COMMA'', \<lparr>tokenName = ''COMMA'', family = '''', acceptPattern = ''^,$'',
      last_state = False, isEof = False, next_states = [''QUOTED_VALUE_IN_LIST'', ''VALUE_IN_LIST'']\<rparr>),
    (''NOT_EQ'', \<lparr>tokenName = ''NOT_EQ'', family = ''OP'', acceptPattern = ''^<>$'',
      last_state = False, isEof = False, next_states = [''QUOTED_VALUE'', ''VALUE'']\<rparr>),
    (''LIKE'', \<lparr>tokenName = ''LIKE'', family = ''OP'', acceptPattern = ''^[Ll][Ii][Kk][Ee]$'',
      last_state = False, isEof = False, next_states = [''QUOTED_VALUE'', ''VALUE'']\<rparr>),
    (''ILIKE'', \<lparr>tokenName = ''ILIKE'', family = ''OP'', acceptPattern = ''^[Ii][Ll][Ii][Kk][Ee]$'',
      last_state = False, isEof = False, next_states = [''QUOTED_VALUE'', ''VALUE'']\<rparr>),
    (''IN'', \<lparr>tokenName = ''IN'', family = ''OP'', acceptPattern = ''^[Ii][Nn]$'',
      last_state = False, isEof = False, next_states = [''LIST_OPEN_BRACE'']\<rparr>),
    (''LIST_OPEN_BRACE'', \<lparr>tokenName = ''LIST_OPEN_BRACE'', family = ''BRACE'', acceptPattern = ''^'' @ [CHR 0x5C] @ ''($'',
      last_state = False, isEof = False, next_states = [''QUOTED_VALUE_IN_LIST'', ''VALUE_IN_LIST'']\<rparr>),
    (''QUOTED_VALUE_IN_LIST'', \<lparr>tokenName = ''QUOTED_VALUE_IN_LIST'', family = ''QUOTED'', acceptPattern = ''^'' @ [CHR 0x27] @ ''([^'' @ [CHR 0x27] @ '']|'' @ [CHR 0x5C] @ [CHR 0x5C] @ [CHR 0x27] @ '')*'' @ [CHR 0x27] @ ''$'',
      last_state = False, isEof = False, next_states = [''COMMA'', ''CLOSED_BRACE'']\<rparr>),
    (''VALUE_IN_LIST'', \<lparr>tokenName = ''VALUE_IN_LIST'', family = ''VALUE'', acceptPattern = ''^[^'' @ [CHR 0x27] @ ''][^ ^(^)]*$'',
      last_state = False, isEof = False, next_states = [''COMMA'', ''CLOSED_BRACE'']\<rparr>),
    (''AND'', \<lparr>tokenName = ''AND'', family = ''LOGICAL'', acceptPattern = ''^[Aa][Nn][Dd]$'',
      last_state = False, isEof = False, next_states = [''COLUMN'', ''OPEN_BRACE'']\<rparr>),
    (''OR'', \<lparr>tokenName = ''OR'', family = ''LOGICAL'', acceptPattern = ''^[Oo][Rr]$'',
      last_state = False, isEof = False, next_states = [''COLUMN'', ''OPEN_BRACE'']\<rparr>),
    (''NOT'', \<lparr>tokenName = ''NOT'', family = ''LOGICAL'', acceptPattern = ''^[Nn][Oo][Tt]$'',
      last_state = False, isEof = False, next_states = [''IN'']\<rparr>)]"
  by code_simp

lemma compile_words:
  "regexp_Compile (''^'' @ [CHR 0x5C] @ ''($'') = Some (word_regex ''('')"
  "regexp_Compile (''^'' @ [CHR 0x5C] @ '')$'') = Some (word_regex '')'')"
  "regexp_Compile (''^=$'') = Some (word_regex ''='')"
  "regexp_Compile (''^,$'') = Some (word_regex '','')"
  "regexp_Compile (''^<>$'') = Some (word_regex ''<>'')"
  "regexp_Compile (''^[Ll][Ii][Kk][Ee]$'') = Some (word_regex ''like'')"
  "regexp_Compile (''^[Ii][Ll][Ii][Kk][Ee]$'') = Some (word_regex ''ilike'')"
  "regexp_Compile (''^[Ii][Nn]$'') = Some (word_regex ''in'')"
  "regexp_Compile (''^[Aa][Nn][Dd]$'') = Some (word_regex ''and'')"
  "regexp_Compile (''^[Oo][Rr]$'') = Some (word_regex ''or'')"
  "regexp_Compile (''^[Nn][Oo][Tt]$'') = Some (word_regex ''not'')"
  by code_simp+

lemma compile_repetitions:
  "regexp_Compile (''^[A-Za-z][A-Za-z0-9_]*$'') = Some column_regex"
  "regexp_Compile (''^[^'' @ [CHR 0x27] @ ''][^ ^(^)]*$'') = Some value_regex"
  "regexp_Compile (''^'' @ [CHR 0x27] @ ''([^'' @ [CHR 0x27] @ '']|'' @ [CHR 0x5C] @ [CHR 0x5C] @ [CHR 0x27] @ '')*'' @ [CHR 0x27] @ ''$'') = Some quoted_regex"
  by code_simp+

lemma regexp_Compile_table:
  "regexp_Compile p = (case map_of compiled p of Some r \<Rightarrow> Some r | None \<Rightarrow> rparse [([], [])] p)"
proof (cases "map_of compiled p")
  case None
  then show ?thesis by (simp add: regexp_Compile_def)
next
  case (Some r)
  then have "(p, r) \<in> set compiled" by (rule map_of_SomeD)
  then have "regexp_Compile p = Some r"
    using compile_words compile_repetitions unfolding compiled_def by auto
  then show ?thesis using Some by simp
qed

declare regexp_Compile_table [code] query_machine_value [code]

lemma query_machine_Some: "query_machine = Some sm_states"
  by (simp add: sm_states_def query_machine_value)

lemmas sm_states_value = sm_states_def [unfolded query_machine_value option.case]

lemma query_machine_good: "good_machine sm_states \<and> map_of sm_states StartState \<noteq> None"
  by (simp add: sm_states_value good_machine_def good_state_def compile_words [simplified] grammar_words_def token_names StartState_def)

lemma good_next:
  assumes "map_of sm_states n = Some s" "t \<in> set (next_states s)"
  obtains s' where "map_of sm_states t = Some s'" "good_state s'"
  using query_machine_good map_of_SomeD[OF assms(1)] assms(2)
  by (fastforce simp: good_machine_def list_all_iff split: option.splits)

lemma lower_char_upper: "97 \<le> (of_char c :: nat) \<Longrightarrow> (of_char c :: nat) \<le> 122 \<Longrightarrow> lower_char (char_of ((of_char c :: nat) - 32)) = c"
proof -
  assume a: "97 \<le> (of_char c :: nat)" "(of_char c :: nat) \<le> 122"
  then have "65 \<le> (of_char c :: nat) - 32" "(of_char c :: nat) - 32 \<le> 90" by arith+
  then show ?thesis using a by (simp add: lower_char_def Let_def)
qed

lemma fold_class_lower: "class_ok (fold_class c) r \<Longrightarrow> lower_char c = c \<Longrightarrow> ToLower r = [c]"
  by (auto simp: fold_class_def class_ok_def Let_def ToLower_def lower_char_upper split: if_splits)

lemma word_regex_lower:
  assumes "regex_match (word_regex w) v" "ToLower w = w"
  shows "ToLower v = w"
proof -
  obtain rs where rs: "list_all2 class_ok (map fold_class w) rs" "v = concat rs"
    using assms(1) by (auto simp: word_regex_def fold_class_def Let_def elim!: class_seq_text)
  have "list_all2 class_ok (map fold_class w) rs \<Longrightarrow> \<forall>c \<in> set w. lower_char c = c \<Longrightarrow> ToLower (concat rs) = w"
  proof (induction w arbitrary: rs)
    case Nil
    then show ?case by (simp add: ToLower_def)
  next
    case (Cons c w)
    then obtain r rs' where "rs = r # rs'" "class_ok (fold_class c) r" "list_all2 class_ok (map fold_class w) rs'"
      by (auto simp: list_all2_Cons1)
    then show ?case using Cons fold_class_lower[of c r] by simp
  qed
  moreover have "\<forall>c \<in> set w. lower_char c = c" using assms(2) by (simp add: ToLower_def map_idI list_eq_iff_nth_eq all_set_conv_all_nth)
  ultimately show ?thesis using rs by simp
qed

lemma grammar_words_lower: "fw \<in> set grammar_words \<Longrightarrow> ToLower (snd fw) = snd fw"
proof -
  have "list_all (\<lambda>fw. ToLower (snd fw) = snd fw) grammar_words" by code_simp
  then show "fw \<in> set grammar_words \<Longrightarrow> ToLower (snd fw) = snd fw" by (simp add: list_all_iff)
qed

lemma good_state_word:
  assumes "good_state s" "accept s v" "family s \<notin> set [columnTokenFamily, valueTokenFamily, quotedValueTokenFamily]"
  shows "(family s, ToLower v) \<in> set grammar_words"
proof -
  obtain fw where fw: "fw \<in> set grammar_words" "family s = fst fw" "regexp_Compile (acceptPattern s) = Some (word_regex (snd fw))"
    using assms(1,3) by (auto simp: good_state_def)
  then have "ToLower v = snd fw"
    using assms(2) word_regex_lower[OF _ grammar_words_lower[OF fw(1)]] by (simp add: accept_def regexp_Match_def)
  then show ?thesis using fw by simp
qed

section \<open>What reaches the query\<close>

text \<open>The pieces of SQL text the handler appends.\<close>

datatype fragment = Brace string | Placeholder | Logical string | Column string | Operator string

fun frag_text :: "fragment \<Rightarrow> string" where
  "frag_text (Brace b) = b"
| "frag_text Placeholder = '' ?''"
| "frag_text (Logical v) = '' '' @ v @ '' ''"
| "frag_text (Column c) = c"
| "frag_text (Operator v) = '' '' @ v"

text \<open>The only texts allowed: words of the grammar and valid columns.\<close>

fun frag_ok :: "DBQuery \<Rightarrow> fragment \<Rightarrow> bool" where
  "frag_ok q (Brace b) \<longleftrightarrow> b \<in> {''('', '')''}"
| "frag_ok q Placeholder \<longleftrightarrow> True"
| "frag_ok q (Logical v) \<longleftrightarrow> ToLower v \<in> {''and'', ''or'', ''not''}"
| "frag_ok q (Column c) \<longleftrightarrow> (\<exists>col \<in> set (ValidColumns q). c = column_text q col)"
| "frag_ok q (Operator v) \<longleftrightarrow> ToLower v \<in> {''='', ''<>'', ''like'', ''ilike'', ''in'', '',''}"

definition is_logical :: "fragment \<Rightarrow> bool" where
  "is_logical f = (case f of Logical v \<Rightarrow> True | _ \<Rightarrow> False)"

definition brace_depth :: "fragment list \<Rightarrow> int" where
  "brace_depth fs = int (count_list fs (Brace ''('')) - int (count_list fs (Brace '')''))"

definition never_negative :: "fragment list \<Rightarrow> bool" where
  "never_negative fs \<longleftrightarrow> (\<forall>n. 0 \<le> brace_depth (take n fs))"

text \<open>What the handler has appended to a query \<open>q\<close>, as a list of fragments.\<close>

definition rendered :: "DBQuery \<Rightarrow> parser_state \<Rightarrow> fragment list \<Rightarrow> bool" where
  "rendered q p fs \<longleftrightarrow>
     ValidColumns (dbqry p) = ValidColumns q \<and> ColumnPrefix (dbqry p) = ColumnPrefix q \<and>
     Query (dbqry p) = Query q @ concat (map frag_text fs) \<and>
     list_all (frag_ok q) fs \<and>
     take (length (Values q)) (Values (dbqry p)) = Values q \<and>
     length (Values (dbqry p)) = length (Values q) + count_list fs Placeholder \<and>
     complexity p = int (length (filter is_logical fs)) \<and> complexity p \<le> MaximumComplexity \<and>
     openBraces p = brace_depth fs \<and> never_negative fs"

lemma count_list_snoc: "count_list (xs @ [x]) y = count_list xs y + (if x = y then 1 else 0)"
  by (induction xs) auto

lemma take_snoc_cases: "(\<forall>n. P (take n (xs @ [x]))) \<longleftrightarrow> (\<forall>n. P (take n xs)) \<and> P (xs @ [x])"
proof -
  have "take n (xs @ [x]) = (if n \<le> length xs then take n xs else xs @ [x])" for n by simp
  then show ?thesis by (metis le_cases not_less_eq_eq take_all)
qed

lemma brace_depth_snoc: "brace_depth (fs @ [f]) = brace_depth fs + (if f = Brace ''('' then 1 else if f = Brace '')'' then - 1 else 0)"
  by (simp add: brace_depth_def count_list_snoc)

lemma never_negative_snoc: "never_negative (fs @ [f]) \<longleftrightarrow> never_negative fs \<and> 0 \<le> brace_depth (fs @ [f])"
  unfolding never_negative_def by (rule take_snoc_cases)

lemma never_negative_depth: "never_negative fs \<Longrightarrow> 0 \<le> brace_depth fs"
  unfolding never_negative_def by (metis take_all_iff order_refl)

lemma lower_char_low: "lower_char z = d \<Longrightarrow> (of_char d :: nat) < 97 \<Longrightarrow> z = d"
proof (cases "65 \<le> (of_char z :: nat) \<and> (of_char z :: nat) \<le> 90")
  case True
  assume "lower_char z = d" "(of_char d :: nat) < 97"
  moreover have "(of_char (lower_char z) :: nat) = of_char z + 32"
    using True by (simp add: lower_char_def Let_def)
  ultimately show ?thesis using True by simp
qed (auto simp: lower_char_def Let_def)

lemma ToLower_brace: "ToLower v = ''('' \<Longrightarrow> v = ''(''" "ToLower v = '')'' \<Longrightarrow> v = '')''"
  by (auto simp: ToLower_def dest: lower_char_low)

lemma rendered_step:
  assumes "rendered q p fs" "good_state s" "accept s v"
    and "onNewToken rune_cap p \<lparr>pt_Name = tokenName s, pt_Family = family s, pt_Value = v\<rparr> = Ok p'"
  obtains f where "rendered q p' (fs @ [f])"
proof -
  note fam = token_names
  have col: "column_text (dbqry p) c = column_text q c" for c
    using assms(1) by (simp add: rendered_def column_text_def)
  note r = rendered_def never_negative_snoc brace_depth_snoc count_list_snoc is_logical_def add_query_def add_value_def never_negative_depth
  consider (brace) "family s = braceTokenFamily" | (val) "family s \<in> {valueTokenFamily, quotedValueTokenFamily}"
    | (log) "family s = logicalOpTokenFamily" | (col) "family s = columnTokenFamily"
    | (other) "family s \<notin> {braceTokenFamily, valueTokenFamily, quotedValueTokenFamily, logicalOpTokenFamily, columnTokenFamily}"
    by blast
  then show ?thesis
  proof cases
    case brace
    then have "v = ''('' \<or> v = '')''"
      using good_state_word[OF assms(2,3)] by (auto simp: grammar_words_def fam dest: ToLower_brace)
    then show ?thesis using that[of "Brace v"] assms(1,4) brace
      by (auto simp: r onNewToken_def countOpenBraces_def Let_def split: if_splits sum.splits)
  next
    case val
    then show ?thesis using that[of Placeholder] assms(1,4)
      by (auto simp: r fam onNewToken_def split: option.splits)
  next
    case log
    then have "ToLower v \<in> {''and'', ''or'', ''not''}"
      using good_state_word[OF assms(2,3)] by (auto simp: grammar_words_def fam)
    then show ?thesis using that[of "Logical v"] assms(1,4) log
      by (auto simp: r fam onNewToken_def Let_def split: if_splits)
  next
    case col
    then show ?thesis using that[of "Column (column_text q (ToLower v))"] assms(1,4)
      by (auto simp: r fam onNewToken_def Let_def \<open>\<And>c. column_text (dbqry p) c = column_text q c\<close> split: if_splits) blast
  next
    case other
    then have "ToLower v \<in> {''='', ''<>'', ''like'', ''ilike'', ''in'', '',''}"
      using good_state_word[OF assms(2,3)] by (auto simp: grammar_words_def fam)
    then show ?thesis using that[of "Operator v"] assms(1,4) other
      by (auto simp: r fam onNewToken_def)
  qed
qed

lemma parse_loop_rendered:
  "parse_loop c sm sc s p = Ok (s', p') \<Longrightarrow> sm = sm_states \<Longrightarrow> map_of sm n = Some s \<Longrightarrow>
     rendered q p fs \<Longrightarrow> \<exists>fs'. rendered q p' fs'"
proof (induction c sm sc s p arbitrary: n fs rule: parse_loop.induct)
  case (1 c sm sc s p)
  show ?case
  proof (cases "scanner_Next sc")
    case (Pair more sc')
    show ?thesis
    proof (cases more)
      case False
      then show ?thesis using 1(2,5) Pair by (auto simp: parse_loop.simps)
    next
      case True
      then obtain t s1 p1 where t: "scanner_Token sc' = Some t"
        "Move sm (Some (onNewToken c)) s (TokenValue t) p = Ok (s1, p1)" "parse_loop c sm sc' s1 p1 = Ok (s', p')"
        using 1(2) Pair by (auto simp: parse_loop.simps[of c sm sc] split: option.splits go.splits)
      obtain m where m: "m \<in> set (next_states s)" "map_of sm m = Some s1" "accept s1 (TokenValue t)"
        "onNewToken c p \<lparr>pt_Name = tokenName s1, pt_Family = family s1, pt_Value = TokenValue t\<rparr> = Ok p1"
        using Move_Ok[OF t(2)] by metis
      then have "good_state s1" using good_next[of n s m] 1(3,4) by auto
      then obtain f where "rendered q p1 (fs @ [f])" using rendered_step[OF 1(5)] m(3,4) by metis
      moreover have "more = True" using True by simp
      ultimately show ?thesis using 1(1)[OF Pair[symmetric] _ t(1) t(2) refl t(3) 1(3) m(2)] by blast
    qed
  qed
qed

lemma rendered_start: "rendered q \<lparr>dbqry = q, complexity = 0, openBraces = 0\<rparr> []"
  by (simp add: rendered_def brace_depth_def never_negative_def MaximumComplexity_def)

lemma Parse_Ok:
  assumes "Parse c sql q = Ok r"
  obtains p fs where "rendered q p fs" "r = (dbqry p)\<lparr>Query := trim_spaces (Query (dbqry p))\<rparr>" "openBraces p = 0"
proof -
  obtain sm where sm: "query_machine = Some sm" "sm = sm_states" using query_machine_Some by blast
  obtain start where st: "map_of sm StartState = Some start" using query_machine_good sm(2) by auto
  obtain s' p where l: "parse_loop c sm (scanner_Init sql NewSQLScanner) start \<lparr>dbqry = q, complexity = 0, openBraces = 0\<rparr> = Ok (s', p)"
    and r: "checkUnbalancedBraces p = None" "r = (dbqry p)\<lparr>Query := trim_spaces (Query (dbqry p))\<rparr>"
    using assms unfolding Parse_def sm(1) option.case st
    by (auto split: go.splits if_splits option.splits)
  obtain fs where fs: "rendered q p fs" using parse_loop_rendered[OF l sm(2) st rendered_start] by blast
  have "openBraces p = 0" using r(1) fs never_negative_depth[of fs]
    by (auto simp: checkUnbalancedBraces_def rendered_def split: if_splits)
  then show ?thesis using that fs r(2) by blast
qed

section \<open>The loop over the scanner\<close>

fun parse_tokens :: "(nat \<Rightarrow> nat) \<Rightarrow> stateMap \<Rightarrow> Token list \<Rightarrow> State \<Rightarrow> parser_state \<Rightarrow> (State \<times> parser_state) go" where
  "parse_tokens c sm [] s p = Ok (s, p)"
| "parse_tokens c sm (t # ts) s p =
     (case Move sm (Some (onNewToken c)) s (TokenValue t) p of
        Err err \<Rightarrow> Err (ErrorString (Sprintf ''[%d] error parsing the filter: %v''
                     [FInt (Position t + 1), FStr (err_Error err)]))
      | Panic m \<Rightarrow> Panic m
      | Ok (s', p') \<Rightarrow> parse_tokens c sm ts s' p')"

lemma parse_loop_remaining:
  "- 1 \<le> pos sc \<Longrightarrow> parse_loop c sm sc s p = parse_tokens c sm (drop (nat (pos sc + 1)) (tokens sc)) s p"
proof (induction "length (drop (nat (pos sc + 1)) (tokens sc))" arbitrary: sc s p)
  case 0
  then show ?case using sql.next_end[of sc] by (simp add: parse_loop.simps)
next
  case (Suc k)
  then obtain t ts where d: "drop (nat (pos sc + 1)) (tokens sc) = t # ts" by (metis length_Suc_conv)
  then obtain sc' where sc': "scanner_Next sc = (True, sc')" "- 1 \<le> pos sc'"
    "drop (nat (pos sc' + 1)) (tokens sc') = ts" "scanner_Token sc' = Some t"
    using sql.next_more[OF Suc.prems] by blast
  have "parse_loop c sm sc' s p = parse_tokens c sm ts s p" for s p
    using Suc.hyps(1)[of sc'] Suc.hyps(2) sc' d by simp
  then show ?case using sc' by (simp add: parse_loop.simps[of c sm sc] d split: go.splits)
qed

lemma scanner_Init_pos [simp]: "pos (scanner_Init txt s) = pos s"
  by (simp add: scanner_Init_def Let_def)

section \<open>ASCII filters\<close>

lemma unescape_ascii: "ascii v \<Longrightarrow> ascii (unescape v)"
  by (induction v rule: unescape.induct) auto

lemma strip_quotes_ascii:
  assumes "ascii v" "\<And>n. n \<le> rune_cap n"
  shows "strip_quotes rune_cap v = Some (if length v > 1 then butlast (tl v) else v)"
proof -
  have m: "map snd (go_runes 0 v) = map (\<lambda>c. [c]) v" using go_runes_ascii[OF assms(1), of 0] by simp
  have "\<not> rune_cap (length v) < length v - Suc 0" using assms(2)[of "length v"] by linarith
  moreover have "concat (drop 1 (take (length v - 1) (map (\<lambda>c. [c]) v))) = butlast (tl v)"
    by (simp add: drop_map take_map drop_take butlast_conv_take drop_Suc)
  ultimately show ?thesis unfolding strip_quotes_def Let_def m by simp
qed

lemma onNewToken_no_panic:
  assumes "ascii (pt_Value t)" "\<And>n. n \<le> rune_cap n"
  shows "onNewToken rune_cap p t \<noteq> Panic m"
  using strip_quotes_ascii[OF unescape_ascii[OF assms(1)] assms(2)]
  by (auto simp: onNewToken_def Let_def split: sum.splits option.splits)

lemma Move_loop_no_panic:
  assumes "\<And>p t. pt_Value t = v \<Longrightarrow> f p t \<noteq> Panic m" "\<forall>n \<in> set ns. map_of sm n \<noteq> None"
  shows "Move_loop sm (Some f) ns v p \<noteq> Panic m"
  using assms(2)
proof (induction ns)
  case (Cons n ns)
  then obtain s where s: "map_of sm n = Some s" by auto
  show ?case
  proof (cases "f p \<lparr>pt_Name = tokenName s, pt_Family = family s, pt_Value = v\<rparr>")
    case (Panic x)
    then show ?thesis using Cons s assms(1)[of "\<lparr>pt_Name = tokenName s, pt_Family = family s, pt_Value = v\<rparr>" p] by auto
  qed (use Cons s in auto)
qed simp

lemma parse_tokens_no_panic:
  assumes "\<And>n. n \<le> rune_cap n"
  shows "\<forall>t \<in> set ts. ascii (TokenValue t) \<Longrightarrow> map_of sm_states n = Some s \<Longrightarrow>
           parse_tokens rune_cap sm_states ts s p \<noteq> Panic m"
proof (induction ts arbitrary: n s p)
  case (Cons t ts)
  have "map_of sm_states n \<noteq> None" if "n \<in> set (next_states s)" for n
    by (rule good_next[OF Cons.prems(2) that]) simp
  moreover have "onNewToken rune_cap p' t' \<noteq> Panic m" if "pt_Value t' = TokenValue t" for p' t'
    by (rule onNewToken_no_panic[OF _ assms]) (use Cons.prems(1) that in simp)
  ultimately have np: "Move sm_states (Some (onNewToken rune_cap)) s (TokenValue t) p \<noteq> Panic m"
    unfolding Move_def by (intro Move_loop_no_panic ballI)
  show ?case
  proof (cases "Move sm_states (Some (onNewToken rune_cap)) s (TokenValue t) p")
    case (Ok sp)
    obtain s1 p1 where sp: "sp = (s1, p1)" by (cases sp)
    obtain n' where "map_of sm_states n' = Some s1" by (rule Move_Ok[OF Ok[unfolded sp]])
    then have "parse_tokens rune_cap sm_states ts s1 p1 \<noteq> Panic m" using Cons.IH Cons.prems(1) by simp
    then show ?thesis by (simp add: Ok sp)
  qed (use np in simp_all)
qed simp

lemma scanner_tokens_ascii:
  assumes "ascii sql" "t \<in> set (tokens (scanner_Init sql NewSQLScanner))"
  shows "ascii (TokenValue t)"
proof -
  have "covers sql (length sql) (map piece (tokens (scanner_Init sql NewSQLScanner)))"
    by (rule scanner_Init_covers[OF ascii_valid[OF assms(1)]])
  then have "TokenValue t = take (length (TokenValue t)) (drop (nat (Position t)) sql)"
    using assms(2) by (auto simp: covers_def piece_of_def piece_def)
  then have "set (TokenValue t) \<subseteq> set sql" by (metis set_take_subset set_drop_subset subset_trans)
  then show ?thesis using assms(1) by (auto simp: ascii_def)
qed

section \<open>Properties\<close>

section \<open>Braces in the text of the query\<close>

definition text_depth :: "string \<Rightarrow> int" where
  "text_depth s = int (count_list s (CHR ''('')) - int (count_list s (CHR '')''))"

definition no_brace :: "string \<Rightarrow> bool" where
  "no_brace s \<longleftrightarrow> CHR ''('' \<notin> set s \<and> CHR '')'' \<notin> set s"

lemma text_depth_append [simp]: "text_depth (s @ t) = text_depth s + text_depth t"
  by (simp add: text_depth_def)

lemma no_brace_depth: "no_brace s \<Longrightarrow> text_depth s = 0"
  by (simp add: text_depth_def no_brace_def count_list_0_iff)

lemma no_brace_take: "no_brace s \<Longrightarrow> no_brace (take n s)"
  by (auto simp: no_brace_def dest: in_set_takeD)

lemma no_brace_lower: "no_brace (ToLower v) \<Longrightarrow> no_brace v"
proof -
  have "lower_char (CHR ''('') = CHR ''(''" "lower_char (CHR '')'') = CHR '')''" by code_simp+
  then show "no_brace (ToLower v) \<Longrightarrow> no_brace v" unfolding no_brace_def ToLower_def by (metis image_eqI list.set_map)
qed

text \<open>Only the fragments of braces have braces in their text, when no configured column has.\<close>

lemma frag_no_brace:
  assumes "frag_ok (NewQueryParser columns) f" "\<forall>b. f \<noteq> Brace b" "list_all no_brace columns"
  shows "no_brace (frag_text f)"
proof (cases f)
  case (Column c)
  have "list_all no_brace validColumns" by code_simp
  then have "list_all no_brace (ValidColumns (NewQueryParser columns))"
    using assms(3) by (simp add: NewQueryParser_def NewQueryParserWithColumnPrefix_def)
  then show ?thesis using assms(1) Column
    by (auto simp: list_all_iff column_text_def NewQueryParser_def NewQueryParserWithColumnPrefix_def)
next
  case (Operator v)
  then have "no_brace (ToLower v)" using assms(1) by (auto simp: no_brace_def)
  then show ?thesis using no_brace_lower[of v] Operator by (simp add: no_brace_def)
next
  case (Logical v)
  then have "no_brace (ToLower v)" using assms(1) by (auto simp: no_brace_def)
  then show ?thesis using no_brace_lower[of v] Logical by (simp add: no_brace_def)
qed (use assms(2) in \<open>simp_all add: no_brace_def\<close>)

lemma frag_depth:
  assumes "frag_ok (NewQueryParser columns) f" "list_all no_brace columns"
  shows "text_depth (frag_text f) = brace_depth [f]" "text_depth (take n (frag_text f)) \<in> {0, brace_depth [f]}"
proof -
  have "text_depth (frag_text f) = brace_depth [f] \<and> text_depth (take n (frag_text f)) \<in> {0, brace_depth [f]}"
  proof (cases "\<exists>b. f = Brace b")
    case True
    then consider "f = Brace ''(''" | "f = Brace '')''" using assms(1) by auto
    then show ?thesis by cases (cases n; simp add: text_depth_def brace_depth_def)+
  next
    case False
    then have nb: "no_brace (frag_text f)" using frag_no_brace[OF assms(1) _ assms(2)] by blast
    have "brace_depth [f] = 0" using False by (auto simp: brace_depth_def)
    then show ?thesis using no_brace_depth[OF nb] no_brace_depth[OF no_brace_take[OF nb, of n]] by simp
  qed
  then show "text_depth (frag_text f) = brace_depth [f]" "text_depth (take n (frag_text f)) \<in> {0, brace_depth [f]}" by auto
qed

lemma frags_depth:
  assumes "list_all no_brace columns"
  shows "list_all (frag_ok (NewQueryParser columns)) fs \<Longrightarrow> never_negative fs \<Longrightarrow>
    text_depth (concat (map frag_text fs)) = brace_depth fs \<and> (\<forall>n. 0 \<le> text_depth (take n (concat (map frag_text fs))))"
proof (induction fs rule: rev_induct)
  case Nil
  then show ?case by (simp add: text_depth_def brace_depth_def)
next
  case (snoc f fs)
  let ?t = "concat (map frag_text fs)"
  have f: "frag_ok (NewQueryParser columns) f" and nn: "never_negative fs" "0 \<le> brace_depth (fs @ [f])"
    using snoc.prems by (simp_all add: never_negative_snoc)
  have IH: "text_depth ?t = brace_depth fs" "0 \<le> text_depth (take n ?t)" for n using snoc nn(1) by auto
  have d: "brace_depth (fs @ [f]) = brace_depth fs + brace_depth [f]" by (simp add: brace_depth_def)
  have "0 \<le> text_depth (take n (concat (map frag_text (fs @ [f]))))" for n
  proof (cases "n \<le> length ?t")
    case True
    then show ?thesis using IH(2)[of n] by simp
  next
    case False
    then have "take n (concat (map frag_text (fs @ [f]))) = ?t @ take (n - length ?t) (frag_text f)" by simp
    then show ?thesis using IH(1) frag_depth(2)[OF f assms, of "n - length ?t"] nn never_negative_depth[OF nn(1)] d by auto
  qed
  then show ?case using IH(1) frag_depth(1)[OF f assms] d by simp
qed

lemma trim_spaces_split:
  obtains l r where "s = l @ trim_spaces s @ r" "no_brace l" "no_brace r"
proof -
  let ?sp = "\<lambda>c. c = CHR '' ''"
  let ?m = "dropWhile ?sp s"
  have "s = takeWhile ?sp s @ ?m" by simp
  moreover have "?m = trim_spaces s @ rev (takeWhile ?sp (rev ?m))"
    unfolding trim_spaces_def by (metis rev_append rev_rev_ident takeWhile_dropWhile_id)
  moreover have "no_brace (takeWhile ?sp s)" "no_brace (rev (takeWhile ?sp (rev ?m)))"
    by (auto simp: no_brace_def dest: set_takeWhileD)
  ultimately show ?thesis using that by metis
qed

lemma trim_spaces_depth:
  assumes "text_depth s = 0" "\<forall>n. 0 \<le> text_depth (take n s)"
  shows "text_depth (trim_spaces s) = 0" "0 \<le> text_depth (take n (trim_spaces s))"
proof -
  obtain l r where s: "s = l @ trim_spaces s @ r" and nb: "no_brace l" "no_brace r" using trim_spaces_split by metis
  have "text_depth s = text_depth l + (text_depth (trim_spaces s) + text_depth r)" by (metis s text_depth_append)
  then show z: "text_depth (trim_spaces s) = 0" using assms(1) no_brace_depth[OF nb(1)] no_brace_depth[OF nb(2)] by simp
  show "0 \<le> text_depth (take n (trim_spaces s))"
  proof (cases "n \<le> length (trim_spaces s)")
    case True
    have "take (length l + n) (l @ trim_spaces s @ r) = l @ take n (trim_spaces s)" using True by simp
    then have "take (length l + n) s = l @ take n (trim_spaces s)" using s by metis
    then have "text_depth (take (length l + n) s) = text_depth (take n (trim_spaces s))" using no_brace_depth[OF nb(1)] by simp
    then show ?thesis using assms(2) by metis
  qed (use z in simp)
qed

section \<open>Quoted values\<close>

definition rune_count :: "string \<Rightarrow> nat" where
  "rune_count s = length (go_runes 0 s)"

lemma unescape_plain: "CHR 0x5C \<notin> set v \<Longrightarrow> unescape v = v"
  by (induction v rule: unescape.induct) auto

lemma quoted_runes:
  assumes "valid_utf8 w"
  shows "map snd (go_runes 0 (CHR 0x27 # w @ [CHR 0x27])) = [[CHR 0x27]] @ map snd (go_runes 0 w) @ [[CHR 0x27]]"
proof -
  have q: "go_runes 0 [CHR 0x27] = [(0, [CHR 0x27])]" "valid_utf8 [CHR 0x27]" by code_simp+
  have "map snd (go_runes 0 ([CHR 0x27] @ (w @ [CHR 0x27]))) = [[CHR 0x27]] @ map snd (go_runes 0 (w @ [CHR 0x27]))"
    by (simp only: go_runes_append[OF q(2)] q(1) list.map snd_conv)
  then show ?thesis by (simp only: go_runes_append[OF assms] q(1) list.map snd_conv append_Cons append_Nil)
qed

lemma concat_zeros: "concat (replicate n [c]) = replicate n c"
  by (induction n) auto

text \<open>What is left of a quoted text, by the number of bytes that exceed the number of runes.\<close>

lemma strip_quotes_runes:
  assumes "valid_utf8 w" "\<forall>n. n \<le> rune_cap n"
  shows "strip_quotes rune_cap (CHR 0x27 # w @ [CHR 0x27]) =
    (if rune_count w = length w then Some w
     else if rune_cap (rune_count w + 2) < length w + 1 then None
     else Some (w @ [CHR 0x27] @ replicate (length w - rune_count w - 1) (CHR 0x00)))"
proof -
  define rs where "rs = map snd (go_runes 0 w)"
  have rs: "length rs = rune_count w" "concat rs = w" "rune_count w \<le> length w"
    using go_runes_concat[OF assms(1), of 0] go_runes_length[of 0 w] by (simp_all add: rs_def rune_count_def)
  have "Suc (rune_count w) \<le> rune_cap (Suc (Suc (rune_count w)))" using assms(2) Suc_leD by blast
  then show ?thesis using rs quoted_runes[OF assms(1)]
    by (auto simp: strip_quotes_def Let_def rs_def[symmetric] concat_zeros)
qed

text \<open>C12. No user text reaches the SQL fragment.  When a filter is accepted, the query is a
  concatenation of braces, placeholders, the words \<^verbatim>\<open>and, or, not, =, <>, like, ilike, in\<close> and the
  comma (in any letter case), and names of valid columns with their prefix; and there are exactly as
  many placeholders as values.\<close>

theorem Parse_no_injection:
  assumes "q0 = NewQueryParserWithColumnPrefix columnsPrefix columns"
    and "Parse rune_cap sql q0 = Ok q"
  shows "\<exists>fs. Query q = trim_spaces (concat (map frag_text fs)) \<and> list_all (frag_ok q0) fs \<and>
           length (Values q) = count_list fs Placeholder"
proof -
  obtain p fs where r: "rendered q0 p fs" "q = (dbqry p)\<lparr>Query := trim_spaces (Query (dbqry p))\<rparr>"
    using Parse_Ok[OF assms(2)] by metis
  have "Query q0 = [] \<and> Values q0 = []" by (simp add: assms(1) NewQueryParserWithColumnPrefix_def)
  then show ?thesis using r by (intro exI[of _ fs]) (simp add: rendered_def)
qed

theorem Parse_no_injection_witness:
  "\<exists>q fs. Parse (\<lambda>n. n) ''name=a'' (NewQueryParserWithColumnPrefix ''k'' []) = Ok q \<and> Query q = ''k.name = ?'' \<and>
     Query q = trim_spaces (concat (map frag_text fs)) \<and> length (Values q) = count_list fs Placeholder"
proof -
  have "Parse (\<lambda>n. n) ''name=a'' (NewQueryParserWithColumnPrefix ''k'' []) =
      Ok \<lparr>Query = ''k.name = ?'', Values = [''a''], ValidColumns = validColumns, ColumnPrefix = ''k''\<rparr>" by code_simp
  from this Parse_no_injection[OF refl this] show ?thesis by auto
qed

text \<open>C13. An accepted filter gives a query whose text has as many opening as closing braces and no prefix that closes a
  brace it has not opened, when no configured column name contains a brace; and the tokens of the query, each one of the
  grammar, have at most ten logical operators.\<close>

theorem Parse_balanced:
  assumes "Parse rune_cap sql (NewQueryParser columns) = Ok q" and "list_all no_brace columns"
  shows "text_depth (Query q) = 0 \<and> (\<forall>n. 0 \<le> text_depth (take n (Query q))) \<and>
    (\<exists>fs. Query q = trim_spaces (concat (map frag_text fs)) \<and> list_all (frag_ok (NewQueryParser columns)) fs \<and>
       length (filter is_logical fs) \<le> 10 \<and> brace_depth fs = 0 \<and> never_negative fs)"
proof -
  obtain p fs where r: "rendered (NewQueryParser columns) p fs" "openBraces p = 0"
    "q = (dbqry p)\<lparr>Query := trim_spaces (Query (dbqry p))\<rparr>"
    using Parse_Ok[OF assms(1)] by metis
  have "Query (NewQueryParser columns) = []" by (simp add: NewQueryParser_def NewQueryParserWithColumnPrefix_def)
  then have fs: "Query q = trim_spaces (concat (map frag_text fs))" "list_all (frag_ok (NewQueryParser columns)) fs"
    "length (filter is_logical fs) \<le> 10" "brace_depth fs = 0" "never_negative fs"
    using r by (simp_all add: rendered_def MaximumComplexity_def)
  then have "text_depth (concat (map frag_text fs)) = 0" "\<forall>n. 0 \<le> text_depth (take n (concat (map frag_text fs)))"
    using frags_depth[OF assms(2) fs(2,5)] by simp_all
  then show ?thesis using trim_spaces_depth[of "concat (map frag_text fs)"] fs by auto
qed

theorem Parse_balanced_witness:
  "\<exists>q. Parse (\<lambda>n. n) ''(name=a)'' (NewQueryParser []) = Ok q \<and> Query q = ''(name = ?)'' \<and>
     text_depth (Query q) = 0 \<and> (\<forall>n. 0 \<le> text_depth (take n (Query q)))"
proof -
  have "Parse (\<lambda>n. n) ''(name=a)'' (NewQueryParser []) =
      Ok \<lparr>Query = ''(name = ?)'', Values = [''a''], ValidColumns = validColumns, ColumnPrefix = ''''\<rparr>" by code_simp
  from this Parse_balanced[OF this] show ?thesis by auto
qed

text \<open>C14. Parsing an ASCII filter never panics, for every capacity the runtime may give a rune
  slice: the result is a query or an error.\<close>

theorem Parse_ascii_no_panic:
  assumes "ascii sql" and "\<forall>n. n \<le> rune_cap n"
  shows "Parse rune_cap sql q \<noteq> Panic m"
proof -
  obtain start where st: "map_of sm_states StartState = Some start" using query_machine_good by auto
  have "parse_loop rune_cap sm_states (scanner_Init sql NewSQLScanner) start p \<noteq> Panic m" for p
    using parse_tokens_no_panic[OF _ _ st] scanner_tokens_ascii[OF assms(1)] assms(2)
    by (simp add: parse_loop_remaining NewSQLScanner_def)
  then show ?thesis
    by (auto simp: Parse_def query_machine_Some st split: go.splits option.splits)
qed

theorem Parse_ascii_no_panic_witness:
  "ascii ''name=a'' \<and> Parse (\<lambda>n. n) ''name=a'' (NewQueryParser []) \<noteq> Panic ''slice bounds out of range''"
proof -
  have a: "ascii ''name=a''" by code_simp
  then show ?thesis using Parse_ascii_no_panic[OF a, of "\<lambda>n. n"] by simp
qed

text \<open>C16. The parse loop consumes exactly the tokens the scanner produced, each once and in order: it is
  the fold of the machine over the token list.\<close>

theorem parse_loop_tokens:
  "parse_loop rune_cap sm (scanner_Init sql NewSQLScanner) s p =
   parse_tokens rune_cap sm (tokens (scanner_Init sql NewSQLScanner)) s p"
  by (simp add: parse_loop_remaining NewSQLScanner_def)

text \<open>C23. A quoted value outside ASCII is stored wrongly, since the closing quote is cut off by its byte position in a slice
  of runes.  For every valid UTF-8 text \<open>w\<close> between quotes and without a backslash: \<open>w\<close> is stored when each of its runes has one
  byte; when the bytes exceed the runes by one, as with one two-byte letter, \<open>w\<close> is stored with the closing quote; with a larger
  excess zero runes follow the quote, or the handler panics when the capacity of the slice is too small.\<close>

theorem onNewToken_quoted:
  assumes "pt_Family t = quotedValueTokenFamily" and "pt_Value t = CHR 0x27 # w @ [CHR 0x27]"
    and "valid_utf8 w" and "CHR 0x5C \<notin> set w" and "\<forall>n. n \<le> rune_cap n"
  shows "onNewToken rune_cap p t =
    (if rune_count w = length w then Ok (add_value w (add_query '' ?'' p))
     else if rune_count w + 1 = length w then Ok (add_value (w @ [CHR 0x27]) (add_query '' ?'' p))
     else if length w + 1 \<le> rune_cap (rune_count w + 2)
     then Ok (add_value (w @ [CHR 0x27] @ replicate (length w - rune_count w - 1) (CHR 0x00)) (add_query '' ?'' p))
     else Panic ''slice bounds out of range'')"
proof -
  have "unescape (pt_Value t) = CHR 0x27 # w @ [CHR 0x27]" using assms(2,4) unescape_plain[of "pt_Value t"] by simp
  moreover have "rune_count w + 2 \<le> rune_cap (rune_count w + 2)" using assms(5) by blast
  ultimately show ?thesis using strip_quotes_runes[OF assms(3,5)] assms(1)
    by (auto simp: onNewToken_def quotedValueTokenFamily_def braceTokenFamily_def valueTokenFamily_def)
qed

theorem onNewToken_quoted_witness:
  "\<forall>p. valid_utf8 [CHR 0xC3, CHR 0xA9] \<and> rune_count [CHR 0xC3, CHR 0xA9] = 1 \<and>
   onNewToken (\<lambda>n. n) p \<lparr>pt_Name = quotedValue, pt_Family = quotedValueTokenFamily, pt_Value = [CHR 0x27, CHR 0xC3, CHR 0xA9, CHR 0x27]\<rparr> =
     Ok (add_value [CHR 0xC3, CHR 0xA9, CHR 0x27] (add_query '' ?'' p)) \<and>
   map_go Values (Parse (\<lambda>n. n) (''name='' @ [CHR 0x27, CHR 0xC3, CHR 0xA9, CHR 0x27]) (NewQueryParser [])) =
     Ok [[CHR 0xC3, CHR 0xA9, CHR 0x27]]"
proof (intro allI conjI)
  fix p
  let ?t = "\<lparr>pt_Name = quotedValue, pt_Family = quotedValueTokenFamily, pt_Value = [CHR 0x27, CHR 0xC3, CHR 0xA9, CHR 0x27]\<rparr>"
  show v: "valid_utf8 [CHR 0xC3, CHR 0xA9]" "rune_count [CHR 0xC3, CHR 0xA9] = 1" by code_simp+
  show "onNewToken (\<lambda>n. n) p ?t = Ok (add_value [CHR 0xC3, CHR 0xA9, CHR 0x27] (add_query '' ?'' p))"
    using onNewToken_quoted[of ?t "[CHR 0xC3, CHR 0xA9]" "\<lambda>n. n" p] v by simp
  show "map_go Values (Parse (\<lambda>n. n) (''name='' @ [CHR 0x27, CHR 0xC3, CHR 0xA9, CHR 0x27]) (NewQueryParser [])) =
     Ok [[CHR 0xC3, CHR 0xA9, CHR 0x27]]" by code_simp
qed

end
