(* ===== verification/Cluster_Types.thy ===== *)
theory Cluster_Types
  imports Go_Errors Go_Regexp
begin

text \<open>
  Package \<^verbatim>\<open>pkg/api\<close>, the data plane cluster: its statuses and their order, the record, the Strimzi
  versions it offers and the deep sort that stores them, and its dynamic capacity information.  The
  order of statuses is an instance of the locale \<open>status_order\<close>, shared with the Kafka statuses.

  Statuses, provider types and instance types are Go strings.  A JSON column is a value of type
  \<open>json\<close>: nil, the encoding of a value, or text that does not decode.  Parsing and comparing semantic
  versions is a third-party package: the record \<open>semver\<close> is a parameter of every definition that
  uses it, and \<open>semver_lawful\<close> states the part of its documented behaviour that is relied upon.
\<close>

section \<open>Columns and orders\<close>

datatype 'a json = JNil | JText 'a | JBad

text \<open>What the comparison of statuses promises its clients.\<close>

locale status_order =
  fixes cmp :: "string \<Rightarrow> string \<Rightarrow> int"
  assumes cmp_range: "cmp a b \<in> {- 1, 0, 1}"
    and cmp_swap: "cmp b a = - cmp a b"
    and cmp_trans: "cmp a b \<le> 0 \<Longrightarrow> cmp b c \<le> 0 \<Longrightarrow> cmp a c \<le> 0"
begin

lemma cmp_refl: "cmp a a = 0"
  using cmp_swap[of a a] by simp

lemma cmp_total: "cmp a b \<le> 0 \<or> cmp b a \<le> 0"
  using cmp_swap[of a b] by linarith

lemma cmp_strict_trans: "cmp a b < 0 \<Longrightarrow> cmp b c \<le> 0 \<Longrightarrow> cmp a c < 0"
  using cmp_trans[of a b c] cmp_trans[of b c a] cmp_swap[of a c] cmp_swap[of a b] by linarith

lemma cmp_equiv: "cmp a b = 0 \<Longrightarrow> cmp b c = 0 \<Longrightarrow> cmp a c = 0"
  using cmp_trans[of a b c] cmp_trans[of c b a] cmp_swap by (metis neg_0_equal_iff_equal order_antisym order_refl neg_le_0_iff_le)

end

section \<open>Statuses\<close>

definition ClusterAccepted :: string where "ClusterAccepted = ''cluster_accepted''"

definition ClusterProvisioning :: string where "ClusterProvisioning = ''cluster_provisioning''"

definition ClusterProvisioned :: string where "ClusterProvisioned = ''cluster_provisioned''"

definition ClusterFailed :: string where "ClusterFailed = ''failed''"

definition ClusterReady :: string where "ClusterReady = ''ready''"

definition ClusterDeprovisioning :: string where "ClusterDeprovisioning = ''deprovisioning''"

definition ClusterCleanup :: string where "ClusterCleanup = ''cleanup''"

definition ClusterWaitingForKasFleetShardOperator :: string where "ClusterWaitingForKasFleetShardOperator = ''waiting_for_kas_fleetshard_operator''"

definition ClusterFull :: string where "ClusterFull = ''full''"

definition ClusterProviderOCM :: string where "ClusterProviderOCM = ''ocm''"

definition ClusterProviderAwsEKS :: string where "ClusterProviderAwsEKS = ''aws_eks''"

definition ClusterProviderStandalone :: string where "ClusterProviderStandalone = ''standalone''"

definition EnterpriseDataPlaneClusterType :: string where "EnterpriseDataPlaneClusterType = ''enterprise''"

definition ManagedDataPlaneClusterType :: string where "ManagedDataPlaneClusterType = ''managed''"

definition DeveloperTypeSupport :: string where "DeveloperTypeSupport = ''developer''"

definition StandardTypeSupport :: string where "StandardTypeSupport = ''standard''"

definition AllInstanceTypeSupport :: string where "AllInstanceTypeSupport = ''standard,developer''"

lemmas cluster_constants = ClusterAccepted_def ClusterProvisioning_def ClusterProvisioned_def ClusterFailed_def ClusterReady_def ClusterDeprovisioning_def ClusterCleanup_def ClusterWaitingForKasFleetShardOperator_def ClusterFull_def ClusterProviderOCM_def ClusterProviderAwsEKS_def ClusterProviderStandalone_def EnterpriseDataPlaneClusterType_def ManagedDataPlaneClusterType_def DeveloperTypeSupport_def StandardTypeSupport_def AllInstanceTypeSupport_def

lemma cluster_status_distinct [simp]:
  "ClusterAccepted \<noteq> ClusterProvisioning"
  "ClusterAccepted \<noteq> ClusterProvisioned"
  "ClusterAccepted \<noteq> ClusterFailed"
  "ClusterAccepted \<noteq> ClusterReady"
  "ClusterAccepted \<noteq> ClusterDeprovisioning"
  "ClusterAccepted \<noteq> ClusterCleanup"
  "ClusterAccepted \<noteq> ClusterWaitingForKasFleetShardOperator"
  "ClusterAccepted \<noteq> ClusterFull"
  "ClusterProvisioning \<noteq> ClusterAccepted"
  "ClusterProvisioning \<noteq> ClusterProvisioned"
  "ClusterProvisioning \<noteq> ClusterFailed"
  "ClusterProvisioning \<noteq> ClusterReady"
  "ClusterProvisioning \<noteq> ClusterDeprovisioning"
  "ClusterProvisioning \<noteq> ClusterCleanup"
  "ClusterProvisioning \<noteq> ClusterWaitingForKasFleetShardOperator"
  "ClusterProvisioning \<noteq> ClusterFull"
  "ClusterProvisioned \<noteq> ClusterAccepted"
  "ClusterProvisioned \<noteq> ClusterProvisioning"
  "ClusterProvisioned \<noteq> ClusterFailed"
  "ClusterProvisioned \<noteq> ClusterReady"
  "ClusterProvisioned \<noteq> ClusterDeprovisioning"
  "ClusterProvisioned \<noteq> ClusterCleanup"
  "ClusterProvisioned \<noteq> ClusterWaitingForKasFleetShardOperator"
  "ClusterProvisioned \<noteq> ClusterFull"
  "ClusterFailed \<noteq> ClusterAccepted"
  "ClusterFailed \<noteq> ClusterProvisioning"
  "ClusterFailed \<noteq> ClusterProvisioned"
  "ClusterFailed \<noteq> ClusterReady"
  "ClusterFailed \<noteq> ClusterDeprovisioning"
  "ClusterFailed \<noteq> ClusterCleanup"
  "ClusterFailed \<noteq> ClusterWaitingForKasFleetShardOperator"
  "ClusterFailed \<noteq> ClusterFull"
  "ClusterReady \<noteq> ClusterAccepted"
  "ClusterReady \<noteq> ClusterProvisioning"
  "ClusterReady \<noteq> ClusterProvisioned"
  "ClusterReady \<noteq> ClusterFailed"
  "ClusterReady \<noteq> ClusterDeprovisioning"
  "ClusterReady \<noteq> ClusterCleanup"
  "ClusterReady \<noteq> ClusterWaitingForKasFleetShardOperator"
  "ClusterReady \<noteq> ClusterFull"
  "ClusterDeprovisioning \<noteq> ClusterAccepted"
  "ClusterDeprovisioning \<noteq> ClusterProvisioning"
  "ClusterDeprovisioning \<noteq> ClusterProvisioned"
  "ClusterDeprovisioning \<noteq> ClusterFailed"
  "ClusterDeprovisioning \<noteq> ClusterReady"
  "ClusterDeprovisioning \<noteq> ClusterCleanup"
  "ClusterDeprovisioning \<noteq> ClusterWaitingForKasFleetShardOperator"
  "ClusterDeprovisioning \<noteq> ClusterFull"
  "ClusterCleanup \<noteq> ClusterAccepted"
  "ClusterCleanup \<noteq> ClusterProvisioning"
  "ClusterCleanup \<noteq> ClusterProvisioned"
  "ClusterCleanup \<noteq> ClusterFailed"
  "ClusterCleanup \<noteq> ClusterReady"
  "ClusterCleanup \<noteq> ClusterDeprovisioning"
  "ClusterCleanup \<noteq> ClusterWaitingForKasFleetShardOperator"
  "ClusterCleanup \<noteq> ClusterFull"
  "ClusterWaitingForKasFleetShardOperator \<noteq> ClusterAccepted"
  "ClusterWaitingForKasFleetShardOperator \<noteq> ClusterProvisioning"
  "ClusterWaitingForKasFleetShardOperator \<noteq> ClusterProvisioned"
  "ClusterWaitingForKasFleetShardOperator \<noteq> ClusterFailed"
  "ClusterWaitingForKasFleetShardOperator \<noteq> ClusterReady"
  "ClusterWaitingForKasFleetShardOperator \<noteq> ClusterDeprovisioning"
  "ClusterWaitingForKasFleetShardOperator \<noteq> ClusterCleanup"
  "ClusterWaitingForKasFleetShardOperator \<noteq> ClusterFull"
  "ClusterFull \<noteq> ClusterAccepted"
  "ClusterFull \<noteq> ClusterProvisioning"
  "ClusterFull \<noteq> ClusterProvisioned"
  "ClusterFull \<noteq> ClusterFailed"
  "ClusterFull \<noteq> ClusterReady"
  "ClusterFull \<noteq> ClusterDeprovisioning"
  "ClusterFull \<noteq> ClusterCleanup"
  "ClusterFull \<noteq> ClusterWaitingForKasFleetShardOperator"
  by (simp_all add: cluster_constants)

lemma cluster_provider_distinct [simp]:
  "ClusterProviderOCM \<noteq> ClusterProviderAwsEKS"
  "ClusterProviderOCM \<noteq> ClusterProviderStandalone"
  "ClusterProviderAwsEKS \<noteq> ClusterProviderOCM"
  "ClusterProviderAwsEKS \<noteq> ClusterProviderStandalone"
  "ClusterProviderStandalone \<noteq> ClusterProviderOCM"
  "ClusterProviderStandalone \<noteq> ClusterProviderAwsEKS"
  by (simp_all add: cluster_constants)

lemma cluster_type_distinct [simp]:
  "EnterpriseDataPlaneClusterType \<noteq> ManagedDataPlaneClusterType"
  "ManagedDataPlaneClusterType \<noteq> EnterpriseDataPlaneClusterType"
  by (simp_all add: cluster_constants)

(* src/pkg/api/cluster_types.go:121-130 ordinals *)
definition ordinals :: "(string \<times> int) list" where
  "ordinals = [(ClusterAccepted, 0), (ClusterProvisioning, 10), (ClusterProvisioned, 20),
     (ClusterWaitingForKasFleetShardOperator, 30), (ClusterReady, 40), (ClusterDeprovisioning, 50),
     (ClusterCleanup, 60), (ClusterFailed, 70)]"

text \<open>Reading a missing key of a Go map yields the zero value.\<close>

definition ordinal_of :: "(string \<times> int) list \<Rightarrow> string \<Rightarrow> int" where
  "ordinal_of m k = (case map_of m k of None \<Rightarrow> 0 | Some i \<Rightarrow> i)"

(* src/pkg/api/cluster_types.go:51-63 ClusterStatus.CompareTo *)
definition ClusterStatus_CompareTo :: "string \<Rightarrow> string \<Rightarrow> int" where
  "ClusterStatus_CompareTo k k1 =
     (let ordinalK = ordinal_of ordinals k; ordinalK1 = ordinal_of ordinals k1 in
      if ordinalK = ordinalK1 then 0 else if ordinalK > ordinalK1 then 1 else - 1)"

(* src/pkg/api/cluster_types.go:31-48 ClusterStatus.UnmarshalYAML *)
definition ClusterStatus_UnmarshalYAML :: "string err \<Rightarrow> string err" where
  "ClusterStatus_UnmarshalYAML unmarshalled =
     (case unmarshalled of Inl err \<Rightarrow> Inl err
      | Inr s \<Rightarrow> if s = ClusterProvisioning then Inr ClusterProvisioning
                 else if s = ClusterProvisioned then Inr ClusterProvisioned
                 else if s = ClusterReady then Inr ClusterReady
                 else Inl (ErrorString (Sprintf ''invalid value %s'' [FStr s])))"

(* src/pkg/api/cluster_types.go:69-86 ClusterProviderType.UnmarshalYAML *)
definition ClusterProviderType_UnmarshalYAML :: "string err \<Rightarrow> string err" where
  "ClusterProviderType_UnmarshalYAML unmarshalled =
     (case unmarshalled of Inl err \<Rightarrow> Inl err
      | Inr s \<Rightarrow> if s = ClusterProviderOCM then Inr ClusterProviderOCM
                 else if s = ClusterProviderAwsEKS then Inr ClusterProviderAwsEKS
                 else if s = ClusterProviderStandalone then Inr ClusterProviderStandalone
                 else Inl (ErrorString (Sprintf ''invalid value %s'' [FStr s])))"

(* src/pkg/api/cluster_types.go:137-138 StatusForValidCluster *)
definition StatusForValidCluster :: "string list" where
  "StatusForValidCluster = [ClusterProvisioning, ClusterProvisioned, ClusterReady, ClusterAccepted,
     ClusterWaitingForKasFleetShardOperator]"

definition ClusterDeletionStatuses :: "string list" where
  "ClusterDeletionStatuses = [ClusterCleanup, ClusterDeprovisioning]"

section \<open>Versions\<close>

text \<open>Package \<^verbatim>\<open>blang/semver\<close>, as a parameter.\<close>

record 'v semver =
  ParseTolerant :: "string \<Rightarrow> 'v err"
  semver_Compare :: "'v \<Rightarrow> 'v \<Rightarrow> int"
  semver_Build :: "'v \<Rightarrow> string list"
  semver_Major :: "'v \<Rightarrow> nat"
  semver_Minor :: "'v \<Rightarrow> nat"

text \<open>Its documentation: \<^verbatim>\<open>Compare\<close> returns -1, 0 or 1 and is a total order of precedence.\<close>

definition semver_lawful :: "'v semver \<Rightarrow> bool" where
  "semver_lawful sv \<longleftrightarrow>
     (\<forall>a b. semver_Compare sv a b \<in> {- 1, 0, 1}) \<and>
     (\<forall>a b. semver_Compare sv b a = - semver_Compare sv a b) \<and>
     (\<forall>a b c. semver_Compare sv a b \<le> 0 \<longrightarrow> semver_Compare sv b c \<le> 0 \<longrightarrow> semver_Compare sv a c \<le> 0)"

(* src/pkg/api/semverutil.go:23-48 buildAwareSemanticVersioningCompare *)
definition buildAwareSemanticVersioningCompare :: "'v semver \<Rightarrow> string \<Rightarrow> string \<Rightarrow> int err" where
  "buildAwareSemanticVersioningCompare sv v1 v2 =
     (case ParseTolerant sv v1 of Inl err \<Rightarrow> Inl err
      | Inr v1Semver \<Rightarrow>
       (case ParseTolerant sv v2 of Inl err \<Rightarrow> Inl err
        | Inr v2Semver \<Rightarrow>
          (let res = semver_Compare sv v1Semver v2Semver in
           if res = 0 then
             (let v1BuildVersion = Join (semver_Build sv v1Semver) ''.'';
                  v2BuildVersion = Join (semver_Build sv v2Semver) ''.'' in
              Inr (if v1BuildVersion = v2BuildVersion then 0
                   else if str_less v2BuildVersion v1BuildVersion then 1 else - 1))
           else Inr res)))"

(* src/pkg/api/semverutil.go:54-76 checkIfMinorDowngrade *)
definition checkIfMinorDowngrade :: "'v semver \<Rightarrow> string \<Rightarrow> string \<Rightarrow> int err" where
  "checkIfMinorDowngrade sv cur desired =
     (case ParseTolerant sv cur of Inl err \<Rightarrow> Inl err
      | Inr c \<Rightarrow>
       (case ParseTolerant sv desired of Inl err \<Rightarrow> Inl err
        | Inr d \<Rightarrow>
          if semver_Major sv c < semver_Major sv d then Inr (- 1)
          else if semver_Major sv c > semver_Major sv d then Inr 1
          else if semver_Minor sv c = semver_Minor sv d then Inr 0
          else if semver_Minor sv c > semver_Minor sv d then Inr 1
          else Inr (- 1)))"

(* src/pkg/api/cluster_types.go:276-278 CompareBuildAwareSemanticVersions *)
definition CompareBuildAwareSemanticVersions :: "'v semver \<Rightarrow> string \<Rightarrow> string \<Rightarrow> int err" where
  "CompareBuildAwareSemanticVersions sv v1 v2 = buildAwareSemanticVersioningCompare sv v1 v2"

(* src/pkg/api/cluster_types.go:280-282 CompareSemanticVersionsMajorAndMinor *)
definition CompareSemanticVersionsMajorAndMinor :: "'v semver \<Rightarrow> string \<Rightarrow> string \<Rightarrow> int err" where
  "CompareSemanticVersionsMajorAndMinor sv cur desired = checkIfMinorDowngrade sv cur desired"

(* src/pkg/api/cluster_types.go:235-237 KafkaVersion *)
record KafkaVersion =
  kv_Version :: string

(* src/pkg/api/cluster_types.go:239-241 KafkaVersion.Compare *)
definition KafkaVersion_Compare :: "'v semver \<Rightarrow> KafkaVersion \<Rightarrow> KafkaVersion \<Rightarrow> int err" where
  "KafkaVersion_Compare sv s other_v = buildAwareSemanticVersioningCompare sv (kv_Version s) (kv_Version other_v)"

(* src/pkg/api/cluster_types.go:243-245 KafkaIBPVersion *)
record KafkaIBPVersion =
  ibp_Version :: string

(* src/pkg/api/cluster_types.go:247-249 KafkaIBPVersion.Compare *)
definition KafkaIBPVersion_Compare :: "'v semver \<Rightarrow> KafkaIBPVersion \<Rightarrow> KafkaIBPVersion \<Rightarrow> int err" where
  "KafkaIBPVersion_Compare sv s other_v = buildAwareSemanticVersioningCompare sv (ibp_Version s) (ibp_Version other_v)"

(* src/pkg/api/cluster_types.go:216-221 StrimziVersion *)
record StrimziVersion =
  sv_Version :: string
  sv_Ready :: bool
  sv_KafkaVersions :: "KafkaVersion list"
  sv_KafkaIBPVersions :: "KafkaIBPVersion list"

definition StrimziVersionNumberPartRegex :: string where
  "StrimziVersionNumberPartRegex =
     [CHR 0x5C] @ ''d+'' @ [CHR 0x5C] @ ''.'' @ [CHR 0x5C] @ ''d+'' @ [CHR 0x5C] @ ''.'' @ [CHR 0x5C] @ ''d+-'' @ [CHR 0x5C] @ ''d+$''"

text \<open>Both messages name the receiver's version, as in the source.\<close>

(* src/pkg/api/cluster_types.go:262-274 StrimziVersion.Compare *)
definition StrimziVersion_Compare :: "'v semver \<Rightarrow> StrimziVersion \<Rightarrow> StrimziVersion \<Rightarrow> int err" where
  "StrimziVersion_Compare sv s other_v =
     (let bad = Inl (ErrorString (Sprintf ([CHR 0x27] @ ''%s'' @ [CHR 0x27] @ '' does not follow expected Strimzi Version format'') [FStr (sv_Version s)]));
          v1VersionNumber = regexp_FindSuffix StrimziVersionNumberPartRegex (sv_Version s);
          v2VersionNumber = regexp_FindSuffix StrimziVersionNumberPartRegex (sv_Version other_v)
      in if v1VersionNumber = '''' then bad
         else if v2VersionNumber = '''' then bad
         else buildAwareSemanticVersioningCompare sv v1VersionNumber v2VersionNumber)"

(* src/pkg/api/cluster_types.go:284-301 StrimziVersion.DeepCopy *)
definition StrimziVersion_DeepCopy :: "StrimziVersion \<Rightarrow> StrimziVersion" where
  "StrimziVersion_DeepCopy s = s\<lparr>sv_KafkaVersions := sv_KafkaVersions s, sv_KafkaIBPVersions := sv_KafkaIBPVersions s\<rparr>"

(* src/pkg/api/cluster_types.go:308-315 StrimziVersion.GetLatestKafkaVersion *)
definition GetLatestKafkaVersion :: "StrimziVersion \<Rightarrow> KafkaVersion option" where
  "GetLatestKafkaVersion s =
     (let n = length (sv_KafkaVersions s) in if n = 0 then None else Some (sv_KafkaVersions s ! (n - 1)))"

(* src/pkg/api/cluster_types.go:322-329 StrimziVersion.GetLatestKafkaIBPVersion *)
definition GetLatestKafkaIBPVersion :: "StrimziVersion \<Rightarrow> KafkaIBPVersion option" where
  "GetLatestKafkaIBPVersion s =
     (let n = length (sv_KafkaIBPVersions s) in if n = 0 then None else Some (sv_KafkaIBPVersions s ! (n - 1)))"

section \<open>Sorting with a comparison that may fail\<close>

text \<open>\<^verbatim>\<open>sort.Slice\<close> with the comparison of the source, which records an error and answers false.  The
  standard library sorts up to twelve elements by insertion from the right: an element moves left
  while it is less than its neighbour.  The sorted part is kept reversed.  Longer slices, which the library partitions first, are
  sorted the same way here: the library leaves the order of equal elements open, and for these slices that order and the number
  of recorded errors may differ from the model's.\<close>

definition less_err :: "('a \<Rightarrow> 'a \<Rightarrow> int err) \<Rightarrow> 'a \<Rightarrow> 'a \<Rightarrow> bool \<times> goerror list" where
  "less_err cmp x y = (case cmp x y of Inl e \<Rightarrow> (False, [e]) | Inr r \<Rightarrow> (r = - 1, []))"

fun sink :: "('a \<Rightarrow> 'a \<Rightarrow> int err) \<Rightarrow> 'a \<Rightarrow> 'a list \<Rightarrow> 'a list \<times> goerror list" where
  "sink cmp x [] = ([x], [])"
| "sink cmp x (y # ys) =
     (case less_err cmp x y of (l, es) \<Rightarrow>
        if l then (case sink cmp x ys of (zs, es') \<Rightarrow> (y # zs, es @ es')) else (x # y # ys, es))"

fun sort_rev :: "('a \<Rightarrow> 'a \<Rightarrow> int err) \<Rightarrow> 'a list \<Rightarrow> 'a list \<Rightarrow> 'a list \<times> goerror list" where
  "sort_rev cmp acc [] = (acc, [])"
| "sort_rev cmp acc (x # xs) =
     (case sink cmp x acc of (acc', es) \<Rightarrow> (case sort_rev cmp acc' xs of (r, es') \<Rightarrow> (r, es @ es')))"

definition sort_Slice :: "('a \<Rightarrow> 'a \<Rightarrow> int err) \<Rightarrow> 'a list \<Rightarrow> 'a list \<times> goerror list" where
  "sort_Slice cmp xs = (case sort_rev cmp [] xs of (r, es) \<Rightarrow> (rev r, es))"

(* src/pkg/api/cluster_types.go:440-467 StrimziVersionsDeepSort *)
fun sort_inner :: "'v semver \<Rightarrow> StrimziVersion list \<Rightarrow> StrimziVersion list err" where
  "sort_inner sv [] = Inr []"
| "sort_inner sv (v # vs) =
     (case sort_Slice (KafkaVersion_Compare sv) (sv_KafkaVersions v) of (ks, errors) \<Rightarrow>
        if errors \<noteq> [] then Inl (ErrorListErr errors)
        else (case sort_Slice (KafkaIBPVersion_Compare sv) (sv_KafkaIBPVersions v) of (ibps, errors) \<Rightarrow>
          if errors \<noteq> [] then Inl (ErrorListErr errors)
          else (case sort_inner sv vs of Inl e \<Rightarrow> Inl e
                | Inr ws \<Rightarrow> Inr (v\<lparr>sv_KafkaVersions := ks, sv_KafkaIBPVersions := ibps\<rparr> # ws))))"

(* src/pkg/api/cluster_types.go:411-470 StrimziVersionsDeepSort *)
definition StrimziVersionsDeepSort :: "'v semver \<Rightarrow> StrimziVersion list \<Rightarrow> StrimziVersion list err" where
  "StrimziVersionsDeepSort sv versions =
     (if length versions = 0 then Inr []
      else (let versionsToSet = map StrimziVersion_DeepCopy versions in
        case sort_Slice (StrimziVersion_Compare sv) versionsToSet of (sortedVs, errors) \<Rightarrow>
          if errors \<noteq> [] then Inl (ErrorListErr errors) else sort_inner sv sortedVs))"

section \<open>Clusters\<close>

text \<open>The map from instance types to capacity information, as an association list.\<close>

(* src/pkg/api/cluster_types.go:223-233 DynamicCapacityInfo *)
record DynamicCapacityInfo =
  MaxNodes :: int32
  MaxUnits :: int32
  RemainingUnits :: int32

(* src/pkg/api/cluster_types.go:143-183 Cluster *)
record Cluster =
  c_ID :: string
  c_CreatedAt :: time
  c_CloudProvider :: string
  c_ClusterID :: string
  c_ExternalID :: string
  c_MultiAZ :: bool
  c_Region :: string
  c_Status :: string
  c_StatusDetails :: string
  c_IdentityProviderID :: string
  c_ClusterDNS :: string
  c_ClientID :: string
  c_ClientSecret :: string
  c_ProviderType :: string
  c_ProviderSpec :: "string json"
  c_ClusterSpec :: "string json"
  c_AvailableStrimziVersions :: "StrimziVersion list json"
  c_SupportedInstanceType :: string
  c_DynamicCapacityInfo :: "(string \<times> DynamicCapacityInfo) list json"
  c_ClusterType :: string
  c_OrganizationID :: string
  c_AccessKafkasViaPrivateNetwork :: bool

text \<open>The zero value of the struct.\<close>

definition zero_Cluster :: Cluster where
  "zero_Cluster = \<lparr>c_ID = '''', c_CreatedAt = 0, c_CloudProvider = '''', c_ClusterID = '''', c_ExternalID = '''',
     c_MultiAZ = False, c_Region = '''', c_Status = '''', c_StatusDetails = '''', c_IdentityProviderID = '''',
     c_ClusterDNS = '''', c_ClientID = '''', c_ClientSecret = '''', c_ProviderType = '''', c_ProviderSpec = JNil,
     c_ClusterSpec = JNil, c_AvailableStrimziVersions = JNil, c_SupportedInstanceType = '''',
     c_DynamicCapacityInfo = JNil, c_ClusterType = '''', c_OrganizationID = '''',
     c_AccessKafkasViaPrivateNetwork = False\<rparr>"

(* src/pkg/api/cluster_types.go:188-194 ClusterList.Index *)
fun ClusterList_Index :: "Cluster list \<Rightarrow> (string \<rightharpoonup> Cluster) \<Rightarrow> (string \<rightharpoonup> Cluster)" where
  "ClusterList_Index [] index = index"
| "ClusterList_Index (c # cs) index = ClusterList_Index cs (index(c_ID c \<mapsto> c))"

text \<open>\<open>newID\<close> is the identifier the generator would return.\<close>

(* src/pkg/api/cluster_types.go:196-214 Cluster.BeforeCreate *)
definition Cluster_BeforeCreate :: "string \<Rightarrow> Cluster \<Rightarrow> Cluster" where
  "Cluster_BeforeCreate newID cluster =
     (let c1 = (if c_Status cluster = '''' then cluster\<lparr>c_Status := ClusterAccepted\<rparr> else cluster);
          c2 = (if c_ID c1 = '''' then c1\<lparr>c_ID := newID\<rparr> else c1);
          c3 = (if c_SupportedInstanceType c2 = '''' then c2\<lparr>c_SupportedInstanceType := AllInstanceTypeSupport\<rparr> else c2)
      in if c_ClusterType c3 = '''' then c3\<lparr>c_ClusterType := ManagedDataPlaneClusterType\<rparr> else c3)"

(* src/pkg/api/cluster_types.go:371-383 Cluster.GetAvailableStrimziVersions *)
definition GetAvailableStrimziVersions :: "Cluster \<Rightarrow> StrimziVersion list err" where
  "GetAvailableStrimziVersions cluster =
     (case c_AvailableStrimziVersions cluster of
        JNil \<Rightarrow> Inr [] | JText versions \<Rightarrow> Inr versions | JBad \<Rightarrow> Inl (ErrorString ''invalid JSON''))"

(* src/pkg/api/cluster_types.go:334-343 Cluster.GetAvailableAndReadyStrimziVersions *)
definition GetAvailableAndReadyStrimziVersions :: "Cluster \<Rightarrow> StrimziVersion list err" where
  "GetAvailableAndReadyStrimziVersions cluster =
     (case GetAvailableStrimziVersions cluster of Inl err \<Rightarrow> Inl err
      | Inr strimziVersions \<Rightarrow> Inr (Filter strimziVersions sv_Ready))"

(* src/pkg/api/cluster_types.go:352-364 Cluster.GetLatestAvailableAndReadyStrimziVersion *)
definition GetLatestAvailableAndReadyStrimziVersion :: "Cluster \<Rightarrow> StrimziVersion option err" where
  "GetLatestAvailableAndReadyStrimziVersion cluster =
     (case GetAvailableAndReadyStrimziVersions cluster of Inl err \<Rightarrow> Inl err
      | Inr vs \<Rightarrow> if length vs = 0 then Inr None else Inr (Some (StrimziVersion_DeepCopy (vs ! (length vs - 1)))))"

(* src/pkg/api/cluster_types.go:392-404 Cluster.GetLatestAvailableStrimziVersion *)
definition GetLatestAvailableStrimziVersion :: "Cluster \<Rightarrow> StrimziVersion option err" where
  "GetLatestAvailableStrimziVersion cluster =
     (case GetAvailableStrimziVersions cluster of Inl err \<Rightarrow> Inl err
      | Inr vs \<Rightarrow> if length vs = 0 then Inr None else Inr (Some (StrimziVersion_DeepCopy (vs ! (length vs - 1)))))"

(* src/pkg/api/cluster_types.go:478-493 Cluster.SetAvailableStrimziVersions *)
definition SetAvailableStrimziVersions :: "'v semver \<Rightarrow> StrimziVersion list \<Rightarrow> Cluster \<Rightarrow> Cluster err" where
  "SetAvailableStrimziVersions sv availableStrimziVersions cluster =
     (case StrimziVersionsDeepSort sv availableStrimziVersions of Inl err \<Rightarrow> Inl err
      | Inr sortedVersions \<Rightarrow> Inr (cluster\<lparr>c_AvailableStrimziVersions := JText sortedVersions\<rparr>))"

(* src/pkg/api/cluster_types.go:497-506 Cluster.SetDynamicCapacityInfo *)
definition SetDynamicCapacityInfo :: "(string \<times> DynamicCapacityInfo) list \<Rightarrow> Cluster \<Rightarrow> Cluster" where
  "SetDynamicCapacityInfo info cluster = cluster\<lparr>c_DynamicCapacityInfo := JText info\<rparr>"

(* src/pkg/api/cluster_types.go:509-519 Cluster.RetrieveDynamicCapacityInfo *)
definition RetrieveDynamicCapacityInfo :: "Cluster \<Rightarrow> (string \<times> DynamicCapacityInfo) list" where
  "RetrieveDynamicCapacityInfo cluster =
     (case c_DynamicCapacityInfo cluster of JNil \<Rightarrow> [] | JText info \<Rightarrow> info | JBad \<Rightarrow> [])"

(* src/pkg/api/cluster_types.go:524-529 Cluster.GetSupportedInstanceTypes *)
definition GetSupportedInstanceTypes :: "Cluster \<Rightarrow> string list" where
  "GetSupportedInstanceTypes cluster =
     (if c_SupportedInstanceType cluster = '''' then [] else Split (c_SupportedInstanceType cluster) (CHR '',''))"

(* src/pkg/api/cluster_types.go:533-535 Cluster.GetRawSupportedInstanceTypes *)
definition GetRawSupportedInstanceTypes :: "Cluster \<Rightarrow> string" where
  "GetRawSupportedInstanceTypes cluster = c_SupportedInstanceType cluster"

section \<open>The order of cluster statuses\<close>

lemma ordinal_cmp_order:
  "status_order (\<lambda>k k1. let a = ordinal_of m k; b = ordinal_of m k1 in if a = b then 0 else if a > b then 1 else - 1)"
  by unfold_locales (auto simp: Let_def split: if_splits)

interpretation cluster_order: status_order ClusterStatus_CompareTo
  unfolding ClusterStatus_CompareTo_def[abs_def] by (rule ordinal_cmp_order)

section \<open>Correctness of the sort\<close>

lemma sink_mset: "mset (fst (sink cmp x ys)) = add_mset x (mset ys)"
  by (induction cmp x ys rule: sink.induct) (auto split: prod.splits)

lemma sort_rev_mset: "mset (fst (sort_rev cmp acc xs)) = mset acc + mset xs"
proof (induction cmp acc xs rule: sort_rev.induct)
  case (2 cmp acc x xs)
  then show ?case using sink_mset[of cmp x acc] by (auto split: prod.splits)
qed simp

lemma sort_Slice_mset: "mset (fst (sort_Slice cmp xs)) = mset xs"
  using sort_rev_mset[of cmp "[]" xs] by (auto simp: sort_Slice_def split: prod.splits)

lemma sort_Slice_set: "set (fst (sort_Slice cmp xs)) = set xs"
  by (metis sort_Slice_mset set_mset_mset)

lemma sort_Slice_length: "length (fst (sort_Slice cmp xs)) = length xs"
  by (metis sort_Slice_mset size_mset)

text \<open>A comparison that answers on a set and is a total preorder there.\<close>

definition cmp_le :: "('a \<Rightarrow> 'a \<Rightarrow> int err) \<Rightarrow> 'a \<Rightarrow> 'a \<Rightarrow> bool" where
  "cmp_le cmp x y \<longleftrightarrow> (case cmp x y of Inl e \<Rightarrow> False | Inr r \<Rightarrow> r \<le> 0)"

definition cmp_lawful :: "('a \<Rightarrow> 'a \<Rightarrow> int err) \<Rightarrow> 'a set \<Rightarrow> bool" where
  "cmp_lawful cmp S \<longleftrightarrow>
     (\<forall>x \<in> S. \<forall>y \<in> S. \<exists>r \<in> {- 1, 0, 1}. cmp x y = Inr r \<and> cmp y x = Inr (- r)) \<and>
     (\<forall>x \<in> S. \<forall>y \<in> S. \<forall>z \<in> S. cmp_le cmp x y \<longrightarrow> cmp_le cmp y z \<longrightarrow> cmp_le cmp x z)"

lemma cmp_lawful_less:
  assumes "cmp_lawful cmp S" "x \<in> S" "y \<in> S"
  shows "less_err cmp x y = (\<not> cmp_le cmp y x, [])"
proof -
  obtain r where "r \<in> {- 1, 0, 1}" "cmp x y = Inr r" "cmp y x = Inr (- r)"
    using assms unfolding cmp_lawful_def by blast
  then show ?thesis by (auto simp: less_err_def cmp_le_def)
qed

lemma cmp_lawful_total:
  assumes "cmp_lawful cmp S" "x \<in> S" "y \<in> S"
  shows "cmp_le cmp x y \<or> cmp_le cmp y x"
proof -
  obtain r where "r \<in> {- 1, 0, 1}" "cmp x y = Inr r" "cmp y x = Inr (- r)"
    using assms unfolding cmp_lawful_def by blast
  then show ?thesis by (auto simp: cmp_le_def)
qed

lemma sink_sorted:
  "cmp_lawful cmp S \<Longrightarrow> x \<in> S \<Longrightarrow> set ys \<subseteq> S \<Longrightarrow> sorted_wrt (\<lambda>a b. cmp_le cmp b a) ys \<Longrightarrow>
     snd (sink cmp x ys) = [] \<and> sorted_wrt (\<lambda>a b. cmp_le cmp b a) (fst (sink cmp x ys))"
proof (induction ys)
  case (Cons y ys)
  have l: "less_err cmp x y = (\<not> cmp_le cmp y x, [])" using Cons.prems by (auto intro: cmp_lawful_less)
  show ?case
  proof (cases "cmp_le cmp y x")
    case True
    have "cmp_le cmp z x" if "z \<in> set ys" for z
      using Cons.prems True that unfolding cmp_lawful_def by (metis list.set_intros subsetD sorted_wrt.simps(2))
    then show ?thesis using l True Cons.prems by simp
  next
    case False
    have IH: "snd (sink cmp x ys) = []" "sorted_wrt (\<lambda>a b. cmp_le cmp b a) (fst (sink cmp x ys))"
      using Cons by auto
    have s: "set (fst (sink cmp x ys)) = insert x (set ys)"
      using sink_mset[of cmp x ys] by (metis set_mset_mset set_mset_add_mset_insert)
    have "cmp_le cmp x y" using False Cons.prems cmp_lawful_total[of cmp S x y] by auto
    then have "\<forall>z \<in> set (fst (sink cmp x ys)). cmp_le cmp z y" using s Cons.prems by auto
    then show ?thesis using l False IH by (auto split: prod.splits)
  qed
qed simp

lemma sort_rev_sorted:
  "cmp_lawful cmp S \<Longrightarrow> set acc \<union> set xs \<subseteq> S \<Longrightarrow> sorted_wrt (\<lambda>a b. cmp_le cmp b a) acc \<Longrightarrow>
     snd (sort_rev cmp acc xs) = [] \<and> sorted_wrt (\<lambda>a b. cmp_le cmp b a) (fst (sort_rev cmp acc xs))"
proof (induction xs arbitrary: acc)
  case (Cons x xs)
  have s: "snd (sink cmp x acc) = []" "sorted_wrt (\<lambda>a b. cmp_le cmp b a) (fst (sink cmp x acc))"
    using sink_sorted[of cmp S x acc] Cons.prems by auto
  have "set (fst (sink cmp x acc)) = insert x (set acc)"
    using sink_mset[of cmp x acc] by (metis set_mset_mset set_mset_add_mset_insert)
  then show ?case using Cons.IH[of "fst (sink cmp x acc)"] Cons.prems s by (auto split: prod.splits)
qed simp

lemma sort_Slice_sorted:
  assumes "cmp_lawful cmp (set xs)"
  shows "snd (sort_Slice cmp xs) = []" "sorted_wrt (cmp_le cmp) (fst (sort_Slice cmp xs))"
  using sort_rev_sorted[OF assms, of "[]" xs]
  by (auto simp: sort_Slice_def sorted_wrt_rev split: prod.splits)

text \<open>A comparison that fails exactly when one of its arguments is malformed: a sort reports no
  error exactly when there was nothing to compare or everything is well formed.\<close>

definition fails_unless :: "('a \<Rightarrow> 'a \<Rightarrow> int err) \<Rightarrow> ('a \<Rightarrow> bool) \<Rightarrow> bool" where
  "fails_unless cmp ok \<longleftrightarrow> (\<forall>x y. (\<exists>r. cmp x y = Inr r) \<longleftrightarrow> ok x \<and> ok y)"

lemma less_err_ok: "fails_unless cmp ok \<Longrightarrow> snd (less_err cmp x y) = [] \<longleftrightarrow> ok x \<and> ok y"
  unfolding fails_unless_def less_err_def by (cases "cmp x y") (auto, metis sum.distinct(1))

lemma sink_errors:
  assumes "fails_unless cmp ok" "\<forall>y \<in> set ys. ok y" "ys \<noteq> []"
  shows "snd (sink cmp x ys) = [] \<longleftrightarrow> ok x"
  using assms(2,3)
proof (induction ys)
  case (Cons y ys)
  have l: "snd (less_err cmp x y) = [] \<longleftrightarrow> ok x" using less_err_ok[OF assms(1)] Cons.prems by auto
  then show ?case using Cons by (cases ys) (auto split: prod.splits)
qed simp

lemma sort_rev_errors:
  assumes "fails_unless cmp ok"
  shows "\<forall>y \<in> set acc. ok y \<Longrightarrow> acc \<noteq> [] \<Longrightarrow> snd (sort_rev cmp acc xs) = [] \<longleftrightarrow> (\<forall>x \<in> set xs. ok x)"
proof (induction xs arbitrary: acc)
  case (Cons x xs)
  have s: "snd (sink cmp x acc) = [] \<longleftrightarrow> ok x" using sink_errors[OF assms] Cons.prems by blast
  have m: "set (fst (sink cmp x acc)) = insert x (set acc)"
    using sink_mset[of cmp x acc] by (metis set_mset_mset set_mset_add_mset_insert)
  show ?case
  proof (cases "ok x")
    case True
    have "fst (sink cmp x acc) \<noteq> []" using m by force
    then show ?thesis using Cons.IH[of "fst (sink cmp x acc)"] Cons.prems s m True by (auto split: prod.splits)
  next
    case False
    then show ?thesis using s by (auto split: prod.splits)
  qed
qed simp

lemma sort_Slice_errors:
  assumes "fails_unless cmp ok"
  shows "snd (sort_Slice cmp xs) = [] \<longleftrightarrow> length xs \<le> 1 \<or> (\<forall>x \<in> set xs. ok x)"
proof (cases xs)
  case (Cons x ys)
  show ?thesis
  proof (cases ys)
    case (Cons y zs)
    have l: "snd (less_err cmp y x) = [] \<longleftrightarrow> ok x \<and> ok y" using less_err_ok[OF assms] by blast
    have e: "snd (sort_Slice cmp xs) = snd (sink cmp y [x]) @ snd (sort_rev cmp (fst (sink cmp y [x])) zs)"
      by (simp add: sort_Slice_def \<open>xs = x # ys\<close> Cons split: prod.splits)
    have si: "snd (sink cmp y [x]) = [] \<longleftrightarrow> ok x \<and> ok y" using l by (auto split: prod.splits)
    have m: "set (fst (sink cmp y [x])) = {x, y}"
      using sink_mset[of cmp y "[x]"] by (metis set_mset_mset set_mset_add_mset_insert insert_commute list.set(1) list.set(2))
    show ?thesis
    proof (cases "ok x \<and> ok y")
      case True
      have "fst (sink cmp y [x]) \<noteq> []" using m by force
      then show ?thesis using e si m True sort_rev_errors[OF assms, of "fst (sink cmp y [x])" zs]
        by (auto simp: \<open>xs = x # ys\<close> Cons)
    next
      case False
      then show ?thesis using e si by (auto simp: \<open>xs = x # ys\<close> Cons)
    qed
  qed (simp add: sort_Slice_def \<open>xs = x # ys\<close>)
qed (simp add: sort_Slice_def)

section \<open>Comparing versions\<close>

lemma build_cmp_cases:
  "(if a = b then 0 else if str_less b a then 1 else - 1 :: int) \<le> 0 \<longleftrightarrow> \<not> str_less b a"
  by auto

text \<open>The text compared after equal precedence.\<close>

definition build_key :: "'v semver \<Rightarrow> 'v \<Rightarrow> string" where
  "build_key sv v = Join (semver_Build sv v) ''.''"

definition version_ok :: "'v semver \<Rightarrow> string \<Rightarrow> bool" where
  "version_ok sv s \<longleftrightarrow> (\<exists>v. ParseTolerant sv s = Inr v)"

lemma build_aware_fails: "fails_unless (buildAwareSemanticVersioningCompare sv) (version_ok sv)"
  unfolding fails_unless_def buildAwareSemanticVersioningCompare_def version_ok_def Let_def
  by (auto split: sum.splits)

lemma build_aware_value:
  assumes "ParseTolerant sv a = Inr x" "ParseTolerant sv b = Inr y"
  shows "buildAwareSemanticVersioningCompare sv a b =
    Inr (if semver_Compare sv x y = 0
         then (if build_key sv x = build_key sv y then 0 else if str_less (build_key sv y) (build_key sv x) then 1 else - 1)
         else semver_Compare sv x y)"
  using assms by (simp add: buildAwareSemanticVersioningCompare_def build_key_def Let_def)

lemma str_less_asym: "str_less s t \<Longrightarrow> \<not> str_less t s"
  using str_less_trans str_less_irrefl by blast

lemma build_aware_le:
  assumes "semver_lawful sv" "ParseTolerant sv a = Inr x" "ParseTolerant sv b = Inr y"
  shows "cmp_le (buildAwareSemanticVersioningCompare sv) a b \<longleftrightarrow>
    semver_Compare sv x y < 0 \<or> (semver_Compare sv x y = 0 \<and> \<not> str_less (build_key sv y) (build_key sv x))"
  by (auto simp: cmp_le_def build_aware_value[OF assms(2,3)])

lemma build_aware_lawful:
  assumes "semver_lawful sv" "\<forall>s \<in> S. version_ok sv s"
  shows "cmp_lawful (buildAwareSemanticVersioningCompare sv) S"
  unfolding cmp_lawful_def
proof (intro conjI ballI impI)
  note law = assms(1)[unfolded semver_lawful_def]
  fix a b assume ab: "a \<in> S" "b \<in> S"
  then obtain x y where xy: "ParseTolerant sv a = Inr x" "ParseTolerant sv b = Inr y"
    using assms(2) unfolding version_ok_def by metis
  have "semver_Compare sv x y \<in> {- 1, 0, 1}" "semver_Compare sv y x = - semver_Compare sv x y" using law by blast+
  then show "\<exists>r \<in> {- 1, 0, 1}. buildAwareSemanticVersioningCompare sv a b = Inr r \<and> buildAwareSemanticVersioningCompare sv b a = Inr (- r)"
    using str_less_linear[of "build_key sv x" "build_key sv y"] str_less_asym
    by (auto simp: build_aware_value[OF xy] build_aware_value[OF xy(2,1)])
next
  note law = assms(1)[unfolded semver_lawful_def]
  fix a b c assume abc: "a \<in> S" "b \<in> S" "c \<in> S"
    and le: "cmp_le (buildAwareSemanticVersioningCompare sv) a b" "cmp_le (buildAwareSemanticVersioningCompare sv) b c"
  then obtain x y z where xyz: "ParseTolerant sv a = Inr x" "ParseTolerant sv b = Inr y" "ParseTolerant sv c = Inr z"
    using assms(2) unfolding version_ok_def by metis
  have sw: "semver_Compare sv y x = - semver_Compare sv x y" "semver_Compare sv z y = - semver_Compare sv y z"
    "semver_Compare sv z x = - semver_Compare sv x z" using law by blast+
  have tr: "semver_Compare sv x y \<le> 0 \<Longrightarrow> semver_Compare sv y z \<le> 0 \<Longrightarrow> semver_Compare sv x z \<le> 0"
    "semver_Compare sv y z \<le> 0 \<Longrightarrow> semver_Compare sv z x \<le> 0 \<Longrightarrow> semver_Compare sv y x \<le> 0"
    "semver_Compare sv z x \<le> 0 \<Longrightarrow> semver_Compare sv x y \<le> 0 \<Longrightarrow> semver_Compare sv z y \<le> 0" using law by blast+
  have st: "\<not> str_less (build_key sv z) (build_key sv x)"
    if "\<not> str_less (build_key sv y) (build_key sv x)" "\<not> str_less (build_key sv z) (build_key sv y)"
    using that str_less_linear str_less_trans by metis
  show "cmp_le (buildAwareSemanticVersioningCompare sv) a c"
    using le sw tr st
    unfolding build_aware_le[OF assms(1) xyz(1,2)] build_aware_le[OF assms(1) xyz(2,3)] build_aware_le[OF assms(1) xyz(1,3)]
    by linarith
qed

text \<open>The three comparisons of the sort are the build-aware one on a text of the element.\<close>

lemma cmp_lawful_map:
  assumes "cmp_lawful cmp (f ` S)" "\<And>x y. x \<in> S \<Longrightarrow> y \<in> S \<Longrightarrow> cmp' x y = cmp (f x) (f y)"
  shows "cmp_lawful cmp' S"
  unfolding cmp_lawful_def
proof (intro conjI ballI impI)
  fix x y assume xy: "x \<in> S" "y \<in> S"
  then have "\<exists>r \<in> {- 1, 0, 1}. cmp (f x) (f y) = Inr r \<and> cmp (f y) (f x) = Inr (- r)"
    using assms(1) unfolding cmp_lawful_def by blast
  then show "\<exists>r \<in> {- 1, 0, 1}. cmp' x y = Inr r \<and> cmp' y x = Inr (- r)"
    using assms(2)[OF xy] assms(2)[OF xy(2,1)] by (simp only:)
next
  have le: "cmp_le cmp' x y = cmp_le cmp (f x) (f y)" if "x \<in> S" "y \<in> S" for x y
    unfolding cmp_le_def assms(2)[OF that] ..
  fix x y z assume xyz: "x \<in> S" "y \<in> S" "z \<in> S" "cmp_le cmp' x y" "cmp_le cmp' y z"
  then have "cmp_le cmp (f x) (f z)"
    using assms(1) le unfolding cmp_lawful_def by blast
  then show "cmp_le cmp' x z" using le xyz by blast
qed

definition strimzi_number :: "StrimziVersion \<Rightarrow> string" where
  "strimzi_number v = regexp_FindSuffix StrimziVersionNumberPartRegex (sv_Version v)"

definition strimzi_ok :: "'v semver \<Rightarrow> StrimziVersion \<Rightarrow> bool" where
  "strimzi_ok sv v \<longleftrightarrow> strimzi_number v \<noteq> [] \<and> version_ok sv (strimzi_number v)"

lemma strimzi_fails: "fails_unless (StrimziVersion_Compare sv) (strimzi_ok sv)"
  unfolding fails_unless_def
proof (intro allI)
  fix x y
  have "(\<exists>r. buildAwareSemanticVersioningCompare sv (strimzi_number x) (strimzi_number y) = Inr r) \<longleftrightarrow>
      version_ok sv (strimzi_number x) \<and> version_ok sv (strimzi_number y)"
    using build_aware_fails[of sv] unfolding fails_unless_def by blast
  then show "(\<exists>r. StrimziVersion_Compare sv x y = Inr r) \<longleftrightarrow> strimzi_ok sv x \<and> strimzi_ok sv y"
    by (simp add: StrimziVersion_Compare_def Let_def strimzi_ok_def strimzi_number_def)
qed

lemma strimzi_lawful:
  assumes "semver_lawful sv" "\<forall>v \<in> S. strimzi_ok sv v"
  shows "cmp_lawful (StrimziVersion_Compare sv) S"
proof (rule cmp_lawful_map[where f = strimzi_number])
  show "cmp_lawful (buildAwareSemanticVersioningCompare sv) (strimzi_number ` S)"
    using assms by (intro build_aware_lawful) (auto simp: strimzi_ok_def)
  show "StrimziVersion_Compare sv x y = buildAwareSemanticVersioningCompare sv (strimzi_number x) (strimzi_number y)"
    if "x \<in> S" "y \<in> S" for x y
    using that assms(2) by (simp add: StrimziVersion_Compare_def Let_def strimzi_ok_def strimzi_number_def)
qed

lemma sort_Slice_no_error:
  assumes "fails_unless cmp ok" "\<And>S. \<forall>x \<in> S. ok x \<Longrightarrow> cmp_lawful cmp S" "snd (sort_Slice cmp xs) = []"
  shows "sorted_wrt (cmp_le cmp) (fst (sort_Slice cmp xs))"
proof (cases "length xs \<le> 1")
  case True
  then have "length (fst (sort_Slice cmp xs)) \<le> 1" by (simp add: sort_Slice_length)
  then show ?thesis by (cases "fst (sort_Slice cmp xs)") auto
next
  case False
  then have "cmp_lawful cmp (set xs)" using sort_Slice_errors[OF assms(1)] assms(2,3) by blast
  then show ?thesis by (rule sort_Slice_sorted)
qed

definition kafka_versions_sorted :: "'v semver \<Rightarrow> StrimziVersion \<Rightarrow> bool" where
  "kafka_versions_sorted sv v \<longleftrightarrow> sorted_wrt (cmp_le (KafkaVersion_Compare sv)) (sv_KafkaVersions v) \<and>
     sorted_wrt (cmp_le (KafkaIBPVersion_Compare sv)) (sv_KafkaIBPVersions v)"

lemma kafka_version_sorts:
  assumes "semver_lawful sv"
  shows "snd (sort_Slice (KafkaVersion_Compare sv) ks) = [] \<Longrightarrow>
           sorted_wrt (cmp_le (KafkaVersion_Compare sv)) (fst (sort_Slice (KafkaVersion_Compare sv) ks))"
    and "snd (sort_Slice (KafkaIBPVersion_Compare sv) is) = [] \<Longrightarrow>
           sorted_wrt (cmp_le (KafkaIBPVersion_Compare sv)) (fst (sort_Slice (KafkaIBPVersion_Compare sv) is))"
proof -
  have "fails_unless (KafkaVersion_Compare sv) (\<lambda>k. version_ok sv (kv_Version k))"
    "fails_unless (KafkaIBPVersion_Compare sv) (\<lambda>k. version_ok sv (ibp_Version k))"
    using build_aware_fails[of sv] by (auto simp: fails_unless_def KafkaVersion_Compare_def KafkaIBPVersion_Compare_def)
  moreover have "cmp_lawful (KafkaVersion_Compare sv) S" if "\<forall>k \<in> S. version_ok sv (kv_Version k)" for S
    by (rule cmp_lawful_map[OF build_aware_lawful[OF assms], of kv_Version]) (use that in \<open>auto simp: KafkaVersion_Compare_def\<close>)
  moreover have "cmp_lawful (KafkaIBPVersion_Compare sv) S" if "\<forall>k \<in> S. version_ok sv (ibp_Version k)" for S
    by (rule cmp_lawful_map[OF build_aware_lawful[OF assms], of ibp_Version]) (use that in \<open>auto simp: KafkaIBPVersion_Compare_def\<close>)
  ultimately show "snd (sort_Slice (KafkaVersion_Compare sv) ks) = [] \<Longrightarrow>
           sorted_wrt (cmp_le (KafkaVersion_Compare sv)) (fst (sort_Slice (KafkaVersion_Compare sv) ks))"
    and "snd (sort_Slice (KafkaIBPVersion_Compare sv) is) = [] \<Longrightarrow>
           sorted_wrt (cmp_le (KafkaIBPVersion_Compare sv)) (fst (sort_Slice (KafkaIBPVersion_Compare sv) is))"
    using sort_Slice_no_error by blast+
qed

text \<open>The inner sorts keep the Strimzi versions in place.\<close>

definition strimzi_key :: "StrimziVersion \<Rightarrow> string \<times> bool \<times> KafkaVersion multiset \<times> KafkaIBPVersion multiset" where
  "strimzi_key v = (sv_Version v, sv_Ready v, mset (sv_KafkaVersions v), mset (sv_KafkaIBPVersions v))"

lemma sort_inner_keys:
  "sort_inner sv vs = Inr ws \<Longrightarrow> map strimzi_key ws = map strimzi_key vs"
proof (induction sv vs arbitrary: ws rule: sort_inner.induct)
  case (2 sv v vs)
  obtain ks ibs where k: "sort_Slice (KafkaVersion_Compare sv) (sv_KafkaVersions v) = (ks, [])"
    "sort_Slice (KafkaIBPVersion_Compare sv) (sv_KafkaIBPVersions v) = (ibs, [])"
    using 2(2) by (auto split: prod.splits if_splits)
  obtain us where us: "sort_inner sv vs = Inr us" "ws = v\<lparr>sv_KafkaVersions := ks, sv_KafkaIBPVersions := ibs\<rparr> # us"
    using 2(2) k by (auto split: sum.splits)
  have "mset ks = mset (sv_KafkaVersions v)" "mset ibs = mset (sv_KafkaIBPVersions v)"
    using sort_Slice_mset k by (metis fst_conv)+
  then show ?case using 2(1)[OF k(1)[symmetric] _ k(2)[symmetric] _ us(1)] us(2)
    by (simp add: strimzi_key_def)
qed simp

lemma sort_inner_sorted:
  "semver_lawful sv \<Longrightarrow> sort_inner sv vs = Inr ws \<Longrightarrow> \<forall>w \<in> set ws. kafka_versions_sorted sv w"
proof (induction sv vs arbitrary: ws rule: sort_inner.induct)
  case (2 sv v vs)
  obtain ks where ks: "sort_Slice (KafkaVersion_Compare sv) (sv_KafkaVersions v) = (ks, [])"
    using 2(3) by (auto split: prod.splits if_splits)
  obtain ibs where ibs: "sort_Slice (KafkaIBPVersion_Compare sv) (sv_KafkaIBPVersions v) = (ibs, [])"
    using 2(3) ks by (auto split: prod.splits if_splits)
  obtain us where us: "sort_inner sv vs = Inr us" "ws = v\<lparr>sv_KafkaVersions := ks, sv_KafkaIBPVersions := ibs\<rparr> # us"
    using 2(3) ks ibs by (auto split: sum.splits)
  have "\<forall>w \<in> set us. kafka_versions_sorted sv w"
    using 2(1)[OF ks[symmetric] _ ibs[symmetric] _ 2(2) us(1)] by simp
  moreover have "sorted_wrt (cmp_le (KafkaVersion_Compare sv)) ks" "sorted_wrt (cmp_le (KafkaIBPVersion_Compare sv)) ibs"
    using kafka_version_sorts(1)[OF 2(2), of "sv_KafkaVersions v"] ks
      kafka_version_sorts(2)[OF 2(2), of "sv_KafkaIBPVersions v"] ibs by simp_all
  ultimately show ?case using us(2) by (simp add: kafka_versions_sorted_def)
qed simp

lemma sorted_wrt_keys:
  assumes "map k xs = map k ys" "\<And>a a' b b'. k a = k a' \<Longrightarrow> k b = k b' \<Longrightarrow> P a b = P a' b'" "sorted_wrt P xs"
  shows "sorted_wrt P ys"
  using assms(1,3)
proof (induction xs arbitrary: ys)
  case (Cons x xs)
  obtain y ys' where y: "ys = y # ys'" "k y = k x" "map k xs = map k ys'"
    using Cons.prems(1) by (cases ys) auto
  have "P y z" if z: "z \<in> set ys'" for z
  proof -
    have "k z \<in> set (map k xs)" using y(3) z by simp
    then obtain u where u: "u \<in> set xs" "k u = k z" by auto
    have "P x u" using Cons.prems(2) u(1) by simp
    then show ?thesis using assms(2)[OF y(2) u(2)[symmetric]] by blast
  qed
  moreover have "sorted_wrt P ys'" using Cons.IH[OF y(3)] Cons.prems(2) by simp
  ultimately show ?case using y(1) by simp
qed simp

lemma DeepCopy_id [simp]: "StrimziVersion_DeepCopy v = v"
  by (simp add: StrimziVersion_DeepCopy_def)

lemma DeepCopy_map [simp]: "map StrimziVersion_DeepCopy vs = vs"
  by (simp add: map_idI)

lemma DeepSort_cases:
  assumes "StrimziVersionsDeepSort sv vs = Inr ws"
  obtains us where "sort_Slice (StrimziVersion_Compare sv) vs = (us, [])" "sort_inner sv us = Inr ws"
proof (cases "vs = []")
  case True
  then show ?thesis using that[of "[]"] assms by (simp add: StrimziVersionsDeepSort_def sort_Slice_def)
next
  case False
  then show ?thesis using that assms
    by (auto simp: StrimziVersionsDeepSort_def Let_def split: prod.splits if_splits)
qed

text \<open>A package of versions ordered by the length of their text, for evaluation.\<close>

definition length_semver :: "nat semver" where
  "length_semver = \<lparr>ParseTolerant = (\<lambda>s. Inr (length s)),
     semver_Compare = (\<lambda>a b. if a < b then - 1 else if b < a then 1 else 0),
     semver_Build = (\<lambda>_. []), semver_Major = (\<lambda>n. n), semver_Minor = (\<lambda>n. 0)\<rparr>"

lemma length_semver_lawful: "semver_lawful length_semver"
  by (auto simp: semver_lawful_def length_semver_def split: if_splits)

section \<open>Properties\<close>

text \<open>C17. The deep sort returns the same Strimzi versions with the same Kafka and IBP versions, in
  ascending order of version, and inside each the Kafka and IBP versions in ascending order.\<close>

theorem StrimziVersionsDeepSort_sorts:
  assumes "semver_lawful sv" "StrimziVersionsDeepSort sv vs = Inr ws"
  shows "mset (map strimzi_key ws) = mset (map strimzi_key vs) \<and>
         sorted_wrt (cmp_le (StrimziVersion_Compare sv)) ws \<and>
         (\<forall>w \<in> set ws. kafka_versions_sorted sv w)"
proof -
  obtain us where us: "sort_Slice (StrimziVersion_Compare sv) vs = (us, [])" "sort_inner sv us = Inr ws"
    using DeepSort_cases[OF assms(2)] .
  have k: "map strimzi_key us = map strimzi_key ws" using sort_inner_keys[OF us(2)] by simp
  have "sorted_wrt (cmp_le (StrimziVersion_Compare sv)) us"
    using sort_Slice_no_error[OF strimzi_fails strimzi_lawful[OF assms(1)], where xs = vs] us(1) by simp
  then have "sorted_wrt (cmp_le (StrimziVersion_Compare sv)) ws"
    by (rule sorted_wrt_keys[OF k, rotated])
       (auto simp: strimzi_key_def cmp_le_def StrimziVersion_Compare_def)
  moreover have "mset us = mset vs" using sort_Slice_mset[of "StrimziVersion_Compare sv" vs] us(1) by simp
  ultimately show ?thesis using k sort_inner_sorted[OF assms(1) us(2)] by (metis mset_map)
qed

theorem StrimziVersionsDeepSort_sorts_witness:
  "semver_lawful length_semver \<and>
   (\<exists>ws. StrimziVersionsDeepSort length_semver
      [\<lparr>sv_Version = ''s-1.0.0-10'', sv_Ready = True, sv_KafkaVersions = [], sv_KafkaIBPVersions = []\<rparr>,
       \<lparr>sv_Version = ''s-1.0.0-9'', sv_Ready = False, sv_KafkaVersions = [\<lparr>kv_Version = ''22''\<rparr>, \<lparr>kv_Version = ''3''\<rparr>], sv_KafkaIBPVersions = []\<rparr>] = Inr ws \<and>
      map sv_Version ws = [''s-1.0.0-9'', ''s-1.0.0-10''] \<and>
      sorted_wrt (cmp_le (StrimziVersion_Compare length_semver)) ws)"
proof -
  have "StrimziVersionsDeepSort length_semver
      [\<lparr>sv_Version = ''s-1.0.0-10'', sv_Ready = True, sv_KafkaVersions = [], sv_KafkaIBPVersions = []\<rparr>,
       \<lparr>sv_Version = ''s-1.0.0-9'', sv_Ready = False, sv_KafkaVersions = [\<lparr>kv_Version = ''22''\<rparr>, \<lparr>kv_Version = ''3''\<rparr>], sv_KafkaIBPVersions = []\<rparr>] =
    Inr [\<lparr>sv_Version = ''s-1.0.0-9'', sv_Ready = False, sv_KafkaVersions = [\<lparr>kv_Version = ''3''\<rparr>, \<lparr>kv_Version = ''22''\<rparr>], sv_KafkaIBPVersions = []\<rparr>,
       \<lparr>sv_Version = ''s-1.0.0-10'', sv_Ready = True, sv_KafkaVersions = [], sv_KafkaIBPVersions = []\<rparr>]"
    by code_simp
  from StrimziVersionsDeepSort_sorts[OF length_semver_lawful this] this show ?thesis
    using length_semver_lawful by simp
qed

text \<open>A list of at least two Strimzi versions one of which is malformed is rejected with the list of
  errors, wherever the malformed version stands.\<close>

theorem StrimziVersionsDeepSort_rejects:
  assumes "2 \<le> length vs" "v \<in> set vs" "\<not> strimzi_ok sv v"
  shows "\<exists>es. es \<noteq> [] \<and> StrimziVersionsDeepSort sv vs = Inl (ErrorListErr es)"
proof -
  obtain us es where s: "sort_Slice (StrimziVersion_Compare sv) vs = (us, es)" by fastforce
  have "es \<noteq> []" using sort_Slice_errors[OF strimzi_fails, of sv vs] assms s by auto
  moreover have "vs \<noteq> []" using assms(1) by auto
  ultimately show ?thesis using s by (simp add: StrimziVersionsDeepSort_def Let_def)
qed

theorem StrimziVersionsDeepSort_rejects_witness:
  "\<not> strimzi_ok length_semver \<lparr>sv_Version = ''bad'', sv_Ready = True, sv_KafkaVersions = [], sv_KafkaIBPVersions = []\<rparr> \<and>
   (\<exists>es. es \<noteq> [] \<and> StrimziVersionsDeepSort length_semver
      [\<lparr>sv_Version = ''s-1.0.0-10'', sv_Ready = True, sv_KafkaVersions = [], sv_KafkaIBPVersions = []\<rparr>,
       \<lparr>sv_Version = ''bad'', sv_Ready = True, sv_KafkaVersions = [], sv_KafkaIBPVersions = []\<rparr>] = Inl (ErrorListErr es))"
proof -
  have "strimzi_number \<lparr>sv_Version = ''bad'', sv_Ready = True, sv_KafkaVersions = [], sv_KafkaIBPVersions = []\<rparr> = []"
    by code_simp
  then have b: "\<not> strimzi_ok length_semver \<lparr>sv_Version = ''bad'', sv_Ready = True, sv_KafkaVersions = [], sv_KafkaIBPVersions = []\<rparr>"
    by (simp add: strimzi_ok_def)
  show ?thesis using b StrimziVersionsDeepSort_rejects[OF _ _ b] by simp
qed

text \<open>C18. What is stored can be read back: after \<^verbatim>\<open>SetAvailableStrimziVersions\<close> with a non-empty
  list, the latest available version is the last stored one, and no stored version is greater.\<close>

theorem SetAvailableStrimziVersions_latest:
  assumes "semver_lawful sv" "vs \<noteq> []" "SetAvailableStrimziVersions sv vs cluster = Inr cluster'"
  shows "\<exists>ws. GetAvailableStrimziVersions cluster' = Inr ws \<and> ws \<noteq> [] \<and>
           mset (map strimzi_key ws) = mset (map strimzi_key vs) \<and>
           GetLatestAvailableStrimziVersion cluster' = Inr (Some (last ws)) \<and>
           (\<forall>w \<in> set (butlast ws). cmp_le (StrimziVersion_Compare sv) w (last ws))"
proof -
  obtain ws where ws: "StrimziVersionsDeepSort sv vs = Inr ws" "cluster' = cluster\<lparr>c_AvailableStrimziVersions := JText ws\<rparr>"
    using assms(3) by (auto simp: SetAvailableStrimziVersions_def split: sum.splits)
  obtain us where us: "sort_Slice (StrimziVersion_Compare sv) vs = (us, [])" "sort_inner sv us = Inr ws"
    using DeepSort_cases[OF ws(1)] .
  have k: "map strimzi_key us = map strimzi_key ws" "mset us = mset vs"
    using sort_inner_keys[OF us(2)] sort_Slice_mset[of "StrimziVersion_Compare sv" vs] us(1) by simp_all
  have "sorted_wrt (cmp_le (StrimziVersion_Compare sv)) us"
    using sort_Slice_no_error[OF strimzi_fails strimzi_lawful[OF assms(1)], where xs = vs] us(1) by simp
  then have sorted: "sorted_wrt (cmp_le (StrimziVersion_Compare sv)) ws"
    by (rule sorted_wrt_keys[OF k(1), rotated]) (auto simp: strimzi_key_def cmp_le_def StrimziVersion_Compare_def)
  have ne: "ws \<noteq> []" using k assms(2) by auto
  then have "sorted_wrt (cmp_le (StrimziVersion_Compare sv)) (butlast ws @ [last ws])" using sorted by simp
  then have "\<forall>w \<in> set (butlast ws). cmp_le (StrimziVersion_Compare sv) w (last ws)"
    unfolding sorted_wrt_append by simp
  then show ?thesis using ne k ws(2)
    by (auto simp: GetAvailableStrimziVersions_def GetLatestAvailableStrimziVersion_def last_conv_nth)
       (metis mset_map)
qed

theorem SetAvailableStrimziVersions_latest_witness:
  "\<exists>cluster'. SetAvailableStrimziVersions length_semver
      [\<lparr>sv_Version = ''s-1.0.0-9'', sv_Ready = True, sv_KafkaVersions = [], sv_KafkaIBPVersions = []\<rparr>]
      zero_Cluster = Inr cluster' \<and>
    (\<exists>ws. GetAvailableStrimziVersions cluster' = Inr ws \<and> GetLatestAvailableStrimziVersion cluster' = Inr (Some (last ws)))"
proof -
  obtain cluster' where c: "SetAvailableStrimziVersions length_semver
      [\<lparr>sv_Version = ''s-1.0.0-9'', sv_Ready = True, sv_KafkaVersions = [], sv_KafkaIBPVersions = []\<rparr>]
      zero_Cluster = Inr cluster'"
    by (simp add: SetAvailableStrimziVersions_def StrimziVersionsDeepSort_def sort_Slice_def)
  from SetAvailableStrimziVersions_latest[OF length_semver_lawful _ c] c show ?thesis by auto
qed

text \<open>C19. The order of cluster statuses is a total preorder, and the status \<^verbatim>\<open>full\<close>, which has no ordinal,
  compares exactly like \<^verbatim>\<open>cluster_accepted\<close>, below every later status.\<close>

theorem ClusterStatus_CompareTo_order:
  "ClusterStatus_CompareTo a b \<in> {- 1, 0, 1} \<and> ClusterStatus_CompareTo b a = - ClusterStatus_CompareTo a b \<and>
   {c. ClusterStatus_CompareTo b c \<le> 0} \<inter> {c. ClusterStatus_CompareTo a b \<le> 0} \<subseteq> {c. ClusterStatus_CompareTo a c \<le> 0} \<and>
   ClusterStatus_CompareTo ClusterFull a = ClusterStatus_CompareTo ClusterAccepted a \<and>
   ClusterStatus_CompareTo ClusterFull ClusterReady = - 1"
proof -
  have "ClusterStatus_CompareTo ClusterFull a = ClusterStatus_CompareTo ClusterAccepted a" for a
    by (simp add: ClusterStatus_CompareTo_def ordinal_of_def ordinals_def)
  moreover have "ClusterStatus_CompareTo ClusterAccepted ClusterReady = - 1"
    by (simp add: ClusterStatus_CompareTo_def ordinal_of_def ordinals_def)
  ultimately show ?thesis
    using cluster_order.cmp_range[of a b] cluster_order.cmp_swap[of b a] cluster_order.cmp_trans[of a b] by auto
qed

end
