(* ===== verification/Kafka_Types.thy ===== *)
theory Kafka_Types
  imports Complex_Main Cluster_Types
begin

text \<open>
  The Kafka request and what the data plane reports about it: packages \<^verbatim>\<open>internal/kafka/constants\<close>,
  \<^verbatim>\<open>internal/kafka/internal/api/dbapi\<close> and \<^verbatim>\<open>internal/kafka/internal/kafkas/types\<close>.  The order of Kafka
  statuses is the second instance of \<open>status_order\<close>.

  Times are numbers of nanoseconds; \<^verbatim>\<open>time.Now()\<close> is an argument.  The days of a life span are a
  rational number, without the rounding of \<^verbatim>\<open>float64\<close>.
\<close>

section \<open>Statuses\<close>

text \<open>The constants of \<^verbatim>\<open>constants/kafka.go\<close>, under their names.\<close>

definition KafkaRequestStatusAccepted :: string where "KafkaRequestStatusAccepted = ''accepted''"

definition KafkaRequestStatusPreparing :: string where "KafkaRequestStatusPreparing = ''preparing''"

definition KafkaRequestStatusProvisioning :: string where "KafkaRequestStatusProvisioning = ''provisioning''"

definition KafkaRequestStatusReady :: string where "KafkaRequestStatusReady = ''ready''"

definition KafkaRequestStatusFailed :: string where "KafkaRequestStatusFailed = ''failed''"

definition KafkaRequestStatusDeprovision :: string where "KafkaRequestStatusDeprovision = ''deprovision''"

definition KafkaRequestStatusDeleting :: string where "KafkaRequestStatusDeleting = ''deleting''"

definition KafkaRequestStatusSuspending :: string where "KafkaRequestStatusSuspending = ''suspending''"

definition KafkaRequestStatusSuspended :: string where "KafkaRequestStatusSuspended = ''suspended''"

definition KafkaRequestStatusResuming :: string where "KafkaRequestStatusResuming = ''resuming''"

definition KafkaOperationCreate :: string where "KafkaOperationCreate = ''create''"

definition KafkaOperationDelete :: string where "KafkaOperationDelete = ''delete''"

definition KafkaOperationDeprovision :: string where "KafkaOperationDeprovision = ''deprovision''"

definition TrialKafkasDomainShard :: string where "TrialKafkasDomainShard = ''trial''"

definition Minute :: time where "Minute = 60000000000"

definition Hour :: time where "Hour = 3600000000000"

definition KafkaMaxDurationWithProvisioningErrs :: time where "KafkaMaxDurationWithProvisioningErrs = 5 * Minute"

definition AcceptedKafkaMaxRetryDurationWhileWaitingForStrimziVersion :: time where "AcceptedKafkaMaxRetryDurationWhileWaitingForStrimziVersion = 5 * Minute"

definition AcceptedKafkaMaxRetryDurationWhileWaitingForClusterAssignment :: time where "AcceptedKafkaMaxRetryDurationWhileWaitingForClusterAssignment = 1 * Hour"

definition BillingModelEnterprise :: string where "BillingModelEnterprise = ''enterprise''"

lemmas kafka_statuses = KafkaRequestStatusAccepted_def KafkaRequestStatusPreparing_def KafkaRequestStatusProvisioning_def KafkaRequestStatusReady_def KafkaRequestStatusFailed_def KafkaRequestStatusDeprovision_def KafkaRequestStatusDeleting_def KafkaRequestStatusSuspending_def KafkaRequestStatusSuspended_def KafkaRequestStatusResuming_def

lemma kafka_status_distinct [simp]:
  "KafkaRequestStatusAccepted \<noteq> KafkaRequestStatusPreparing"
  "KafkaRequestStatusAccepted \<noteq> KafkaRequestStatusProvisioning"
  "KafkaRequestStatusAccepted \<noteq> KafkaRequestStatusReady"
  "KafkaRequestStatusAccepted \<noteq> KafkaRequestStatusFailed"
  "KafkaRequestStatusAccepted \<noteq> KafkaRequestStatusDeprovision"
  "KafkaRequestStatusAccepted \<noteq> KafkaRequestStatusDeleting"
  "KafkaRequestStatusAccepted \<noteq> KafkaRequestStatusSuspending"
  "KafkaRequestStatusAccepted \<noteq> KafkaRequestStatusSuspended"
  "KafkaRequestStatusAccepted \<noteq> KafkaRequestStatusResuming"
  "KafkaRequestStatusPreparing \<noteq> KafkaRequestStatusAccepted"
  "KafkaRequestStatusPreparing \<noteq> KafkaRequestStatusProvisioning"
  "KafkaRequestStatusPreparing \<noteq> KafkaRequestStatusReady"
  "KafkaRequestStatusPreparing \<noteq> KafkaRequestStatusFailed"
  "KafkaRequestStatusPreparing \<noteq> KafkaRequestStatusDeprovision"
  "KafkaRequestStatusPreparing \<noteq> KafkaRequestStatusDeleting"
  "KafkaRequestStatusPreparing \<noteq> KafkaRequestStatusSuspending"
  "KafkaRequestStatusPreparing \<noteq> KafkaRequestStatusSuspended"
  "KafkaRequestStatusPreparing \<noteq> KafkaRequestStatusResuming"
  "KafkaRequestStatusProvisioning \<noteq> KafkaRequestStatusAccepted"
  "KafkaRequestStatusProvisioning \<noteq> KafkaRequestStatusPreparing"
  "KafkaRequestStatusProvisioning \<noteq> KafkaRequestStatusReady"
  "KafkaRequestStatusProvisioning \<noteq> KafkaRequestStatusFailed"
  "KafkaRequestStatusProvisioning \<noteq> KafkaRequestStatusDeprovision"
  "KafkaRequestStatusProvisioning \<noteq> KafkaRequestStatusDeleting"
  "KafkaRequestStatusProvisioning \<noteq> KafkaRequestStatusSuspending"
  "KafkaRequestStatusProvisioning \<noteq> KafkaRequestStatusSuspended"
  "KafkaRequestStatusProvisioning \<noteq> KafkaRequestStatusResuming"
  "KafkaRequestStatusReady \<noteq> KafkaRequestStatusAccepted"
  "KafkaRequestStatusReady \<noteq> KafkaRequestStatusPreparing"
  "KafkaRequestStatusReady \<noteq> KafkaRequestStatusProvisioning"
  "KafkaRequestStatusReady \<noteq> KafkaRequestStatusFailed"
  "KafkaRequestStatusReady \<noteq> KafkaRequestStatusDeprovision"
  "KafkaRequestStatusReady \<noteq> KafkaRequestStatusDeleting"
  "KafkaRequestStatusReady \<noteq> KafkaRequestStatusSuspending"
  "KafkaRequestStatusReady \<noteq> KafkaRequestStatusSuspended"
  "KafkaRequestStatusReady \<noteq> KafkaRequestStatusResuming"
  "KafkaRequestStatusFailed \<noteq> KafkaRequestStatusAccepted"
  "KafkaRequestStatusFailed \<noteq> KafkaRequestStatusPreparing"
  "KafkaRequestStatusFailed \<noteq> KafkaRequestStatusProvisioning"
  "KafkaRequestStatusFailed \<noteq> KafkaRequestStatusReady"
  "KafkaRequestStatusFailed \<noteq> KafkaRequestStatusDeprovision"
  "KafkaRequestStatusFailed \<noteq> KafkaRequestStatusDeleting"
  "KafkaRequestStatusFailed \<noteq> KafkaRequestStatusSuspending"
  "KafkaRequestStatusFailed \<noteq> KafkaRequestStatusSuspended"
  "KafkaRequestStatusFailed \<noteq> KafkaRequestStatusResuming"
  "KafkaRequestStatusDeprovision \<noteq> KafkaRequestStatusAccepted"
  "KafkaRequestStatusDeprovision \<noteq> KafkaRequestStatusPreparing"
  "KafkaRequestStatusDeprovision \<noteq> KafkaRequestStatusProvisioning"
  "KafkaRequestStatusDeprovision \<noteq> KafkaRequestStatusReady"
  "KafkaRequestStatusDeprovision \<noteq> KafkaRequestStatusFailed"
  "KafkaRequestStatusDeprovision \<noteq> KafkaRequestStatusDeleting"
  "KafkaRequestStatusDeprovision \<noteq> KafkaRequestStatusSuspending"
  "KafkaRequestStatusDeprovision \<noteq> KafkaRequestStatusSuspended"
  "KafkaRequestStatusDeprovision \<noteq> KafkaRequestStatusResuming"
  "KafkaRequestStatusDeleting \<noteq> KafkaRequestStatusAccepted"
  "KafkaRequestStatusDeleting \<noteq> KafkaRequestStatusPreparing"
  "KafkaRequestStatusDeleting \<noteq> KafkaRequestStatusProvisioning"
  "KafkaRequestStatusDeleting \<noteq> KafkaRequestStatusReady"
  "KafkaRequestStatusDeleting \<noteq> KafkaRequestStatusFailed"
  "KafkaRequestStatusDeleting \<noteq> KafkaRequestStatusDeprovision"
  "KafkaRequestStatusDeleting \<noteq> KafkaRequestStatusSuspending"
  "KafkaRequestStatusDeleting \<noteq> KafkaRequestStatusSuspended"
  "KafkaRequestStatusDeleting \<noteq> KafkaRequestStatusResuming"
  "KafkaRequestStatusSuspending \<noteq> KafkaRequestStatusAccepted"
  "KafkaRequestStatusSuspending \<noteq> KafkaRequestStatusPreparing"
  "KafkaRequestStatusSuspending \<noteq> KafkaRequestStatusProvisioning"
  "KafkaRequestStatusSuspending \<noteq> KafkaRequestStatusReady"
  "KafkaRequestStatusSuspending \<noteq> KafkaRequestStatusFailed"
  "KafkaRequestStatusSuspending \<noteq> KafkaRequestStatusDeprovision"
  "KafkaRequestStatusSuspending \<noteq> KafkaRequestStatusDeleting"
  "KafkaRequestStatusSuspending \<noteq> KafkaRequestStatusSuspended"
  "KafkaRequestStatusSuspending \<noteq> KafkaRequestStatusResuming"
  "KafkaRequestStatusSuspended \<noteq> KafkaRequestStatusAccepted"
  "KafkaRequestStatusSuspended \<noteq> KafkaRequestStatusPreparing"
  "KafkaRequestStatusSuspended \<noteq> KafkaRequestStatusProvisioning"
  "KafkaRequestStatusSuspended \<noteq> KafkaRequestStatusReady"
  "KafkaRequestStatusSuspended \<noteq> KafkaRequestStatusFailed"
  "KafkaRequestStatusSuspended \<noteq> KafkaRequestStatusDeprovision"
  "KafkaRequestStatusSuspended \<noteq> KafkaRequestStatusDeleting"
  "KafkaRequestStatusSuspended \<noteq> KafkaRequestStatusSuspending"
  "KafkaRequestStatusSuspended \<noteq> KafkaRequestStatusResuming"
  "KafkaRequestStatusResuming \<noteq> KafkaRequestStatusAccepted"
  "KafkaRequestStatusResuming \<noteq> KafkaRequestStatusPreparing"
  "KafkaRequestStatusResuming \<noteq> KafkaRequestStatusProvisioning"
  "KafkaRequestStatusResuming \<noteq> KafkaRequestStatusReady"
  "KafkaRequestStatusResuming \<noteq> KafkaRequestStatusFailed"
  "KafkaRequestStatusResuming \<noteq> KafkaRequestStatusDeprovision"
  "KafkaRequestStatusResuming \<noteq> KafkaRequestStatusDeleting"
  "KafkaRequestStatusResuming \<noteq> KafkaRequestStatusSuspending"
  "KafkaRequestStatusResuming \<noteq> KafkaRequestStatusSuspended"
  by (simp_all add: kafka_statuses)

lemma kafka_status_not_empty [simp]:
  "KafkaRequestStatusAccepted \<noteq> []" "[] \<noteq> KafkaRequestStatusAccepted"
  "KafkaRequestStatusPreparing \<noteq> []" "[] \<noteq> KafkaRequestStatusPreparing"
  "KafkaRequestStatusProvisioning \<noteq> []" "[] \<noteq> KafkaRequestStatusProvisioning"
  "KafkaRequestStatusReady \<noteq> []" "[] \<noteq> KafkaRequestStatusReady"
  "KafkaRequestStatusFailed \<noteq> []" "[] \<noteq> KafkaRequestStatusFailed"
  "KafkaRequestStatusDeprovision \<noteq> []" "[] \<noteq> KafkaRequestStatusDeprovision"
  "KafkaRequestStatusDeleting \<noteq> []" "[] \<noteq> KafkaRequestStatusDeleting"
  "KafkaRequestStatusSuspending \<noteq> []" "[] \<noteq> KafkaRequestStatusSuspending"
  "KafkaRequestStatusSuspended \<noteq> []" "[] \<noteq> KafkaRequestStatusSuspended"
  "KafkaRequestStatusResuming \<noteq> []" "[] \<noteq> KafkaRequestStatusResuming"
  by (simp_all add: kafka_statuses)

(* src/internal/kafka/constants/kafka.go:67-78 ordinals *)
definition kafka_ordinals :: "(string \<times> int) list" where
  "kafka_ordinals = [(KafkaRequestStatusAccepted, 0), (KafkaRequestStatusPreparing, 10), (KafkaRequestStatusProvisioning, 20), (KafkaRequestStatusResuming, 20),
     (KafkaRequestStatusReady, 30), (KafkaRequestStatusDeprovision, 40), (KafkaRequestStatusDeleting, 50), (KafkaRequestStatusSuspending, 60), (KafkaRequestStatusSuspended, 70),
     (KafkaRequestStatusFailed, 500)]"

(* src/internal/kafka/constants/kafka.go:90-102 KafkaStatus.CompareTo *)
definition KafkaStatus_CompareTo :: "string \<Rightarrow> string \<Rightarrow> int" where
  "KafkaStatus_CompareTo k k1 =
     (let ordinalK = ordinal_of kafka_ordinals k; ordinalK1 = ordinal_of kafka_ordinals k1 in
      if ordinalK = ordinalK1 then 0 else if ordinalK > ordinalK1 then 1 else - 1)"

(* src/internal/kafka/constants/kafka.go:104-115 GetUpdateableStatuses *)
definition GetUpdateableStatuses :: "string list" where
  "GetUpdateableStatuses = [KafkaRequestStatusPreparing, KafkaRequestStatusProvisioning, KafkaRequestStatusFailed, KafkaRequestStatusReady, KafkaRequestStatusDeprovision,
     KafkaRequestStatusSuspending, KafkaRequestStatusSuspended, KafkaRequestStatusResuming]"

(* src/internal/kafka/constants/kafka.go:117-130 GetAllStatuses *)
definition GetAllStatuses :: "string list" where
  "GetAllStatuses = [KafkaRequestStatusAccepted, KafkaRequestStatusPreparing, KafkaRequestStatusProvisioning, KafkaRequestStatusResuming, KafkaRequestStatusReady, KafkaRequestStatusDeprovision,
     KafkaRequestStatusDeleting, KafkaRequestStatusSuspending, KafkaRequestStatusSuspended, KafkaRequestStatusFailed]"

(* src/internal/kafka/constants/kafka.go:132-134 GetSuspendedStatuses *)
definition GetSuspendedStatuses :: "string list" where
  "GetSuspendedStatuses = [KafkaRequestStatusSuspending, KafkaRequestStatusSuspended]"

(* src/internal/kafka/constants/kafka.go:136-138 GetDeletingStatuses *)
definition GetDeletingStatuses :: "string list" where
  "GetDeletingStatuses = [KafkaRequestStatusDeprovision, KafkaRequestStatusDeleting]"

section \<open>Instance types\<close>

definition DEVELOPER :: string where "DEVELOPER = ''developer''"

definition STANDARD :: string where "STANDARD = ''standard''"

(* src/internal/kafka/internal/kafkas/types/types.go:10-13 ValidKafkaInstanceTypes *)
definition ValidKafkaInstanceTypes :: "string list" where
  "ValidKafkaInstanceTypes = [DEVELOPER, STANDARD]"

lemma instance_types_distinct [simp]: "DEVELOPER \<noteq> STANDARD" "STANDARD \<noteq> DEVELOPER"
  by (simp_all add: DEVELOPER_def STANDARD_def)

section \<open>The Kafka request\<close>

(* src/internal/kafka/internal/api/dbapi/data_plane_kafka_status.go:25-28 DataPlaneKafkaRoute *)
record DataPlaneKafkaRoute =
  r_Domain :: string
  r_Router :: string

definition KafkaPromotionStatusPromoting :: string where "KafkaPromotionStatusPromoting = ''promoting''"

definition KafkaPromotionStatusFailed :: string where "KafkaPromotionStatusFailed = ''failed''"

definition KafkaPromotionStatusNoPromotion :: string where "KafkaPromotionStatusNoPromotion = ''''"

(* src/internal/kafka/internal/api/dbapi/kafka_request_types.go:19-78 KafkaRequest *)
record KafkaRequest =
  k_ID :: string
  k_CreatedAt :: time
  k_UpdatedAt :: time
  k_Region :: string
  k_ClusterID :: string
  k_CloudProvider :: string
  k_MultiAZ :: bool
  k_Name :: string
  k_Status :: string
  k_CanaryServiceAccountClientID :: string
  k_CanaryServiceAccountClientSecret :: string
  k_SubscriptionId :: string
  k_Owner :: string
  k_OwnerAccountId :: string
  k_BootstrapServerHost :: string
  k_AdminApiServerURL :: string
  k_OrganisationId :: string
  k_FailedReason :: string
  k_PlacementId :: string
  k_DesiredKafkaVersion :: string
  k_ActualKafkaVersion :: string
  k_DesiredStrimziVersion :: string
  k_ActualStrimziVersion :: string
  k_DesiredKafkaIBPVersion :: string
  k_ActualKafkaIBPVersion :: string
  k_KafkaUpgrading :: bool
  k_StrimziUpgrading :: bool
  k_KafkaIBPUpgrading :: bool
  k_MaxDataRetentionSize :: string
  k_InstanceType :: string
  k_QuotaType :: string
  k_Routes :: "DataPlaneKafkaRoute list json"
  k_RoutesCreated :: bool
  k_Namespace :: string
  k_ReauthenticationEnabled :: bool
  k_RoutesCreationId :: string
  k_SizeId :: string
  k_BillingCloudAccountId :: string
  k_Marketplace :: string
  k_ActualKafkaBillingModel :: string
  k_DesiredKafkaBillingModel :: string
  k_PromotionStatus :: string
  k_PromotionDetails :: string
  k_ExpiresAt :: "time option"
  k_KafkasRoutesBaseDomainName :: string
  k_KafkasRoutesBaseDomainTLSKeyRef :: string
  k_KafkasRoutesBaseDomainTLSCrtRef :: string

text \<open>The zero value of the struct.\<close>

definition zero_Kafka :: KafkaRequest where
  "zero_Kafka = \<lparr>k_ID = '''',
     k_CreatedAt = 0,
     k_UpdatedAt = 0,
     k_Region = '''',
     k_ClusterID = '''',
     k_CloudProvider = '''',
     k_MultiAZ = False,
     k_Name = '''',
     k_Status = '''',
     k_CanaryServiceAccountClientID = '''',
     k_CanaryServiceAccountClientSecret = '''',
     k_SubscriptionId = '''',
     k_Owner = '''',
     k_OwnerAccountId = '''',
     k_BootstrapServerHost = '''',
     k_AdminApiServerURL = '''',
     k_OrganisationId = '''',
     k_FailedReason = '''',
     k_PlacementId = '''',
     k_DesiredKafkaVersion = '''',
     k_ActualKafkaVersion = '''',
     k_DesiredStrimziVersion = '''',
     k_ActualStrimziVersion = '''',
     k_DesiredKafkaIBPVersion = '''',
     k_ActualKafkaIBPVersion = '''',
     k_KafkaUpgrading = False,
     k_StrimziUpgrading = False,
     k_KafkaIBPUpgrading = False,
     k_MaxDataRetentionSize = '''',
     k_InstanceType = '''',
     k_QuotaType = '''',
     k_Routes = JNil,
     k_RoutesCreated = False,
     k_Namespace = '''',
     k_ReauthenticationEnabled = False,
     k_RoutesCreationId = '''',
     k_SizeId = '''',
     k_BillingCloudAccountId = '''',
     k_Marketplace = '''',
     k_ActualKafkaBillingModel = '''',
     k_DesiredKafkaBillingModel = '''',
     k_PromotionStatus = '''',
     k_PromotionDetails = '''',
     k_ExpiresAt = None,
     k_KafkasRoutesBaseDomainName = '''',
     k_KafkasRoutesBaseDomainTLSKeyRef = '''',
     k_KafkasRoutesBaseDomainTLSCrtRef = ''''\<rparr>"

(* src/internal/kafka/internal/api/dbapi/kafka_request_types.go:92-106 ParseKafkaPromotionStatus *)
definition ParseKafkaPromotionStatus :: "string \<Rightarrow> string err" where
  "ParseKafkaPromotionStatus status =
     (if status \<in> set [KafkaPromotionStatusPromoting, KafkaPromotionStatusFailed, KafkaPromotionStatusNoPromotion]
      then Inr status
      else Inl (ErrorString (Sprintf ''cannot parse %q as KafkaPromotionStatus: invalid status'' [FStr status])))"

(* src/internal/kafka/internal/api/dbapi/kafka_request_types.go:111-117 KafkaList.Index *)
fun KafkaList_Index :: "KafkaRequest list \<Rightarrow> (string \<rightharpoonup> KafkaRequest) \<Rightarrow> (string \<rightharpoonup> KafkaRequest)" where
  "KafkaList_Index [] index = index"
| "KafkaList_Index (k # ks) index = KafkaList_Index ks (index(k_ID k \<mapsto> k))"

(* src/internal/kafka/internal/api/dbapi/kafka_request_types.go:119-126 KafkaRequest.BeforeCreate *)
definition Kafka_BeforeCreate :: "string \<Rightarrow> KafkaRequest \<Rightarrow> KafkaRequest" where
  "Kafka_BeforeCreate newID k = (if k_ID k = '''' then k\<lparr>k_ID := newID\<rparr> else k)"

(* src/internal/kafka/internal/api/dbapi/kafka_request_types.go:128-138 KafkaRequest.GetRoutes *)
definition GetRoutes :: "KafkaRequest \<Rightarrow> DataPlaneKafkaRoute list err" where
  "GetRoutes k = (case k_Routes k of JNil \<Rightarrow> Inr [] | JText routes \<Rightarrow> Inr routes | JBad \<Rightarrow> Inl (ErrorString ''invalid JSON''))"

(* src/internal/kafka/internal/api/dbapi/kafka_request_types.go:140-147 KafkaRequest.SetRoutes *)
definition SetRoutes :: "DataPlaneKafkaRoute list \<Rightarrow> KafkaRequest \<Rightarrow> KafkaRequest" where
  "SetRoutes routes k = k\<lparr>k_Routes := JText routes\<rparr>"

(* src/internal/kafka/internal/api/dbapi/kafka_request_types.go:152-155 KafkaRequest.GetExpirationTime *)
definition GetExpirationTime :: "int \<Rightarrow> KafkaRequest \<Rightarrow> time" where
  "GetExpirationTime lifespanSeconds k = k_CreatedAt k + lifespanSeconds * 1000000000"

(* src/internal/kafka/internal/api/dbapi/kafka_request_types.go:178-183 remainingLifeSpan *)
record remainingLifeSpan =
  remainingLifeSpanDays :: rat
  infinite :: bool

(* src/internal/kafka/internal/api/dbapi/kafka_request_types.go:193-198 remainingLifeSpan.LessThanOrEqual *)
definition LessThanOrEqual :: "rat \<Rightarrow> remainingLifeSpan \<Rightarrow> bool" where
  "LessThanOrEqual days l = (if infinite l then False else remainingLifeSpanDays l \<le> days)"

(* src/internal/kafka/internal/api/dbapi/kafka_request_types.go:201-222 KafkaRequest.IsExpired *)
definition IsExpired :: "time \<Rightarrow> KafkaRequest \<Rightarrow> bool \<times> remainingLifeSpan" where
  "IsExpired now k =
     (case k_ExpiresAt k of
        None \<Rightarrow> (False, \<lparr>remainingLifeSpanDays = - 1, infinite = True\<rparr>)
      | Some t \<Rightarrow>
          if now > t then (True, \<lparr>remainingLifeSpanDays = 0, infinite = False\<rparr>)
          else (False, \<lparr>remainingLifeSpanDays = of_int (t - now) / of_int Hour / 24, infinite = False\<rparr>))"

(* src/internal/kafka/internal/api/dbapi/kafka_request_types.go:226-236 KafkaRequest.CanBeAutomaticallySuspended *)
definition CanBeAutomaticallySuspended :: "KafkaRequest \<Rightarrow> bool" where
  "CanBeAutomaticallySuspended k =
     Contains [KafkaRequestStatusAccepted, KafkaRequestStatusPreparing, KafkaRequestStatusReady, KafkaRequestStatusProvisioning, KafkaRequestStatusResuming] (k_Status k)"

(* src/internal/kafka/internal/api/dbapi/kafka_request_types.go:240-242 KafkaRequest.DesiredBillingModelIsEnterprise *)
definition DesiredBillingModelIsEnterprise :: "KafkaRequest \<Rightarrow> bool" where
  "DesiredBillingModelIsEnterprise k = StringEqualsIgnoreCase (k_DesiredKafkaBillingModel k) BillingModelEnterprise"

(* src/internal/kafka/internal/api/dbapi/kafka_request_types.go:246-249 KafkaRequest.HasCertificateInfo *)
definition HasCertificateInfo :: "KafkaRequest \<Rightarrow> bool" where
  "HasCertificateInfo k \<longleftrightarrow> \<not> (StringEmpty (k_KafkasRoutesBaseDomainName k) \<or>
     StringEmpty (k_KafkasRoutesBaseDomainTLSCrtRef k) \<or> StringEmpty (k_KafkasRoutesBaseDomainTLSKeyRef k))"

text \<open>The configuration is used only through its domain name.\<close>

(* src/internal/kafka/internal/api/dbapi/kafka_request_types.go:254-257 KafkaRequest.IsUsingSharedTLSCertificate *)
definition IsUsingSharedTLSCertificate :: "string \<Rightarrow> KafkaRequest \<Rightarrow> bool" where
  "IsUsingSharedTLSCertificate kafkaDomainName k \<longleftrightarrow> k_KafkasRoutesBaseDomainName k = kafkaDomainName \<or>
     k_KafkasRoutesBaseDomainName k = Sprintf ''%s.%s'' [FStr TrialKafkasDomainShard, FStr kafkaDomainName]"

(* src/internal/kafka/internal/api/dbapi/kafka_request_types.go:261-263 KafkaRequest.IsADeveloperInstance *)
definition IsADeveloperInstance :: "KafkaRequest \<Rightarrow> bool" where
  "IsADeveloperInstance k \<longleftrightarrow> k_InstanceType k = DEVELOPER"

section \<open>Reports of the data plane\<close>

(* src/internal/kafka/internal/api/dbapi/data_plane_kafka_status.go:18-23 DataPlaneKafkaStatusCondition *)
record DataPlaneKafkaStatusCondition =
  cond_Type :: string
  cond_Reason :: string
  cond_Status :: string
  cond_Message :: string

(* src/internal/kafka/internal/api/dbapi/data_plane_kafka_status.go:30-34 DataPlaneKafkaRouteRequest *)
record DataPlaneKafkaRouteRequest =
  rr_Name :: string
  rr_Prefix :: string
  rr_Router :: string

(* src/internal/kafka/internal/api/dbapi/data_plane_kafka_status.go:7-16 DataPlaneKafkaStatus *)
record DataPlaneKafkaStatus =
  ds_KafkaClusterId :: string
  ds_Conditions :: "DataPlaneKafkaStatusCondition list"
  ds_Routes :: "DataPlaneKafkaRouteRequest list"
  ds_KafkaVersion :: string
  ds_StrimziVersion :: string
  ds_KafkaIBPVersion :: string
  ds_AdminServerURI :: string

(* src/internal/kafka/internal/api/dbapi/data_plane_kafka_status.go:36-43 DataPlaneKafkaStatus.GetReadyCondition *)
definition GetReadyCondition :: "DataPlaneKafkaStatus \<Rightarrow> DataPlaneKafkaStatusCondition option" where
  "GetReadyCondition d = List.find (\<lambda>c. EqualFold (cond_Type c) ''Ready'') (ds_Conditions d)"

(* src/internal/kafka/internal/api/dbapi/data_plane_cluster_status.go:5-9 DataPlaneClusterStatus *)
record DataPlaneClusterStatus =
  dcs_Conditions :: "DataPlaneKafkaStatusCondition list"
  dcs_AvailableStrimziVersions :: "StrimziVersion list"
  dcs_DynamicCapacityInfo :: "(string \<times> DynamicCapacityInfo) list"

section \<open>The order of Kafka statuses\<close>

interpretation kafka_order: status_order KafkaStatus_CompareTo
  unfolding KafkaStatus_CompareTo_def[abs_def] by (rule ordinal_cmp_order)

section \<open>Properties\<close>

text \<open>Kafka statuses are totally preordered.  Among the statuses of the program only
  \<^verbatim>\<open>provisioning\<close> and \<^verbatim>\<open>resuming\<close> compare equal without being equal.\<close>

theorem KafkaStatus_CompareTo_order:
  "KafkaStatus_CompareTo a b \<in> {- 1, 0, 1} \<and> KafkaStatus_CompareTo b a = - KafkaStatus_CompareTo a b \<and>
   {c. KafkaStatus_CompareTo b c \<le> 0} \<inter> {c. KafkaStatus_CompareTo a b \<le> 0} \<subseteq> {c. KafkaStatus_CompareTo a c \<le> 0} \<and>
   filter (\<lambda>p. KafkaStatus_CompareTo (fst p) (snd p) = 0 \<and> fst p \<noteq> snd p) (List.product GetAllStatuses GetAllStatuses) =
     [(KafkaRequestStatusProvisioning, KafkaRequestStatusResuming), (KafkaRequestStatusResuming, KafkaRequestStatusProvisioning)]"
proof -
  have "filter (\<lambda>p. KafkaStatus_CompareTo (fst p) (snd p) = 0 \<and> fst p \<noteq> snd p) (List.product GetAllStatuses GetAllStatuses) =
     [(KafkaRequestStatusProvisioning, KafkaRequestStatusResuming), (KafkaRequestStatusResuming, KafkaRequestStatusProvisioning)]"
    by (simp add: GetAllStatuses_def KafkaStatus_CompareTo_def ordinal_of_def kafka_ordinals_def)
  then show ?thesis
    using kafka_order.cmp_range[of a b] kafka_order.cmp_swap[of b a] kafka_order.cmp_trans[of a b] by auto
qed

text \<open>A Kafka instance without an expiration never expires and its life span is never within any number of
  days.  One with an expiration is expired exactly when it lies in the past, and its remaining life is
  within a non-negative number of days exactly when the expiration is at most that many days ahead.\<close>

theorem IsExpired_lifespan:
  assumes "0 \<le> days"
  shows "fst (IsExpired now k) = (\<exists>t. k_ExpiresAt k = Some t \<and> t < now) \<and>
         LessThanOrEqual days (snd (IsExpired now k)) =
           (\<exists>t. k_ExpiresAt k = Some t \<and> of_int (t - now) \<le> days * 24 * of_int Hour)"
proof (cases "k_ExpiresAt k")
  case None
  then show ?thesis by (simp add: IsExpired_def LessThanOrEqual_def)
next
  case (Some t)
  have le: "of_int (t - now) / of_int Hour / 24 \<le> days \<longleftrightarrow> of_int (t - now) \<le> days * 24 * of_int Hour"
    by (simp add: Hour_def field_simps)
  have "of_int (t - now) \<le> days * 24 * of_int Hour" if "t < now"
  proof -
    have "of_int (t - now) \<le> (0 :: rat)" using that by simp
    also have "0 \<le> days * 24 * of_int Hour" using assms by (simp add: Hour_def)
    finally show ?thesis .
  qed
  then show ?thesis using Some le assms by (auto simp: IsExpired_def LessThanOrEqual_def)
qed

theorem IsExpired_lifespan_witness:
  "LessThanOrEqual 1 (snd (IsExpired 0 (zero_Kafka\<lparr>k_ExpiresAt := Some Hour\<rparr>))) \<and>
   \<not> fst (IsExpired 0 (zero_Kafka\<lparr>k_ExpiresAt := Some Hour\<rparr>))"
  using IsExpired_lifespan[of 1 0 "zero_Kafka\<lparr>k_ExpiresAt := Some Hour\<rparr>"] by (simp add: Hour_def)

end
