(* ===== verification/Instance_Types.thy ===== *)
theory Instance_Types
  imports Kafka_Types
begin

text \<open>
  The configuration of Kafka instance types: \<^verbatim>\<open>kafka_supported_instance_types.go\<close>, \<^verbatim>\<open>kafka.go\<close> and
  \<^verbatim>\<open>node_prewarming_config.go\<close> of \<^verbatim>\<open>internal/kafka/internal/config\<close>.  An instance type has sizes and billing
  models; validation rejects incomplete and ambiguous configurations.  The lemmas show what a validated
  configuration guarantees to its clients: identifiers are unique, so the lookups find every
  configured size, and every size consumes a positive capacity.

  The Kubernetes quantity parser, the ISO 8601 duration parser and the struct validator are packages
  outside the repository and are parameters (\<open>config_libs\<close>).  Go's \<^verbatim>\<open>int\<close> is \<open>int\<close>: configured numbers are far
  below the 64 bit range.
\<close>

section \<open>Billing models\<close>

(* src/internal/kafka/internal/config/kafka_supported_instance_types.go:115-121 KafkaBillingModel *)
record KafkaBillingModel =
  bm_ID :: string
  bm_AMSResource :: string
  bm_AMSProduct :: string
  bm_AMSBillingModels :: "string list"
  bm_GracePeriodDays :: int

(* src/internal/kafka/internal/config/kafka_supported_instance_types.go:123-125 KafkaBillingModel.HasSupportForAMSBillingModel *)
definition HasSupportForAMSBillingModel :: "string \<Rightarrow> KafkaBillingModel \<Rightarrow> bool" where
  "HasSupportForAMSBillingModel amsBillingModel kbm =
     AnyMatch (bm_AMSBillingModels kbm) (StringEqualsIgnoreCasePredicate amsBillingModel)"

(* src/internal/kafka/internal/config/kafka_supported_instance_types.go:127-132 KafkaBillingModel.HasSupportForMarketplace *)
definition HasSupportForMarketplace :: "KafkaBillingModel \<Rightarrow> bool" where
  "HasSupportForMarketplace kbm =
     AnyMatch (bm_AMSBillingModels kbm) (CompositePredicateAny
       [StringHasPrefixIgnoreCasePredicate ''marketplace-'', StringEqualsIgnoreCasePredicate ''marketplace''])"

(* src/internal/kafka/internal/config/kafka_supported_instance_types.go:134-136 KafkaBillingModel.HasSupportForStandard *)
definition HasSupportForStandard :: "KafkaBillingModel \<Rightarrow> bool" where
  "HasSupportForStandard kbm = AnyMatch (bm_AMSBillingModels kbm) (StringEqualsIgnoreCasePredicate ''standard'')"

section \<open>Quantities and sizes\<close>

text \<open>The packages the validation calls: \<open>parseQuantity\<close> is \<^verbatim>\<open>resource.ParseQuantity\<close>, \<open>cmpInt64\<close> the comparison
  of a quantity with a number, \<open>quantityValue\<close> its rounded value, \<open>parseISO8601\<close> is \<^verbatim>\<open>duration.ParseISO8601\<close>,
  \<open>durationIsZero\<close> the test of the parsed duration, and \<open>validateStruct\<close> the check of the field tags of an
  instance type.\<close>

(* src/internal/kafka/internal/config/kafka_supported_instance_types.go:138-159 KafkaInstanceSize *)
record KafkaInstanceSize =
  sz_Id :: string
  sz_DisplayName :: string
  sz_IngressThroughputPerSec :: string
  sz_EgressThroughputPerSec :: string
  sz_TotalMaxConnections :: int
  sz_MaxDataRetentionSize :: string
  sz_MaxPartitions :: int
  sz_MaxDataRetentionPeriod :: string
  sz_MaxConnectionAttemptsPerSec :: int
  sz_MaxMessageSize :: string
  sz_QuotaConsumed :: int
  sz_DeprecatedQuotaType :: string
  sz_CapacityConsumed :: int
  sz_SupportedAZModes :: "string list option"
  sz_MinInSyncReplicas :: int
  sz_ReplicationFactor :: int
  sz_LifespanSeconds :: "int option"
  sz_MaturityStatus :: string

(* src/internal/kafka/internal/config/kafka_supported_instance_types.go:28-33 KafkaInstanceType *)
record KafkaInstanceType =
  it_Id :: string
  it_DisplayName :: string
  it_Sizes :: "KafkaInstanceSize list"
  it_SupportedBillingModels :: "KafkaBillingModel list"

record ('q, 'd) config_libs =
  parseQuantity :: "string \<Rightarrow> 'q err"
  cmpInt64 :: "'q \<Rightarrow> int \<Rightarrow> int"
  quantityValue :: "'q \<Rightarrow> int"
  parseISO8601 :: "string \<Rightarrow> 'd err"
  durationIsZero :: "'d \<Rightarrow> bool"
  validateStruct :: "KafkaInstanceType \<Rightarrow> goerror option"

text \<open>The receiver of the methods of a quantity is a pointer, \<open>None\<close> when it is nil.\<close>

(* src/internal/kafka/internal/config/kafka_supported_instance_types.go:323-325 Quantity.IsEmpty *)
definition Quantity_IsEmpty :: "string option \<Rightarrow> bool" where
  "Quantity_IsEmpty q \<longleftrightarrow> q = None"

(* src/internal/kafka/internal/config/kafka_supported_instance_types.go:307-313 Quantity.ToInt64 *)
definition Quantity_ToInt64 :: "('q, 'd) config_libs \<Rightarrow> string \<Rightarrow> int err" where
  "Quantity_ToInt64 libs q = (case parseQuantity libs q of Inl err \<Rightarrow> Inl err | Inr p \<Rightarrow> Inr (quantityValue libs p))"

(* src/internal/kafka/internal/config/kafka_supported_instance_types.go:315-321 Quantity.ToK8Quantity *)
definition Quantity_ToK8Quantity :: "('q, 'd) config_libs \<Rightarrow> string \<Rightarrow> 'q err" where
  "Quantity_ToK8Quantity libs q = (case parseQuantity libs q of Inl err \<Rightarrow> Inl err | Inr p \<Rightarrow> Inr p)"

definition MaturityStatusTechPreview :: string where "MaturityStatusTechPreview = ''preview''"

definition MaturityStatusStable :: string where "MaturityStatusStable = ''stable''"

(* src/internal/kafka/internal/config/kafka_supported_instance_types.go:24-26 getValidMaturityStates *)
definition getValidMaturityStates :: "string list" where
  "getValidMaturityStates = [MaturityStatusStable, MaturityStatusTechPreview]"

text \<open>The messages name the size where they announce the instance type and the other way round, as the
  source passes the two identifiers in that order.\<close>

definition size_invalid :: "string \<Rightarrow> string \<Rightarrow> string \<Rightarrow> goerror \<Rightarrow> goerror" where
  "size_invalid what sizeId instanceTypeId err =
     ErrorString (Sprintf (what @ '' for Kafka instance type '%s', size '%s' is invalid: %s'')
       [FStr sizeId, FStr instanceTypeId, FStr (err_Error err)])"

(* src/internal/kafka/internal/config/kafka_supported_instance_types.go:166-233 KafkaInstanceSize.validate *)
definition Size_validate :: "('q, 'd) config_libs \<Rightarrow> string \<Rightarrow> KafkaInstanceSize \<Rightarrow> goerror option" where
  "Size_validate libs instanceTypeId k =
     (if Quantity_IsEmpty (Some (sz_EgressThroughputPerSec k)) \<or> Quantity_IsEmpty (Some (sz_IngressThroughputPerSec k)) \<or>
         sz_MaxDataRetentionPeriod k = '''' \<or> Quantity_IsEmpty (Some (sz_MaxDataRetentionSize k)) \<or> sz_Id k = '''' \<or>
         sz_DeprecatedQuotaType k = '''' \<or> sz_DisplayName k = '''' \<or> Quantity_IsEmpty (Some (sz_MaxMessageSize k)) \<or>
         sz_SupportedAZModes k = None
      then Some (ErrorString (Sprintf ''kafka instance size '%s' for instance type '%s' is missing required parameters'' [FStr (sz_Id k), FStr instanceTypeId]))
      else case Quantity_ToK8Quantity libs (sz_EgressThroughputPerSec k) of
        Inl err \<Rightarrow> Some (size_invalid ''egressThroughputPerSec'' (sz_Id k) instanceTypeId err)
      | Inr egressThroughputQuantity \<Rightarrow> (case Quantity_ToK8Quantity libs (sz_IngressThroughputPerSec k) of
        Inl err \<Rightarrow> Some (size_invalid ''ingressThroughputPerSec'' (sz_Id k) instanceTypeId err)
      | Inr ingressThroughputQuantity \<Rightarrow> (case Quantity_ToK8Quantity libs (sz_MaxDataRetentionSize k) of
        Inl err \<Rightarrow> Some (size_invalid ''maxDataRetentionSize'' (sz_Id k) instanceTypeId err)
      | Inr maxDataRetentionSize \<Rightarrow> (case parseISO8601 libs (sz_MaxDataRetentionPeriod k) of
        Inl err \<Rightarrow> Some (size_invalid ''maxDataRetentionPeriod'' (sz_Id k) instanceTypeId err)
      | Inr maxDataRetentionPeriod \<Rightarrow> (case Quantity_ToK8Quantity libs (sz_MaxMessageSize k) of
        Inl err \<Rightarrow> Some (size_invalid ''maxMessageSize'' (sz_Id k) instanceTypeId err)
      | Inr maxMessageSize \<Rightarrow>
        (case List.find (\<lambda>mode. mode \<notin> set [''single'', ''multi'']) (the (sz_SupportedAZModes k)) of
           Some mode \<Rightarrow> Some (ErrorString (Sprintf ''value '%s' in supportedAZModes for Kafka instance type '%s', size '%s' is invalid'' [FStr mode, FStr (sz_Id k), FStr instanceTypeId]))
         | None \<Rightarrow>
           if (case sz_LifespanSeconds k of None \<Rightarrow> False | Some s \<Rightarrow> s \<le> 0)
           then Some (ErrorString (Sprintf ''kafka instance size '%s' for instance type '%s' specifies a lifespanSeconds seconds value less than or equals to Zero'' [FStr (sz_Id k), FStr instanceTypeId]))
           else if \<not> Contains getValidMaturityStates (sz_MaturityStatus k)
           then Some (ErrorString (Sprintf (''maturityStatus for Kafka instance type '%s', size '%s' is unknown: '%s'' @ [CHR 0x27]) [FStr (sz_Id k), FStr instanceTypeId, FStr (sz_MaturityStatus k)]))
           else if durationIsZero libs maxDataRetentionPeriod \<or> cmpInt64 libs egressThroughputQuantity 1 < 0 \<or>
             cmpInt64 libs ingressThroughputQuantity 1 < 0 \<or> cmpInt64 libs maxDataRetentionSize 1 < 0 \<or>
             sz_TotalMaxConnections k \<le> 0 \<or> sz_MaxPartitions k \<le> 0 \<or> sz_MaxConnectionAttemptsPerSec k \<le> 0 \<or>
             sz_QuotaConsumed k < 1 \<or> sz_CapacityConsumed k < 1 \<or> sz_MinInSyncReplicas k < 1 \<or>
             sz_ReplicationFactor k < 1 \<or> cmpInt64 libs maxMessageSize 0 < 0 \<or> length (the (sz_SupportedAZModes k)) = 0
           then Some (ErrorString (Sprintf ''kafka instance size '%s' for instance type '%s' specifies a property value less than or equals to Zero'' [FStr (sz_Id k), FStr instanceTypeId]))
           else None))))))"

section \<open>Instance types\<close>

(* src/internal/kafka/internal/config/kafka_supported_instance_types.go:35-43 KafkaInstanceType.GetKafkaInstanceSizeByID *)
definition GetKafkaInstanceSizeByID :: "string \<Rightarrow> KafkaInstanceType \<Rightarrow> KafkaInstanceSize err" where
  "GetKafkaInstanceSizeByID sizeId kp =
     (case List.find (\<lambda>s. sz_Id s = sizeId) (it_Sizes kp) of
        Some ret \<Rightarrow> Inr ret
      | None \<Rightarrow> Inl (ErrorString (Sprintf ''kafka instance size id: '%s' not found for '%s' instance type'' [FStr sizeId, FStr (it_Id kp)])))"

(* src/internal/kafka/internal/config/kafka_supported_instance_types.go:45-51 KafkaInstanceType.GetKafkaSupportedBillingModelByID *)
definition GetKafkaSupportedBillingModelByID :: "string \<Rightarrow> KafkaInstanceType \<Rightarrow> KafkaBillingModel err" where
  "GetKafkaSupportedBillingModelByID kafkaBillingModelID kp =
     (case FindFirst (it_SupportedBillingModels kp) (\<lambda>x. StringEqualsIgnoreCase (bm_ID x) kafkaBillingModelID) of
        (idx, Some billingModel) \<Rightarrow> Inr billingModel
      | (idx, None) \<Rightarrow> Inl (ErrorString (Sprintf ''kafka supported billing model id: '%s' not found for '%s' instance type'' [FStr kafkaBillingModelID, FStr (it_Id kp)])))"

text \<open>The loop keeps the result and the biggest consumption so far.\<close>

(* src/internal/kafka/internal/config/kafka_supported_instance_types.go:57-68 KafkaInstanceType.GetBiggestCapacityConsumedSize *)
fun biggest_loop :: "KafkaInstanceSize option \<Rightarrow> int \<Rightarrow> KafkaInstanceSize list \<Rightarrow> KafkaInstanceSize option" where
  "biggest_loop res maxSizeConsumption [] = res"
| "biggest_loop res maxSizeConsumption (kafkaSize # rest) =
     (if sz_CapacityConsumed kafkaSize > maxSizeConsumption
      then biggest_loop (Some kafkaSize) (sz_CapacityConsumed kafkaSize) rest
      else biggest_loop res maxSizeConsumption rest)"

(* src/internal/kafka/internal/config/kafka_supported_instance_types.go:57-68 KafkaInstanceType.GetBiggestCapacityConsumedSize *)
definition GetBiggestCapacityConsumedSize :: "KafkaInstanceType \<Rightarrow> KafkaInstanceSize option" where
  "GetBiggestCapacityConsumedSize kp = biggest_loop None (- 1) (it_Sizes kp)"

(* src/internal/kafka/internal/config/kafka_supported_instance_types.go:72-79 KafkaInstanceType.HasAnInstanceSizeWithLifespan *)
fun has_lifespan_loop :: "KafkaInstanceSize list \<Rightarrow> bool" where
  "has_lifespan_loop [] = False"
| "has_lifespan_loop (kafkaSize # rest) = (if sz_LifespanSeconds kafkaSize \<noteq> None then True else has_lifespan_loop rest)"

definition HasAnInstanceSizeWithLifespan :: "KafkaInstanceType \<Rightarrow> bool" where
  "HasAnInstanceSizeWithLifespan kp = has_lifespan_loop (it_Sizes kp)"

text \<open>The map \<^verbatim>\<open>existingSizes\<close> is the list of identifiers seen so far.\<close>

(* src/internal/kafka/internal/config/kafka_supported_instance_types.go:94-105 KafkaInstanceType.validate *)
fun sizes_validate_loop :: "('q, 'd) config_libs \<Rightarrow> string \<Rightarrow> string list \<Rightarrow> KafkaInstanceSize list \<Rightarrow> goerror option" where
  "sizes_validate_loop libs typeId existingSizes [] = None"
| "sizes_validate_loop libs typeId existingSizes (kafkaInstanceSize # rest) =
     (if sz_Id kafkaInstanceSize \<in> set existingSizes
      then Some (ErrorString (Sprintf ''kafka instance size '%s' for instance type '%s' was defined more than once'' [FStr (sz_Id kafkaInstanceSize), FStr typeId]))
      else case Size_validate libs typeId kafkaInstanceSize of
        Some err \<Rightarrow> Some err
      | None \<Rightarrow> sizes_validate_loop libs typeId (sz_Id kafkaInstanceSize # existingSizes) rest)"

(* src/internal/kafka/internal/config/kafka_supported_instance_types.go:85-113 KafkaInstanceType.validate *)
definition Type_validate :: "('q, 'd) config_libs \<Rightarrow> KafkaInstanceType \<Rightarrow> goerror option" where
  "Type_validate libs kp =
     (if it_Id kp = '''' \<or> it_DisplayName kp = '''' \<or> length (it_Sizes kp) = 0
      then Some (ErrorString (Sprintf ''kafka instance type '%s' is missing required parameters'' [FStr (it_Id kp)]))
      else if \<not> Contains ValidKafkaInstanceTypes (it_Id kp)
      then Some (ErrorString (Sprintf (''kafka instance type id '%s' is not valid. Valid kafka instance types are: '%v'' @ [CHR 0x27])
             [FStr (it_Id kp), FVal ''[]string'' (''['' @ Join ValidKafkaInstanceTypes '' '' @ '']'')]))
      else case sizes_validate_loop libs (it_Id kp) [] (it_Sizes kp) of
        Some err \<Rightarrow> Some err
      | None \<Rightarrow> validateStruct libs kp)"

(* src/internal/kafka/internal/config/kafka_supported_instance_types.go:235-237 SupportedKafkaInstanceTypesConfig *)
record SupportedKafkaInstanceTypesConfig =
  SupportedKafkaInstanceTypes :: "KafkaInstanceType list"

(* src/internal/kafka/internal/config/kafka_supported_instance_types.go:239-247 SupportedKafkaInstanceTypesConfig.GetKafkaInstanceTypeByID *)
definition GetKafkaInstanceTypeByID :: "string \<Rightarrow> SupportedKafkaInstanceTypesConfig \<Rightarrow> KafkaInstanceType err" where
  "GetKafkaInstanceTypeByID instanceType s =
     (case List.find (\<lambda>t. it_Id t = instanceType) (SupportedKafkaInstanceTypes s) of
        Some ret \<Rightarrow> Inr ret
      | None \<Rightarrow> Inl (ErrorString (Sprintf (''unable to find kafka instance type for '%s'' @ [CHR 0x27]) [FStr instanceType])))"

(* src/internal/kafka/internal/config/kafka_supported_instance_types.go:249-264 SupportedKafkaInstanceTypesConfig.validate *)
fun types_validate_loop :: "('q, 'd) config_libs \<Rightarrow> string list \<Rightarrow> KafkaInstanceType list \<Rightarrow> goerror option" where
  "types_validate_loop libs existingInstanceTypes [] = None"
| "types_validate_loop libs existingInstanceTypes (t # rest) =
     (if it_Id t \<in> set existingInstanceTypes
      then Some (ErrorString (Sprintf ''kafka instance type id '%s' was defined more than once'' [FStr (it_Id t)]))
      else case Type_validate libs t of
        Some err \<Rightarrow> Some err
      | None \<Rightarrow> types_validate_loop libs (it_Id t # existingInstanceTypes) rest)"

(* src/internal/kafka/internal/config/kafka_supported_instance_types.go:249-264 SupportedKafkaInstanceTypesConfig.validate *)
definition SupportedTypes_validate :: "('q, 'd) config_libs \<Rightarrow> SupportedKafkaInstanceTypesConfig \<Rightarrow> goerror option" where
  "SupportedTypes_validate libs s = types_validate_loop libs [] (SupportedKafkaInstanceTypes s)"

section \<open>Plans\<close>

definition numComponentsInPlanFormat :: nat where "numComponentsInPlanFormat = 2"

(* src/internal/kafka/internal/config/kafka_supported_instance_types.go:285-291 Plan.GetInstanceType *)
definition Plan_GetInstanceType :: "string \<Rightarrow> string err" where
  "Plan_GetInstanceType p =
     (let t = Split (TrimSpace p) CHR ''.'' in
      if length t \<noteq> numComponentsInPlanFormat
      then Inl (ServiceErr (New ErrorGeneral (Sprintf (''Unsupported plan provided: '%s'' @ [CHR 0x27]) [FStr p]) []))
      else Inr (t ! 0))"

(* src/internal/kafka/internal/config/kafka_supported_instance_types.go:293-299 Plan.GetSizeID *)
definition Plan_GetSizeID :: "string \<Rightarrow> string err" where
  "Plan_GetSizeID p =
     (let t = Split (TrimSpace p) CHR ''.'' in
      if length t \<noteq> numComponentsInPlanFormat
      then Inl (ServiceErr (New ErrorGeneral (Sprintf (''Unsupported plan provided: '%s'' @ [CHR 0x27]) [FStr p]) []))
      else Inr (t ! 1))"

section \<open>The Kafka configuration\<close>

(* src/internal/kafka/internal/config/kafka_quota.go:5-9 KafkaQuotaConfig *)
record KafkaQuotaConfig =
  qc_Type :: string
  qc_AllowDeveloperInstance :: bool
  qc_MaxAllowedDeveloperInstances :: int

(* src/internal/kafka/internal/config/kafka_lifespan.go:3-5 KafkaLifespanConfig *)
record KafkaLifespanConfig =
  EnableDeletionOfExpiredKafka :: bool

(* src/internal/kafka/internal/config/kafka.go:11-22 KafkaConfig *)
record KafkaConfig =
  kc_EnableKafkaCNAMERegistration :: bool
  kc_KafkaDomainName :: string
  kc_BrowserUrl :: string
  kc_KafkaLifespan :: KafkaLifespanConfig
  kc_Quota :: KafkaQuotaConfig
  kc_SupportedInstanceTypes :: SupportedKafkaInstanceTypesConfig
  kc_EnableKafkaOwnerConfig :: bool
  kc_KafkaOwnerList :: "string list"

(* src/internal/kafka/internal/config/kafka.go:66-68 KafkaConfig.Validate *)
definition KafkaConfig_Validate :: "('q, 'd) config_libs \<Rightarrow> KafkaConfig \<Rightarrow> goerror option" where
  "KafkaConfig_Validate libs c = SupportedTypes_validate libs (kc_SupportedInstanceTypes c)"

(* src/internal/kafka/internal/config/kafka.go:70-79 KafkaConfig.GetFirstAvailableSize *)
definition GetFirstAvailableSize :: "KafkaConfig \<Rightarrow> string \<Rightarrow> KafkaInstanceSize err" where
  "GetFirstAvailableSize c instanceType =
     (case GetKafkaInstanceTypeByID instanceType (kc_SupportedInstanceTypes c) of
        Inl err \<Rightarrow> Inl err
      | Inr kafkaInstanceType \<Rightarrow>
          if length (it_Sizes kafkaInstanceType) < 1 \<or> sz_Id (it_Sizes kafkaInstanceType ! 0) = ''''
          then Inl (ServiceErr (New ErrorGeneral (Sprintf (''unable to get size for instance type: '%s'' @ [CHR 0x27]) [FStr instanceType]) []))
          else Inr (it_Sizes kafkaInstanceType ! 0))"

(* src/internal/kafka/internal/config/kafka.go:81-87 KafkaConfig.GetKafkaInstanceSize *)
definition GetKafkaInstanceSize :: "KafkaConfig \<Rightarrow> string \<Rightarrow> string \<Rightarrow> KafkaInstanceSize err" where
  "GetKafkaInstanceSize c instanceType sizeId =
     (case GetKafkaInstanceTypeByID instanceType (kc_SupportedInstanceTypes c) of
        Inl err \<Rightarrow> Inl err
      | Inr kafkaInstanceType \<Rightarrow> GetKafkaInstanceSizeByID sizeId kafkaInstanceType)"

(* src/internal/kafka/internal/config/kafka.go:89-96 KafkaConfig.GetBillingModels *)
definition GetBillingModels :: "KafkaConfig \<Rightarrow> string \<Rightarrow> KafkaBillingModel list err" where
  "GetBillingModels c instanceType =
     (case GetKafkaInstanceTypeByID instanceType (kc_SupportedInstanceTypes c) of
        Inl err \<Rightarrow> Inl err
      | Inr kafkaInstanceType \<Rightarrow> Inr (it_SupportedBillingModels kafkaInstanceType))"

(* src/internal/kafka/internal/config/kafka.go:98-111 KafkaConfig.GetBillingModelByID *)
definition GetBillingModelByID :: "KafkaConfig \<Rightarrow> string \<Rightarrow> string \<Rightarrow> KafkaBillingModel err" where
  "GetBillingModelByID c instanceType billingModelID =
     (case GetKafkaInstanceTypeByID instanceType (kc_SupportedInstanceTypes c) of
        Inl err \<Rightarrow> Inl err
      | Inr kafkaInstanceType \<Rightarrow> (case GetKafkaSupportedBillingModelByID billingModelID kafkaInstanceType of
          Inl err \<Rightarrow> Inl err
        | Inr billingModel \<Rightarrow> Inr billingModel))"

section \<open>Node prewarming\<close>

text \<open>The configuration map is an association list in the order the range loop visits it.\<close>

(* src/internal/kafka/internal/config/node_prewarming_config.go:65-68 InstanceTypeNodePrewarmingConfig *)
record InstanceTypeNodePrewarmingConfig =
  BaseStreamingUnitSize :: string
  NumReservedInstances :: int

(* src/internal/kafka/internal/config/node_prewarming_config.go:14-17 NodePrewarmingConfig *)
type_synonym NodePrewarmingConfig = "(string \<times> InstanceTypeNodePrewarmingConfig) list"

definition defaultBaseStreamingUnitSize :: string where "defaultBaseStreamingUnitSize = ''x1''"

(* src/internal/kafka/internal/config/node_prewarming_config.go:26-38 NodePrewarmingConfig.ForInstanceType *)
definition ForInstanceType :: "string \<Rightarrow> NodePrewarmingConfig \<Rightarrow> InstanceTypeNodePrewarmingConfig option" where
  "ForInstanceType instanceTypeID c =
     (case map_of c instanceTypeID of
        None \<Rightarrow> None
      | Some instanceTypeConfig \<Rightarrow>
          Some (if BaseStreamingUnitSize instanceTypeConfig = ''''
                then instanceTypeConfig\<lparr>BaseStreamingUnitSize := defaultBaseStreamingUnitSize\<rparr>
                else instanceTypeConfig))"

(* src/internal/kafka/internal/config/node_prewarming_config.go:70-90 InstanceTypeNodePrewarmingConfig.validate *)
definition prewarming_validate :: "string \<Rightarrow> KafkaConfig \<Rightarrow> InstanceTypeNodePrewarmingConfig \<Rightarrow> goerror option" where
  "prewarming_validate instanceType kafkaConfig c =
     (let baseStreamingUnit = (if BaseStreamingUnitSize c = '''' then defaultBaseStreamingUnitSize else BaseStreamingUnitSize c) in
      case GetKafkaInstanceSize kafkaConfig instanceType baseStreamingUnit of
        Inl err \<Rightarrow> Some (WithMessage err (Sprintf ''error validating node prewarming configuration for instance type %s'' [FStr instanceType]))
      | Inr s \<Rightarrow>
          if NumReservedInstances c = 0 then None
          else if NumReservedInstances c < 0
          then Some (ErrorString (Sprintf ''num_reserved_instances cannot be a negative number for instance type: %s'' [FStr instanceType]))
          else None)"

(* src/internal/kafka/internal/config/node_prewarming_config.go:40-49 NodePrewarmingConfig.validate *)
fun NodePrewarming_validate :: "KafkaConfig \<Rightarrow> NodePrewarmingConfig \<Rightarrow> goerror option" where
  "NodePrewarming_validate kafkaConfig [] = None"
| "NodePrewarming_validate kafkaConfig ((instanceType, configuration) # rest) =
     (case prewarming_validate instanceType kafkaConfig configuration of
        Some err \<Rightarrow> Some err
      | None \<Rightarrow> NodePrewarming_validate kafkaConfig rest)"

text \<open>\<open>readYaml\<close> is the outcome of reading and decoding the file, \<open>isNotExist\<close> is \<^verbatim>\<open>os.IsNotExist\<close>.\<close>

(* src/internal/kafka/internal/config/node_prewarming_config.go:51-63 NodePrewarmingConfig.readFile *)
definition NodePrewarming_readFile ::
  "(goerror \<Rightarrow> bool) \<Rightarrow> NodePrewarmingConfig err \<Rightarrow> NodePrewarmingConfig \<Rightarrow> NodePrewarmingConfig err" where
  "NodePrewarming_readFile isNotExist readYaml c =
     (case readYaml of
        Inl err \<Rightarrow> if \<not> isNotExist err then Inr c else Inl err
      | Inr c' \<Rightarrow> Inr c')"

section \<open>Lemmas\<close>

lemma Size_validate_facts:
  assumes "Size_validate libs t s = None"
  shows "sz_Id s \<noteq> ''''" and "1 \<le> sz_CapacityConsumed s" and "1 \<le> sz_QuotaConsumed s"
    and "\<And>n. sz_LifespanSeconds s = Some n \<Longrightarrow> 0 < n"
    and "\<exists>modes. sz_SupportedAZModes s = Some modes \<and> modes \<noteq> [] \<and> set modes \<subseteq> {''single'', ''multi''}"
  using assms
  by (auto simp: Size_validate_def Quantity_IsEmpty_def find_None_iff split: if_splits sum.splits option.splits)

lemma sizes_validate_loop_iff:
  "sizes_validate_loop libs t seen ss = None \<longleftrightarrow>
     distinct (map sz_Id ss) \<and> set (map sz_Id ss) \<inter> set seen = {} \<and> (\<forall>s \<in> set ss. Size_validate libs t s = None)"
  by (induction ss arbitrary: seen) (auto split: option.splits)

lemma types_validate_loop_iff:
  "types_validate_loop libs seen ts = None \<longleftrightarrow>
     distinct (map it_Id ts) \<and> set (map it_Id ts) \<inter> set seen = {} \<and> (\<forall>t \<in> set ts. Type_validate libs t = None)"
  by (induction ts arbitrary: seen) (auto split: option.splits)

lemma Type_validate_iff:
  "Type_validate libs t = None \<longleftrightarrow>
     it_Id t \<in> set ValidKafkaInstanceTypes \<and> it_DisplayName t \<noteq> '''' \<and> it_Sizes t \<noteq> [] \<and>
     distinct (map sz_Id (it_Sizes t)) \<and> (\<forall>s \<in> set (it_Sizes t). Size_validate libs (it_Id t) s = None) \<and>
     validateStruct libs t = None"
proof (cases "it_Id t \<in> set ValidKafkaInstanceTypes")
  case True
  then have "it_Id t \<noteq> ''''" by (auto simp: ValidKafkaInstanceTypes_def DEVELOPER_def STANDARD_def)
  then show ?thesis using True sizes_validate_loop_iff[of libs "it_Id t" "[]" "it_Sizes t"]
    by (cases "sizes_validate_loop libs (it_Id t) [] (it_Sizes t)") (simp_all add: Type_validate_def)
next
  case False
  then show ?thesis by (simp add: Type_validate_def)
qed

lemma find_unique_key:
  assumes "distinct (map f xs)" "x \<in> set xs"
  shows "List.find (\<lambda>y. f y = f x) xs = Some x"
  using assms by (induction xs) (auto simp: image_iff)

lemma biggest_loop_spec:
  "biggest_loop res m ss =
     (if \<forall>s \<in> set ss. sz_CapacityConsumed s \<le> m then res
      else List.find (\<lambda>s. \<forall>s' \<in> set ss. sz_CapacityConsumed s' \<le> sz_CapacityConsumed s) ss)"
proof (induction ss arbitrary: res m)
  case (Cons s ss)
  let ?c = sz_CapacityConsumed
  let ?top = "\<lambda>ss s. \<forall>s' \<in> set ss. ?c s' \<le> ?c s"
  show ?case
  proof (cases "?c s > m")
    case True
    then have l: "biggest_loop res m (s # ss) = biggest_loop (Some s) (?c s) ss" by simp
    show ?thesis
    proof (cases "\<forall>s' \<in> set ss. ?c s' \<le> ?c s")
      case top: True
      then show ?thesis using l Cons.IH[of "Some s" "?c s"] True by auto
    next
      case False
      then have "List.find (?top (s # ss)) (s # ss) = List.find (?top (s # ss)) ss" by auto
      also have "\<dots> = List.find (?top ss) ss"
      proof (rule find_cong)
        fix x assume "x \<in> set ss"
        obtain y where y: "y \<in> set ss" "\<not> ?c y \<le> ?c s" using False by blast
        show "?top (s # ss) x = ?top ss x" using y by (auto dest: bspec[of _ _ y])
      qed simp
      finally show ?thesis using l Cons.IH[of "Some s" "?c s"] False True by auto
    qed
  next
    case False
    then have l: "biggest_loop res m (s # ss) = biggest_loop res m ss" by simp
    show ?thesis
    proof (cases "\<forall>s' \<in> set ss. ?c s' \<le> m")
      case True
      then show ?thesis using l Cons.IH[of res m] False by auto
    next
      case big: False
      then obtain y where y: "y \<in> set ss" "m < ?c y" by (auto simp: not_le)
      have "\<not> ?c y \<le> ?c s" using y False by simp
      then have s: "\<not> ?top (s # ss) s" using y by auto
      have "List.find (?top (s # ss)) (s # ss) = List.find (?top (s # ss)) ss" using s by auto
      also have "\<dots> = List.find (?top ss) ss"
      proof (rule find_cong)
        fix x assume "x \<in> set ss"
        show "?top (s # ss) x = ?top ss x" using y False by (auto dest: bspec[of _ _ y])
      qed simp
      finally show ?thesis using l Cons.IH[of res m] big by auto
    qed
  qed
qed simp

section \<open>Properties\<close>

text \<open>C31. In a validated Kafka configuration every configured size of every configured instance type is the
  one the lookup by identifiers returns, every instance type is one of the two known ones and has a
  first available size, and every size consumes at least one unit of capacity and of quota and supports
  single or multi availability zones.\<close>

theorem KafkaConfig_Validate_lookup:
  assumes "KafkaConfig_Validate libs c = None"
    and "t \<in> set (SupportedKafkaInstanceTypes (kc_SupportedInstanceTypes c))"
    and "s \<in> set (it_Sizes t)"
  shows "GetKafkaInstanceSize c (it_Id t) (sz_Id s) = Inr s \<and>
         it_Id t \<in> set ValidKafkaInstanceTypes \<and>
         GetFirstAvailableSize c (it_Id t) = Inr (hd (it_Sizes t)) \<and>
         1 \<le> sz_CapacityConsumed s \<and> 1 \<le> sz_QuotaConsumed s \<and>
         (\<exists>modes. sz_SupportedAZModes s = Some modes \<and> modes \<noteq> [] \<and> set modes \<subseteq> {''single'', ''multi''})"
proof -
  let ?ts = "SupportedKafkaInstanceTypes (kc_SupportedInstanceTypes c)"
  have d: "distinct (map it_Id ?ts)" and t: "Type_validate libs t = None"
    using assms(1,2) by (auto simp: KafkaConfig_Validate_def SupportedTypes_validate_def types_validate_loop_iff)
  have ft: "GetKafkaInstanceTypeByID (it_Id t) (kc_SupportedInstanceTypes c) = Inr t"
    using find_unique_key[OF d assms(2)] by (simp add: GetKafkaInstanceTypeByID_def)
  have ds: "distinct (map sz_Id (it_Sizes t))" and ne: "it_Sizes t \<noteq> []" and v: "it_Id t \<in> set ValidKafkaInstanceTypes"
    and sv: "\<And>s. s \<in> set (it_Sizes t) \<Longrightarrow> Size_validate libs (it_Id t) s = None"
    using t by (auto simp: Type_validate_iff)
  have "sz_Id (hd (it_Sizes t)) \<noteq> ''''" using ne Size_validate_facts(1)[OF sv[of "hd (it_Sizes t)"]] by simp
  then have "GetFirstAvailableSize c (it_Id t) = Inr (hd (it_Sizes t))"
    using ne by (simp add: GetFirstAvailableSize_def ft hd_conv_nth)
  moreover have "GetKafkaInstanceSize c (it_Id t) (sz_Id s) = Inr s"
    using find_unique_key[OF ds assms(3)] by (simp add: GetKafkaInstanceSize_def ft GetKafkaInstanceSizeByID_def)
  ultimately show ?thesis using v Size_validate_facts[OF sv[OF assms(3)]] by blast
qed

text \<open>A small valid configuration, with a quantity parser that reads the length of the text.\<close>

definition length_libs :: "(nat, nat) config_libs" where
  "length_libs = \<lparr>parseQuantity = (\<lambda>s. if s = '''' then Inl (ErrorString ''empty'') else Inr (length s)),
     cmpInt64 = (\<lambda>q n. sgn (int q - n)), quantityValue = int,
     parseISO8601 = (\<lambda>s. Inr (length s)), durationIsZero = (\<lambda>d. d = 0), validateStruct = (\<lambda>t. None)\<rparr>"

definition size_x :: "string \<Rightarrow> int \<Rightarrow> KafkaInstanceSize" where
  "size_x i n = \<lparr>sz_Id = i, sz_DisplayName = i, sz_IngressThroughputPerSec = ''5Mi'', sz_EgressThroughputPerSec = ''5Mi'',
     sz_TotalMaxConnections = 10, sz_MaxDataRetentionSize = ''5Gi'', sz_MaxPartitions = 10,
     sz_MaxDataRetentionPeriod = ''P14D'', sz_MaxConnectionAttemptsPerSec = 10, sz_MaxMessageSize = ''1Mi'',
     sz_QuotaConsumed = n, sz_DeprecatedQuotaType = ''rhosak'', sz_CapacityConsumed = n,
     sz_SupportedAZModes = Some [''multi''], sz_MinInSyncReplicas = 2, sz_ReplicationFactor = 3,
     sz_LifespanSeconds = None, sz_MaturityStatus = ''stable''\<rparr>"

definition sample_type :: KafkaInstanceType where
  "sample_type = \<lparr>it_Id = STANDARD, it_DisplayName = ''Standard'', it_Sizes = [size_x ''x1'' 1, size_x ''x2'' 2], it_SupportedBillingModels = []\<rparr>"

definition sample_config :: KafkaConfig where
  "sample_config = \<lparr>kc_EnableKafkaCNAMERegistration = False, kc_KafkaDomainName = ''kafka.bf2.dev'', kc_BrowserUrl = '''',
     kc_KafkaLifespan = \<lparr>EnableDeletionOfExpiredKafka = True\<rparr>,
     kc_Quota = \<lparr>qc_Type = ''quota-management-list'', qc_AllowDeveloperInstance = True, qc_MaxAllowedDeveloperInstances = 1\<rparr>,
     kc_SupportedInstanceTypes = \<lparr>SupportedKafkaInstanceTypes = [sample_type]\<rparr>,
     kc_EnableKafkaOwnerConfig = False, kc_KafkaOwnerList = []\<rparr>"

lemma size_x_valid: "0 < n \<Longrightarrow> i \<noteq> '''' \<Longrightarrow> Size_validate length_libs t (size_x i n) = None"
  by (simp add: Size_validate_def size_x_def Quantity_IsEmpty_def Quantity_ToK8Quantity_def length_libs_def
      getValidMaturityStates_def MaturityStatusStable_def)

lemma sample_valid: "KafkaConfig_Validate length_libs sample_config = None"
proof -
  have "Type_validate length_libs sample_type = None"
    unfolding Type_validate_iff
    by (simp add: sample_type_def ValidKafkaInstanceTypes_def size_x_valid) (simp add: size_x_def length_libs_def)
  then show ?thesis
    unfolding KafkaConfig_Validate_def SupportedTypes_validate_def types_validate_loop_iff by (simp add: sample_config_def)
qed

theorem KafkaConfig_Validate_lookup_witness:
  "GetKafkaInstanceSize sample_config STANDARD ''x2'' = Inr (size_x ''x2'' 2)"
  using KafkaConfig_Validate_lookup[OF sample_valid, of sample_type "size_x ''x2'' 2"]
  by (simp add: sample_config_def sample_type_def size_x_def)

text \<open>C32. The size with the biggest capacity consumption is the first size of maximal consumption, whenever
  some size consumes a non-negative capacity; a type whose sizes all consume less than zero, in
  particular one without sizes, has none.\<close>

theorem GetBiggestCapacityConsumedSize_first_max:
  "GetBiggestCapacityConsumedSize kp =
     (if \<exists>s \<in> set (it_Sizes kp). 0 \<le> sz_CapacityConsumed s
      then List.find (\<lambda>s. \<forall>s' \<in> set (it_Sizes kp). sz_CapacityConsumed s' \<le> sz_CapacityConsumed s) (it_Sizes kp)
      else None)"
proof -
  have "(\<forall>s \<in> set (it_Sizes kp). sz_CapacityConsumed s \<le> - 1) \<longleftrightarrow> \<not> (\<exists>s \<in> set (it_Sizes kp). 0 \<le> sz_CapacityConsumed s)"
    by (auto simp: not_le)
  then show ?thesis by (simp add: GetBiggestCapacityConsumedSize_def biggest_loop_spec)
qed

theorem GetBiggestCapacityConsumedSize_first_max_witness:
  "GetBiggestCapacityConsumedSize sample_type = Some (size_x ''x2'' 2)"
  using GetBiggestCapacityConsumedSize_first_max[of sample_type] by (simp add: sample_type_def size_x_def)

text \<open>C34. A billing model counts as a marketplace one exactly when one of its AMS billing models is
  \<^verbatim>\<open>marketplace\<close> or a prefix of \<^verbatim>\<open>marketplace-\<close>, up to case.  So a model that only offers
  \<^verbatim>\<open>marketplace-aws\<close> or \<^verbatim>\<open>marketplace-rhm\<close> is not recognised, while an empty entry is.\<close>

theorem HasSupportForMarketplace_prefixes:
  "HasSupportForMarketplace kbm =
     (\<exists>m \<in> set (bm_AMSBillingModels kbm). prefix (ToLower m) ''marketplace-'') \<and>
   \<not> HasSupportForMarketplace (kbm\<lparr>bm_AMSBillingModels := [''marketplace-aws'']\<rparr>) \<and>
   \<not> HasSupportForMarketplace (kbm\<lparr>bm_AMSBillingModels := [''marketplace-rhm'']\<rparr>) \<and>
   HasSupportForMarketplace (kbm\<lparr>bm_AMSBillingModels := ['''']\<rparr>)"
proof -
  have low: "ToLower ''marketplace-'' = ''marketplace-''" "ToLower ''marketplace'' = ''marketplace''"
    "ToLower ''marketplace-aws'' = ''marketplace-aws''" "ToLower ''marketplace-rhm'' = ''marketplace-rhm''"
    "ToLower '''' = ''''"
    by (simp_all add: ToLower_def lower_char_def)
  have eq: "HasSupportForMarketplace k = (\<exists>m \<in> set (bm_AMSBillingModels k). prefix (ToLower m) ''marketplace-'')" for k
  proof -
    have "EqualFold m ''marketplace'' \<Longrightarrow> prefix (ToLower m) ''marketplace-''" for m
      by (simp add: EqualFold_def low)
    then show ?thesis
      by (auto simp: HasSupportForMarketplace_def StringHasPrefixIgnoreCasePredicate_def StringHasPrefixIgnoreCase_def
          StringEqualsIgnoreCasePredicate_def StringEqualsIgnoreCase_def HasPrefix_iff_prefix low)
  qed
  show ?thesis by (simp add: eq low)
qed

end
