(* ===== verification/Provider_Config.thy ===== *)
theory Provider_Config
  imports Instance_Types
begin

text \<open>
  The configuration of data plane clusters, dynamic scaling, cloud providers and regions:
  \<^verbatim>\<open>dataplane_cluster_config.go\<close>, \<^verbatim>\<open>dynamic_scaling_config.go\<close> and \<^verbatim>\<open>providers.go\<close> of
  \<^verbatim>\<open>internal/kafka/internal/config\<close>, and \<^verbatim>\<open>internal/kafka/internal/cloudproviders/types.go\<close>.  The lemmas
  characterise which region configurations are accepted, independently of the order in which Go visits
  a map, and what an accepted provider configuration guarantees to the services.

  A Go map that the code ranges over is an association list in the order of the visit; map lookups
  are \<open>map_of\<close>.
\<close>

section \<open>Cloud providers\<close>

definition AWS :: string where "AWS = ''aws''"

definition GCP :: string where "GCP = ''gcp''"

definition Azure :: string where "Azure = ''azure''"

definition Unknown :: string where "Unknown = ''''"

(* src/internal/kafka/internal/cloudproviders/types.go:40-54 KnownCloudProviders *)
definition KnownCloudProviders :: "string list" where
  "KnownCloudProviders = [AWS, Azure, GCP]"

(* src/internal/kafka/internal/cloudproviders/types.go:60-72 ParseCloudProviderID *)
definition ParseCloudProviderID :: "string \<Rightarrow> string" where
  "ParseCloudProviderID i =
     (let normalizedID = ToLower i in
      if normalizedID = AWS then AWS else if normalizedID = GCP then GCP
      else if normalizedID = Azure then Azure else Unknown)"

section \<open>Dynamic scaling\<close>

(* src/internal/kafka/internal/config/dynamic_scaling_config.go:57-60 ComputeNodesAutoscalingConfig *)
record ComputeNodesAutoscalingConfig =
  MaxComputeNodes :: int
  MinComputeNodes :: int

(* src/internal/kafka/internal/config/dynamic_scaling_config.go:62-65 ComputeMachineConfig *)
record ComputeMachineConfig =
  ComputeMachineType :: string
  ComputeNodesAutoscaling :: "ComputeNodesAutoscalingConfig option"

(* src/internal/kafka/internal/config/dynamic_scaling_config.go:67-70 ComputeMachinesConfig *)
record ComputeMachinesConfig =
  ClusterWideWorkload :: "ComputeMachineConfig option"
  KafkaWorkloadPerInstanceType :: "(string \<times> ComputeMachineConfig) list"

(* src/internal/kafka/internal/config/dynamic_scaling_config.go:12-18 DynamicScalingConfig *)
record DynamicScalingConfig =
  dsc_filePath :: string
  dsc_ComputeMachinePerCloudProvider :: "(string \<times> ComputeMachinesConfig) list"
  dsc_EnableDynamicScaleUpManagerScaleUpTrigger :: bool
  dsc_EnableDynamicScaleDownManagerScaleDownTrigger :: bool
  dsc_NewDataPlaneOpenShiftVersion :: string

text \<open>The struct validator, on the three types it is called with.\<close>

record scaling_validator =
  validScaling :: "DynamicScalingConfig \<Rightarrow> goerror option"
  validMachines :: "ComputeMachinesConfig \<Rightarrow> goerror option"
  validMachine :: "ComputeMachineConfig \<Rightarrow> goerror option"

(* src/internal/kafka/internal/config/dynamic_scaling_config.go:33-35 DynamicScalingConfig.IsDataplaneScaleUpTriggerEnabled *)
definition IsDataplaneScaleUpTriggerEnabled :: "DynamicScalingConfig \<Rightarrow> bool" where
  "IsDataplaneScaleUpTriggerEnabled c = dsc_EnableDynamicScaleUpManagerScaleUpTrigger c"

(* src/internal/kafka/internal/config/dynamic_scaling_config.go:37-39 DynamicScalingConfig.IsDataplaneScaleDownTriggerEnabled *)
definition IsDataplaneScaleDownTriggerEnabled :: "DynamicScalingConfig \<Rightarrow> bool" where
  "IsDataplaneScaleDownTriggerEnabled c = dsc_EnableDynamicScaleDownManagerScaleDownTrigger c"

definition minNumberOfComputeNodesForClusterWideWorkload :: int where
  "minNumberOfComputeNodesForClusterWideWorkload = 3"

(* src/internal/kafka/internal/config/dynamic_scaling_config.go:72-77 ComputeMachinesConfig.GetKafkaWorkloadConfigForInstanceType *)
definition GetKafkaWorkloadConfigForInstanceType :: "string \<Rightarrow> ComputeMachinesConfig \<Rightarrow> ComputeMachineConfig option" where
  "GetKafkaWorkloadConfigForInstanceType instanceTypeID c = map_of (KafkaWorkloadPerInstanceType c) instanceTypeID"

(* src/internal/kafka/internal/config/dynamic_scaling_config.go:104-111 ComputeMachineConfig.validate *)
definition Machine_validate :: "scaling_validator \<Rightarrow> string \<Rightarrow> string \<Rightarrow> ComputeMachineConfig \<Rightarrow> goerror option" where
  "Machine_validate v logKey cloudProvider c =
     (case validMachine v c of
        Some err \<Rightarrow> Some (WithMessage err (Sprintf ''error validating compute machine configuration for %q in cloud provider %q'' [FStr logKey, FStr cloudProvider]))
      | None \<Rightarrow> None)"

fun Machines_validate_loop :: "scaling_validator \<Rightarrow> string \<Rightarrow> (string \<times> ComputeMachineConfig) list \<Rightarrow> unit go" where
  "Machines_validate_loop v cloudProvider [] = Ok ()"
| "Machines_validate_loop v cloudProvider ((k, m) # rest) =
     (case Machine_validate v (Sprintf ''instance type %s'' [FStr k]) cloudProvider m of
        Some err \<Rightarrow> Err err
      | None \<Rightarrow> Machines_validate_loop v cloudProvider rest)"

text \<open>The two pointers are dereferenced after the struct validation; a nil one panics.\<close>

(* src/internal/kafka/internal/config/dynamic_scaling_config.go:79-102 ComputeMachinesConfig.validate *)
definition Machines_validate :: "scaling_validator \<Rightarrow> string \<Rightarrow> ComputeMachinesConfig \<Rightarrow> unit go" where
  "Machines_validate v cloudProvider c =
     (case validMachines v c of
        Some err \<Rightarrow> Err (WithMessage err (Sprintf ''error validating compute machines configuration for cloud provider %q'' [FStr cloudProvider]))
      | None \<Rightarrow>
        (case ClusterWideWorkload c of
           None \<Rightarrow> Panic ''nil pointer dereference''
         | Some w \<Rightarrow>
           (case Machine_validate v ''cluster wide workload'' cloudProvider w of
              Some err \<Rightarrow> Err err
            | None \<Rightarrow>
              (case ComputeNodesAutoscaling w of
                 None \<Rightarrow> Panic ''nil pointer dereference''
               | Some a \<Rightarrow>
                 if MinComputeNodes a < minNumberOfComputeNodesForClusterWideWorkload
                 then Err (ErrorString (Sprintf ''cluster wide minimum number of nodes for cloud provider %q has to be greate or equal to %d''
                        [FStr cloudProvider, FInt minNumberOfComputeNodesForClusterWideWorkload]))
                 else Machines_validate_loop v cloudProvider (KafkaWorkloadPerInstanceType c)))))"

fun Scaling_validate_loop :: "scaling_validator \<Rightarrow> (string \<times> ComputeMachinesConfig) list \<Rightarrow> unit go" where
  "Scaling_validate_loop v [] = Ok ()"
| "Scaling_validate_loop v ((k, m) # rest) =
     (case Machines_validate v k m of Ok u \<Rightarrow> Scaling_validate_loop v rest | r \<Rightarrow> r)"

(* src/internal/kafka/internal/config/dynamic_scaling_config.go:41-55 DynamicScalingConfig.validate *)
definition Scaling_validate :: "scaling_validator \<Rightarrow> DynamicScalingConfig \<Rightarrow> unit go" where
  "Scaling_validate v c =
     (case validScaling v c of
        Some err \<Rightarrow> Err (WithMessage err ''error validating dynamic scaling configuration'')
      | None \<Rightarrow> Scaling_validate_loop v (dsc_ComputeMachinePerCloudProvider c))"

section \<open>Manual clusters\<close>

(* src/internal/kafka/internal/config/dataplane_cluster_config.go:145-157 ManualCluster *)
record ManualCluster =
  mc_Name :: string
  mc_ClusterId :: string
  mc_CloudProvider :: string
  mc_Region :: string
  mc_MultiAZ :: bool
  mc_Schedulable :: bool
  mc_KafkaInstanceLimit :: int
  mc_Status :: string
  mc_ProviderType :: string
  mc_ClusterDNS :: string
  mc_SupportedInstanceType :: string

text \<open>\<open>unmarshal\<close> fills the fields the document sets into the defaults.\<close>

(* src/internal/kafka/internal/config/dataplane_cluster_config.go:159-194 ManualCluster.UnmarshalYAML *)
definition ManualCluster_UnmarshalYAML :: "(ManualCluster \<Rightarrow> ManualCluster err) \<Rightarrow> ManualCluster err" where
  "ManualCluster_UnmarshalYAML unmarshal =
     (let temp = \<lparr>mc_Name = '''', mc_ClusterId = '''', mc_CloudProvider = '''', mc_Region = '''', mc_MultiAZ = False,
                   mc_Schedulable = False, mc_KafkaInstanceLimit = 0, mc_Status = ClusterProvisioning,
                   mc_ProviderType = ClusterProviderOCM, mc_ClusterDNS = '''',
                   mc_SupportedInstanceType = AllInstanceTypeSupport\<rparr> in
      case unmarshal temp of
        Inl err \<Rightarrow> Inl err
      | Inr c \<Rightarrow>
          if mc_ClusterId c = '''' then Inl (ErrorString ''cluster_id is empty'')
          else if mc_ProviderType c = ClusterProviderStandalone \<and> mc_ClusterDNS c = ''''
          then Inl (ErrorString (Sprintf ''standalone cluster with id %s does not have the cluster dns field provided'' [FStr (mc_ClusterId c)]))
          else if mc_ProviderType c = ClusterProviderStandalone \<and> mc_Name c = ''''
          then Inl (ErrorString (Sprintf ''standalone cluster with id %s does not have the name field provided'' [FStr (mc_ClusterId c)]))
          else
            let c1 = (if mc_ProviderType c = ClusterProviderStandalone \<and> mc_Status c = ClusterAccepted
                      then c\<lparr>mc_Status := ClusterProvisioning\<rparr> else c)
            in Inr (if mc_SupportedInstanceType c1 = '''' then c1\<lparr>mc_SupportedInstanceType := AllInstanceTypeSupport\<rparr> else c1))"

(* src/internal/kafka/internal/config/dataplane_cluster_config.go:198-201 ClusterConfig *)
record ClusterConfig =
  clusterList :: "ManualCluster list"
  clusterConfigMap :: "string \<rightharpoonup> ManualCluster"

(* src/internal/kafka/internal/config/dataplane_cluster_config.go:203-211 NewClusterConfig *)
definition NewClusterConfig :: "ManualCluster list \<Rightarrow> ClusterConfig" where
  "NewClusterConfig clusters =
     Reduce clusters (\<lambda>clusterConfig c. clusterConfig\<lparr>clusterConfigMap := (clusterConfigMap clusterConfig)(mc_ClusterId c \<mapsto> c)\<rparr>)
       \<lparr>clusterList = clusters, clusterConfigMap = Map.empty\<rparr>"

fun capacity_loop :: "(ManualCluster \<Rightarrow> bool) \<Rightarrow> int \<Rightarrow> ManualCluster list \<Rightarrow> int" where
  "capacity_loop p capacity [] = capacity"
| "capacity_loop p capacity (cluster # rest) =
     capacity_loop p (if p cluster then capacity + mc_KafkaInstanceLimit cluster else capacity) rest"

(* src/internal/kafka/internal/config/dataplane_cluster_config.go:213-221 ClusterConfig.GetCapacityForRegion *)
definition GetCapacityForRegion :: "string \<Rightarrow> ClusterConfig \<Rightarrow> int" where
  "GetCapacityForRegion region conf = capacity_loop (\<lambda>c. mc_Region c = region \<and> mc_Schedulable c) 0 (clusterList conf)"

(* src/internal/kafka/internal/config/dataplane_cluster_config.go:225-241 ClusterConfig.GetCapacityForRegionAndInstanceType *)
definition GetCapacityForRegionAndInstanceType :: "string \<Rightarrow> string \<Rightarrow> bool \<Rightarrow> ClusterConfig \<Rightarrow> int" where
  "GetCapacityForRegionAndInstanceType region instanceType isolatedClustersOnly conf =
     capacity_loop (\<lambda>c. mc_Region c = region \<and> mc_Schedulable c \<and>
         (if isolatedClustersOnly then mc_SupportedInstanceType c = instanceType
          else Contains_str (mc_SupportedInstanceType c) instanceType)) 0 (clusterList conf)"

(* src/internal/kafka/internal/config/dataplane_cluster_config.go:243-251 ClusterConfig.IsNumberOfStreamingUnitsWithinClusterLimit *)
definition IsNumberOfStreamingUnitsWithinClusterLimit :: "string \<Rightarrow> int \<Rightarrow> ClusterConfig \<Rightarrow> bool" where
  "IsNumberOfStreamingUnitsWithinClusterLimit clusterID n conf =
     (case clusterConfigMap conf clusterID of
        Some c \<Rightarrow> (let limit = mc_KafkaInstanceLimit c in limit = - 1 \<or> n \<le> limit)
      | None \<Rightarrow> True)"

(* src/internal/kafka/internal/config/dataplane_cluster_config.go:253-260 ClusterConfig.IsClusterSchedulable *)
definition IsClusterSchedulable :: "string \<Rightarrow> ClusterConfig \<Rightarrow> bool" where
  "IsClusterSchedulable clusterID conf =
     (case clusterConfigMap conf clusterID of Some c \<Rightarrow> mc_Schedulable c | None \<Rightarrow> True)"

(* src/internal/kafka/internal/config/dataplane_cluster_config.go:262-267 ClusterConfig.GetClusterSupportedInstanceType *)
definition GetClusterSupportedInstanceType :: "string \<Rightarrow> ClusterConfig \<Rightarrow> string option" where
  "GetClusterSupportedInstanceType clusterID conf = map_option mc_SupportedInstanceType (clusterConfigMap conf clusterID)"

fun ExcessClusters_loop :: "ClusterConfig \<Rightarrow> string list \<Rightarrow> (string \<times> Cluster) list \<Rightarrow> string list" where
  "ExcessClusters_loop conf res [] = res"
| "ExcessClusters_loop conf res ((clusterId, v) # rest) =
     ExcessClusters_loop conf (if clusterConfigMap conf clusterId = None then res @ [c_ClusterID v] else res) rest"

(* src/internal/kafka/internal/config/dataplane_cluster_config.go:269-278 ClusterConfig.ExcessClusters *)
definition ExcessClusters :: "(string \<times> Cluster) list \<Rightarrow> ClusterConfig \<Rightarrow> string list" where
  "ExcessClusters clusters conf = ExcessClusters_loop conf [] clusters"

(* src/internal/kafka/internal/config/dataplane_cluster_config.go:280-282 ClusterConfig.GetManualClusters *)
definition GetManualClusters :: "ClusterConfig \<Rightarrow> ManualCluster list" where
  "GetManualClusters conf = clusterList conf"

fun MissingClusters_loop :: "(string \<times> Cluster) list \<Rightarrow> ManualCluster list \<Rightarrow> ManualCluster list \<Rightarrow> ManualCluster list" where
  "MissingClusters_loop clusterMap res [] = res"
| "MissingClusters_loop clusterMap res (p # rest) =
     MissingClusters_loop clusterMap (if map_of clusterMap (mc_ClusterId p) = None then res @ [p] else res) rest"

(* src/internal/kafka/internal/config/dataplane_cluster_config.go:284-294 ClusterConfig.MissingClusters *)
definition MissingClusters :: "(string \<times> Cluster) list \<Rightarrow> ClusterConfig \<Rightarrow> ManualCluster list" where
  "MissingClusters clusterMap conf = MissingClusters_loop clusterMap [] (clusterList conf)"

section \<open>The data plane configuration\<close>

definition ManualScaling :: string where "ManualScaling = ''manual''"

definition AutoScaling :: string where "AutoScaling = ''auto''"

definition NoScaling :: string where "NoScaling = ''none''"

text \<open>The file names, secrets and operator installation settings take no part in the decisions.\<close>

(* src/internal/kafka/internal/config/dataplane_cluster_config.go:35-58 DataplaneClusterConfig *)
record DataplaneClusterConfig =
  dc_DataPlaneClusterScalingType :: string
  dc_ClusterConfig :: ClusterConfig
  dc_EnableReadyDataPlaneClustersReconcile :: bool
  dc_DynamicScalingConfig :: DynamicScalingConfig
  dc_NodePrewarmingConfig :: NodePrewarmingConfig

(* src/internal/kafka/internal/config/dataplane_cluster_config.go:296-298 DataplaneClusterConfig.IsDataPlaneManualScalingEnabled *)
definition IsDataPlaneManualScalingEnabled :: "DataplaneClusterConfig \<Rightarrow> bool" where
  "IsDataPlaneManualScalingEnabled c \<longleftrightarrow> dc_DataPlaneClusterScalingType c = ManualScaling"

(* src/internal/kafka/internal/config/dataplane_cluster_config.go:300-302 DataplaneClusterConfig.IsDataPlaneAutoScalingEnabled *)
definition IsDataPlaneAutoScalingEnabled :: "DataplaneClusterConfig \<Rightarrow> bool" where
  "IsDataPlaneAutoScalingEnabled c \<longleftrightarrow> dc_DataPlaneClusterScalingType c = AutoScaling"

(* src/internal/kafka/internal/config/dataplane_cluster_config.go:304-306 DataplaneClusterConfig.IsReadyDataPlaneClustersReconcileEnabled *)
definition IsReadyDataPlaneClustersReconcileEnabled :: "DataplaneClusterConfig \<Rightarrow> bool" where
  "IsReadyDataPlaneClustersReconcileEnabled c = dc_EnableReadyDataPlaneClustersReconcile c"

(* src/internal/kafka/internal/config/dataplane_cluster_config.go:310-317 DataplaneClusterConfig.DefaultComputeMachinesConfig *)
definition DefaultComputeMachinesConfig :: "string \<Rightarrow> DataplaneClusterConfig \<Rightarrow> ComputeMachinesConfig err" where
  "DefaultComputeMachinesConfig cloudProviderID c =
     (case map_of (dsc_ComputeMachinePerCloudProvider (dc_DynamicScalingConfig c)) cloudProviderID of
        None \<Rightarrow> Inl (ErrorString (Sprintf ''cloud provider %q is missing from the 'compute_machine_per_cloud_provider' field in the %q dynamic scaling file''
                  [FStr cloudProviderID, FStr (dsc_filePath (dc_DynamicScalingConfig c))]))
      | Some config \<Rightarrow> Inr config)"

(* src/internal/kafka/internal/config/dataplane_cluster_config.go:346-359 DataplaneClusterConfig.Validate *)
definition Dataplane_Validate :: "scaling_validator \<Rightarrow> KafkaConfig \<Rightarrow> DataplaneClusterConfig \<Rightarrow> unit go" where
  "Dataplane_Validate v kafkaConfig c =
     (case (if IsDataPlaneAutoScalingEnabled c then Scaling_validate v (dc_DynamicScalingConfig c) else Ok ()) of
        Ok u \<Rightarrow> (case NodePrewarming_validate kafkaConfig (dc_NodePrewarmingConfig c) of Some err \<Rightarrow> Err err | None \<Rightarrow> Ok ())
      | r \<Rightarrow> r)"

(* src/internal/kafka/internal/config/dataplane_cluster_config.go:495-502 DataplaneClusterConfig.FindClusterNameByClusterId *)
definition FindClusterNameByClusterId :: "string \<Rightarrow> DataplaneClusterConfig \<Rightarrow> string" where
  "FindClusterNameByClusterId clusterId c =
     (case List.find (\<lambda>m. mc_ClusterId m = clusterId) (clusterList (dc_ClusterConfig c)) of
        Some m \<Rightarrow> mc_Name m | None \<Rightarrow> '''')"

section \<open>Providers and regions\<close>

(* src/internal/kafka/internal/config/providers.go:20-28 InstanceTypeConfig *)
record InstanceTypeConfig =
  itc_Limit :: "int option"
  itc_MinAvailableCapacitySlackStreamingUnits :: int

(* src/internal/kafka/internal/config/providers.go:18-18 InstanceTypeMap *)
type_synonym InstanceTypeMap = "(string \<times> InstanceTypeConfig) list"

(* src/internal/kafka/internal/config/providers.go:31-39 InstanceTypeMap.AsSlice *)
definition AsSlice :: "InstanceTypeMap \<Rightarrow> string list" where
  "AsSlice itl = foldl (\<lambda>res (k, v). res @ [k]) [] itl"

(* src/internal/kafka/internal/config/providers.go:41-45 Region *)
record Region =
  rg_Name :: string
  rg_Default :: bool
  rg_SupportedInstanceTypes :: InstanceTypeMap

(* src/internal/kafka/internal/config/providers.go:147-151 Provider *)
record Provider =
  pv_Name :: string
  pv_Default :: bool
  pv_Regions :: "Region list"

(* src/internal/kafka/internal/config/providers.go:47-54 Region.IsInstanceTypeSupported *)
definition IsInstanceTypeSupported :: "string \<Rightarrow> Region \<Rightarrow> bool" where
  "IsInstanceTypeSupported instanceType r = list_ex (\<lambda>(k, v). k = instanceType) (rg_SupportedInstanceTypes r)"

(* src/internal/kafka/internal/config/providers.go:56-61 Region.getLimitSetForInstanceTypeInRegion *)
definition getLimitSetForInstanceTypeInRegion :: "string \<Rightarrow> Region \<Rightarrow> int option svc" where
  "getLimitSetForInstanceTypeInRegion t r =
     (case map_of (rg_SupportedInstanceTypes r) t of
        Some it \<Rightarrow> Inr (itc_Limit it)
      | None \<Rightarrow> Inl (InstanceTypeNotSupported (Sprintf ''instance type: %s is not supported'' [FStr t]) []))"

(* src/internal/kafka/internal/config/providers.go:119-126 Region.RegionHasZeroOrNoLimitInstanceType *)
definition RegionHasZeroOrNoLimitInstanceType :: "Region \<Rightarrow> bool" where
  "RegionHasZeroOrNoLimitInstanceType r =
     list_ex (\<lambda>(k, it). case itc_Limit it of None \<Rightarrow> True | Some l \<Rightarrow> l = 0) (rg_SupportedInstanceTypes r)"

text \<open>The range loop of \<^verbatim>\<open>Region.Validate\<close>, with its two counters.\<close>

(* src/internal/kafka/internal/config/providers.go:69-116 Region.Validate *)
fun region_loop :: "DataplaneClusterConfig \<Rightarrow> Region \<Rightarrow> int \<Rightarrow> nat \<Rightarrow> int \<Rightarrow> InstanceTypeMap \<Rightarrow> goerror option" where
  "region_loop dcc r regionCapacity counter totalCapacityUsed [] = None"
| "region_loop dcc r regionCapacity counter totalCapacityUsed ((name, it) # rest) =
     (if itc_MinAvailableCapacitySlackStreamingUnits it < 0
      then Some (ErrorString (Sprintf ''kafka minimum available capacity slack for instance type '%s' in region '%s' cannot be negative'' [FStr name, FStr (rg_Name r)]))
      else case itc_Limit it of
        None \<Rightarrow> region_loop dcc r regionCapacity counter totalCapacityUsed rest
      | Some limit \<Rightarrow>
        if limit = 0 then region_loop dcc r regionCapacity counter totalCapacityUsed rest
        else if itc_MinAvailableCapacitySlackStreamingUnits it > limit
        then Some (ErrorString (Sprintf (''configured kafka minimum available capacity slack '%d' for instance type '%s' in region '%s' cannot be bigger than its region limit '%v'' @ [CHR 0x27])
               [FInt (itc_MinAvailableCapacitySlackStreamingUnits it), FStr name, FStr (rg_Name r), FInt limit]))
        else if IsDataPlaneManualScalingEnabled dcc then
          (if length (rg_SupportedInstanceTypes r) = 1 then
             (let capacity = GetCapacityForRegionAndInstanceType (rg_Name r) name False (dc_ClusterConfig dcc) in
              if limit \<noteq> capacity
              then Some (ErrorString (Sprintf ''limit for instance type '%s'(%d) does not match the capacity in region %s(%d)'' [FStr name, FInt limit, FStr (rg_Name r), FInt capacity]))
              else None)
           else
             (let minCapacity = GetCapacityForRegionAndInstanceType (rg_Name r) name True (dc_ClusterConfig dcc);
                  maxCapacity = GetCapacityForRegionAndInstanceType (rg_Name r) name False (dc_ClusterConfig dcc) in
              if minCapacity > limit \<or> maxCapacity < limit
              then Some (ErrorString (Sprintf ''limit for %s instance type (%d) does not match cluster capacity configuration in region '%s': min(%d), max(%d)''
                     [FStr name, FInt limit, FStr (rg_Name r), FInt minCapacity, FInt maxCapacity]))
              else if \<not> RegionHasZeroOrNoLimitInstanceType r
              then (if counter = length (rg_SupportedInstanceTypes r) \<and> totalCapacityUsed + limit \<noteq> regionCapacity
                    then Some (ErrorString (Sprintf ''total limits set in region '%s' does not match cluster capacity configuration'' [FStr (rg_Name r)]))
                    else region_loop dcc r regionCapacity (counter + 1) (totalCapacityUsed + limit) rest)
              else region_loop dcc r regionCapacity (counter + 1) totalCapacityUsed rest))
        else region_loop dcc r regionCapacity counter totalCapacityUsed rest)"

(* src/internal/kafka/internal/config/providers.go:63-117 Region.Validate *)
definition Region_Validate :: "DataplaneClusterConfig \<Rightarrow> Region \<Rightarrow> goerror option" where
  "Region_Validate dcc r =
     region_loop dcc r (GetCapacityForRegion (rg_Name r) (dc_ClusterConfig dcc)) 1 0 (rg_SupportedInstanceTypes r)"

(* src/internal/kafka/internal/config/providers.go:130-137 RegionList.GetByName *)
definition RegionList_GetByName :: "string \<Rightarrow> Region list \<Rightarrow> Region option" where
  "RegionList_GetByName regionName rl = List.find (\<lambda>r. rg_Name r = regionName) rl"

(* src/internal/kafka/internal/config/providers.go:155-162 ProviderList.GetByName *)
definition ProviderList_GetByName :: "string \<Rightarrow> Provider list \<Rightarrow> Provider option" where
  "ProviderList_GetByName providerName pl = List.find (\<lambda>p. pv_Name p = providerName) pl"

fun regions_validate_loop :: "DataplaneClusterConfig \<Rightarrow> int \<Rightarrow> Region list \<Rightarrow> int err" where
  "regions_validate_loop dcc defaultCount [] = Inr defaultCount"
| "regions_validate_loop dcc defaultCount (r # rest) =
     (let count' = (if rg_Default r then defaultCount + 1 else defaultCount) in
      case Region_Validate dcc r of
        Some err \<Rightarrow> Inl err
      | None \<Rightarrow> regions_validate_loop dcc count' rest)"

(* src/internal/kafka/internal/config/providers.go:209-241 Provider.Validate *)
definition Provider_Validate :: "DataplaneClusterConfig \<Rightarrow> Provider \<Rightarrow> goerror option" where
  "Provider_Validate dcc provider =
     (let cloudProviderID = ParseCloudProviderID (pv_Name provider) in
      if \<not> Contains KnownCloudProviders cloudProviderID
      then Some (ErrorString (Sprintf ''cloud Provider '%s' is not a recognized Cloud Provider'' [FStr cloudProviderID]))
      else case (if IsDataPlaneAutoScalingEnabled dcc
                 then (case DefaultComputeMachinesConfig cloudProviderID dcc of Inl err \<Rightarrow> Some err | Inr m \<Rightarrow> None)
                 else None) of
        Some err \<Rightarrow> Some err
      | None \<Rightarrow>
        (case regions_validate_loop dcc 0 (pv_Regions provider) of
           Inl err \<Rightarrow> Some err
         | Inr defaultCount \<Rightarrow>
             if defaultCount \<noteq> 1
             then Some (ErrorString (Sprintf ''expected 1 default region in provider %s, got %d'' [FStr (pv_Name provider), FInt defaultCount]))
             else None))"

fun providers_validate_loop :: "DataplaneClusterConfig \<Rightarrow> int \<Rightarrow> Provider list \<Rightarrow> int err" where
  "providers_validate_loop dcc defaultCount [] = Inr defaultCount"
| "providers_validate_loop dcc defaultCount (p # rest) =
     (case Provider_Validate dcc p of
        Some err \<Rightarrow> Inl err
      | None \<Rightarrow> providers_validate_loop dcc (if pv_Default p then defaultCount + 1 else defaultCount) rest)"

(* src/internal/kafka/internal/config/providers.go:189-207 ProviderConfig.Validate *)
definition ProviderConfig_Validate :: "DataplaneClusterConfig \<Rightarrow> Provider list \<Rightarrow> goerror option" where
  "ProviderConfig_Validate dcc supportedProviders =
     (case providers_validate_loop dcc 0 supportedProviders of
        Inl err \<Rightarrow> Some err
      | Inr providerDefaultCount \<Rightarrow>
          if providerDefaultCount \<noteq> 1
          then Some (ErrorString (Sprintf ''expected 1 default provider in provider list, got %d'' [FInt providerDefaultCount]))
          else None)"

(* src/internal/kafka/internal/config/providers.go:251-261 ProviderConfig.GetInstanceLimit *)
definition GetInstanceLimit :: "Provider list \<Rightarrow> string \<Rightarrow> string \<Rightarrow> string \<Rightarrow> int option svc" where
  "GetInstanceLimit supportedProviders region providerName instanceType =
     (case ProviderList_GetByName providerName supportedProviders of
        None \<Rightarrow> Inl (ProviderNotSupported (Sprintf ''cloud provider '%s' is unsupported'' [FStr providerName]) [])
      | Some provider \<Rightarrow>
        (case RegionList_GetByName region (pv_Regions provider) of
           None \<Rightarrow> Inl (RegionNotSupported (Sprintf (CHR 0x27 # ''%s' region in '%s' cloud provider is unsupported'') [FStr region, FStr providerName]) [])
         | Some reg \<Rightarrow> getLimitSetForInstanceTypeInRegion instanceType reg))"

(* src/internal/kafka/internal/config/providers.go:272-279 ProviderList.GetDefault *)
definition ProviderList_GetDefault :: "Provider list \<Rightarrow> Provider err" where
  "ProviderList_GetDefault c =
     (case List.find pv_Default c of
        Some p \<Rightarrow> Inr p
      | None \<Rightarrow> Inl (ErrorString ''no default provider found in list of supported providers''))"

(* src/internal/kafka/internal/config/providers.go:281-288 Provider.GetDefaultRegion *)
definition GetDefaultRegion :: "Provider \<Rightarrow> Region err" where
  "GetDefaultRegion provider =
     (case List.find rg_Default (pv_Regions provider) of
        Some r \<Rightarrow> Inr r
      | None \<Rightarrow> Inl (ErrorString (Sprintf ''no default region found for provider %s'' [FStr (pv_Name provider)])))"

(* src/internal/kafka/internal/config/providers.go:290-293 Provider.IsRegionSupported *)
definition IsRegionSupported :: "string \<Rightarrow> Provider \<Rightarrow> bool" where
  "IsRegionSupported regionName provider \<longleftrightarrow> RegionList_GetByName regionName (pv_Regions provider) \<noteq> None"

section \<open>Lemmas\<close>

lemma capacity_loop_sum: "capacity_loop p a cs = a + sum_list (map mc_KafkaInstanceLimit (filter p cs))"
  by (induction cs arbitrary: a) auto

lemma NewClusterConfig_list [simp]: "clusterList (NewClusterConfig cs) = cs"
proof -
  have "clusterList (foldl (\<lambda>cc c. cc\<lparr>clusterConfigMap := (clusterConfigMap cc)(mc_ClusterId c \<mapsto> c)\<rparr>) a cs) = clusterList a"
    for a :: ClusterConfig by (induction cs arbitrary: a) auto
  then show ?thesis by (simp add: NewClusterConfig_def)
qed

lemma ExcessClusters_eq:
  "ExcessClusters clusters conf = map (c_ClusterID \<circ> snd) (filter (\<lambda>(i, c). clusterConfigMap conf i = None) clusters)"
proof -
  have "ExcessClusters_loop conf res cs = res @ map (c_ClusterID \<circ> snd) (filter (\<lambda>(i, c). clusterConfigMap conf i = None) cs)"
    for res cs by (induction conf res cs rule: ExcessClusters_loop.induct) auto
  then show ?thesis by (simp add: ExcessClusters_def)
qed

lemma MissingClusters_eq:
  "MissingClusters clusterMap conf = filter (\<lambda>p. map_of clusterMap (mc_ClusterId p) = None) (clusterList conf)"
proof -
  have "MissingClusters_loop m res cs = res @ filter (\<lambda>p. map_of m (mc_ClusterId p) = None) cs" for m res cs
    by (induction m res cs rule: MissingClusters_loop.induct) auto
  then show ?thesis by (simp add: MissingClusters_def)
qed

lemma Contains_str_refl [simp]: "Contains_str s s"
  by (cases s) simp_all

subsection \<open>Acceptance of a region\<close>

text \<open>What the validation requires of one instance type of the region, and of all of them together.\<close>

definition instance_type_ok :: "DataplaneClusterConfig \<Rightarrow> Region \<Rightarrow> string \<Rightarrow> InstanceTypeConfig \<Rightarrow> bool" where
  "instance_type_ok dcc r name it \<longleftrightarrow>
     0 \<le> itc_MinAvailableCapacitySlackStreamingUnits it \<and>
     (case itc_Limit it of
        None \<Rightarrow> True
      | Some l \<Rightarrow> l = 0 \<or> itc_MinAvailableCapacitySlackStreamingUnits it \<le> l \<and>
          (IsDataPlaneManualScalingEnabled dcc \<longrightarrow>
             (let cap = (\<lambda>isolated. GetCapacityForRegionAndInstanceType (rg_Name r) name isolated (dc_ClusterConfig dcc)) in
              if length (rg_SupportedInstanceTypes r) = 1 then l = cap False else cap True \<le> l \<and> l \<le> cap False)))"

definition limit_set :: "InstanceTypeConfig \<Rightarrow> bool" where
  "limit_set it \<longleftrightarrow> (case itc_Limit it of None \<Rightarrow> False | Some l \<Rightarrow> l \<noteq> 0)"

definition region_ok :: "DataplaneClusterConfig \<Rightarrow> Region \<Rightarrow> bool" where
  "region_ok dcc r \<longleftrightarrow>
     (\<forall>(name, it) \<in> set (rg_SupportedInstanceTypes r). instance_type_ok dcc r name it) \<and>
     (IsDataPlaneManualScalingEnabled dcc \<and> 1 < length (rg_SupportedInstanceTypes r) \<and>
      (\<forall>(name, it) \<in> set (rg_SupportedInstanceTypes r). limit_set it) \<longrightarrow>
        sum_list (map (\<lambda>(name, it). the (itc_Limit it)) (rg_SupportedInstanceTypes r)) =
        GetCapacityForRegion (rg_Name r) (dc_ClusterConfig dcc))"

lemma RegionHasZero_iff: "\<not> RegionHasZeroOrNoLimitInstanceType r \<longleftrightarrow> (\<forall>(n, it) \<in> set (rg_SupportedInstanceTypes r). limit_set it)"
  by (auto simp: RegionHasZeroOrNoLimitInstanceType_def list_ex_iff limit_set_def split: option.splits)

lemma region_loop_free:
  assumes "\<not> IsDataPlaneManualScalingEnabled dcc \<or>
           length (rg_SupportedInstanceTypes r) \<noteq> 1 \<and> RegionHasZeroOrNoLimitInstanceType r"
  shows "region_loop dcc r cap c t its = None \<longleftrightarrow> (\<forall>(n, it) \<in> set its. instance_type_ok dcc r n it)"
proof (induction its arbitrary: c t)
  case (Cons e its)
  obtain n it where e: "e = (n, it)" by (cases e)
  show ?case
    using assms by (cases "itc_Limit it") (auto simp: e Cons.IH instance_type_ok_def Let_def not_le not_less)
qed simp

lemma region_loop_sum:
  assumes "IsDataPlaneManualScalingEnabled dcc" "length (rg_SupportedInstanceTypes r) \<noteq> 1"
    and "\<not> RegionHasZeroOrNoLimitInstanceType r"
  shows "c + length its = length (rg_SupportedInstanceTypes r) + 1 \<Longrightarrow> \<forall>(n, it) \<in> set its. limit_set it \<Longrightarrow>
     region_loop dcc r cap c t its = None \<longleftrightarrow>
       (\<forall>(n, it) \<in> set its. instance_type_ok dcc r n it) \<and>
       (its = [] \<or> t + sum_list (map (\<lambda>(n, it). the (itc_Limit it)) its) = cap)"
proof (induction its arbitrary: c t)
  case (Cons e its)
  obtain n it where e: "e = (n, it)" by (cases e)
  obtain l where l: "itc_Limit it = Some l" "l \<noteq> 0"
    using Cons.prems(2) by (auto simp: e limit_set_def split: option.splits)
  have last: "c = length (rg_SupportedInstanceTypes r) \<longleftrightarrow> its = []" using Cons.prems(1) by auto
  have IH: "region_loop dcc r cap (c + 1) (t + l) its = None \<longleftrightarrow>
       (\<forall>(n, it) \<in> set its. instance_type_ok dcc r n it) \<and>
       (its = [] \<or> t + l + sum_list (map (\<lambda>(n, it). the (itc_Limit it)) its) = cap)"
    using Cons.IH[of "c + 1" "t + l"] Cons.prems by auto
  show ?case
    using assms l last IH
    by (cases "its = []") (auto simp: e instance_type_ok_def Let_def not_le not_less add.assoc)
qed simp

lemma region_loop_single:
  assumes "IsDataPlaneManualScalingEnabled dcc" "rg_SupportedInstanceTypes r = [(n, it)]"
  shows "region_loop dcc r cap c t [(n, it)] = None \<longleftrightarrow> instance_type_ok dcc r n it"
  using assms by (cases "itc_Limit it") (auto simp: instance_type_ok_def Let_def not_le not_less)

lemma Region_Validate_region_ok: "Region_Validate dcc r = None \<longleftrightarrow> region_ok dcc r"
proof -
  let ?its = "rg_SupportedInstanceTypes r"
  consider (free) "\<not> IsDataPlaneManualScalingEnabled dcc \<or> length ?its \<noteq> 1 \<and> RegionHasZeroOrNoLimitInstanceType r"
    | (single) "IsDataPlaneManualScalingEnabled dcc" "length ?its = 1"
    | (all) "IsDataPlaneManualScalingEnabled dcc" "length ?its \<noteq> 1" "\<not> RegionHasZeroOrNoLimitInstanceType r"
    by blast
  then show ?thesis
  proof cases
    case free
    then show ?thesis
      using RegionHasZero_iff[of r] by (auto simp: Region_Validate_def region_ok_def region_loop_free[OF free])
  next
    case single
    then obtain n it where "?its = [(n, it)]" by (cases ?its) auto
    then show ?thesis using region_loop_single[OF single(1)] by (simp add: Region_Validate_def region_ok_def)
  next
    case all
    have lim: "\<forall>(n, it) \<in> set ?its. limit_set it" using all(3) RegionHasZero_iff by blast
    have ne: "?its = [] \<or> 1 < length ?its" using all(2) by (cases ?its) auto
    have "region_loop dcc r cap 1 0 ?its = None \<longleftrightarrow>
       (\<forall>(n, it) \<in> set ?its. instance_type_ok dcc r n it) \<and>
       (?its = [] \<or> sum_list (map (\<lambda>(n, it). the (itc_Limit it)) ?its) = cap)" for cap
      using region_loop_sum[OF all, of 1 ?its cap 0] lim by simp
    then show ?thesis unfolding Region_Validate_def region_ok_def using all(1) lim ne by auto
  qed
qed

subsection \<open>Acceptance of the providers\<close>

lemma regions_validate_loop_Inr:
  "regions_validate_loop dcc k rs = Inr d \<longleftrightarrow>
     (\<forall>r \<in> set rs. Region_Validate dcc r = None) \<and> d = k + int (length (filter rg_Default rs))"
  by (induction rs arbitrary: k) (auto simp: Let_def split: option.splits)

lemma providers_validate_loop_Inr:
  "providers_validate_loop dcc k ps = Inr d \<longleftrightarrow>
     (\<forall>p \<in> set ps. Provider_Validate dcc p = None) \<and> d = k + int (length (filter pv_Default ps))"
  by (induction ps arbitrary: k) (auto split: option.splits)

lemma ProviderConfig_Validate_iff:
  "ProviderConfig_Validate dcc ps = None \<longleftrightarrow>
     (\<forall>p \<in> set ps. Provider_Validate dcc p = None) \<and> length (filter pv_Default ps) = 1"
  using providers_validate_loop_Inr[of dcc 0 ps]
  by (cases "providers_validate_loop dcc 0 ps") (auto simp: ProviderConfig_Validate_def)

lemma Provider_Validate_facts:
  assumes "Provider_Validate dcc p = None"
  shows "ParseCloudProviderID (pv_Name p) \<in> set KnownCloudProviders"
    and "IsDataPlaneAutoScalingEnabled dcc \<Longrightarrow> \<exists>m. DefaultComputeMachinesConfig (ParseCloudProviderID (pv_Name p)) dcc = Inr m"
    and "\<And>r. r \<in> set (pv_Regions p) \<Longrightarrow> region_ok dcc r"
    and "length (filter rg_Default (pv_Regions p)) = 1"
proof -
  show "ParseCloudProviderID (pv_Name p) \<in> set KnownCloudProviders"
    and "IsDataPlaneAutoScalingEnabled dcc \<Longrightarrow> \<exists>m. DefaultComputeMachinesConfig (ParseCloudProviderID (pv_Name p)) dcc = Inr m"
    using assms by (auto simp: Provider_Validate_def Let_def split: if_splits sum.splits option.splits)
  have "regions_validate_loop dcc 0 (pv_Regions p) = Inr 1"
    using assms by (auto simp: Provider_Validate_def Let_def split: if_splits sum.splits option.splits)
  then have "(\<forall>r \<in> set (pv_Regions p). Region_Validate dcc r = None) \<and> int (length (filter rg_Default (pv_Regions p))) = 1"
    using regions_validate_loop_Inr[of dcc 0 "pv_Regions p" 1] by simp
  then show "\<And>r. r \<in> set (pv_Regions p) \<Longrightarrow> region_ok dcc r" "length (filter rg_Default (pv_Regions p)) = 1"
    by (auto simp: Region_Validate_region_ok)
qed

lemma find_only: "filter P xs = [x] \<Longrightarrow> List.find P xs = Some x"
  by (induction xs) (auto split: if_splits)

section \<open>Properties\<close>

text \<open>A region with one cluster of five streaming units that serves both instance types, three of them
  for standard and two for developer instances.\<close>

definition sample_manual_cluster :: ManualCluster where
  "sample_manual_cluster = \<lparr>mc_Name = ''one'', mc_ClusterId = ''c1'', mc_CloudProvider = ''aws'', mc_Region = ''us-east-1'', mc_MultiAZ = True,
     mc_Schedulable = True, mc_KafkaInstanceLimit = 5, mc_Status = ClusterReady, mc_ProviderType = ClusterProviderStandalone,
     mc_ClusterDNS = ''dns'', mc_SupportedInstanceType = AllInstanceTypeSupport\<rparr>"

definition sample_dataplane :: DataplaneClusterConfig where
  "sample_dataplane = \<lparr>dc_DataPlaneClusterScalingType = ManualScaling, dc_ClusterConfig = NewClusterConfig [sample_manual_cluster],
     dc_EnableReadyDataPlaneClustersReconcile = True,
     dc_DynamicScalingConfig = \<lparr>dsc_filePath = '''', dsc_ComputeMachinePerCloudProvider = [],
       dsc_EnableDynamicScaleUpManagerScaleUpTrigger = True, dsc_EnableDynamicScaleDownManagerScaleDownTrigger = True,
       dsc_NewDataPlaneOpenShiftVersion = ''''\<rparr>,
     dc_NodePrewarmingConfig = []\<rparr>"

definition sample_region :: Region where
  "sample_region = \<lparr>rg_Name = ''us-east-1'', rg_Default = True,
     rg_SupportedInstanceTypes = [(STANDARD, \<lparr>itc_Limit = Some 3, itc_MinAvailableCapacitySlackStreamingUnits = 1\<rparr>),
                                  (DEVELOPER, \<lparr>itc_Limit = Some 2, itc_MinAvailableCapacitySlackStreamingUnits = 0\<rparr>)]\<rparr>"

definition sample_providers :: "Provider list" where
  "sample_providers = [\<lparr>pv_Name = ''aws'', pv_Default = True, pv_Regions = [sample_region]\<rparr>]"

lemma sample_capacity:
  "GetCapacityForRegion ''us-east-1'' (dc_ClusterConfig sample_dataplane) = 5"
  "GetCapacityForRegionAndInstanceType ''us-east-1'' STANDARD True (dc_ClusterConfig sample_dataplane) = 0"
  "GetCapacityForRegionAndInstanceType ''us-east-1'' STANDARD False (dc_ClusterConfig sample_dataplane) = 5"
  "GetCapacityForRegionAndInstanceType ''us-east-1'' DEVELOPER True (dc_ClusterConfig sample_dataplane) = 0"
  "GetCapacityForRegionAndInstanceType ''us-east-1'' DEVELOPER False (dc_ClusterConfig sample_dataplane) = 5"
  by (simp_all add: GetCapacityForRegion_def GetCapacityForRegionAndInstanceType_def sample_dataplane_def
      sample_manual_cluster_def AllInstanceTypeSupport_def STANDARD_def DEVELOPER_def HasPrefix_def)

lemma sample_region_ok: "region_ok sample_dataplane sample_region"
  by (simp add: region_ok_def instance_type_ok_def limit_set_def sample_region_def sample_capacity)

lemma sample_providers_valid: "ProviderConfig_Validate sample_dataplane sample_providers = None"
proof -
  have "\<not> IsDataPlaneAutoScalingEnabled sample_dataplane"
    by (simp add: IsDataPlaneAutoScalingEnabled_def sample_dataplane_def ManualScaling_def AutoScaling_def)
  moreover have "ParseCloudProviderID ''aws'' = AWS"
    by (simp add: ParseCloudProviderID_def AWS_def ToLower_def lower_char_def)
  moreover have "Region_Validate sample_dataplane sample_region = None"
    using sample_region_ok by (simp add: Region_Validate_region_ok)
  moreover have "rg_Default sample_region" by (simp add: sample_region_def)
  ultimately show ?thesis
    by (simp add: ProviderConfig_Validate_iff sample_providers_def Provider_Validate_def KnownCloudProviders_def)
qed

text \<open>A region is accepted exactly when every instance type has a non-negative slack within its limit and,
  with manual scaling, limits that the configured clusters can serve, and the limits of a region of
  several fully limited instance types add up to the capacity of the region.  The condition does not
  mention the order in which the map of instance types is visited: two visits of the same entries
  agree.\<close>

theorem Region_Validate_order_free:
  assumes "mset (rg_SupportedInstanceTypes r) = mset its"
  shows "(Region_Validate dcc r = None) = region_ok dcc r \<and>
         (Region_Validate dcc (r\<lparr>rg_SupportedInstanceTypes := its\<rparr>) = None) = (Region_Validate dcc r = None)"
proof -
  have s: "set its = set (rg_SupportedInstanceTypes r)" "length its = length (rg_SupportedInstanceTypes r)"
    using assms by (metis set_mset_mset, metis size_mset)
  have "sum_list (map f its) = sum_list (map f (rg_SupportedInstanceTypes r))" for f :: "string \<times> InstanceTypeConfig \<Rightarrow> int"
    using arg_cong[OF assms, of "\<lambda>m. sum_mset (image_mset f m)"] by (simp only: mset_map [symmetric] sum_mset_sum_list)
  moreover have "instance_type_ok dcc (r\<lparr>rg_SupportedInstanceTypes := its\<rparr>) = instance_type_ok dcc r"
    by (simp add: instance_type_ok_def fun_eq_iff s Let_def split: option.split)
  ultimately show ?thesis by (simp add: Region_Validate_region_ok region_ok_def s)
qed

theorem Region_Validate_order_free_witness:
  "Region_Validate sample_dataplane (sample_region\<lparr>rg_SupportedInstanceTypes := rev (rg_SupportedInstanceTypes sample_region)\<rparr>) = None"
  using Region_Validate_order_free[of sample_region "rev (rg_SupportedInstanceTypes sample_region)" sample_dataplane] sample_region_ok
  by simp

text \<open>C28. In an accepted provider configuration exactly one provider is the default, and every provider is a
  known cloud provider with exactly one default region, so the defaults can always be resolved; with
  automatic scaling every provider has a compute machine configuration.\<close>

theorem ProviderConfig_Validate_defaults:
  assumes "ProviderConfig_Validate dcc ps = None"
  shows "(\<exists>p. filter pv_Default ps = [p] \<and> ProviderList_GetDefault ps = Inr p) \<and>
         (\<forall>p \<in> set ps. ParseCloudProviderID (pv_Name p) \<noteq> Unknown \<and>
            (\<exists>r. filter rg_Default (pv_Regions p) = [r] \<and> GetDefaultRegion p = Inr r) \<and>
            (IsDataPlaneAutoScalingEnabled dcc \<longrightarrow>
               (\<exists>m. DefaultComputeMachinesConfig (ParseCloudProviderID (pv_Name p)) dcc = Inr m)))"
proof -
  have one: "length (filter pv_Default ps) = 1" and v: "\<And>p. p \<in> set ps \<Longrightarrow> Provider_Validate dcc p = None"
    using assms by (auto simp: ProviderConfig_Validate_iff)
  obtain d where d: "filter pv_Default ps = [d]" using one by (cases "filter pv_Default ps") auto
  have "ParseCloudProviderID (pv_Name p) \<noteq> Unknown \<and>
        (\<exists>r. filter rg_Default (pv_Regions p) = [r] \<and> GetDefaultRegion p = Inr r) \<and>
        (IsDataPlaneAutoScalingEnabled dcc \<longrightarrow> (\<exists>m. DefaultComputeMachinesConfig (ParseCloudProviderID (pv_Name p)) dcc = Inr m))"
    if p: "p \<in> set ps" for p
  proof -
    note f = Provider_Validate_facts[OF v[OF p]]
    obtain r where r: "filter rg_Default (pv_Regions p) = [r]" using f(4) by (cases "filter rg_Default (pv_Regions p)") auto
    have "ParseCloudProviderID (pv_Name p) \<noteq> Unknown"
      using f(1) by (auto simp: KnownCloudProviders_def AWS_def Azure_def GCP_def Unknown_def)
    then show ?thesis using f(2) r find_only[OF r] by (simp add: GetDefaultRegion_def)
  qed
  then show ?thesis using d find_only[OF d] by (simp add: ProviderList_GetDefault_def)
qed

theorem ProviderConfig_Validate_defaults_witness:
  "ProviderConfig_Validate sample_dataplane sample_providers = None \<and> (\<exists>p. ProviderList_GetDefault sample_providers = Inr p)"
  using ProviderConfig_Validate_defaults[OF sample_providers_valid] sample_providers_valid by blast

text \<open>C29. With an accepted provider configuration and manual scaling, a limit the service reads for an instance
  type is positive unless it is zero and never above the capacity of the configured clusters that serve this
  type in the region.\<close>

theorem GetInstanceLimit_within_capacity:
  assumes "ProviderConfig_Validate dcc ps = None" "IsDataPlaneManualScalingEnabled dcc"
    and "GetInstanceLimit ps region provider instanceType = Inr (Some l)" "l \<noteq> 0"
  shows "0 < l \<and> l \<le> GetCapacityForRegionAndInstanceType region instanceType False (dc_ClusterConfig dcc)"
proof -
  obtain p r it where p: "p \<in> set ps" and r: "r \<in> set (pv_Regions p)" "rg_Name r = region"
    and it: "map_of (rg_SupportedInstanceTypes r) instanceType = Some it" "itc_Limit it = Some l"
    using assms(3)
    by (auto simp: GetInstanceLimit_def ProviderList_GetByName_def RegionList_GetByName_def getLimitSetForInstanceTypeInRegion_def
        dest!: find_in_set split: option.splits)
  have "region_ok dcc r"
    using Provider_Validate_facts(3)[OF _ r(1)] assms(1) p by (auto simp: ProviderConfig_Validate_iff)
  then have "instance_type_ok dcc r instanceType it" using map_of_SomeD[OF it(1)] by (auto simp: region_ok_def)
  then show ?thesis using it(2) assms(2,4) r(2) by (auto simp: instance_type_ok_def Let_def split: if_splits)
qed

theorem GetInstanceLimit_within_capacity_witness:
  "GetInstanceLimit sample_providers ''us-east-1'' ''aws'' STANDARD = Inr (Some 3) \<and>
   3 \<le> GetCapacityForRegionAndInstanceType ''us-east-1'' STANDARD False (dc_ClusterConfig sample_dataplane)"
proof -
  have "GetInstanceLimit sample_providers ''us-east-1'' ''aws'' STANDARD = Inr (Some 3)"
    by (simp add: GetInstanceLimit_def ProviderList_GetByName_def RegionList_GetByName_def getLimitSetForInstanceTypeInRegion_def
        sample_providers_def sample_region_def)
  moreover have "IsDataPlaneManualScalingEnabled sample_dataplane"
    by (simp add: IsDataPlaneManualScalingEnabled_def sample_dataplane_def)
  ultimately show ?thesis using GetInstanceLimit_within_capacity[OF sample_providers_valid] by simp
qed

text \<open>The capacity of the clusters dedicated to an instance type is at most the capacity of the clusters
  that serve it, which is at most the capacity of the region, whenever no cluster of the region has a
  negative limit.  A cluster with the limit \<^verbatim>\<open>-1\<close>, which means unlimited where a cluster is chosen,
  lowers the capacity of its region by one.\<close>

theorem capacities_nested:
  assumes "\<forall>c \<in> set (clusterList conf). 0 \<le> mc_KafkaInstanceLimit c"
  shows "GetCapacityForRegionAndInstanceType region it True conf \<le> GetCapacityForRegionAndInstanceType region it False conf \<and>
         GetCapacityForRegionAndInstanceType region it False conf \<le> GetCapacityForRegion region conf \<and>
         (\<forall>c. mc_Region c = region \<and> mc_Schedulable c \<and> mc_KafkaInstanceLimit c = - 1 \<longrightarrow>
            GetCapacityForRegion region (NewClusterConfig (c # clusterList conf)) = GetCapacityForRegion region conf - 1)"
proof -
  have mono: "sum_list (map mc_KafkaInstanceLimit (filter P cs)) \<le> sum_list (map mc_KafkaInstanceLimit (filter Q cs))"
    if "\<forall>c \<in> set cs. 0 \<le> mc_KafkaInstanceLimit c" "\<And>c. P c \<Longrightarrow> Q c" for P Q cs
    using that(1) by (induction cs) (use that(2) in auto)
  show ?thesis
    by (auto simp: GetCapacityForRegionAndInstanceType_def GetCapacityForRegion_def capacity_loop_sum intro!: mono assms)
qed

theorem capacities_nested_witness:
  "GetCapacityForRegionAndInstanceType ''us-east-1'' STANDARD False (dc_ClusterConfig sample_dataplane)
     \<le> GetCapacityForRegion ''us-east-1'' (dc_ClusterConfig sample_dataplane) \<and>
   GetCapacityForRegion ''us-east-1''
     (NewClusterConfig (sample_manual_cluster\<lparr>mc_KafkaInstanceLimit := - 1\<rparr> # clusterList (dc_ClusterConfig sample_dataplane))) = 4"
proof -
  let ?c = "sample_manual_cluster\<lparr>mc_KafkaInstanceLimit := - 1\<rparr>"
  have "\<forall>c \<in> set (clusterList (dc_ClusterConfig sample_dataplane)). 0 \<le> mc_KafkaInstanceLimit c"
    by (simp add: sample_dataplane_def sample_manual_cluster_def)
  note n = capacities_nested[OF this, of "''us-east-1''" STANDARD]
  have "mc_Region ?c = ''us-east-1'' \<and> mc_Schedulable ?c \<and> mc_KafkaInstanceLimit ?c = - 1"
    by (simp add: sample_manual_cluster_def)
  then show ?thesis using n[THEN conjunct2, THEN conjunct2, rule_format, of ?c] n by (simp add: sample_capacity)
qed

text \<open>C30. A cluster read from the configuration file has an identifier and a supported instance type, and a
  standalone one has a name and a domain name and never starts in the state that would make the
  manager create it.\<close>

theorem ManualCluster_UnmarshalYAML_wf:
  assumes "ManualCluster_UnmarshalYAML unmarshal = Inr c"
  shows "mc_ClusterId c \<noteq> '''' \<and> mc_SupportedInstanceType c \<noteq> '''' \<and>
         (mc_ProviderType c = ClusterProviderStandalone \<longrightarrow>
            mc_Name c \<noteq> '''' \<and> mc_ClusterDNS c \<noteq> '''' \<and> mc_Status c \<noteq> ClusterAccepted)"
proof -
  have a: "AllInstanceTypeSupport \<noteq> ''''" by (simp add: AllInstanceTypeSupport_def)
  show ?thesis using assms a
    by (auto simp: ManualCluster_UnmarshalYAML_def Let_def split: sum.splits if_splits)
qed

theorem ManualCluster_UnmarshalYAML_wf_witness:
  "\<exists>c. ManualCluster_UnmarshalYAML (\<lambda>d. Inr (sample_manual_cluster\<lparr>mc_Status := ClusterAccepted\<rparr>)) = Inr c \<and>
       mc_Status c \<noteq> ClusterAccepted \<and> mc_ProviderType c = ClusterProviderStandalone"
proof -
  let ?c = "sample_manual_cluster\<lparr>mc_Status := ClusterProvisioning\<rparr>"
  have "ManualCluster_UnmarshalYAML (\<lambda>d. Inr (sample_manual_cluster\<lparr>mc_Status := ClusterAccepted\<rparr>)) = Inr ?c"
    by (simp add: ManualCluster_UnmarshalYAML_def sample_manual_cluster_def AllInstanceTypeSupport_def)
  then show ?thesis
    using ManualCluster_UnmarshalYAML_wf[of "\<lambda>d. Inr (sample_manual_cluster\<lparr>mc_Status := ClusterAccepted\<rparr>)" ?c]
    by (simp add: sample_manual_cluster_def)
qed

end
