(* ===== verification/Store.thy ===== *)
theory Store
  imports Provider_Config
begin

text \<open>
  The database as the services see it.  The object mapper and the database are not part of the
  repository; a table is a parameter, the record \<open>table\<close> of the operations the services call, over an
  abstract state.  A \<^verbatim>\<open>WHERE\<close> clause is the predicate its text denotes, and rows that are soft-deleted are
  no longer rows.  The laws the services rely on are the predicate \<open>store_lawful\<close>: what a query returns
  and which rows a successful or failed statement leaves.  \<open>mem_db\<close> is an in-memory instance that satisfies
  them, used to show that the hypotheses of the properties can hold.
\<close>

section \<open>Tables\<close>

datatype row_order = Unordered | ByPrimaryKey | ByCreatedAt

text \<open>\<open>t_scan\<close> is \<^verbatim>\<open>Find\<close> or \<^verbatim>\<open>Scan\<close>, \<open>t_first\<close> is \<^verbatim>\<open>First\<close>, \<open>t_update\<close> is \<^verbatim>\<open>Update\<close> or \<^verbatim>\<open>Updates\<close> with the change of a
  row and returns \<^verbatim>\<open>RowsAffected\<close>, \<open>t_save\<close> is \<^verbatim>\<open>Create\<close> or \<^verbatim>\<open>Save\<close>, and \<open>t_delete\<close> is \<^verbatim>\<open>Delete\<close>.
  \<^verbatim>\<open>Save\<close> replaces a row with the same key.  \<^verbatim>\<open>Create\<close> never does: a key that is there is an error, which the laws below
  allow for \<open>t_save\<close> too, and the properties of a \<^verbatim>\<open>Create\<close> are stated for a new key.\<close>

record ('r, 's) table =
  t_scan :: "('r \<Rightarrow> bool) \<Rightarrow> row_order \<Rightarrow> 's \<Rightarrow> 'r list err"
  t_first :: "('r \<Rightarrow> bool) \<Rightarrow> row_order \<Rightarrow> 's \<Rightarrow> 'r err"
  t_update :: "('r \<Rightarrow> bool) \<Rightarrow> ('r \<Rightarrow> 'r) \<Rightarrow> 's \<Rightarrow> nat err \<times> 's"
  t_save :: "'r \<Rightarrow> 's \<Rightarrow> unit err \<times> 's"
  t_delete :: "('r \<Rightarrow> bool) \<Rightarrow> 's \<Rightarrow> unit err \<times> 's"

definition ErrRecordNotFound :: goerror where
  "ErrRecordNotFound = Sentinel ''record not found''"

definition ordered_by :: "('r \<Rightarrow> string) \<Rightarrow> ('r \<Rightarrow> time) \<Rightarrow> row_order \<Rightarrow> 'r \<Rightarrow> 'r \<Rightarrow> bool" where
  "ordered_by key created ord x y \<longleftrightarrow>
     (case ord of Unordered \<Rightarrow> True | ByPrimaryKey \<Rightarrow> \<not> str_less (key y) (key x) | ByCreatedAt \<Rightarrow> created x \<le> created y)"

text \<open>\<open>rows\<close> reads the rows of the table off the state.\<close>

definition scan_lawful :: "('r \<Rightarrow> string) \<Rightarrow> ('r \<Rightarrow> time) \<Rightarrow> ('r, 's) table \<Rightarrow> ('s \<Rightarrow> 'r list) \<Rightarrow> bool" where
  "scan_lawful key created t rows \<longleftrightarrow>
     (\<forall>p ord s xs. t_scan t p ord s = Inr xs \<longrightarrow>
        mset xs = mset (filter p (rows s)) \<and> sorted_wrt (ordered_by key created ord) xs)"

definition first_lawful :: "('r \<Rightarrow> string) \<Rightarrow> ('r \<Rightarrow> time) \<Rightarrow> ('r, 's) table \<Rightarrow> ('s \<Rightarrow> 'r list) \<Rightarrow> bool" where
  "first_lawful key created t rows \<longleftrightarrow>
     (\<forall>p ord s x. t_first t p ord s = Inr x \<longrightarrow>
        x \<in> set (rows s) \<and> p x \<and> (\<forall>y \<in> set (rows s). p y \<longrightarrow> ordered_by key created ord x y)) \<and>
     (\<forall>p ord s. t_first t p ord s = Inl ErrRecordNotFound \<longrightarrow> (\<forall>x \<in> set (rows s). \<not> p x))"

definition update_lawful :: "('r, 's) table \<Rightarrow> ('s \<Rightarrow> 'r list) \<Rightarrow> bool" where
  "update_lawful t rows \<longleftrightarrow>
     (\<forall>p f s n s'. t_update t p f s = (Inr n, s') \<longrightarrow>
        rows s' = map (\<lambda>r. if p r then f r else r) (rows s) \<and> n = length (filter p (rows s))) \<and>
     (\<forall>p f s e s'. t_update t p f s = (Inl e, s') \<longrightarrow> rows s' = rows s)"

definition upsert :: "('r \<Rightarrow> string) \<Rightarrow> 'r \<Rightarrow> 'r list \<Rightarrow> 'r list" where
  "upsert key r rs = (if key r \<in> key ` set rs then map (\<lambda>x. if key x = key r then r else x) rs else rs @ [r])"

definition save_lawful :: "('r \<Rightarrow> string) \<Rightarrow> ('r, 's) table \<Rightarrow> ('s \<Rightarrow> 'r list) \<Rightarrow> bool" where
  "save_lawful key t rows \<longleftrightarrow>
     (\<forall>r s s'. t_save t r s = (Inr (), s') \<longrightarrow> rows s' = upsert key r (rows s)) \<and>
     (\<forall>r s e s'. t_save t r s = (Inl e, s') \<longrightarrow> rows s' = rows s)"

definition delete_lawful :: "('r, 's) table \<Rightarrow> ('s \<Rightarrow> 'r list) \<Rightarrow> bool" where
  "delete_lawful t rows \<longleftrightarrow>
     (\<forall>p s s'. t_delete t p s = (Inr (), s') \<longrightarrow> rows s' = filter (\<lambda>r. \<not> p r) (rows s)) \<and>
     (\<forall>p s e s'. t_delete t p s = (Inl e, s') \<longrightarrow> rows s' = rows s)"

definition table_lawful :: "('r \<Rightarrow> string) \<Rightarrow> ('r \<Rightarrow> time) \<Rightarrow> ('r, 's) table \<Rightarrow> ('s \<Rightarrow> 'r list) \<Rightarrow> bool" where
  "table_lawful key created t rows \<longleftrightarrow>
     scan_lawful key created t rows \<and> first_lawful key created t rows \<and> update_lawful t rows \<and>
     save_lawful key t rows \<and> delete_lawful t rows"

lemma t_scan_laws:
  assumes "table_lawful key created t rows" "t_scan t p ord s = Inr xs"
  shows t_scan_rows: "mset xs = mset (filter p (rows s))"
    and t_scan_sorted: "sorted_wrt (ordered_by key created ord) xs"
  using assms by (simp_all add: table_lawful_def scan_lawful_def)

lemma t_first_laws:
  assumes "table_lawful key created t rows"
  shows t_first_row: "t_first t p ord s = Inr x \<Longrightarrow> x \<in> set (rows s) \<and> p x"
    and t_first_least: "t_first t p ord s = Inr x \<Longrightarrow> y \<in> set (rows s) \<Longrightarrow> p y \<Longrightarrow> ordered_by key created ord x y"
    and t_first_none: "t_first t p ord s = Inl ErrRecordNotFound \<Longrightarrow> x \<in> set (rows s) \<Longrightarrow> \<not> p x"
  using assms unfolding table_lawful_def first_lawful_def by blast+

lemma t_update_laws:
  assumes "table_lawful key created t rows"
  shows t_update_rows: "t_update t p f s = (Inr n, s') \<Longrightarrow> rows s' = map (\<lambda>r. if p r then f r else r) (rows s)"
    and t_update_count: "t_update t p f s = (Inr n, s') \<Longrightarrow> n = length (filter p (rows s))"
    and t_update_fail: "t_update t p f s = (Inl e, s') \<Longrightarrow> rows s' = rows s"
  using assms unfolding table_lawful_def update_lawful_def by simp_all

lemma t_save_laws:
  assumes "table_lawful key created t rows"
  shows t_save_rows: "t_save t r s = (Inr u, s') \<Longrightarrow> rows s' = upsert key r (rows s)"
    and t_save_fail: "t_save t r s = (Inl e, s') \<Longrightarrow> rows s' = rows s"
  using assms unfolding table_lawful_def save_lawful_def by simp_all

lemma t_delete_laws:
  assumes "table_lawful key created t rows"
  shows t_delete_rows: "t_delete t p s = (Inr u, s') \<Longrightarrow> rows s' = filter (\<lambda>r. \<not> p r) (rows s)"
    and t_delete_fail: "t_delete t p s = (Inl e, s') \<Longrightarrow> rows s' = rows s"
  using assms unfolding table_lawful_def delete_lawful_def by simp_all

lemma upsert_new: "key r \<notin> key ` set rs \<Longrightarrow> upsert key r rs = rs @ [r]"
  by (simp add: upsert_def)

lemma upsert_in: "r \<in> set (upsert key r rs)"
  by (auto simp: upsert_def)

lemma t_scan_set:
  assumes "table_lawful key created t rows" "t_scan t p ord s = Inr xs"
  shows "set xs = {x \<in> set (rows s). p x}"
  using t_scan_rows[OF assms] by (metis set_filter set_mset_mset)

lemma t_scan_filter:
  assumes "table_lawful key created t rows" "t_scan t p ord s = Inr xs"
  shows "mset (filter q xs) = mset (filter (\<lambda>x. p x \<and> q x) (rows s))"
proof -
  have "mset (filter q xs) = mset (filter q (filter p (rows s)))"
    using arg_cong[OF t_scan_rows[OF assms], of "filter_mset q"] by (simp only: mset_filter [symmetric])
  then show ?thesis by (simp only: filter_filter)
qed

lemma t_scan_sum:
  fixes f :: "'r \<Rightarrow> 'b :: comm_monoid_add"
  assumes "table_lawful key created t rows" "t_scan t p ord s = Inr xs"
  shows "sum_list (map f (filter q xs)) = sum_list (map f (filter (\<lambda>x. p x \<and> q x) (rows s)))"
  using arg_cong[OF t_scan_filter[OF assms, of q], of "\<lambda>m. sum_mset (image_mset f m)"]
  by (simp only: mset_map [symmetric] sum_mset_sum_list)

section \<open>The two tables\<close>

record 's db =
  clusterT :: "(Cluster, 's) table"
  kafkaT :: "(KafkaRequest, 's) table"

text \<open>A statement on one table leaves the rows of the other.\<close>

definition leaves :: "('r, 's) table \<Rightarrow> ('s \<Rightarrow> 'q list) \<Rightarrow> bool" where
  "leaves t rows \<longleftrightarrow>
     (\<forall>p f s. rows (snd (t_update t p f s)) = rows s) \<and> (\<forall>r s. rows (snd (t_save t r s)) = rows s) \<and>
     (\<forall>p s. rows (snd (t_delete t p s)) = rows s)"

definition store_lawful :: "'s db \<Rightarrow> ('s \<Rightarrow> Cluster list) \<Rightarrow> ('s \<Rightarrow> KafkaRequest list) \<Rightarrow> bool" where
  "store_lawful db clusters kafkas \<longleftrightarrow>
     table_lawful c_ID c_CreatedAt (clusterT db) clusters \<and> table_lawful k_ID k_CreatedAt (kafkaT db) kafkas \<and>
     leaves (clusterT db) kafkas \<and> leaves (kafkaT db) clusters"

lemma clusterT_lawful: "store_lawful db clusters kafkas \<Longrightarrow> table_lawful c_ID c_CreatedAt (clusterT db) clusters"
  and kafkaT_lawful: "store_lawful db clusters kafkas \<Longrightarrow> table_lawful k_ID k_CreatedAt (kafkaT db) kafkas"
  by (simp_all add: store_lawful_def)

lemma leaves_laws:
  assumes "leaves t rows"
  shows "t_update t p f s = (r, s') \<Longrightarrow> rows s' = rows s"
    and "t_save t x s = (r', s') \<Longrightarrow> rows s' = rows s"
    and "t_delete t p s = (r', s') \<Longrightarrow> rows s' = rows s"
proof -
  show "t_update t p f s = (r, s') \<Longrightarrow> rows s' = rows s"
    using assms[unfolded leaves_def, THEN conjunct1, rule_format, of p f s] by simp
  show "t_save t x s = (r', s') \<Longrightarrow> rows s' = rows s"
    using assms[unfolded leaves_def, THEN conjunct2, THEN conjunct1, rule_format, of x s] by simp
  show "t_delete t p s = (r', s') \<Longrightarrow> rows s' = rows s"
    using assms[unfolded leaves_def, THEN conjunct2, THEN conjunct2, rule_format, of p s] by simp
qed

lemma clusterT_frame:
  assumes "store_lawful db clusters kafkas"
  shows "t_update (clusterT db) p f s = (r, s') \<Longrightarrow> kafkas s' = kafkas s"
    and "t_save (clusterT db) c s = (r', s') \<Longrightarrow> kafkas s' = kafkas s"
    and "t_delete (clusterT db) p s = (r', s') \<Longrightarrow> kafkas s' = kafkas s"
  using assms leaves_laws[of "clusterT db" kafkas] by (auto simp: store_lawful_def)

lemma kafkaT_frame:
  assumes "store_lawful db clusters kafkas"
  shows "t_update (kafkaT db) p f s = (r, s') \<Longrightarrow> clusters s' = clusters s"
    and "t_save (kafkaT db) k s = (r', s') \<Longrightarrow> clusters s' = clusters s"
    and "t_delete (kafkaT db) p s = (r', s') \<Longrightarrow> clusters s' = clusters s"
  using assms leaves_laws[of "kafkaT db" clusters] by (auto simp: store_lawful_def)

text \<open>A database whose statements all succeed: a query for one row fails only when there is none.\<close>

definition table_works :: "('r, 's) table \<Rightarrow> bool" where
  "table_works t \<longleftrightarrow>
     (\<forall>p ord s. \<not> isl (t_scan t p ord s)) \<and> (\<forall>p ord s e. t_first t p ord s = Inl e \<longrightarrow> e = ErrRecordNotFound) \<and>
     (\<forall>p f s. \<not> isl (fst (t_update t p f s)))"

definition db_works :: "'s db \<Rightarrow> bool" where
  "db_works db \<longleftrightarrow> table_works (clusterT db) \<and> table_works (kafkaT db)"

lemma table_works_laws:
  assumes "table_works t"
  shows works_scan: "\<exists>xs. t_scan t p ord s = Inr xs"
    and works_first: "t_first t p ord s = Inl e \<Longrightarrow> e = ErrRecordNotFound"
    and works_update: "\<exists>n s'. t_update t p f s = (Inr n, s')"
proof -
  show "\<exists>xs. t_scan t p ord s = Inr xs"
    using assms[unfolded table_works_def, THEN conjunct1, rule_format, of p ord s] by (cases "t_scan t p ord s") simp_all
  show "t_first t p ord s = Inl e \<Longrightarrow> e = ErrRecordNotFound"
    using assms[unfolded table_works_def, THEN conjunct2, THEN conjunct1] by simp
  show "\<exists>n s'. t_update t p f s = (Inr n, s')"
    using assms[unfolded table_works_def, THEN conjunct2, THEN conjunct2, rule_format, of p f s]
    by (cases "t_update t p f s"; cases "fst (t_update t p f s)") simp_all
qed

section \<open>SQL\<close>

text \<open>The pattern match of \<^verbatim>\<open>LIKE\<close>, with its wildcards and escape.\<close>

fun sql_like :: "string \<Rightarrow> string \<Rightarrow> bool" where
  "sql_like [] t \<longleftrightarrow> t = []"
| "sql_like (c # p) t \<longleftrightarrow>
     (if c = CHR ''%'' then sql_like p t \<or> (case t of [] \<Rightarrow> False | d # t' \<Rightarrow> sql_like (c # p) t')
      else if c = CHR ''_'' then (case t of [] \<Rightarrow> False | d # t' \<Rightarrow> sql_like p t')
      else if c = CHR 0x5C then
        (case p of [] \<Rightarrow> False | e # p' \<Rightarrow> (case t of [] \<Rightarrow> False | d # t' \<Rightarrow> d = e \<and> sql_like p' t'))
      else (case t of [] \<Rightarrow> False | d # t' \<Rightarrow> d = c \<and> sql_like p t'))"

definition like_plain :: "string \<Rightarrow> bool" where
  "like_plain x \<longleftrightarrow> list_all (\<lambda>c. c \<noteq> CHR ''%'' \<and> c \<noteq> CHR ''_'' \<and> c \<noteq> CHR 0x5C) x"

lemma sql_like_percent: "sql_like ''%'' t"
  by (induction t) auto

lemma sql_like_prefix: "like_plain x \<Longrightarrow> sql_like (x @ ''%'') t \<longleftrightarrow> HasPrefix t x"
proof (induction x arbitrary: t)
  case Nil
  then show ?case using sql_like_percent by (simp add: HasPrefix_def)
next
  case (Cons c x)
  then show ?case by (cases t) (auto simp: like_plain_def HasPrefix_def)
qed

lemma sql_like_contains: "like_plain x \<Longrightarrow> sql_like (CHR ''%'' # x @ ''%'') t \<longleftrightarrow> Contains_str t x"
proof (induction t)
  case Nil
  then show ?case using sql_like_prefix[of x "[]"] by (auto simp: HasPrefix_def)
next
  case (Cons d t)
  then show ?case using sql_like_prefix[of x "d # t"] by (auto simp: HasPrefix_def)
qed

text \<open>\<^verbatim>\<open>GROUP BY\<close> with \<^verbatim>\<open>count(1)\<close>, in the order of first occurrence.\<close>

fun group_count :: "'k list \<Rightarrow> ('k \<times> nat) list" where
  "group_count [] = []"
| "group_count (k # ks) = (k, Suc (length (filter ((=) k) ks))) # group_count (filter ((\<noteq>) k) ks)"

lemma group_count_keys: "set (map fst (group_count ks)) = set ks"
  by (induction ks rule: group_count.induct) auto

lemma group_count_sum:
  fixes f :: "'k \<Rightarrow> 'b :: comm_semiring_1"
  shows "sum_list (map (\<lambda>(k, n). of_nat n * f k) (group_count ks)) = sum_list (map f ks)"
proof (induction ks rule: group_count.induct)
  case (2 k ks)
  have "sum_list (map f ks) = of_nat (length (filter ((=) k) ks)) * f k + sum_list (map f (filter ((\<noteq>) k) ks))"
    by (induction ks) (auto simp: algebra_simps)
  then show ?case using 2 by (simp add: algebra_simps)
qed simp

section \<open>An in-memory store\<close>

fun ins_by :: "('a \<Rightarrow> 'a \<Rightarrow> bool) \<Rightarrow> 'a \<Rightarrow> 'a list \<Rightarrow> 'a list" where
  "ins_by le x [] = [x]"
| "ins_by le x (y # ys) = (if le x y then x # y # ys else y # ins_by le x ys)"

definition order_rows :: "('a \<Rightarrow> 'a \<Rightarrow> bool) \<Rightarrow> 'a list \<Rightarrow> 'a list" where
  "order_rows le xs = foldr (ins_by le) xs []"

lemma mset_ins_by [simp]: "mset (ins_by le x ys) = add_mset x (mset ys)"
  by (induction ys) auto

lemma mset_order_rows [simp]: "mset (order_rows le xs) = mset xs"
  by (induction xs) (auto simp: order_rows_def)

lemma sorted_ins_by:
  assumes "\<And>x y. le x y \<or> le y x" "\<And>x y z. le x y \<Longrightarrow> le y z \<Longrightarrow> le x z" "sorted_wrt le ys"
  shows "sorted_wrt le (ins_by le x ys)"
  using assms(3)
proof (induction ys)
  case (Cons y ys)
  have "set (ins_by le x ys) = insert x (set ys)" by (metis mset_ins_by set_mset_add_mset_insert set_mset_mset)
  then show ?case using Cons assms(1)[of x y] assms(2) by auto
qed simp

lemma sorted_order_rows:
  assumes "\<And>x y. le x y \<or> le y x" "\<And>x y z. le x y \<Longrightarrow> le y z \<Longrightarrow> le x z"
  shows "sorted_wrt le (order_rows le xs)"
proof (induction xs)
  case (Cons x xs)
  then show ?case using sorted_ins_by[of le "order_rows le xs" x] assms by (simp add: order_rows_def)
qed (simp add: order_rows_def)

lemma ordered_by_total: "ordered_by key created ord x y \<or> ordered_by key created ord y x"
  using str_less_linear[of "key x" "key y"] str_less_trans[of "key x" "key y" "key x"]
  by (cases ord) (auto simp: ordered_by_def)

lemma ordered_by_trans: "ordered_by key created ord x y \<Longrightarrow> ordered_by key created ord y z \<Longrightarrow> ordered_by key created ord x z"
  using str_less_linear[of "key x" "key y"] str_less_trans[of "key z" "key x" "key y"]
  by (cases ord) (auto simp: ordered_by_def)

lemma sorted_rows: "sorted_wrt (ordered_by key created ord) (order_rows (ordered_by key created ord) xs)"
  by (rule sorted_order_rows) (rule ordered_by_total, erule (1) ordered_by_trans)

definition mem_table :: "('r \<Rightarrow> string) \<Rightarrow> ('r \<Rightarrow> time) \<Rightarrow> ('s \<Rightarrow> 'r list) \<Rightarrow> ('r list \<Rightarrow> 's \<Rightarrow> 's) \<Rightarrow> ('r, 's) table" where
  "mem_table key created get put =
     \<lparr>t_scan = (\<lambda>p ord s. Inr (order_rows (ordered_by key created ord) (filter p (get s)))),
      t_first = (\<lambda>p ord s. case order_rows (ordered_by key created ord) (filter p (get s)) of [] \<Rightarrow> Inl ErrRecordNotFound | x # xs \<Rightarrow> Inr x),
      t_update = (\<lambda>p f s. (Inr (length (filter p (get s))), put (map (\<lambda>r. if p r then f r else r) (get s)) s)),
      t_save = (\<lambda>r s. (Inr (), put (upsert key r (get s)) s)),
      t_delete = (\<lambda>p s. (Inr (), put (filter (\<lambda>r. \<not> p r) (get s)) s))\<rparr>"

lemma mem_table_lawful:
  assumes "\<And>rs s. get (put rs s) = rs"
  shows "table_lawful key created (mem_table key created get put) get"
proof -
  let ?t = "mem_table key created get put"
  have "first_lawful key created ?t get"
    unfolding first_lawful_def
  proof (intro conjI allI impI)
    fix p ord s x assume f: "t_first ?t p ord s = Inr x"
    let ?o = "order_rows (ordered_by key created ord) (filter p (get s))"
    obtain xs where o: "?o = x # xs" using f by (auto simp: mem_table_def split: list.splits)
    have set: "set ?o = {x \<in> set (get s). p x}" by (metis mset_order_rows set_filter set_mset_mset)
    have "sorted_wrt (ordered_by key created ord) ?o"
      by (rule sorted_rows)
    then have "\<forall>y \<in> set xs. ordered_by key created ord x y" using o by simp
    moreover have "ordered_by key created ord x x" using ordered_by_total[of key created ord x x] by simp
    ultimately have "\<forall>y \<in> set ?o. ordered_by key created ord x y" using o by simp
    then show "\<forall>y \<in> set (get s). p y \<longrightarrow> ordered_by key created ord x y" using set by blast
    have "x \<in> set ?o" using o by simp
    then show "x \<in> set (get s)" "p x" using set by blast+
  next
    fix p ord s assume f: "t_first ?t p ord s = Inl ErrRecordNotFound"
    then have "order_rows (ordered_by key created ord) (filter p (get s)) = []" by (auto simp: mem_table_def split: list.splits)
    then have "filter p (get s) = []" by (metis mset_order_rows mset_zero_iff_right mset_zero_iff)
    then show "\<forall>x \<in> set (get s). \<not> p x" by (simp add: filter_empty_conv)
  qed
  moreover have "scan_lawful key created ?t get"
    unfolding scan_lawful_def mem_table_def
    by (auto intro: sorted_rows)
  ultimately show ?thesis
    by (simp add: table_lawful_def update_lawful_def save_lawful_def delete_lawful_def mem_table_def assms)
qed

definition mem_db :: "(Cluster list \<times> KafkaRequest list) db" where
  "mem_db = \<lparr>clusterT = mem_table c_ID c_CreatedAt fst (\<lambda>cs s. (cs, snd s)),
             kafkaT = mem_table k_ID k_CreatedAt snd (\<lambda>ks s. (fst s, ks))\<rparr>"

lemma mem_db_lawful: "store_lawful mem_db fst snd"
  unfolding store_lawful_def mem_db_def
  by (simp add: mem_table_lawful) (simp add: leaves_def mem_table_def)

lemma mem_db_ops:
  "t_scan (clusterT mem_db) p ord s = Inr (order_rows (ordered_by c_ID c_CreatedAt ord) (filter p (fst s)))"
  "t_scan (kafkaT mem_db) q ord s = Inr (order_rows (ordered_by k_ID k_CreatedAt ord) (filter q (snd s)))"
  "t_update (clusterT mem_db) p f s = (Inr (length (filter p (fst s))), (map (\<lambda>r. if p r then f r else r) (fst s), snd s))"
  "t_update (kafkaT mem_db) q g s = (Inr (length (filter q (snd s))), (fst s, map (\<lambda>r. if q r then g r else r) (snd s)))"
  "t_save (clusterT mem_db) c s = (Inr (), (upsert c_ID c (fst s), snd s))"
  "t_save (kafkaT mem_db) k s = (Inr (), (fst s, upsert k_ID k (snd s)))"
  by (simp_all add: mem_db_def mem_table_def)

lemma mem_db_works: "db_works mem_db"
  by (simp add: db_works_def table_works_def mem_db_def mem_table_def split: list.splits)

lemma mem_first:
  "t_first (clusterT mem_db) p ord s =
     (case order_rows (ordered_by c_ID c_CreatedAt ord) (filter p (fst s)) of [] \<Rightarrow> Inl ErrRecordNotFound | x # xs \<Rightarrow> Inr x)"
  "t_first (kafkaT mem_db) q ord s =
     (case order_rows (ordered_by k_ID k_CreatedAt ord) (filter q (snd s)) of [] \<Rightarrow> Inl ErrRecordNotFound | x # xs \<Rightarrow> Inr x)"
  by (simp_all add: mem_db_def mem_table_def)

end
