(* ===== verification/Cluster_Service.thy ===== *)
theory Cluster_Service
  imports Store
begin

text \<open>
  The cluster service, \<^verbatim>\<open>internal/kafka/internal/services/clusters.go\<close>: queries and updates of the table of
  data plane clusters, the operations that go through a cluster provider, and the accounting of
  streaming units per cluster and instance type.  Every operation takes the database and the state and
  returns its result with the new state; queries leave the state alone.  The main lemma relates the
  accounting loop with its grouped query to the sum over the Kafka rows.

  Metrics and log messages carry no behaviour and are left out.  The providers (OCM, standalone) are
  values of the interface \<^verbatim>\<open>clusters.Provider\<close>, modelled as the record \<open>provider\<close> of its methods.
\<close>

section \<open>Providers\<close>

(* src/internal/kafka/internal/clusters/types/types.go:80-97 ClusterSpec *)
record ClusterSpec =
  cs_InternalID :: string
  cs_ExternalID :: string
  cs_Status :: string
  cs_StatusDetails :: string
  cs_AdditionalInfo :: "string json"
  cs_Region :: string
  cs_CloudProvider :: string
  cs_MultiAZ :: bool

(* src/internal/kafka/internal/clusters/types/types.go:33-42 ClusterRequest *)
record ClusterRequest =
  cr_CloudProvider :: string
  cr_Region :: string
  cr_MultiAZ :: bool
  cr_AdditionalSpec :: "string json"

(* src/internal/kafka/internal/clusters/types/types.go:13-19 OpenIDIdentityProviderInfo *)
record OpenIDIdentityProviderInfo =
  oi_ID :: string
  oi_Name :: string
  oi_ClientID :: string
  oi_ClientSecret :: string
  oi_Issuer :: string

(* src/internal/kafka/internal/clusters/types/types.go:27-30 ResourceSet *)
record ResourceSet =
  rs_Name :: string
  rs_Resources :: "string list"

text \<open>\<^verbatim>\<open>IdentityProviderInfo\<close> is a struct around one pointer.\<close>

(* src/internal/kafka/internal/clusters/provider.go:14-51 Provider *)
record provider =
  p_Create :: "ClusterRequest \<Rightarrow> ClusterSpec err"
  p_Delete :: "ClusterSpec \<Rightarrow> bool err"
  p_CheckClusterStatus :: "ClusterSpec \<Rightarrow> ClusterSpec err"
  p_AddIdentityProvider :: "ClusterSpec \<Rightarrow> OpenIDIdentityProviderInfo option \<Rightarrow> OpenIDIdentityProviderInfo option err"
  p_ApplyResources :: "ClusterSpec \<Rightarrow> ResourceSet \<Rightarrow> ResourceSet err"
  p_RemoveResources :: "ClusterSpec \<Rightarrow> string \<Rightarrow> goerror option"
  p_GetClusterDNS :: "ClusterSpec \<Rightarrow> string err"
  p_InstallStrimzi :: "ClusterSpec \<Rightarrow> bool \<times> goerror option"
  p_InstallClusterLogging :: "ClusterSpec \<Rightarrow> (string \<times> string) list \<Rightarrow> bool \<times> goerror option"

(* src/internal/kafka/internal/clusters/provider.go:86-97 DefaultProviderFactory.GetProvider *)
definition GetProvider :: "(string \<rightharpoonup> provider) \<Rightarrow> string \<Rightarrow> provider err" where
  "GetProvider providerContainer providerType =
     (let ty = (if providerType = '''' then ClusterProviderOCM else providerType) in
      case providerContainer ty of
        None \<Rightarrow> Inl (ErrorString (Sprintf ''invalid provider type: %v'' [FStr ty]))
      | Some provider \<Rightarrow> Inr provider)"

(* src/internal/kafka/internal/services/clusters.go:728-739 buildClusterSpec *)
definition buildClusterSpec :: "Cluster \<Rightarrow> ClusterSpec" where
  "buildClusterSpec cluster =
     \<lparr>cs_InternalID = c_ClusterID cluster, cs_ExternalID = c_ExternalID cluster, cs_Status = c_Status cluster,
      cs_StatusDetails = c_StatusDetails cluster, cs_AdditionalInfo = c_ClusterSpec cluster, cs_Region = c_Region cluster,
      cs_CloudProvider = c_CloudProvider cluster, cs_MultiAZ = c_MultiAZ cluster\<rparr>"

section \<open>Statements\<close>

text \<open>The message of an error about the database or a provider.\<close>

definition general_cause :: "goerror \<Rightarrow> string \<Rightarrow> fmtarg list \<Rightarrow> ServiceError" where
  "general_cause err reason values = NewWithCause ErrorGeneral (Some err) reason values"

text \<open>\<^verbatim>\<open>Updates\<close> with a struct writes the fields whose value is not the zero value of their type.  The
  column tag of \<^verbatim>\<open>StatusDetails\<close> keeps that field out of the table.\<close>

definition nz :: "'a \<Rightarrow> 'a \<Rightarrow> 'a \<Rightarrow> 'a" where
  "nz zero new old = (if new = zero then old else new)"

definition Cluster_Updates :: "Cluster \<Rightarrow> Cluster \<Rightarrow> Cluster" where
  "Cluster_Updates new row = row\<lparr>
     c_CreatedAt := nz 0 (c_CreatedAt new) (c_CreatedAt row),
     c_CloudProvider := nz '''' (c_CloudProvider new) (c_CloudProvider row),
     c_ClusterID := nz '''' (c_ClusterID new) (c_ClusterID row),
     c_ExternalID := nz '''' (c_ExternalID new) (c_ExternalID row),
     c_MultiAZ := nz False (c_MultiAZ new) (c_MultiAZ row),
     c_Region := nz '''' (c_Region new) (c_Region row),
     c_Status := nz '''' (c_Status new) (c_Status row),
     c_IdentityProviderID := nz '''' (c_IdentityProviderID new) (c_IdentityProviderID row),
     c_ClusterDNS := nz '''' (c_ClusterDNS new) (c_ClusterDNS row),
     c_ClientID := nz '''' (c_ClientID new) (c_ClientID row),
     c_ClientSecret := nz '''' (c_ClientSecret new) (c_ClientSecret row),
     c_ProviderType := nz '''' (c_ProviderType new) (c_ProviderType row),
     c_ProviderSpec := nz JNil (c_ProviderSpec new) (c_ProviderSpec row),
     c_ClusterSpec := nz JNil (c_ClusterSpec new) (c_ClusterSpec row),
     c_AvailableStrimziVersions := nz JNil (c_AvailableStrimziVersions new) (c_AvailableStrimziVersions row),
     c_SupportedInstanceType := nz '''' (c_SupportedInstanceType new) (c_SupportedInstanceType row),
     c_DynamicCapacityInfo := nz JNil (c_DynamicCapacityInfo new) (c_DynamicCapacityInfo row),
     c_ClusterType := nz '''' (c_ClusterType new) (c_ClusterType row),
     c_OrganizationID := nz '''' (c_OrganizationID new) (c_OrganizationID row),
     c_AccessKafkasViaPrivateNetwork := nz False (c_AccessKafkasViaPrivateNetwork new) (c_AccessKafkasViaPrivateNetwork row)\<rparr>"

text \<open>\<^verbatim>\<open>Save\<close> of a cluster without an identifier inserts it and calls its \<^verbatim>\<open>BeforeCreate\<close> hook; \<open>newID\<close> is the
  generated identifier.\<close>

definition save_cluster :: "'s db \<Rightarrow> string \<Rightarrow> Cluster \<Rightarrow> 's \<Rightarrow> unit err \<times> 's" where
  "save_cluster db newID cluster s =
     t_save (clusterT db) ((if c_ID cluster = '''' then Cluster_BeforeCreate newID cluster else cluster)\<lparr>c_StatusDetails := ''''\<rparr>) s"

section \<open>Registration and updates\<close>

(* src/internal/kafka/internal/services/clusters.go:116-122 clusterService.RegisterClusterJob *)
definition RegisterClusterJob :: "'s db \<Rightarrow> string \<Rightarrow> Cluster \<Rightarrow> 's \<Rightarrow> ServiceError option \<times> 's" where
  "RegisterClusterJob db newID clusterRequest s =
     (case save_cluster db newID clusterRequest s of
        (Inl err, s') \<Rightarrow> (Some (general_cause err ''failed to register cluster job'' []), s')
      | (Inr u, s') \<Rightarrow> (None, s'))"

text \<open>The result is an \<^verbatim>\<open>error\<close>; the validation errors are non-nil pointers, so no nil pointer is boxed.\<close>

(* src/internal/kafka/internal/services/clusters.go:261-292 clusterService.UpdateStatus *)
definition UpdateStatus :: "'s db \<Rightarrow> Cluster \<Rightarrow> string \<Rightarrow> 's \<Rightarrow> goerror option \<times> 's" where
  "UpdateStatus db cluster status s =
     (if status = '''' then (Some (ServiceErr (Validation ''status is undefined'' [])), s)
      else if c_ID cluster = '''' \<and> c_ClusterID cluster = '''' then (Some (ServiceErr (Validation ''id is undefined'' [])), s)
      else
        let query = (if c_ID cluster \<noteq> '''' then (\<lambda>r. c_ID r = c_ID cluster) else (\<lambda>r. c_ClusterID r = c_ClusterID cluster)) in
        case t_update (clusterT db) query (\<lambda>r. r\<lparr>c_Status := status\<rparr>) s of
          (Inl err, s') \<Rightarrow> (Some (ServiceErr (general_cause err ''failed to update cluster status'' [])), s')
        | (Inr n, s') \<Rightarrow> (None, s'))"

(* src/internal/kafka/internal/services/clusters.go:125-131 clusterService.DeregisterClusterJob *)
definition DeregisterClusterJob :: "'s db \<Rightarrow> string \<Rightarrow> 's \<Rightarrow> ServiceError option \<times> 's" where
  "DeregisterClusterJob db clusterID s =
     (case UpdateStatus db (zero_Cluster\<lparr>c_ClusterID := clusterID\<rparr>) ClusterDeprovisioning s of
        (Some err, s') \<Rightarrow> (Some (general_cause err ''failed to deregister cluster'' []), s')
      | (None, s') \<Rightarrow> (None, s'))"

(* src/internal/kafka/internal/services/clusters.go:245-259 clusterService.Update *)
definition Update :: "'s db \<Rightarrow> Cluster \<Rightarrow> 's \<Rightarrow> ServiceError option \<times> 's" where
  "Update db cluster s =
     (if c_ID cluster = '''' then (Some (Validation ''id is undefined'' []), s)
      else case t_update (clusterT db) (\<lambda>r. c_ID r = c_ID cluster) (Cluster_Updates cluster) s of
          (Inl err, s') \<Rightarrow> (Some (general_cause err ''failed to update cluster'' []), s')
        | (Inr n, s') \<Rightarrow> (None, s'))"

(* src/internal/kafka/internal/services/clusters.go:555-586 clusterService.UpdateMultiClusterStatus *)
definition UpdateMultiClusterStatus :: "'s db \<Rightarrow> string list \<Rightarrow> string \<Rightarrow> 's \<Rightarrow> ServiceError option \<times> 's" where
  "UpdateMultiClusterStatus db clusterIDs status s =
     (if status = '''' then (Some (Validation ''status is undefined'' []), s)
      else if length clusterIDs = 0 then (Some (Validation ''ids is empty'' []), s)
      else
        let where_ids = (\<lambda>r. c_ClusterID r \<in> set clusterIDs);
            query = (if status = ClusterDeprovisioning then (\<lambda>r. where_ids r \<and> c_Status r \<noteq> ClusterCleanup) else where_ids) in
        case t_update (clusterT db) query (\<lambda>r. r\<lparr>c_Status := status\<rparr>) s of
          (Inl err, s') \<Rightarrow> (Some (general_cause err ''failed to update status: %s'' [FVal ''[]string'' (''['' @ Join clusterIDs '' '' @ '']'')]), s')
        | (Inr n, s') \<Rightarrow> (None, s'))"

text \<open>A struct condition whose fields are all zero is no condition at all, and the mapper refuses a deletion
  without conditions.\<close>

definition ErrMissingWhereClause :: goerror where
  "ErrMissingWhereClause = Sentinel ''WHERE conditions required''"

definition delete_by_cluster_id :: "'s db \<Rightarrow> string \<Rightarrow> 's \<Rightarrow> unit err \<times> 's" where
  "delete_by_cluster_id db clusterID s =
     (if clusterID = '''' then (Inl ErrMissingWhereClause, s) else t_delete (clusterT db) (\<lambda>r. c_ClusterID r = clusterID) s)"

(* src/internal/kafka/internal/services/clusters.go:395-406 clusterService.DeleteByClusterID *)
definition DeleteByClusterID :: "'s db \<Rightarrow> string \<Rightarrow> 's \<Rightarrow> ServiceError option \<times> 's" where
  "DeleteByClusterID db clusterID s =
     (case delete_by_cluster_id db clusterID s of
        (Inl err, s') \<Rightarrow> (Some (general_cause err ''Unable to delete cluster with cluster_id %s'' [FStr clusterID]), s')
      | (Inr u, s') \<Rightarrow> (None, s'))"

(* src/internal/kafka/internal/services/clusters.go:408-419 clusterService.HardDeleteByClusterID *)
definition HardDeleteByClusterID :: "'s db \<Rightarrow> string \<Rightarrow> 's \<Rightarrow> ServiceError option \<times> 's" where
  "HardDeleteByClusterID db clusterID s =
     (case delete_by_cluster_id db clusterID s of
        (Inl err, s') \<Rightarrow> (Some (general_cause err ''Unable to hard delete cluster with cluster_id %s'' [FStr clusterID]), s')
      | (Inr u, s') \<Rightarrow> (None, s'))"

section \<open>Queries\<close>

(* src/internal/kafka/internal/services/clusters.go:230-243 clusterService.ListByStatus *)
definition ListByStatus :: "'s db \<Rightarrow> string \<Rightarrow> 's \<Rightarrow> Cluster list svc" where
  "ListByStatus db status s =
     (if status = '''' then Inl (Validation ''status is undefined'' [])
      else case t_scan (clusterT db) (\<lambda>r. c_Status r = status) Unordered s of
          Inl err \<Rightarrow> Inl (general_cause err ''failed to query by status'' [])
        | Inr clusters \<Rightarrow> Inr clusters)"

text \<open>\<open>claims\<close> are the claims found in the context: the user name and the organisation.\<close>

(* src/internal/kafka/internal/services/clusters.go:134-160 clusterService.ListEnterpriseClustersOfAnOrganization *)
definition ListEnterpriseClustersOfAnOrganization :: "'s db \<Rightarrow> (string \<times> string) err \<Rightarrow> 's \<Rightarrow> Cluster list svc" where
  "ListEnterpriseClustersOfAnOrganization db claims s =
     (case claims of
        Inl err \<Rightarrow> Inl (NewWithCause ErrorUnauthenticated (Some err) ''user not authenticated'' [])
      | Inr (user, orgId) \<Rightarrow>
          if user = '''' then Inl (Unauthenticated ''user not authenticated'' [])
          else case t_scan (clusterT db) (\<lambda>r. c_OrganizationID r = orgId \<and> c_ClusterType r = EnterpriseDataPlaneClusterType) Unordered s of
              Inl err \<Rightarrow> if err = ErrRecordNotFound then Inr [] else Inl (general_cause err ''failed to list clusters'' [])
            | Inr clusters \<Rightarrow>
                Inr (map (\<lambda>c. zero_Cluster\<lparr>c_ClusterID := c_ClusterID c, c_Status := c_Status c,
                        c_AccessKafkasViaPrivateNetwork := c_AccessKafkasViaPrivateNetwork c, c_CloudProvider := c_CloudProvider c,
                        c_Region := c_Region c, c_MultiAZ := c_MultiAZ c\<rparr>) clusters))"

(* src/internal/kafka/internal/services/clusters.go:294-298 ResGroupCPRegion *)
record ResGroupCPRegion =
  gr_Provider :: string
  gr_Region :: string
  gr_Count :: nat

(* src/internal/kafka/internal/services/clusters.go:301-319 clusterService.ListGroupByProviderAndRegion *)
definition ListGroupByProviderAndRegion :: "'s db \<Rightarrow> string list \<Rightarrow> string list \<Rightarrow> string list \<Rightarrow> 's \<Rightarrow> ResGroupCPRegion list svc" where
  "ListGroupByProviderAndRegion db providers regions status s =
     (if length providers = 0 \<or> length regions = 0 \<or> length status = 0
      then Inl (Validation ''provider, region and status must not be empty'' [])
      else case t_scan (clusterT db) (\<lambda>r. c_CloudProvider r \<in> set providers \<and> c_Region r \<in> set regions \<and> c_Status r \<in> set status) Unordered s of
          Inl err \<Rightarrow> Inl (general_cause err ''failed to list by cloud provider, regions and status'' [])
        | Inr rows \<Rightarrow> Inr (map (\<lambda>((p, r), n). \<lparr>gr_Provider = p, gr_Region = r, gr_Count = n\<rparr>)
                        (group_count (map (\<lambda>r. (c_CloudProvider r, c_Region r)) rows))))"

(* src/internal/kafka/internal/services/clusters.go:321-328 FindClusterCriteria *)
record FindClusterCriteria =
  fc_Provider :: string
  fc_Region :: string
  fc_MultiAZ :: bool
  fc_Status :: string
  fc_SupportedInstanceType :: string
  fc_ExternalID :: string

text \<open>The condition of \<^verbatim>\<open>Where(clusterDetails)\<close>: only fields that are set constrain the row, so a criterion
  without multi-AZ accepts both kinds of clusters.\<close>

(* src/internal/kafka/internal/services/clusters.go:335-346 clusterService.FindCluster *)
definition criteria_where :: "FindClusterCriteria \<Rightarrow> Cluster \<Rightarrow> bool" where
  "criteria_where criteria r \<longleftrightarrow>
     (fc_Provider criteria \<noteq> '''' \<longrightarrow> c_CloudProvider r = fc_Provider criteria) \<and>
     (fc_Region criteria \<noteq> '''' \<longrightarrow> c_Region r = fc_Region criteria) \<and>
     (fc_MultiAZ criteria \<longrightarrow> c_MultiAZ r) \<and>
     (fc_Status criteria \<noteq> '''' \<longrightarrow> c_Status r = fc_Status criteria) \<and>
     (fc_ExternalID criteria \<noteq> '''' \<longrightarrow> c_ExternalID r = fc_ExternalID criteria) \<and>
     (fc_SupportedInstanceType criteria \<noteq> '''' \<longrightarrow>
        sql_like (Sprintf ''%%%s%%'' [FStr (fc_SupportedInstanceType criteria)]) (c_SupportedInstanceType r))"

text \<open>\<^verbatim>\<open>First\<close> runs the query, ordered by the primary key; the \<^verbatim>\<open>Order\<close> that follows it has no effect.\<close>

(* src/internal/kafka/internal/services/clusters.go:330-360 clusterService.FindCluster *)
definition FindCluster :: "'s db \<Rightarrow> FindClusterCriteria \<Rightarrow> 's \<Rightarrow> Cluster option err" where
  "FindCluster db criteria s =
     (case t_first (clusterT db) (criteria_where criteria) ByPrimaryKey s of
        Inl err \<Rightarrow> if err = ErrRecordNotFound then Inr None else Inl err
      | Inr cluster \<Rightarrow> Inr (Some cluster))"

(* src/internal/kafka/internal/services/clusters.go:362-382 clusterService.FindClusterByID *)
definition FindClusterByID :: "'s db \<Rightarrow> string \<Rightarrow> 's \<Rightarrow> Cluster option svc" where
  "FindClusterByID db clusterID s =
     (if clusterID = '''' then Inl (Validation ''clusterID is undefined'' [])
      else case t_first (clusterT db) (\<lambda>r. c_ClusterID r = clusterID) ByPrimaryKey s of
          Inl err \<Rightarrow> if err = ErrRecordNotFound then Inr None
                     else Inl (general_cause err ''failed to find cluster with id: %s'' [FStr clusterID])
        | Inr cluster \<Rightarrow> Inr (Some cluster))"

(* src/internal/kafka/internal/services/clusters.go:384-393 clusterService.GetClientID *)
definition GetClientID :: "'s db \<Rightarrow> string \<Rightarrow> 's \<Rightarrow> string err" where
  "GetClientID db clusterID s =
     (case FindClusterByID db clusterID s of
        Inl err \<Rightarrow> Inl (ServiceErr err)
      | Inr None \<Rightarrow> Inr ''''
      | Inr (Some cluster) \<Rightarrow> Inr (c_ClientID cluster))"

(* src/internal/kafka/internal/services/clusters.go:466-475 clusterService.GetExternalID *)
definition GetExternalID :: "'s db \<Rightarrow> string \<Rightarrow> 's \<Rightarrow> string svc" where
  "GetExternalID db clusterID s =
     (case FindClusterByID db clusterID s of
        Inl err \<Rightarrow> Inl err
      | Inr None \<Rightarrow> Inl (GeneralError ''failed to get External ID for clusterID %s'' [FStr clusterID])
      | Inr (Some cluster) \<Rightarrow> Inr (c_ExternalID cluster))"

text \<open>The sub-query selects the cluster identifiers of Kafkas that are not being deleted; it runs as part of
  the statement.\<close>

(* src/internal/kafka/internal/services/clusters.go:421-439 clusterService.FindNonEmptyClusterByID *)
definition FindNonEmptyClusterByID :: "'s db \<Rightarrow> string \<Rightarrow> 's \<Rightarrow> Cluster option svc" where
  "FindNonEmptyClusterByID db clusterID s =
     (case t_scan (kafkaT db) (\<lambda>k. k_Status k \<noteq> KafkaRequestStatusDeleting \<and> k_ClusterID k = clusterID) Unordered s of
        Inl err \<Rightarrow> Inl (general_cause err ''failed to find cluster with id %s'' [FStr clusterID])
      | Inr subQuery \<Rightarrow>
        (case t_first (clusterT db) (\<lambda>r. (clusterID \<noteq> '''' \<longrightarrow> c_ClusterID r = clusterID) \<and>
                c_ClusterID r \<in> set (map k_ClusterID subQuery)) ByPrimaryKey s of
           Inl err \<Rightarrow> if err = ErrRecordNotFound then Inr None
                      else Inl (general_cause err ''failed to find cluster with id %s'' [FStr clusterID])
         | Inr cluster \<Rightarrow> Inr (Some cluster)))"

(* src/internal/kafka/internal/services/clusters.go:441-459 clusterService.ListNonEnterpriseClusterIDs *)
definition ListNonEnterpriseClusterIDs :: "'s db \<Rightarrow> 's \<Rightarrow> Cluster list svc" where
  "ListNonEnterpriseClusterIDs db s =
     (case t_scan (clusterT db) (\<lambda>r. c_ClusterID r \<noteq> '''' \<and> c_ClusterType r \<noteq> EnterpriseDataPlaneClusterType) ByCreatedAt s of
        Inl err \<Rightarrow> Inl (general_cause err ''failed to query by cluster info'' [])
      | Inr res \<Rightarrow> Inr (map (\<lambda>c. zero_Cluster\<lparr>c_ClusterID := c_ClusterID c\<rparr>) res))"

(* src/internal/kafka/internal/services/clusters.go:523-553 clusterService.FindAllClusters *)
definition FindAllClusters :: "'s db \<Rightarrow> FindClusterCriteria \<Rightarrow> 's \<Rightarrow> Cluster list err" where
  "FindAllClusters db criteria s =
     (case t_scan (clusterT db) (criteria_where criteria) ByCreatedAt s of
        Inl err \<Rightarrow> if err = ErrRecordNotFound then Inr [] else Inl err
      | Inr clusters \<Rightarrow> Inr clusters)"

(* src/internal/kafka/internal/services/clusters.go:588-591 ClusterStatusCount *)
record ClusterStatusCount =
  sc_Status :: string
  sc_Count :: nat

(* src/internal/kafka/internal/services/clusters.go:593-615 clusterService.CountByStatus *)
definition CountByStatus :: "'s db \<Rightarrow> string list \<Rightarrow> 's \<Rightarrow> ClusterStatusCount list svc" where
  "CountByStatus db status s =
     (case t_scan (clusterT db) (\<lambda>r. c_Status r \<in> set status) Unordered s of
        Inl err \<Rightarrow> Inl (general_cause err ''failed to count by status'' [])
      | Inr rows \<Rightarrow>
        (let results = map (\<lambda>(st, n). \<lparr>sc_Status = st, sc_Count = n\<rparr>) (group_count (map c_Status rows)) in
         if length status > 0
         then Inr (results @ map (\<lambda>st. \<lparr>sc_Status = st, sc_Count = 0\<rparr>)
                     (filter (\<lambda>st. st \<notin> set (map sc_Status results)) status))
         else Inr results))"

section \<open>Operations through the provider\<close>

text \<open>\<open>with_provider\<close> looks up the implementation for the cluster and continues with it.\<close>

definition provider_of :: "(string \<rightharpoonup> provider) \<Rightarrow> Cluster \<Rightarrow> provider svc" where
  "provider_of providers cluster =
     (case GetProvider providers (c_ProviderType cluster) of
        Inl err \<Rightarrow> Inl (general_cause err ''failed to get provider implementation'' [])
      | Inr p \<Rightarrow> Inr p)"

(* src/internal/kafka/internal/services/clusters.go:164-198 clusterService.Create *)
definition Create :: "'s db \<Rightarrow> (string \<rightharpoonup> provider) \<Rightarrow> string \<Rightarrow> Cluster \<Rightarrow> 's \<Rightarrow> Cluster svc \<times> 's" where
  "Create db providers newID cluster s =
     (let r = \<lparr>cr_CloudProvider = c_CloudProvider cluster, cr_Region = c_Region cluster, cr_MultiAZ = c_MultiAZ cluster,
               cr_AdditionalSpec = c_ProviderSpec cluster\<rparr> in
      case provider_of providers cluster of
        Inl err \<Rightarrow> (Inl err, s)
      | Inr p \<Rightarrow>
        (case p_Create p r of
           Inl err \<Rightarrow> (Inl (general_cause err ''failed to create cluster'' []), s)
         | Inr clusterSpec \<Rightarrow>
           (let c1 = cluster\<lparr>c_ClusterID := cs_InternalID clusterSpec, c_ExternalID := cs_ExternalID clusterSpec, c_Status := cs_Status clusterSpec\<rparr>;
                c2 = (if cs_AdditionalInfo clusterSpec \<noteq> JNil then c1\<lparr>c_ClusterSpec := cs_AdditionalInfo clusterSpec\<rparr> else c1) in
            case save_cluster db newID c2 s of
              (Inl err, s') \<Rightarrow> (Inl (general_cause err ''failed to save data to db'' []), s')
            | (Inr u, s') \<Rightarrow> (Inr (if c_ID c2 = '''' then Cluster_BeforeCreate newID c2 else c2), s'))))"

text \<open>The provider of a cluster that is not found is read through a nil pointer.\<close>

(* src/internal/kafka/internal/services/clusters.go:203-228 clusterService.GetClusterDNS *)
definition GetClusterDNS :: "'s db \<Rightarrow> (string \<rightharpoonup> provider) \<Rightarrow> string \<Rightarrow> 's \<Rightarrow> string go \<times> 's" where
  "GetClusterDNS db providers clusterID s =
     (case FindClusterByID db clusterID s of
        Inl err \<Rightarrow> (Err (ServiceErr err), s)
      | Inr None \<Rightarrow> (Panic ''nil pointer dereference'', s)
      | Inr (Some cluster) \<Rightarrow>
          if c_ClusterDNS cluster \<noteq> '''' then (Ok (c_ClusterDNS cluster), s)
          else case provider_of providers cluster of
            Inl err \<Rightarrow> (Err (ServiceErr err), s)
          | Inr p \<Rightarrow>
            (case p_GetClusterDNS p (buildClusterSpec cluster) of
               Inl err \<Rightarrow> (Err (ServiceErr (general_cause err ''failed to get cluster DNS from OCM'' [])), s)
             | Inr clusterDNS \<Rightarrow>
               (case Update db (cluster\<lparr>c_ClusterDNS := clusterDNS\<rparr>) s of
                  (Some err, s') \<Rightarrow> (Err (ServiceErr (general_cause (ServiceErr err) ''failed to update cluster DNS'' [])), s')
                | (None, s') \<Rightarrow> (Ok clusterDNS, s'))))"

(* src/internal/kafka/internal/services/clusters.go:617-648 clusterService.CheckClusterStatus *)
definition CheckClusterStatus :: "'s db \<Rightarrow> (string \<rightharpoonup> provider) \<Rightarrow> Cluster \<Rightarrow> 's \<Rightarrow> Cluster svc \<times> 's" where
  "CheckClusterStatus db providers cluster s =
     (case provider_of providers cluster of
        Inl err \<Rightarrow> (Inl err, s)
      | Inr p \<Rightarrow>
        (case p_CheckClusterStatus p (buildClusterSpec cluster) of
           Inl err \<Rightarrow> (Inl (general_cause err ''failed to check cluster status'' []), s)
         | Inr clusterSpec \<Rightarrow>
           (let c1 = cluster\<lparr>c_Status := cs_Status clusterSpec, c_StatusDetails := cs_StatusDetails clusterSpec, c_ClusterSpec := cs_AdditionalInfo clusterSpec\<rparr>;
                c2 = (if cs_ExternalID clusterSpec \<noteq> '''' \<and> c_ExternalID c1 = '''' then c1\<lparr>c_ExternalID := cs_ExternalID clusterSpec\<rparr> else c1) in
            case Update db c2 s of
              (Some err, s') \<Rightarrow> (Inl err, s')
            | (None, s') \<Rightarrow> (Inr c2, s'))))"

(* src/internal/kafka/internal/services/clusters.go:650-660 clusterService.Delete *)
definition Cluster_Delete :: "(string \<rightharpoonup> provider) \<Rightarrow> Cluster \<Rightarrow> bool svc" where
  "Cluster_Delete providers cluster =
     (case provider_of providers cluster of
        Inl err \<Rightarrow> Inl err
      | Inr p \<Rightarrow> (case p_Delete p (buildClusterSpec cluster) of
          Inl err \<Rightarrow> Inl (general_cause err ''failed to delete the cluster from the provider'' [])
        | Inr removed \<Rightarrow> Inr removed))"

(* src/internal/kafka/internal/services/clusters.go:662-680 clusterService.ConfigureAndSaveIdentityProvider *)
definition ConfigureAndSaveIdentityProvider ::
  "'s db \<Rightarrow> (string \<rightharpoonup> provider) \<Rightarrow> Cluster \<Rightarrow> OpenIDIdentityProviderInfo option \<Rightarrow> 's \<Rightarrow> Cluster go \<times> 's" where
  "ConfigureAndSaveIdentityProvider db providers cluster identityProviderInfo s =
     (if c_IdentityProviderID cluster \<noteq> '''' then (Ok cluster, s)
      else case provider_of providers cluster of
        Inl err \<Rightarrow> (Err (ServiceErr err), s)
      | Inr p \<Rightarrow>
        (case p_AddIdentityProvider p (buildClusterSpec cluster) identityProviderInfo of
           Inl err \<Rightarrow> (Err (ServiceErr (general_cause err ''failed to add identity provider'' [])), s)
         | Inr None \<Rightarrow> (Panic ''nil pointer dereference'', s)
         | Inr (Some openID) \<Rightarrow>
           (let c1 = cluster\<lparr>c_IdentityProviderID := oi_ID openID\<rparr> in
            case Update db c1 s of
              (Some err, s') \<Rightarrow> (Err (ServiceErr (general_cause (ServiceErr err) ''failed to update cluster'' [])), s')
            | (None, s') \<Rightarrow> (Ok c1, s'))))"

(* src/internal/kafka/internal/services/clusters.go:682-691 clusterService.ApplyResources *)
definition ApplyResources :: "(string \<rightharpoonup> provider) \<Rightarrow> Cluster \<Rightarrow> ResourceSet \<Rightarrow> ServiceError option" where
  "ApplyResources providers cluster resources =
     (case provider_of providers cluster of
        Inl err \<Rightarrow> Some err
      | Inr p \<Rightarrow> (case p_ApplyResources p (buildClusterSpec cluster) resources of
          Inl err \<Rightarrow> Some (general_cause err ''failed to apply resources %s'' [FStr (rs_Name resources)])
        | Inr r \<Rightarrow> None))"

(* src/internal/kafka/internal/services/clusters.go:693-702 clusterService.RemoveResources *)
definition RemoveResources :: "(string \<rightharpoonup> provider) \<Rightarrow> Cluster \<Rightarrow> string \<Rightarrow> ServiceError option" where
  "RemoveResources providers cluster syncSetName =
     (case provider_of providers cluster of
        Inl err \<Rightarrow> Some err
      | Inr p \<Rightarrow> (case p_RemoveResources p (buildClusterSpec cluster) syncSetName of
          Some err \<Rightarrow> Some (general_cause err ''failed to remove resources %s'' [FStr syncSetName])
        | None \<Rightarrow> None))"

(* src/internal/kafka/internal/services/clusters.go:704-714 clusterService.InstallStrimzi *)
definition InstallStrimzi :: "(string \<rightharpoonup> provider) \<Rightarrow> Cluster \<Rightarrow> bool \<times> ServiceError option" where
  "InstallStrimzi providers cluster =
     (case provider_of providers cluster of
        Inl err \<Rightarrow> (False, Some err)
      | Inr p \<Rightarrow> (case p_InstallStrimzi p (buildClusterSpec cluster) of
          (ready, Some err) \<Rightarrow> (ready, Some (general_cause err ''failed to install strimzi for cluster %s'' [FStr (c_ClusterID cluster)]))
        | (ready, None) \<Rightarrow> (ready, None)))"

(* src/internal/kafka/internal/services/clusters.go:716-726 clusterService.InstallClusterLogging *)
definition InstallClusterLogging :: "(string \<rightharpoonup> provider) \<Rightarrow> Cluster \<Rightarrow> (string \<times> string) list \<Rightarrow> bool \<times> ServiceError option" where
  "InstallClusterLogging providers cluster params =
     (case provider_of providers cluster of
        Inl err \<Rightarrow> (False, Some err)
      | Inr p \<Rightarrow> (case p_InstallClusterLogging p (buildClusterSpec cluster) params of
          (ready, Some err) \<Rightarrow> (ready, Some (general_cause err ''failed to install cluster-logging for cluster %s'' [FStr (c_ClusterID cluster)]))
        | (ready, None) \<Rightarrow> (ready, None)))"

section \<open>Strimzi versions\<close>

(* src/internal/kafka/internal/services/clusters.go:741-752 clusterService.CheckStrimziVersionReady *)
definition CheckStrimziVersionReady :: "Cluster \<Rightarrow> string \<Rightarrow> bool err" where
  "CheckStrimziVersionReady cluster strimziVersion =
     (case GetAvailableAndReadyStrimziVersions cluster of
        Inl err \<Rightarrow> Inl err
      | Inr readyStrimziVersions \<Rightarrow> Inr (list_ex (\<lambda>v. sv_Version v = strimziVersion) readyStrimziVersions))"

(* src/internal/kafka/internal/services/clusters.go:754-768 clusterService.IsStrimziKafkaVersionAvailableInCluster *)
definition IsStrimziKafkaVersionAvailableInCluster :: "Cluster \<Rightarrow> string \<Rightarrow> string \<Rightarrow> string \<Rightarrow> bool err" where
  "IsStrimziKafkaVersionAvailableInCluster cluster strimziVersion kafkaVersion ibpVersion =
     (case GetAvailableAndReadyStrimziVersions cluster of
        Inl err \<Rightarrow> Inl err
      | Inr readyStrimziVersions \<Rightarrow>
        (case List.find (\<lambda>v. sv_Version v = strimziVersion) readyStrimziVersions of
           None \<Rightarrow> Inr False
         | Some version \<Rightarrow>
             Inr (AnyMatch (sv_KafkaVersions version) (\<lambda>v. kv_Version v = kafkaVersion) \<and>
                  AnyMatch (sv_KafkaIBPVersions version) (\<lambda>v. ibp_Version v = ibpVersion))))"

section \<open>Streaming units\<close>

definition kafkaStatusesThatNoLongerConsumeResourcesInTheDataPlane :: "string list" where
  "kafkaStatusesThatNoLongerConsumeResourcesInTheDataPlane = [KafkaRequestStatusDeleting]"

(* src/internal/kafka/internal/services/clusters.go:461-464 ResKafkaInstanceCount *)
record ResKafkaInstanceCount =
  ic_ClusterID :: string
  ic_Count :: int

text \<open>\<open>add_to\<close> is \<^verbatim>\<open>m[k] += n\<close> on a Go map kept in some order of its keys.\<close>

fun add_to :: "(string \<times> int) list \<Rightarrow> string \<Rightarrow> int \<Rightarrow> (string \<times> int) list" where
  "add_to [] k n = [(k, n)]"
| "add_to ((k', m) # rest) k n = (if k' = k then (k', m + n) # rest else (k', m) # add_to rest k n)"

(* src/internal/kafka/internal/services/clusters.go:498-504 clusterService.FindKafkaInstanceCount *)
fun instance_count_loop :: "KafkaConfig \<Rightarrow> (string \<times> int) list \<Rightarrow> KafkaRequest list \<Rightarrow> (string \<times> int) list err" where
  "instance_count_loop kafkaConfig clusterIDCountMap [] = Inr clusterIDCountMap"
| "instance_count_loop kafkaConfig clusterIDCountMap (k # rest) =
     (case GetKafkaInstanceSize kafkaConfig (k_InstanceType k) (k_SizeId k) of
        Inl e \<Rightarrow> Inl e
      | Inr kafkaInstanceSize \<Rightarrow>
          instance_count_loop kafkaConfig (add_to clusterIDCountMap (k_ClusterID k) (sz_CapacityConsumed kafkaInstanceSize)) rest)"

(* src/internal/kafka/internal/services/clusters.go:477-521 clusterService.FindKafkaInstanceCount *)
definition FindKafkaInstanceCount :: "'s db \<Rightarrow> KafkaConfig \<Rightarrow> string list \<Rightarrow> 's \<Rightarrow> ResKafkaInstanceCount list err" where
  "FindKafkaInstanceCount db kafkaConfig clusterIDs s =
     (case t_scan (kafkaT db) (\<lambda>k. k_Status k \<notin> set kafkaStatusesThatNoLongerConsumeResourcesInTheDataPlane \<and>
             (length clusterIDs > 0 \<longrightarrow> k_ClusterID k \<in> set clusterIDs)) Unordered s of
        Inl err \<Rightarrow> Inl err
      | Inr kafkas \<Rightarrow>
        (case instance_count_loop kafkaConfig [] kafkas of
           Inl e \<Rightarrow> Inl e
         | Inr clusterIDCountMap \<Rightarrow>
             Inr (map (\<lambda>i. \<lparr>ic_ClusterID = i, ic_Count = 0\<rparr>) (filter (\<lambda>i. i \<notin> set (map fst clusterIDCountMap)) clusterIDs) @
                  map (\<lambda>(k, v). \<lparr>ic_ClusterID = k, ic_Count = v\<rparr>) clusterIDCountMap)))"

(* src/internal/kafka/internal/services/clusters.go:770-780 KafkaStreamingUnitCountPerCluster *)
record KafkaStreamingUnitCountPerCluster =
  su_Region :: string
  su_InstanceType :: string
  su_ID :: string
  su_ClusterId :: string
  su_Count :: int32
  su_CloudProvider :: string
  su_MaxUnits :: int32
  su_Status :: string
  su_ClusterType :: string

(* src/internal/kafka/internal/services/clusters.go:814-821 KafkaPerClusterCount *)
record KafkaPerClusterCount =
  pc_Region :: string
  pc_InstanceType :: string
  pc_ClusterId :: string
  pc_Count :: int32
  pc_CloudProvider :: string
  pc_SizeId :: string

(* src/internal/kafka/internal/services/clusters.go:782-795 KafkaStreamingUnitCountPerCluster.isSame *)
definition isSame :: "KafkaStreamingUnitCountPerCluster \<Rightarrow> KafkaPerClusterCount \<Rightarrow> bool" where
  "isSame k kafkaPerRegionFromDB =
     (if pc_ClusterId kafkaPerRegionFromDB = '''' then False
      else su_CloudProvider k = pc_CloudProvider kafkaPerRegionFromDB \<and> su_ClusterId k = pc_ClusterId kafkaPerRegionFromDB \<and>
           su_InstanceType k = pc_InstanceType kafkaPerRegionFromDB \<and> su_Region k = pc_Region kafkaPerRegionFromDB)"

(* src/internal/kafka/internal/services/clusters.go:797-799 KafkaStreamingUnitCountPerCluster.FreeStreamingUnits *)
definition FreeStreamingUnits :: "KafkaStreamingUnitCountPerCluster \<Rightarrow> int32" where
  "FreeStreamingUnits k = su_MaxUnits k - su_Count k"

(* src/internal/kafka/internal/services/clusters.go:803-811 KafkaStreamingUnitCountPerClusterList.GetStreamingUnitCountForClusterAndInstanceType *)
fun GetStreamingUnitCountForClusterAndInstanceType :: "KafkaStreamingUnitCountPerCluster list \<Rightarrow> string \<Rightarrow> string \<Rightarrow> int" where
  "GetStreamingUnitCountForClusterAndInstanceType [] clusterId instanceType = 0"
| "GetStreamingUnitCountForClusterAndInstanceType (k # ks) clusterId instanceType =
     (if su_ClusterId k = clusterId \<and> su_InstanceType k = instanceType then sint (su_Count k)
      else GetStreamingUnitCountForClusterAndInstanceType ks clusterId instanceType)"

text \<open>The entries of one cluster before counting, one per supported instance type.\<close>

(* src/internal/kafka/internal/services/clusters.go:849-879 clusterService.FindStreamingUnitCountByClusterAndInstanceType *)
definition empty_counts :: "Cluster \<Rightarrow> KafkaStreamingUnitCountPerCluster list" where
  "empty_counts clusterSelection =
     map (\<lambda>instanceType. \<lparr>su_Region = c_Region clusterSelection, su_InstanceType = instanceType, su_ID = c_ID clusterSelection,
            su_ClusterId = c_ClusterID clusterSelection, su_Count = 0, su_CloudProvider = c_CloudProvider clusterSelection,
            su_MaxUnits = (case map_of (RetrieveDynamicCapacityInfo (zero_Cluster\<lparr>c_DynamicCapacityInfo := c_DynamicCapacityInfo clusterSelection\<rparr>)) instanceType of
                             Some instanceCapacityInfo \<Rightarrow> MaxUnits instanceCapacityInfo | None \<Rightarrow> 0),
            su_Status = c_Status clusterSelection, su_ClusterType = c_ClusterType clusterSelection\<rparr>)
       (filter (\<lambda>t. t \<noteq> '''') (map TrimSpace (Split (c_SupportedInstanceType clusterSelection) CHR '','')))"

(* src/internal/kafka/internal/services/clusters.go:898-903 clusterService.FindStreamingUnitCountByClusterAndInstanceType *)
fun add_units :: "KafkaPerClusterCount \<Rightarrow> int32 \<Rightarrow> KafkaStreamingUnitCountPerCluster list \<Rightarrow> KafkaStreamingUnitCountPerCluster list" where
  "add_units g n [] = []"
| "add_units g n (e # es) = (if isSame e g then e\<lparr>su_Count := su_Count e + n\<rparr> # es else e # add_units g n es)"

(* src/internal/kafka/internal/services/clusters.go:891-904 clusterService.FindStreamingUnitCountByClusterAndInstanceType *)
fun streaming_unit_loop ::
  "KafkaConfig \<Rightarrow> KafkaPerClusterCount list \<Rightarrow> KafkaStreamingUnitCountPerCluster list \<Rightarrow> KafkaStreamingUnitCountPerCluster list err" where
  "streaming_unit_loop kafkaConfig [] es = Inr es"
| "streaming_unit_loop kafkaConfig (g # gs) es =
     (case GetKafkaInstanceSize kafkaConfig (pc_InstanceType g) (pc_SizeId g) of
        Inl err \<Rightarrow> Inl err
      | Inr instSize \<Rightarrow>
          streaming_unit_loop kafkaConfig gs (add_units g (word_of_int (sz_CapacityConsumed instSize) * pc_Count g) es))"

text \<open>The grouped query: the columns it groups by, and a row of its result.\<close>

definition kafka_group :: "KafkaRequest \<Rightarrow> string \<times> string \<times> string \<times> string \<times> string" where
  "kafka_group k = (k_SizeId k, k_ClusterID k, k_CloudProvider k, k_Region k, k_InstanceType k)"

definition per_cluster_count :: "(string \<times> string \<times> string \<times> string \<times> string) \<times> nat \<Rightarrow> KafkaPerClusterCount" where
  "per_cluster_count g = (case g of ((sizeId, cluster, prov, region, instanceType), n) \<Rightarrow>
     \<lparr>pc_Region = region, pc_InstanceType = instanceType, pc_ClusterId = cluster, pc_Count = of_nat n,
      pc_CloudProvider = prov, pc_SizeId = sizeId\<rparr>)"

(* src/internal/kafka/internal/services/clusters.go:834-907 clusterService.FindStreamingUnitCountByClusterAndInstanceType *)
definition FindStreamingUnitCountByClusterAndInstanceType ::
  "'s db \<Rightarrow> KafkaConfig \<Rightarrow> 's \<Rightarrow> KafkaStreamingUnitCountPerCluster list err" where
  "FindStreamingUnitCountByClusterAndInstanceType db kafkaConfig s =
     (case t_scan (clusterT db) (\<lambda>r. c_Status r \<noteq> ClusterFailed) Unordered s of
        Inl err \<Rightarrow> Inl (WithMessage err ''failed to list data plane clusters'')
      | Inr clusters \<Rightarrow>
        (let streamingUnitsCountPerCluster = concat (map empty_counts clusters) in
         case t_scan (kafkaT db) (\<lambda>k. k_Status k \<notin> set kafkaStatusesThatNoLongerConsumeResourcesInTheDataPlane) Unordered s of
           Inl err \<Rightarrow> Inl (WithMessage err ''failed to perform count query on kafkas table'')
         | Inr kafkas \<Rightarrow>
             streaming_unit_loop kafkaConfig (map per_cluster_count (group_count (map kafka_group kafkas))) streamingUnitsCountPerCluster))"

text \<open>Counts are 64 bit wide here.\<close>

(* src/internal/kafka/internal/services/clusters.go:932-947 clusterService.ComputeConsumedStreamingUnitCountPerInstanceType *)
fun consumed_loop :: "KafkaConfig \<Rightarrow> ((string \<times> string) \<times> nat) list \<Rightarrow> (string \<times> int) list \<Rightarrow> (string \<times> int) list err" where
  "consumed_loop kafkaConfig [] m = Inr m"
| "consumed_loop kafkaConfig (((sizeId, instanceType), count') # rest) m =
     (case GetKafkaInstanceSize kafkaConfig instanceType sizeId of
        Inl err \<Rightarrow> Inl err
      | Inr instSize \<Rightarrow> consumed_loop kafkaConfig rest (add_to m instanceType (sz_CapacityConsumed instSize * int count')))"

(* src/internal/kafka/internal/services/clusters.go:915-950 clusterService.ComputeConsumedStreamingUnitCountPerInstanceType *)
definition ComputeConsumedStreamingUnitCountPerInstanceType :: "'s db \<Rightarrow> KafkaConfig \<Rightarrow> string \<Rightarrow> 's \<Rightarrow> (string \<times> int) list err" where
  "ComputeConsumedStreamingUnitCountPerInstanceType db kafkaConfig clusterID s =
     (case t_scan (kafkaT db) (\<lambda>k. k_ClusterID k = clusterID \<and>
             k_Status k \<notin> set kafkaStatusesThatNoLongerConsumeResourcesInTheDataPlane) Unordered s of
        Inl err \<Rightarrow> Inl (ServiceErr (general_cause err ''failed to get count of sizes of a cluster'' []))
      | Inr kafkas \<Rightarrow>
          consumed_loop kafkaConfig (group_count (map (\<lambda>k. (k_SizeId k, k_InstanceType k)) kafkas)) [(DEVELOPER, 0), (STANDARD, 0)])"

section \<open>Accounting lemmas\<close>

text \<open>The capacity a Kafka consumes according to the configuration.\<close>

definition kafka_units :: "KafkaConfig \<Rightarrow> KafkaRequest \<Rightarrow> int" where
  "kafka_units kafkaConfig k =
     (case GetKafkaInstanceSize kafkaConfig (k_InstanceType k) (k_SizeId k) of Inr z \<Rightarrow> sz_CapacityConsumed z | Inl e \<Rightarrow> 0)"

definition consuming :: "KafkaRequest \<Rightarrow> bool" where
  "consuming k \<longleftrightarrow> k_Status k \<noteq> KafkaRequestStatusDeleting"

lemma consuming_iff [simp]: "k_Status k \<notin> set kafkaStatusesThatNoLongerConsumeResourcesInTheDataPlane \<longleftrightarrow> consuming k"
  by (simp add: consuming_def kafkaStatusesThatNoLongerConsumeResourcesInTheDataPlane_def)

lemma fst_add_to: "set (map fst (add_to m k n)) = insert k (set (map fst m))"
  by (induction m k n rule: add_to.induct) auto

lemma distinct_add_to: "distinct (map fst m) \<Longrightarrow> distinct (map fst (add_to m k n))"
  by (induction m k n rule: add_to.induct) (use fst_add_to in \<open>auto simp: image_iff\<close>)

lemma map_of_add_to:
  "map_of (add_to m k n) k' =
     (if k' = k then Some ((case map_of m k of Some v \<Rightarrow> v | None \<Rightarrow> 0) + n) else map_of m k')"
  by (induction m k n rule: add_to.induct) auto

lemma instance_count_loop_spec:
  assumes "instance_count_loop kafkaConfig m ks = Inr m'" "distinct (map fst m)"
  shows "distinct (map fst m') \<and> set (map fst m') = set (map fst m) \<union> k_ClusterID ` set ks \<and>
     (\<forall>i. (case map_of m' i of Some v \<Rightarrow> v | None \<Rightarrow> 0) = (case map_of m i of Some v \<Rightarrow> v | None \<Rightarrow> 0) +
        sum_list (map (kafka_units kafkaConfig) (filter (\<lambda>k. k_ClusterID k = i) ks)))"
  using assms
proof (induction ks arbitrary: m)
  case (Cons k ks)
  obtain z where z: "GetKafkaInstanceSize kafkaConfig (k_InstanceType k) (k_SizeId k) = Inr z"
    and l: "instance_count_loop kafkaConfig (add_to m (k_ClusterID k) (sz_CapacityConsumed z)) ks = Inr m'"
    using Cons.prems(1) by (auto split: sum.splits)
  have u: "kafka_units kafkaConfig k = sz_CapacityConsumed z" by (simp add: kafka_units_def z)
  note IH = Cons.IH[OF l distinct_add_to[OF Cons.prems(2)]]
  have "set (map fst m') = set (map fst m) \<union> k_ClusterID ` set (k # ks)" using IH fst_add_to by auto
  moreover have "(case map_of m' i of Some v \<Rightarrow> v | None \<Rightarrow> 0) = (case map_of m i of Some v \<Rightarrow> v | None \<Rightarrow> 0) +
      sum_list (map (kafka_units kafkaConfig) (filter (\<lambda>k. k_ClusterID k = i) (k # ks)))" for i
    using IH[THEN conjunct2, THEN conjunct2, THEN spec, of i] u by (simp add: map_of_add_to)
  ultimately show ?case using IH by blast
qed auto

subsection \<open>The accounting loop\<close>

text \<open>The key an entry and a group of Kafkas share.\<close>

definition su_key :: "KafkaStreamingUnitCountPerCluster \<Rightarrow> string \<times> string \<times> string \<times> string" where
  "su_key e = (su_CloudProvider e, su_ClusterId e, su_InstanceType e, su_Region e)"

definition pc_key :: "KafkaPerClusterCount \<Rightarrow> string \<times> string \<times> string \<times> string" where
  "pc_key g = (pc_CloudProvider g, pc_ClusterId g, pc_InstanceType g, pc_Region g)"

definition k_key :: "KafkaRequest \<Rightarrow> string \<times> string \<times> string \<times> string" where
  "k_key k = (k_CloudProvider k, k_ClusterID k, k_InstanceType k, k_Region k)"

definition pc_units :: "KafkaConfig \<Rightarrow> KafkaPerClusterCount \<Rightarrow> int32" where
  "pc_units kafkaConfig g =
     (case GetKafkaInstanceSize kafkaConfig (pc_InstanceType g) (pc_SizeId g) of
        Inr z \<Rightarrow> word_of_int (sz_CapacityConsumed z) * pc_Count g | Inl e \<Rightarrow> 0)"

lemma isSame_iff: "isSame e g \<longleftrightarrow> su_ClusterId e \<noteq> '''' \<and> su_key e = pc_key g"
  by (auto simp: isSame_def su_key_def pc_key_def)

text \<open>The reference: an entry receives the units of all groups with its key unless an earlier entry has the
  same key.\<close>

fun counted :: "KafkaConfig \<Rightarrow> KafkaPerClusterCount list \<Rightarrow> (string \<times> string \<times> string \<times> string) set \<Rightarrow>
    KafkaStreamingUnitCountPerCluster list \<Rightarrow> KafkaStreamingUnitCountPerCluster list" where
  "counted kc gs seen [] = []"
| "counted kc gs seen (e # es) =
     e\<lparr>su_Count := su_Count e + (if su_ClusterId e = '''' \<or> su_key e \<in> seen then 0
                                  else sum_list (map (pc_units kc) (filter (\<lambda>g. pc_key g = su_key e) gs)))\<rparr>
       # counted kc gs (insert (su_key e) seen) es"

lemma counted_Nil [simp]: "counted kc [] seen es = es"
  by (induction es arbitrary: seen) auto

lemma su_key_count [simp]: "su_key (e\<lparr>su_Count := n\<rparr>) = su_key e"
  by (simp add: su_key_def)

lemma counted_Cons:
  "counted kc (g # gs) seen es = counted kc gs seen (if pc_key g \<in> seen then es else add_units g (pc_units kc g) es)"
proof (induction es arbitrary: seen)
  case (Cons e es)
  have stuck: "pc_ClusterId g = '''' \<Longrightarrow> add_units g n es = es" for n es by (induction es) (auto simp: isSame_def)
  have cid: "su_key e = pc_key g \<Longrightarrow> su_ClusterId e = pc_ClusterId g" by (simp add: su_key_def pc_key_def)
  note IH = Cons.IH[of "insert (su_key e) seen"]
  show ?case
  proof (cases "su_key e = pc_key g")
    case True
    then show ?thesis using IH cid stuck by (auto simp: isSame_iff add.assoc)
  next
    case False
    then show ?thesis using IH by (auto simp: isSame_iff)
  qed
qed simp

lemma streaming_unit_loop_counted:
  "streaming_unit_loop kc gs es = Inr es' \<Longrightarrow> es' = counted kc gs {} es"
proof (induction gs arbitrary: es)
  case (Cons g gs)
  obtain z where z: "GetKafkaInstanceSize kc (pc_InstanceType g) (pc_SizeId g) = Inr z"
    and l: "streaming_unit_loop kc gs (add_units g (word_of_int (sz_CapacityConsumed z) * pc_Count g) es) = Inr es'"
    using Cons.prems by (auto split: sum.splits)
  have "pc_units kc g = word_of_int (sz_CapacityConsumed z) * pc_Count g" by (simp add: pc_units_def z)
  then show ?case using Cons.IH[OF l] by (simp add: counted_Cons)
qed simp

lemma counted_length [simp]: "length (counted kc gs seen es) = length es"
  by (induction es arbitrary: seen) auto

lemma counted_nth:
  "i < length es \<Longrightarrow> counted kc gs seen es ! i = (es ! i)\<lparr>su_Count := su_Count (es ! i) +
     (if su_ClusterId (es ! i) = '''' \<or> su_key (es ! i) \<in> seen \<or> (\<exists>j < i. su_key (es ! j) = su_key (es ! i)) then 0
      else sum_list (map (pc_units kc) (filter (\<lambda>g. pc_key g = su_key (es ! i)) gs)))\<rparr>"
proof (induction es arbitrary: i seen)
  case (Cons e es)
  show ?case
  proof (cases i)
    case (Suc j)
    have ex: "(\<exists>k < Suc j. su_key ((e # es) ! k) = x) \<longleftrightarrow> su_key e = x \<or> (\<exists>k < j. su_key (es ! k) = x)" for x
      by (auto simp: less_Suc_eq_0_disj)
    show ?thesis using Cons.IH[of j "insert (su_key e) seen"] Cons.prems Suc ex by auto
  qed simp
qed simp

text \<open>The units of the groups with a key are the units of the Kafkas with that key.\<close>

lemma group_units:
  "sum_list (map (pc_units kc) (filter (\<lambda>g. pc_key g = key) (map per_cluster_count (group_count (map kafka_group ks))))) =
   sum_list (map (\<lambda>k. word_of_int (kafka_units kc k)) (filter (\<lambda>k. k_key k = key) ks))"
proof -
  let ?f = "\<lambda>(z, c, p, r, t). if (p, c, t, r) = key then
      (case GetKafkaInstanceSize kc t z of Inr s \<Rightarrow> word_of_int (sz_CapacityConsumed s) | Inl e \<Rightarrow> 0) else (0 :: int32)"
  have filt: "sum_list (map h (filter P xs)) = sum_list (map (\<lambda>x. if P x then h x else 0) xs)"
    for h :: "'x \<Rightarrow> int32" and P xs by (induction xs) auto
  have "sum_list (map (pc_units kc) (filter (\<lambda>g. pc_key g = key) (map per_cluster_count (group_count (map kafka_group ks))))) =
        sum_list (map (\<lambda>(k, n). of_nat n * ?f k) (group_count (map kafka_group ks)))"
    unfolding filt map_map comp_def
    by (intro arg_cong[of _ _ sum_list] map_cong refl)
       (auto simp: per_cluster_count_def pc_key_def pc_units_def algebra_simps split: prod.splits sum.splits)
  also have "\<dots> = sum_list (map ?f (map kafka_group ks))" by (rule group_count_sum)
  also have "\<dots> = sum_list (map (\<lambda>k. word_of_int (kafka_units kc k)) (filter (\<lambda>k. k_key k = key) ks))"
    unfolding filt map_map comp_def
    by (intro arg_cong[of _ _ sum_list] map_cong refl)
       (auto simp: kafka_group_def k_key_def kafka_units_def split: sum.splits)
  finally show ?thesis .
qed

lemma instance_count_facts:
  assumes "store_lawful db clusters kafkas" "FindKafkaInstanceCount db kafkaConfig clusterIDs s = Inr res" "i \<in> set clusterIDs"
  obtains m where "distinct (map fst m)"
    "res = map (\<lambda>i. \<lparr>ic_ClusterID = i, ic_Count = 0\<rparr>) (filter (\<lambda>i. i \<notin> set (map fst m)) clusterIDs) @
           map (\<lambda>(k, v). \<lparr>ic_ClusterID = k, ic_Count = v\<rparr>) m"
    "(case map_of m i of Some v \<Rightarrow> v | None \<Rightarrow> 0) =
       sum_list (map (kafka_units kafkaConfig) (filter (\<lambda>k. consuming k \<and> k_ClusterID k = i) (kafkas s)))"
proof -
  let ?p = "\<lambda>k. consuming k \<and> (0 < length clusterIDs \<longrightarrow> k_ClusterID k \<in> set clusterIDs)"
  obtain ks m where ks: "t_scan (kafkaT db) ?p Unordered s = Inr ks" and m: "instance_count_loop kafkaConfig [] ks = Inr m"
    and res: "res = map (\<lambda>i. \<lparr>ic_ClusterID = i, ic_Count = 0\<rparr>) (filter (\<lambda>i. i \<notin> set (map fst m)) clusterIDs) @
                    map (\<lambda>(k, v). \<lparr>ic_ClusterID = k, ic_Count = v\<rparr>) m"
    using assms(2) by (auto simp: FindKafkaInstanceCount_def split: sum.splits)
  note spec = instance_count_loop_spec[OF m]
  have same: "(?p k \<and> k_ClusterID k = i) \<longleftrightarrow> consuming k \<and> k_ClusterID k = i" for k using assms(3) by auto
  have cnt: "(case map_of m i of Some v \<Rightarrow> v | None \<Rightarrow> 0) =
      sum_list (map (kafka_units kafkaConfig) (filter (\<lambda>k. consuming k \<and> k_ClusterID k = i) (kafkas s)))"
    using spec t_scan_sum[OF kafkaT_lawful[OF assms(1)] ks, of "kafka_units kafkaConfig" "\<lambda>k. k_ClusterID k = i"]
    unfolding same by simp
  show ?thesis using that[OF _ res cnt] spec by simp
qed

lemma instance_count_rows:
  assumes "store_lawful db clusters kafkas" "FindKafkaInstanceCount db kafkaConfig clusterIDs s = Inr res" "i \<in> set clusterIDs"
  shows "i \<in> ic_ClusterID ` set res"
    and "r \<in> set res \<Longrightarrow> ic_ClusterID r = i \<Longrightarrow>
      ic_Count r = sum_list (map (kafka_units kafkaConfig) (filter (\<lambda>k. consuming k \<and> k_ClusterID k = i) (kafkas s)))"
proof -
  obtain m where d: "distinct (map fst m)"
    and res: "res = map (\<lambda>i. \<lparr>ic_ClusterID = i, ic_Count = 0\<rparr>) (filter (\<lambda>i. i \<notin> set (map fst m)) clusterIDs) @
           map (\<lambda>(k, v). \<lparr>ic_ClusterID = k, ic_Count = v\<rparr>) m"
    and cnt: "(case map_of m i of Some v \<Rightarrow> v | None \<Rightarrow> 0) =
       sum_list (map (kafka_units kafkaConfig) (filter (\<lambda>k. consuming k \<and> k_ClusterID k = i) (kafkas s)))"
    using instance_count_facts[OF assms] by blast
  have none: "i \<notin> fst ` set m \<Longrightarrow> map_of m i = None" by (simp add: map_of_eq_None_iff)
  have some: "(i, v) \<in> set m \<Longrightarrow> map_of m i = Some v" for v using d by (rule map_of_is_SomeI)
  have "ic_ClusterID ` set res = {i \<in> set clusterIDs. i \<notin> fst ` set m} \<union> fst ` set m"
    unfolding res set_append set_map image_Un image_image set_filter by (simp add: case_prod_beta)
  then show "i \<in> ic_ClusterID ` set res" using assms(3) by blast
  assume "r \<in> set res" "ic_ClusterID r = i"
  then consider "i \<notin> fst ` set m" "ic_Count r = 0" | v where "(i, v) \<in> set m" "ic_Count r = v" by (auto simp: res)
  then show "ic_Count r = sum_list (map (kafka_units kafkaConfig) (filter (\<lambda>k. consuming k \<and> k_ClusterID k = i) (kafkas s)))"
    using cnt none some by cases auto
qed

text \<open>The list of entries: its counts, and the clusters it stems from.\<close>

lemma streaming_units_spec:
  assumes "store_lawful db clusters kafkas" "FindStreamingUnitCountByClusterAndInstanceType db kafkaConfig s = Inr es"
  shows "i < length es \<Longrightarrow> su_Count (es ! i) =
           (if su_ClusterId (es ! i) = '''' \<or> (\<exists>j < i. su_key (es ! j) = su_key (es ! i)) then 0
            else sum_list (map (\<lambda>k. word_of_int (kafka_units kafkaConfig k))
                   (filter (\<lambda>k. consuming k \<and> k_key k = su_key (es ! i)) (kafkas s))))"
    and "(\<lambda>e. e\<lparr>su_Count := 0\<rparr>) ` set es = (\<Union>c \<in> {c \<in> set (clusters s). c_Status c \<noteq> ClusterFailed}. set (empty_counts c))"
proof -
  obtain cs ks where cs: "t_scan (clusterT db) (\<lambda>r. c_Status r \<noteq> ClusterFailed) Unordered s = Inr cs"
    and ks: "t_scan (kafkaT db) consuming Unordered s = Inr ks"
    and l: "streaming_unit_loop kafkaConfig (map per_cluster_count (group_count (map kafka_group ks))) (concat (map empty_counts cs)) = Inr es"
    using assms(2) by (auto simp: FindStreamingUnitCountByClusterAndInstanceType_def Let_def split: sum.splits)
  let ?es = "concat (map empty_counts cs)"
  have es: "es = counted kafkaConfig (map per_cluster_count (group_count (map kafka_group ks))) {} ?es"
    using streaming_unit_loop_counted[OF l] .
  have nth: "j < length ?es \<Longrightarrow> su_key (es ! j) = su_key (?es ! j)" for j using es counted_nth by simp
  have zero: "su_Count e = 0" if "e \<in> set ?es" for e using that by (auto simp: empty_counts_def)
  have sum: "sum_list (map f (filter (\<lambda>k. k_key k = key) ks)) = sum_list (map f (filter (\<lambda>k. consuming k \<and> k_key k = key) (kafkas s)))"
    for key and f :: "KafkaRequest \<Rightarrow> int32"
    using t_scan_sum[OF kafkaT_lawful[OF assms(1)] ks] .
  show "su_Count (es ! i) =
           (if su_ClusterId (es ! i) = '''' \<or> (\<exists>j < i. su_key (es ! j) = su_key (es ! i)) then 0
            else sum_list (map (\<lambda>k. word_of_int (kafka_units kafkaConfig k))
                   (filter (\<lambda>k. consuming k \<and> k_key k = su_key (es ! i)) (kafkas s))))" if "i < length es"
  proof -
    have i: "i < length ?es" using that es by simp
    have clu: "su_ClusterId (es ! i) = su_ClusterId (?es ! i)" using es counted_nth[OF i] by simp
    show ?thesis
      using counted_nth[OF i, of kafkaConfig "map per_cluster_count (group_count (map kafka_group ks))" "{}"] zero[OF nth_mem[OF i]] es nth i clu
      by (auto simp: group_units sum)
  qed
  have "map (\<lambda>e. e\<lparr>su_Count := 0\<rparr>) es = ?es"
  proof (rule nth_equalityI)
    show "length (map (\<lambda>e. e\<lparr>su_Count := 0\<rparr>) es) = length ?es" using es by simp
    fix i assume "i < length (map (\<lambda>e. e\<lparr>su_Count := 0\<rparr>) es)"
    then have i: "i < length ?es" "i < length es" using es by simp_all
    then show "map (\<lambda>e. e\<lparr>su_Count := 0\<rparr>) es ! i = ?es ! i"
      using counted_nth[OF i(1)] es zero[OF nth_mem[OF i(1)]] by simp
  qed
  from arg_cong[OF this, of set]
  show "(\<lambda>e. e\<lparr>su_Count := 0\<rparr>) ` set es = (\<Union>c \<in> {c \<in> set (clusters s). c_Status c \<noteq> ClusterFailed}. set (empty_counts c))"
    unfolding set_map set_concat t_scan_set[OF clusterT_lawful[OF assms(1)] cs] by simp
qed

text \<open>What a status update by cluster identifier does to the tables.\<close>

lemma UpdateStatus_by_ClusterID:
  assumes "store_lawful db clusters kafkas" "UpdateStatus db (zero_Cluster\<lparr>c_ClusterID := i\<rparr>) status s = (r, s')"
  shows "kafkas s' = kafkas s"
    and "clusters s' = (if r = None then map (\<lambda>c. if c_ClusterID c = i then c\<lparr>c_Status := status\<rparr> else c) (clusters s) else clusters s)"
    and "r = None \<Longrightarrow> i \<noteq> ''''"
  using assms(2) t_update_rows[OF clusterT_lawful[OF assms(1)]] t_update_fail[OF clusterT_lawful[OF assms(1)]] clusterT_frame(1)[OF assms(1)]
  by (auto simp: UpdateStatus_def Let_def zero_Cluster_def split: if_splits prod.splits sum.splits)

section \<open>Properties\<close>

text \<open>A data plane with one ready cluster that serves both instance types and holds three Kafkas, one of
  them being deleted.\<close>

definition sample_cluster :: Cluster where
  "sample_cluster = zero_Cluster\<lparr>c_ID := ''id1'', c_ClusterID := ''c1'', c_CloudProvider := ''aws'', c_Region := ''us-east-1'', c_MultiAZ := True,
     c_Status := ClusterReady, c_SupportedInstanceType := ''standard,developer'', c_ClusterType := ManagedDataPlaneClusterType,
     c_DynamicCapacityInfo := JText [(STANDARD, \<lparr>MaxNodes = 3, MaxUnits = 5, RemainingUnits = 5\<rparr>)]\<rparr>"

definition sample_kafka :: "string \<Rightarrow> string \<Rightarrow> string \<Rightarrow> KafkaRequest" where
  "sample_kafka i z st = zero_Kafka\<lparr>k_ID := i, k_ClusterID := ''c1'', k_CloudProvider := ''aws'', k_Region := ''us-east-1'', k_MultiAZ := True,
     k_InstanceType := STANDARD, k_SizeId := z, k_Status := st\<rparr>"

definition sample_state :: "Cluster list \<times> KafkaRequest list" where
  "sample_state = ([sample_cluster], [sample_kafka ''k1'' ''x1'' KafkaRequestStatusReady, sample_kafka ''k2'' ''x2'' KafkaRequestStatusFailed,
     sample_kafka ''k3'' ''x2'' KafkaRequestStatusDeleting])"

lemma sample_sizes [simp]:
  "GetKafkaInstanceSize sample_config STANDARD ''x1'' = Inr (size_x ''x1'' 1)"
  "GetKafkaInstanceSize sample_config STANDARD ''x2'' = Inr (size_x ''x2'' 2)"
  by (simp_all add: GetKafkaInstanceSize_def GetKafkaInstanceTypeByID_def GetKafkaInstanceSizeByID_def sample_config_def sample_type_def size_x_def)

lemma sample_kafkas:
  "t_scan (kafkaT mem_db) (\<lambda>k. consuming k \<and> (0 < length ids \<longrightarrow> k_ClusterID k \<in> set ids)) Unordered sample_state =
     Inr (if ids = [] \<or> ''c1'' \<in> set ids
          then [sample_kafka ''k1'' ''x1'' KafkaRequestStatusReady, sample_kafka ''k2'' ''x2'' KafkaRequestStatusFailed] else [])"
  by (auto simp: mem_db_ops order_rows_def ordered_by_def sample_state_def sample_kafka_def consuming_def)

lemma sample_entries:
  "\<exists>es. FindStreamingUnitCountByClusterAndInstanceType mem_db sample_config sample_state = Inr es \<and> length es = 2 \<and>
     su_ClusterId (es ! 0) = ''c1'' \<and> su_key (es ! 0) = (''aws'', ''c1'', STANDARD, ''us-east-1'') \<and>
     GetStreamingUnitCountForClusterAndInstanceType es ''c1'' STANDARD = 3"
proof -
  have types: "filter (\<lambda>t. t \<noteq> '''') (map TrimSpace (Split ''standard,developer'' CHR '','')) = [''standard'', ''developer'']"
    by (simp add: TrimSpace_def is_space_def)
  have c: "t_scan (clusterT mem_db) (\<lambda>r. c_Status r \<noteq> ClusterFailed) Unordered sample_state = Inr [sample_cluster]"
    by (simp add: mem_db_ops order_rows_def sample_state_def sample_cluster_def)
  have k: "t_scan (kafkaT mem_db) consuming Unordered sample_state =
      Inr [sample_kafka ''k1'' ''x1'' KafkaRequestStatusReady, sample_kafka ''k2'' ''x2'' KafkaRequestStatusFailed]"
    using sample_kafkas[of "[]"] by simp
  show ?thesis
    using types
    by (simp add: FindStreamingUnitCountByClusterAndInstanceType_def c k empty_counts_def sample_cluster_def sample_kafka_def
        kafka_group_def per_cluster_count_def isSame_def su_key_def size_x_def STANDARD_def[symmetric])
qed

text \<open>C24. The accounting of streaming units gives every cluster and instance type the sum of the capacities of
  the Kafkas placed there that are not being deleted, as a 32 bit number; a repeated entry and a cluster
  without an identifier count zero.  Failed clusters have no entry.\<close>

theorem FindStreamingUnitCount_sums:
  assumes "store_lawful db clusters kafkas" "FindStreamingUnitCountByClusterAndInstanceType db kafkaConfig s = Inr es" "i < length es"
  shows "su_Count (es ! i) =
           (if su_ClusterId (es ! i) = '''' \<or> (\<exists>j < i. su_key (es ! j) = su_key (es ! i)) then 0
            else sum_list (map (\<lambda>k. word_of_int (kafka_units kafkaConfig k))
                   (filter (\<lambda>k. consuming k \<and> k_key k = su_key (es ! i)) (kafkas s)))) \<and>
         (\<exists>c \<in> set (clusters s). c_Status c \<noteq> ClusterFailed \<and> (es ! i)\<lparr>su_Count := 0\<rparr> \<in> set (empty_counts c))"
proof -
  note spec = streaming_units_spec[OF assms(1,2)]
  have "(es ! i)\<lparr>su_Count := 0\<rparr> \<in> (\<lambda>e. e\<lparr>su_Count := 0\<rparr>) ` set es" using nth_mem[OF assms(3)] by blast
  then show ?thesis using spec(1)[OF assms(3)] unfolding spec(2) by blast
qed

theorem FindStreamingUnitCount_sums_witness:
  "\<exists>es. FindStreamingUnitCountByClusterAndInstanceType mem_db sample_config sample_state = Inr es \<and>
     length es = 2 \<and> su_Count (es ! 0) = 3"
proof -
  obtain es where es: "FindStreamingUnitCountByClusterAndInstanceType mem_db sample_config sample_state = Inr es" "length es = 2"
    and e0: "su_ClusterId (es ! 0) = ''c1''" "su_key (es ! 0) = (''aws'', ''c1'', STANDARD, ''us-east-1'')"
    using sample_entries by blast
  have "su_Count (es ! 0) = 3"
    using FindStreamingUnitCount_sums[OF mem_db_lawful es(1), of 0] es(2) e0
    by (simp add: sample_state_def sample_kafka_def consuming_def k_key_def kafka_units_def size_x_def)
  then show ?thesis using es by blast
qed

text \<open>The Kafka count of a list of clusters has exactly one row for each of them, holding the sum of the
  capacities of its Kafkas that are not being deleted.\<close>

theorem FindKafkaInstanceCount_sums:
  assumes "store_lawful db clusters kafkas" "FindKafkaInstanceCount db kafkaConfig clusterIDs s = Inr res"
    and "distinct clusterIDs" "i \<in> set clusterIDs"
  shows "filter (\<lambda>r. ic_ClusterID r = i) res =
           [\<lparr>ic_ClusterID = i, ic_Count = sum_list (map (kafka_units kafkaConfig)
               (filter (\<lambda>k. consuming k \<and> k_ClusterID k = i) (kafkas s)))\<rparr>]"
proof -
  obtain m where d: "distinct (map fst m)"
    and res: "res = map (\<lambda>i. \<lparr>ic_ClusterID = i, ic_Count = 0\<rparr>) (filter (\<lambda>i. i \<notin> set (map fst m)) clusterIDs) @
           map (\<lambda>(k, v). \<lparr>ic_ClusterID = k, ic_Count = v\<rparr>) m"
    and cnt: "(case map_of m i of Some v \<Rightarrow> v | None \<Rightarrow> 0) =
       sum_list (map (kafka_units kafkaConfig) (filter (\<lambda>k. consuming k \<and> k_ClusterID k = i) (kafkas s)))"
    using instance_count_facts[OF assms(1,2,4)] by blast
  have one: "distinct xs \<Longrightarrow> x \<in> set xs \<Longrightarrow> filter ((=) x) xs = [x]" for x and xs :: "string list"
    by (induction xs) (auto simp: filter_empty_conv)
  have tail: "distinct (map fst m) \<Longrightarrow> filter (\<lambda>(k, v). k = i) m = (case map_of m i of None \<Rightarrow> [] | Some v \<Rightarrow> [(i, v)])" for m
    by (induction m) (auto simp: filter_empty_conv image_iff split: option.splits)
  have f1: "filter (\<lambda>r. ic_ClusterID r = i) (map (\<lambda>i. \<lparr>ic_ClusterID = i, ic_Count = 0\<rparr>) xs) = map (\<lambda>i. \<lparr>ic_ClusterID = i, ic_Count = 0\<rparr>) (filter ((=) i) xs)" for xs
    by (induction xs) auto
  have f2: "filter (\<lambda>r. ic_ClusterID r = i) (map (\<lambda>(k, v). \<lparr>ic_ClusterID = k, ic_Count = v\<rparr>) m) =
      map (\<lambda>(k, v). \<lparr>ic_ClusterID = k, ic_Count = v\<rparr>) (filter (\<lambda>(k, v). k = i) m)" for m
    by (induction m) auto
  show ?thesis
  proof (cases "map_of m i")
    case None
    then have "i \<notin> set (map fst m)" by (simp add: map_of_eq_None_iff)
    then have "filter ((=) i) (filter (\<lambda>i. i \<notin> set (map fst m)) clusterIDs) = [i]"
      using one[of "filter (\<lambda>i. i \<notin> set (map fst m)) clusterIDs" i] assms(3,4) by simp
    then show ?thesis using cnt None tail[OF d] by (simp only: res filter_append f1 f2) auto
  next
    case (Some v)
    then have "i \<in> set (map fst m)" by (metis domI dom_map_of_conv_image_fst set_map)
    then have "filter ((=) i) (filter (\<lambda>i. i \<notin> set (map fst m)) clusterIDs) = []" by (auto simp: filter_empty_conv)
    then show ?thesis using cnt Some tail[OF d] by (simp only: res filter_append f1 f2) auto
  qed
qed

theorem FindKafkaInstanceCount_sums_witness:
  "\<exists>res. FindKafkaInstanceCount mem_db sample_config [''c1'', ''c2''] sample_state = Inr res \<and>
     filter (\<lambda>r. ic_ClusterID r = ''c1'') res = [\<lparr>ic_ClusterID = ''c1'', ic_Count = 3\<rparr>]"
proof -
  obtain res where r: "FindKafkaInstanceCount mem_db sample_config [''c1'', ''c2''] sample_state = Inr res"
    using sample_kafkas[of "[''c1'', ''c2'']"] by (simp add: FindKafkaInstanceCount_def) (simp add: sample_kafka_def)
  then show ?thesis
    using FindKafkaInstanceCount_sums[OF mem_db_lawful r, of "''c1''"]
    by (simp add: sample_state_def sample_kafka_def consuming_def kafka_units_def size_x_def)
qed

text \<open>C27. Setting the status of several clusters changes the status of the named clusters and nothing else, and a
  cluster that is already being cleaned up never goes back to deprovisioning; when it reports an error
  no row has changed.\<close>

theorem UpdateMultiClusterStatus_effect:
  assumes "store_lawful db clusters kafkas" "UpdateMultiClusterStatus db clusterIDs status s = (r, s')"
  shows "kafkas s' = kafkas s \<and>
         clusters s' = (if r = None
           then map (\<lambda>c. if c_ClusterID c \<in> set clusterIDs \<and> \<not> (status = ClusterDeprovisioning \<and> c_Status c = ClusterCleanup)
                          then c\<lparr>c_Status := status\<rparr> else c) (clusters s)
           else clusters s) \<and>
         (r = None \<longrightarrow> status \<noteq> '''' \<and> clusterIDs \<noteq> [])"
proof -
  note law = t_update_laws[OF clusterT_lawful[OF assms(1)]] and frame = clusterT_frame(1)[OF assms(1)]
  show ?thesis
  proof (cases "status = '''' \<or> clusterIDs = []")
    case True
    then show ?thesis using assms(2) by (auto simp: UpdateMultiClusterStatus_def split: if_splits)
  next
    case False
    define q :: "Cluster \<Rightarrow> bool" where "q = (if status = ClusterDeprovisioning then (\<lambda>r. c_ClusterID r \<in> set clusterIDs \<and> c_Status r \<noteq> ClusterCleanup)
                         else (\<lambda>r. c_ClusterID r \<in> set clusterIDs))"
    obtain res where u: "t_update (clusterT db) q (\<lambda>r. r\<lparr>c_Status := status\<rparr>) s = (res, s')" and r: "r = None \<longleftrightarrow> \<not> isl res"
      using assms(2) False
      by (auto simp: UpdateMultiClusterStatus_def q_def[symmetric] Let_def split: prod.splits sum.splits)
    show ?thesis
    proof (cases res)
      case (Inl e)
      then have "r \<noteq> None" "clusters s' = clusters s" using law(3) u r by auto
      then show ?thesis using frame[OF u] by auto
    next
      case (Inr n)
      have "clusters s' = map (\<lambda>r. if q r then r\<lparr>c_Status := status\<rparr> else r) (clusters s)" using law(1) u Inr by blast
      also have "\<dots> = map (\<lambda>c. if c_ClusterID c \<in> set clusterIDs \<and> \<not> (status = ClusterDeprovisioning \<and> c_Status c = ClusterCleanup)
                          then c\<lparr>c_Status := status\<rparr> else c) (clusters s)"
        by (auto simp: q_def)
      finally show ?thesis using Inr r frame[OF u] False by simp
    qed
  qed
qed

theorem UpdateMultiClusterStatus_effect_witness:
  "fst (snd (UpdateMultiClusterStatus mem_db [''c1''] ClusterDeprovisioning
      ([sample_cluster\<lparr>c_Status := ClusterCleanup\<rparr>, sample_cluster\<lparr>c_ID := ''id2''\<rparr>], []))) =
   [sample_cluster\<lparr>c_Status := ClusterCleanup\<rparr>, sample_cluster\<lparr>c_ID := ''id2'', c_Status := ClusterDeprovisioning\<rparr>]"
proof -
  let ?s = "([sample_cluster\<lparr>c_Status := ClusterCleanup\<rparr>, sample_cluster\<lparr>c_ID := ''id2''\<rparr>], []) :: Cluster list \<times> KafkaRequest list"
  obtain s' where u: "UpdateMultiClusterStatus mem_db [''c1''] ClusterDeprovisioning ?s = (None, s')"
    by (simp add: UpdateMultiClusterStatus_def mem_db_ops ClusterDeprovisioning_def)
  then show ?thesis using UpdateMultiClusterStatus_effect[OF mem_db_lawful u] by (simp add: sample_cluster_def)
qed

text \<open>The count by status has, for every requested status, rows with the number of clusters in that status
  and with no other number.\<close>

theorem CountByStatus_counts:
  assumes "store_lawful db clusters kafkas" "CountByStatus db status s = Inr res" "st \<in> set status"
  shows "sc_Count ` {r \<in> set res. sc_Status r = st} = {length (filter (\<lambda>c. c_Status c = st) (clusters s))}"
proof -
  obtain rows where rows: "t_scan (clusterT db) (\<lambda>r. c_Status r \<in> set status) Unordered s = Inr rows"
    using assms(2) by (auto simp: CountByStatus_def split: sum.splits)
  let ?g = "group_count (map c_Status rows)"
  have res: "res = map (\<lambda>(st, n). \<lparr>sc_Status = st, sc_Count = n\<rparr>) ?g @
      map (\<lambda>st. \<lparr>sc_Status = st, sc_Count = 0\<rparr>) (filter (\<lambda>st. st \<notin> fst ` set ?g) status)"
    using assms(2,3) rows by (auto simp: CountByStatus_def Let_def image_comp comp_def case_prod_beta split: if_splits)
  have grp: "{n. (k, n) \<in> set (group_count ks)} = (if k \<in> set ks then {length (filter ((=) k) ks)} else {})" for k and ks :: "string list"
  proof (induction ks rule: group_count.induct)
    case (2 k' ks)
    have "k \<noteq> k' \<Longrightarrow> filter (\<lambda>x. k' \<noteq> x \<and> k = x) ks = filter ((=) k) ks" by (rule filter_cong) auto
    then show ?case using 2 by (cases "k = k'") auto
  qed simp
  have keys: "fst ` set ?g = set (map c_Status rows)" using group_count_keys[of "map c_Status rows"] by simp
  have len: "length (filter ((=) st) (map c_Status rows)) = length (filter (\<lambda>c. c_Status c = st) (clusters s))"
  proof -
    have "(c_Status c \<in> set status \<and> c_Status c = st) \<longleftrightarrow> c_Status c = st" for c :: Cluster using assms(3) by auto
    then have "mset (filter (\<lambda>c. c_Status c = st) rows) = mset (filter (\<lambda>c. c_Status c = st) (clusters s))"
      using t_scan_filter[OF clusterT_lawful[OF assms(1)] rows, of "\<lambda>c. c_Status c = st"] by (simp only:)
    then have "length (filter (\<lambda>c. c_Status c = st) rows) = length (filter (\<lambda>c. c_Status c = st) (clusters s))" by (metis size_mset)
    then show ?thesis by (simp add: filter_map comp_def eq_commute)
  qed
  have "sc_Count ` {r \<in> set res. sc_Status r = st} = {n. (st, n) \<in> set ?g} \<union> (if st \<in> fst ` set ?g then {} else {0})"
  proof -
    have A: "sc_Count ` {r \<in> (\<lambda>(k, n). \<lparr>sc_Status = k, sc_Count = n\<rparr>) ` G. sc_Status r = st} = {n. (st, n) \<in> G}" for G
      by (auto intro!: image_eqI[where f = sc_Count and x = "\<lparr>sc_Status = st, sc_Count = n\<rparr>" for n])
    have B: "sc_Count ` {r \<in> (\<lambda>k. \<lparr>sc_Status = k, sc_Count = 0\<rparr>) ` K. sc_Status r = st} = (if st \<in> K then {0} else {})" for K
      by (auto intro!: image_eqI[where f = sc_Count and x = "\<lparr>sc_Status = st, sc_Count = 0\<rparr>"])
    have "{r \<in> set res. sc_Status r = st} = {r \<in> (\<lambda>(k, n). \<lparr>sc_Status = k, sc_Count = n\<rparr>) ` set ?g. sc_Status r = st} \<union>
        {r \<in> (\<lambda>k. \<lparr>sc_Status = k, sc_Count = 0\<rparr>) ` {k \<in> set status. k \<notin> fst ` set ?g}. sc_Status r = st}"
      by (auto simp: res)
    then show ?thesis using assms(3) by (simp only: image_Un A B) auto
  qed
  also have "\<dots> = {length (filter ((=) st) (map c_Status rows))}"
    unfolding grp keys by (auto simp: filter_empty_conv)
  finally show ?thesis using len by simp
qed

theorem CountByStatus_counts_witness:
  "\<exists>res. CountByStatus mem_db [ClusterReady, ClusterFailed] sample_state = Inr res \<and>
     sc_Count ` {r \<in> set res. sc_Status r = ClusterReady} = {1}"
proof -
  obtain res where r: "CountByStatus mem_db [ClusterReady, ClusterFailed] sample_state = Inr res"
    by (simp add: CountByStatus_def mem_db_ops Let_def)
  then show ?thesis
    using CountByStatus_counts[OF mem_db_lawful r, of ClusterReady] by (simp add: sample_state_def sample_cluster_def)
qed

text \<open>The cluster found for given criteria is one that satisfies them, and among those the one with the least
  primary key; the creation time plays no role.  When none is found no cluster satisfies them.\<close>

theorem FindCluster_least_key:
  assumes "store_lawful db clusters kafkas" "FindCluster db criteria s = Inr res"
  shows "case res of
           None \<Rightarrow> \<forall>c \<in> set (clusters s). \<not> criteria_where criteria c
         | Some c \<Rightarrow> c \<in> set (clusters s) \<and> criteria_where criteria c \<and>
             (\<forall>c' \<in> set (clusters s). criteria_where criteria c' \<longrightarrow> \<not> str_less (c_ID c') (c_ID c))"
  using assms(2) t_first_laws[OF clusterT_lawful[OF assms(1)], of "criteria_where criteria" ByPrimaryKey s]
  by (auto simp: FindCluster_def ordered_by_def split: sum.splits if_splits)

theorem FindCluster_least_key_witness:
  "FindCluster mem_db \<lparr>fc_Provider = ''aws'', fc_Region = '''', fc_MultiAZ = False, fc_Status = '''', fc_SupportedInstanceType = '''', fc_ExternalID = ''''\<rparr>
     ([sample_cluster\<lparr>c_ID := ''id2'', c_CreatedAt := 1\<rparr>, sample_cluster\<lparr>c_CreatedAt := 2\<rparr>], []) =
   Inr (Some (sample_cluster\<lparr>c_CreatedAt := 2\<rparr>))"
proof -
  let ?s = "([sample_cluster\<lparr>c_ID := ''id2'', c_CreatedAt := 1\<rparr>, sample_cluster\<lparr>c_CreatedAt := 2\<rparr>], []) :: Cluster list \<times> KafkaRequest list"
  let ?q = "\<lparr>fc_Provider = ''aws'', fc_Region = '''', fc_MultiAZ = False, fc_Status = '''', fc_SupportedInstanceType = '''', fc_ExternalID = ''''\<rparr>"
  obtain c where r: "FindCluster mem_db ?q ?s = Inr (Some c)"
    by (simp add: FindCluster_def mem_first criteria_where_def sample_cluster_def order_rows_def ordered_by_def)
  then show ?thesis using FindCluster_least_key[OF mem_db_lawful r] by (auto simp: criteria_where_def sample_cluster_def)
qed

end
