(* ===== verification/Placement.thy ===== *)
theory Placement
  imports Cluster_Service
begin

text \<open>
  Placement of a Kafka on a data plane cluster, \<^verbatim>\<open>cluster_placement_strategy.go\<close> of the services: the strategy for
  enterprise Kafkas and the three strategies for the scaling modes.  The contract every strategy keeps is
  the locale \<open>placement\<close>: a cluster that is chosen is a ready cluster of the table.  It is interpreted on all
  strategies and on the one the configuration selects; the clients' lemmas are proved once from it.
\<close>

section \<open>Strategies\<close>

text \<open>\<^verbatim>\<open>%v\<close> of the criteria.\<close>

definition criteria_text :: "FindClusterCriteria \<Rightarrow> fmtarg" where
  "criteria_text c = FVal ''services.FindClusterCriteria''
     (''{'' @ Join [fc_Provider c, fc_Region c, (if fc_MultiAZ c then ''true'' else ''false''), fc_Status c, fc_SupportedInstanceType c, fc_ExternalID c] '' '' @ ''}'')"

definition ids_text :: "string list \<Rightarrow> fmtarg" where
  "ids_text ids = FVal ''[]string'' (''['' @ Join ids '' '' @ '']'')"

text \<open>\<^verbatim>\<open>errors.Wrapf\<close> returns nil for a nil error.\<close>

definition Wrapf :: "goerror option \<Rightarrow> string \<Rightarrow> fmtarg list \<Rightarrow> goerror option" where
  "Wrapf err f values = map_option (\<lambda>e. WithMessage e (Sprintf f values)) err"

text \<open>A result of a Go function that returns a cluster pointer and an error.\<close>

definition cluster_result :: "goerror option \<Rightarrow> Cluster option \<Rightarrow> Cluster option err" where
  "cluster_result err cluster = (case err of Some e \<Rightarrow> Inl e | None \<Rightarrow> Inr cluster)"

(* src/internal/kafka/internal/services/cluster_placement_strategy.go:47-84 findDataPlaneClusterByIdIfItHasCapacityAvailable.FindCluster *)
definition findDataPlaneClusterByIdIfItHasCapacityAvailable :: "KafkaConfig \<Rightarrow> 's db \<Rightarrow> KafkaRequest \<Rightarrow> 's \<Rightarrow> Cluster option err" where
  "findDataPlaneClusterByIdIfItHasCapacityAvailable kafkaConfig db kafka s =
     (case FindClusterByID db (k_ClusterID kafka) s of
        Inl err \<Rightarrow> Inl (ServiceErr (GeneralError ''failed to get cluster with id: %q'' [FStr (k_ClusterID kafka)]))
      | Inr None \<Rightarrow> Inl (ServiceErr (GeneralError ''failed to get cluster with id: %q'' [FStr (k_ClusterID kafka)]))
      | Inr (Some cluster) \<Rightarrow>
        if c_OrganizationID cluster \<noteq> k_OrganisationId kafka
        then Inl (ServiceErr (Unauthorized ''user with organization ID: '%s' is unauthorized to create kafka on a cluster belonging to different organization'' [FStr (k_OrganisationId kafka)]))
        else if c_Status cluster \<noteq> ClusterReady
        then Inl (ServiceErr (BadRequest ''cluster with id: %s is not ready to accept kafkas'' [FStr (k_ClusterID kafka)]))
        else case GetKafkaInstanceSize kafkaConfig (k_InstanceType kafka) (k_SizeId kafka) of
          Inl sizeErr \<Rightarrow> Inl sizeErr
        | Inr kafkaSizeConsumption \<Rightarrow>
          (case map_of (RetrieveDynamicCapacityInfo cluster) (k_InstanceType kafka) of
             None \<Rightarrow> Inl (ErrorString (Sprintf ''instance type %q not supported on selected cluster %q'' [FStr (k_InstanceType kafka), FStr (k_ClusterID kafka)]))
           | Some capacityInfo \<Rightarrow>
             (case ComputeConsumedStreamingUnitCountPerInstanceType db kafkaConfig (c_ClusterID cluster) s of
                Inl streamingUnitComputationErr \<Rightarrow> Inl streamingUnitComputationErr
              | Inr streamingUnitCounts \<Rightarrow>
                (let usedCapacity = (case map_of streamingUnitCounts (k_InstanceType kafka) of Some n \<Rightarrow> n | None \<Rightarrow> 0);
                     futureRemainingCapacity = sint (MaxUnits capacityInfo) - (usedCapacity + sz_CapacityConsumed kafkaSizeConsumption) in
                 if futureRemainingCapacity \<ge> 0 then Inr (Some cluster) else Inr None))))"

definition kafka_criteria :: "KafkaRequest \<Rightarrow> FindClusterCriteria" where
  "kafka_criteria kafka = \<lparr>fc_Provider = k_CloudProvider kafka, fc_Region = k_Region kafka, fc_MultiAZ = k_MultiAZ kafka,
     fc_Status = ClusterReady, fc_SupportedInstanceType = k_InstanceType kafka, fc_ExternalID = ''''\<rparr>"

(* src/internal/kafka/internal/services/cluster_placement_strategy.go:92-115 FirstReadyCluster.FindCluster *)
definition FirstReadyCluster :: "KafkaConfig \<Rightarrow> 's db \<Rightarrow> KafkaRequest \<Rightarrow> 's \<Rightarrow> Cluster option err" where
  "FirstReadyCluster kafkaConfig db kafka s =
     (if DesiredBillingModelIsEnterprise kafka then findDataPlaneClusterByIdIfItHasCapacityAvailable kafkaConfig db kafka s
      else let criteria = kafka_criteria kafka in
        case FindCluster db criteria s of
          Inl err \<Rightarrow> Inl (WithMessage err (Sprintf (''failed to find a cluster with criteria '%v'' @ [CHR 0x27]) [criteria_text criteria]))
        | Inr cluster \<Rightarrow> Inr cluster)"

(* src/internal/kafka/internal/services/cluster_placement_strategy.go:181-194 FirstSchedulableWithinLimit.findClusterIDsOfManagedClustersThatAreSchedulable *)
fun findClusterIDsOfManagedClustersThatAreSchedulable :: "ClusterConfig \<Rightarrow> Cluster list \<Rightarrow> string list" where
  "findClusterIDsOfManagedClustersThatAreSchedulable conf [] = []"
| "findClusterIDsOfManagedClustersThatAreSchedulable conf (cluster # rest) =
     (if c_ClusterType cluster \<noteq> ManagedDataPlaneClusterType then findClusterIDsOfManagedClustersThatAreSchedulable conf rest
      else if IsClusterSchedulable (c_ClusterID cluster) conf
      then c_ClusterID cluster # findClusterIDsOfManagedClustersThatAreSchedulable conf rest
      else findClusterIDsOfManagedClustersThatAreSchedulable conf rest)"

(* src/internal/kafka/internal/services/cluster_placement_strategy.go:196-202 searchForClusterFromClustersList *)
definition searchForClusterFromClustersList :: "Cluster list \<Rightarrow> string \<Rightarrow> Cluster option" where
  "searchForClusterFromClustersList clusters clusterID =
     snd (FindFirst clusters (\<lambda>cluster. c_ClusterID cluster = clusterID \<and> c_ClusterType cluster = ManagedDataPlaneClusterType))"

(* src/internal/kafka/internal/services/cluster_placement_strategy.go:205-216 FirstSchedulableWithinLimit.findConsumedStreamingUnitPerClusterID *)
definition findConsumedStreamingUnitPerClusterID :: "KafkaConfig \<Rightarrow> 's db \<Rightarrow> string list \<Rightarrow> 's \<Rightarrow> (string \<rightharpoonup> int) err" where
  "findConsumedStreamingUnitPerClusterID kafkaConfig db clusterIDs s =
     (case FindKafkaInstanceCount db kafkaConfig clusterIDs s of
        Inl err \<Rightarrow> Inl err
      | Inr instanceLst \<Rightarrow> Inr (foldl (\<lambda>m c. m(ic_ClusterID c \<mapsto> ic_Count c)) Map.empty instanceLst))"

text \<open>The loop over the schedulable clusters.\<close>

(* src/internal/kafka/internal/services/cluster_placement_strategy.go:167-177 FirstSchedulableWithinLimit.FindCluster *)
fun within_limit_loop :: "ClusterConfig \<Rightarrow> (string \<rightharpoonup> int) \<Rightarrow> KafkaInstanceSize \<Rightarrow> Cluster list \<Rightarrow> string list \<Rightarrow> Cluster option" where
  "within_limit_loop conf consumed kafkaInstanceSize clusters [] = None"
| "within_limit_loop conf consumed kafkaInstanceSize clusters (clusterID # rest) =
     (let currentStreamingUnitConsumption = (case consumed clusterID of Some n \<Rightarrow> n | None \<Rightarrow> 0);
          futureStreamingUnitConsumptionInTheCluster = currentStreamingUnitConsumption + sz_CapacityConsumed kafkaInstanceSize in
      if IsNumberOfStreamingUnitsWithinClusterLimit clusterID futureStreamingUnitConsumptionInTheCluster conf
      then searchForClusterFromClustersList clusters clusterID
      else within_limit_loop conf consumed kafkaInstanceSize clusters rest)"

text \<open>When the consumption cannot be read the code wraps the error of the preceding call, which is nil.\<close>

(* src/internal/kafka/internal/services/cluster_placement_strategy.go:125-178 FirstSchedulableWithinLimit.FindCluster *)
definition FirstSchedulableWithinLimit :: "DataplaneClusterConfig \<Rightarrow> KafkaConfig \<Rightarrow> 's db \<Rightarrow> KafkaRequest \<Rightarrow> 's \<Rightarrow> Cluster option err" where
  "FirstSchedulableWithinLimit dcc kafkaConfig db kafka s =
     (if DesiredBillingModelIsEnterprise kafka then findDataPlaneClusterByIdIfItHasCapacityAvailable kafkaConfig db kafka s
      else let criteria = kafka_criteria kafka in
        case GetKafkaInstanceSize kafkaConfig (k_InstanceType kafka) (k_SizeId kafka) of
          Inl e \<Rightarrow> Inl (WithMessage e (Sprintf (''failed to get kafka instance size for cluster with criteria '%v'' @ [CHR 0x27]) [criteria_text criteria]))
        | Inr kafkaInstanceSize \<Rightarrow>
          (case FindAllClusters db criteria s of
             Inl err \<Rightarrow> Inl (WithMessage err (Sprintf (''failed to find all clusters with criteria '%v'' @ [CHR 0x27]) [criteria_text criteria]))
           | Inr clusters \<Rightarrow>
             (let err = None; clusterIDs = findClusterIDsOfManagedClustersThatAreSchedulable (dc_ClusterConfig dcc) clusters in
              if length clusterIDs = 0 then Inr None
              else case findConsumedStreamingUnitPerClusterID kafkaConfig db clusterIDs s of
                Inl errf \<Rightarrow> cluster_result (Wrapf err (''failed to find cluster kafka instance count for clusters '%v'' @ [CHR 0x27]) [ids_text clusterIDs]) None
              | Inr consumedStreamingUnitPerClusterID \<Rightarrow>
                  Inr (within_limit_loop (dc_ClusterConfig dcc) consumedStreamingUnitPerClusterID kafkaInstanceSize clusters clusterIDs))))"

(* src/internal/kafka/internal/services/cluster_placement_strategy.go:271-278 FirstReadyWithCapacity.isManagedClusterNotFull *)
definition isManagedClusterNotFull :: "Cluster \<Rightarrow> KafkaStreamingUnitCountPerCluster list \<Rightarrow> KafkaRequest \<Rightarrow> KafkaInstanceSize \<Rightarrow> bool" where
  "isManagedClusterNotFull cluster streamingUnitCountPerRegionList kafka instanceSize =
     (let currentStreamingUnitsUsed = GetStreamingUnitCountForClusterAndInstanceType streamingUnitCountPerRegionList (c_ClusterID cluster) (k_InstanceType kafka);
          maxStreamingUnits = (case map_of (RetrieveDynamicCapacityInfo cluster) (k_InstanceType kafka) of Some i \<Rightarrow> MaxUnits i | None \<Rightarrow> 0) in
      currentStreamingUnitsUsed + sz_CapacityConsumed instanceSize \<le> sint maxStreamingUnits)"

(* src/internal/kafka/internal/services/cluster_placement_strategy.go:224-269 FirstReadyWithCapacity.FindCluster *)
definition FirstReadyWithCapacity :: "KafkaConfig \<Rightarrow> 's db \<Rightarrow> KafkaRequest \<Rightarrow> 's \<Rightarrow> Cluster option err" where
  "FirstReadyWithCapacity kafkaConfig db kafka s =
     (if DesiredBillingModelIsEnterprise kafka then findDataPlaneClusterByIdIfItHasCapacityAvailable kafkaConfig db kafka s
      else let criteria = kafka_criteria kafka;
               wrap = (\<lambda>err f. cluster_result (Wrapf err f [criteria_text criteria]) None) in
        case FindAllClusters db criteria s of
          Inl findAllClusterErr \<Rightarrow> wrap (Some findAllClusterErr) (''failed to find all clusters with criteria '%v'' @ [CHR 0x27])
        | Inr [] \<Rightarrow> wrap None (''failed to find all clusters with criteria '%v'' @ [CHR 0x27])
        | Inr (c # cs) \<Rightarrow>
          (case FindStreamingUnitCountByClusterAndInstanceType db kafkaConfig s of
             Inl e \<Rightarrow> wrap (Some e) (''failed to get count of streaming units by cluster and instance type for criteria '%v'' @ [CHR 0x27])
           | Inr streamingUnitCountPerRegionList \<Rightarrow>
             (case GetKafkaInstanceSize kafkaConfig (k_InstanceType kafka) (k_SizeId kafka) of
                Inl e \<Rightarrow> wrap (Some e) (''failed to get kafka instance size for cluster with criteria '%v'' @ [CHR 0x27])
              | Inr instanceSize \<Rightarrow>
                  Inr (List.find (\<lambda>cluster. c_ClusterType cluster = ManagedDataPlaneClusterType \<and>
                         isManagedClusterNotFull cluster streamingUnitCountPerRegionList kafka instanceSize) (c # cs)))))"

(* src/internal/kafka/internal/services/cluster_placement_strategy.go:20-31 NewClusterPlacementStrategy *)
definition NewClusterPlacementStrategy :: "DataplaneClusterConfig \<Rightarrow> KafkaConfig \<Rightarrow> 's db \<Rightarrow> KafkaRequest \<Rightarrow> 's \<Rightarrow> Cluster option err" where
  "NewClusterPlacementStrategy dcc kafkaConfig =
     (if IsDataPlaneManualScalingEnabled dcc then FirstSchedulableWithinLimit dcc kafkaConfig
      else if IsDataPlaneAutoScalingEnabled dcc then FirstReadyWithCapacity kafkaConfig
      else FirstReadyCluster kafkaConfig)"

section \<open>The contract\<close>

locale placement =
  fixes find_cluster :: "'s db \<Rightarrow> KafkaRequest \<Rightarrow> 's \<Rightarrow> Cluster option err"
  assumes found_ready: "store_lawful db clusters kafkas \<Longrightarrow> find_cluster db k s = Inr (Some c) \<Longrightarrow>
      c \<in> set (clusters s) \<and> c_Status c = ClusterReady"
    and found_own: "store_lawful db clusters kafkas \<Longrightarrow> find_cluster db k s = Inr (Some c) \<Longrightarrow> DesiredBillingModelIsEnterprise k \<Longrightarrow>
      c_ClusterID c = k_ClusterID k \<and> c_OrganizationID c = k_OrganisationId k"
    and found_criteria: "store_lawful db clusters kafkas \<Longrightarrow> find_cluster db k s = Inr (Some c) \<Longrightarrow> \<not> DesiredBillingModelIsEnterprise k \<Longrightarrow>
      criteria_where (kafka_criteria k) c"
begin

lemma found_location:
  assumes "store_lawful db clusters kafkas" "find_cluster db k s = Inr (Some c)" "\<not> DesiredBillingModelIsEnterprise k"
  shows "(k_CloudProvider k \<noteq> '''' \<longrightarrow> c_CloudProvider c = k_CloudProvider k) \<and> (k_Region k \<noteq> '''' \<longrightarrow> c_Region c = k_Region k) \<and>
    (k_MultiAZ k \<longrightarrow> c_MultiAZ c)"
  using found_criteria[OF assms] by (simp add: criteria_where_def kafka_criteria_def)

lemma found_serves:
  assumes "store_lawful db clusters kafkas" "find_cluster db k s = Inr (Some c)" "\<not> DesiredBillingModelIsEnterprise k"
    and "like_plain (k_InstanceType k)"
  shows "Contains_str (c_SupportedInstanceType c) (k_InstanceType k)"
proof (cases "k_InstanceType k = ''''")
  case True
  then show ?thesis by (cases "c_SupportedInstanceType c") simp_all
next
  case False
  have "Sprintf ''%%%s%%'' [FStr x] = CHR ''%'' # x @ ''%''" for x
    by (simp add: Sprintf_def fmt_arg_def verb_ok_def)
  then show ?thesis
    using found_criteria[OF assms(1,2,3)] False sql_like_contains[OF assms(4)] by (simp add: criteria_where_def kafka_criteria_def)
qed

end

section \<open>Lemmas\<close>

lemma FindAllClusters_rows:
  assumes "store_lawful db clusters kafkas" "FindAllClusters db criteria s = Inr cs"
  shows "set cs \<subseteq> {c \<in> set (clusters s). criteria_where criteria c}"
    and "cs \<noteq> [] \<Longrightarrow> set cs = {c \<in> set (clusters s). criteria_where criteria c}"
    and "sorted_wrt (\<lambda>x y. c_CreatedAt x \<le> c_CreatedAt y) cs"
proof -
  have o: "ordered_by c_ID c_CreatedAt ByCreatedAt = (\<lambda>x y. c_CreatedAt x \<le> c_CreatedAt y)"
    by (simp add: fun_eq_iff ordered_by_def)
  consider "cs = []" | "t_scan (clusterT db) (criteria_where criteria) ByCreatedAt s = Inr cs"
    using assms(2) by (auto simp: FindAllClusters_def split: sum.splits if_splits)
  then have "(cs = [] \<or> set cs = {c \<in> set (clusters s). criteria_where criteria c}) \<and> sorted_wrt (\<lambda>x y. c_CreatedAt x \<le> c_CreatedAt y) cs"
    using t_scan_set[OF clusterT_lawful[OF assms(1)]] t_scan_sorted[OF clusterT_lawful[OF assms(1)]] by cases (simp, fastforce simp: o)
  then show "set cs \<subseteq> {c \<in> set (clusters s). criteria_where criteria c}"
    and "cs \<noteq> [] \<Longrightarrow> set cs = {c \<in> set (clusters s). criteria_where criteria c}"
    and "sorted_wrt (\<lambda>x y. c_CreatedAt x \<le> c_CreatedAt y) cs"
    by auto
qed

lemma schedulable_ids_eq:
  "findClusterIDsOfManagedClustersThatAreSchedulable conf cs =
     map c_ClusterID (filter (\<lambda>c. c_ClusterType c = ManagedDataPlaneClusterType \<and> IsClusterSchedulable (c_ClusterID c) conf) cs)"
  by (induction cs) auto

definition fits_limit :: "ClusterConfig \<Rightarrow> (string \<rightharpoonup> int) \<Rightarrow> KafkaInstanceSize \<Rightarrow> string \<Rightarrow> bool" where
  "fits_limit conf consumed z i \<longleftrightarrow>
     IsNumberOfStreamingUnitsWithinClusterLimit i ((case consumed i of Some n \<Rightarrow> n | None \<Rightarrow> 0) + sz_CapacityConsumed z) conf"

lemma within_limit_loop_find:
  "within_limit_loop conf consumed z cs ids = (case List.find (fits_limit conf consumed z) ids of
      None \<Rightarrow> None | Some i \<Rightarrow> searchForClusterFromClustersList cs i)"
  by (induction ids) (auto simp: fits_limit_def Let_def)

lemma find_by_id:
  assumes "\<And>c c'. f c = f c' \<Longrightarrow> m c \<Longrightarrow> m c' \<Longrightarrow> P c = P c'" "\<And>c. P c \<Longrightarrow> m c"
  shows "(case List.find Q (map f (filter P cs)) of None \<Rightarrow> None | Some i \<Rightarrow> List.find (\<lambda>c. f c = i \<and> m c) cs) =
         List.find (\<lambda>c. P c \<and> Q (f c)) cs"
proof (induction cs)
  case (Cons c cs)
  show ?case
  proof (cases "P c \<and> Q (f c)")
    case True
    then show ?thesis using assms(2) by simp
  next
    case False
    have "List.find (\<lambda>c'. f c' = i \<and> m c') (c # cs) = List.find (\<lambda>c'. f c' = i \<and> m c') cs"
      if first: "List.find Q (map f (filter P cs)) = Some i" for i
    proof -
      obtain c' where "c' \<in> set cs" "P c'" "f c' = i" "Q i" using find_in_set[OF first] by auto
      then have "\<not> (f c = i \<and> m c)" using False assms by blast
      then show ?thesis by auto
    qed
    then show ?thesis using Cons.IH False by (auto split: option.splits)
  qed
qed simp

lemma within_limit_loop_first:
  "within_limit_loop conf consumed z cs (findClusterIDsOfManagedClustersThatAreSchedulable conf cs) =
     List.find (\<lambda>c. (c_ClusterType c = ManagedDataPlaneClusterType \<and> IsClusterSchedulable (c_ClusterID c) conf) \<and>
        fits_limit conf consumed z (c_ClusterID c)) cs"
  unfolding within_limit_loop_find schedulable_ids_eq searchForClusterFromClustersList_def FindFirst_snd
  by (rule find_by_id) auto

lemma foldl_upd_in:
  "i \<in> f ` set rs \<Longrightarrow> \<exists>r \<in> set rs. f r = i \<and> foldl (\<lambda>m c. m(f c \<mapsto> g c)) m rs i = Some (g r)"
proof (induction rs arbitrary: m)
  case (Cons r rs)
  show ?case
  proof (cases "i \<in> f ` set rs")
    case True
    then show ?thesis using Cons.IH[OF True, of "m(f r \<mapsto> g r)"] by auto
  next
    case False
    have "foldl (\<lambda>m c. m(f c \<mapsto> g c)) m' rs i = m' i" for m' using False by (induction rs arbitrary: m') auto
    moreover have "i = f r" using False Cons.prems by auto
    ultimately show ?thesis by (intro bexI[of _ r]) (simp_all del: fun_upd_apply, simp)
  qed
qed simp

lemma consumed_sums:
  assumes "store_lawful db clusters kafkas" "findConsumedStreamingUnitPerClusterID kafkaConfig db ids s = Inr m" "i \<in> set ids"
  shows "m i = Some (sum_list (map (kafka_units kafkaConfig) (filter (\<lambda>k. consuming k \<and> k_ClusterID k = i) (kafkas s))))"
proof -
  obtain res where res: "FindKafkaInstanceCount db kafkaConfig ids s = Inr res"
    and m: "m = foldl (\<lambda>m c. m(ic_ClusterID c \<mapsto> ic_Count c)) Map.empty res"
    using assms(2) by (auto simp: findConsumedStreamingUnitPerClusterID_def split: sum.splits)
  note rows = instance_count_rows[OF assms(1) res assms(3)]
  show ?thesis using foldl_upd_in[of i ic_ClusterID res ic_Count Map.empty] rows m by auto
qed

lemma enterprise_found:
  assumes "store_lawful db clusters kafkas" "findDataPlaneClusterByIdIfItHasCapacityAvailable kafkaConfig db k s = Inr (Some c)"
  shows "c \<in> set (clusters s) \<and> c_Status c = ClusterReady \<and> c_ClusterID c = k_ClusterID k \<and> c_OrganizationID c = k_OrganisationId k"
proof -
  have "FindClusterByID db (k_ClusterID k) s = Inr (Some c) \<and> c_Status c = ClusterReady \<and> c_OrganizationID c = k_OrganisationId k"
    using assms(2) by (auto simp: findDataPlaneClusterByIdIfItHasCapacityAvailable_def Let_def split: sum.splits option.splits if_splits)
  then show ?thesis
    using t_first_row[OF clusterT_lawful[OF assms(1)]] by (auto simp: FindClusterByID_def split: sum.splits if_splits)
qed

lemma FirstSchedulableWithinLimit_Some:
  assumes "FirstSchedulableWithinLimit dcc kafkaConfig db k s = Inr (Some c)" "\<not> DesiredBillingModelIsEnterprise k"
  obtains z cs consumed where "GetKafkaInstanceSize kafkaConfig (k_InstanceType k) (k_SizeId k) = Inr z"
    "FindAllClusters db (kafka_criteria k) s = Inr cs"
    "findConsumedStreamingUnitPerClusterID kafkaConfig db (findClusterIDsOfManagedClustersThatAreSchedulable (dc_ClusterConfig dcc) cs) s = Inr consumed"
    "List.find (\<lambda>c. (c_ClusterType c = ManagedDataPlaneClusterType \<and> IsClusterSchedulable (c_ClusterID c) (dc_ClusterConfig dcc)) \<and>
        fits_limit (dc_ClusterConfig dcc) consumed z (c_ClusterID c)) cs = Some c"
  using assms
  by (auto simp: FirstSchedulableWithinLimit_def Let_def cluster_result_def Wrapf_def within_limit_loop_first split: sum.splits if_splits)

lemma FirstReadyWithCapacity_Some:
  assumes "FirstReadyWithCapacity kafkaConfig db k s = Inr (Some c)" "\<not> DesiredBillingModelIsEnterprise k"
  obtains z cs es where "GetKafkaInstanceSize kafkaConfig (k_InstanceType k) (k_SizeId k) = Inr z"
    "FindAllClusters db (kafka_criteria k) s = Inr cs"
    "FindStreamingUnitCountByClusterAndInstanceType db kafkaConfig s = Inr es"
    "List.find (\<lambda>c. c_ClusterType c = ManagedDataPlaneClusterType \<and> isManagedClusterNotFull c es k z) cs = Some c"
  using assms
  by (auto simp: FirstReadyWithCapacity_def Let_def cluster_result_def Wrapf_def split: sum.splits list.splits)

lemma earliest_found:
  assumes "store_lawful db clusters kafkas" "FindAllClusters db criteria s = Inr cs" "List.find P cs = Some c"
  shows "P c \<and> (\<forall>c' \<in> set (clusters s). criteria_where criteria c' \<and> P c' \<longrightarrow> c_CreatedAt c \<le> c_CreatedAt c')"
proof -
  obtain pre post where split: "cs = pre @ c # post" "P c" "\<forall>y \<in> set pre. \<not> P y"
    using assms(3) by (auto simp: find_Some_split)
  have "set cs = {c \<in> set (clusters s). criteria_where criteria c}"
    using FindAllClusters_rows(2)[OF assms(1,2)] split(1) by simp
  moreover have "\<forall>y \<in> set post. c_CreatedAt c \<le> c_CreatedAt y"
    using FindAllClusters_rows(3)[OF assms(1,2)] split(1) by (simp add: sorted_wrt_append)
  ultimately show ?thesis using split by auto
qed

lemma criteria_ready: "criteria_where (kafka_criteria k) c \<Longrightarrow> c_Status c = ClusterReady"
  by (simp add: criteria_where_def kafka_criteria_def ClusterReady_def)

section \<open>The strategies keep the contract\<close>

lemma placementI:
  assumes ent: "\<And>db k s. DesiredBillingModelIsEnterprise k \<Longrightarrow> f db k s = findDataPlaneClusterByIdIfItHasCapacityAvailable kc db k s"
    and std: "\<And>db clusters kafkas k s c. store_lawful db clusters kafkas \<Longrightarrow> \<not> DesiredBillingModelIsEnterprise k \<Longrightarrow>
        f db k s = Inr (Some c) \<Longrightarrow> c \<in> set (clusters s) \<and> criteria_where (kafka_criteria k) c"
  shows "placement f"
proof
  fix db clusters kafkas k s c
  assume law: "store_lawful db clusters kafkas" and f: "f db k s = Inr (Some c)"
  show "c \<in> set (clusters s) \<and> c_Status c = ClusterReady"
  proof (cases "DesiredBillingModelIsEnterprise k")
    case True
    then show ?thesis using ent[OF True] enterprise_found[OF law] f by simp
  next
    case False
    then show ?thesis using std[OF law False f] criteria_ready by blast
  qed
  show "c_ClusterID c = k_ClusterID k \<and> c_OrganizationID c = k_OrganisationId k" if "DesiredBillingModelIsEnterprise k"
    using ent[OF that] enterprise_found[OF law] f by simp
  show "criteria_where (kafka_criteria k) c" if "\<not> DesiredBillingModelIsEnterprise k"
    using std[OF law that f] by blast
qed

interpretation first_ready: placement "FirstReadyCluster kafkaConfig" for kafkaConfig
proof (rule placementI)
  fix db clusters kafkas k s c
  assume law: "store_lawful db clusters kafkas" and e: "\<not> DesiredBillingModelIsEnterprise k"
    and f: "FirstReadyCluster kafkaConfig db k s = Inr (Some c)"
  then have "FindCluster db (kafka_criteria k) s = Inr (Some c)" by (auto simp: FirstReadyCluster_def Let_def split: sum.splits)
  then show "c \<in> set (clusters s) \<and> criteria_where (kafka_criteria k) c"
    using t_first_row[OF clusterT_lawful[OF law]] by (auto simp: FindCluster_def split: sum.splits if_splits)
qed (simp add: FirstReadyCluster_def)

interpretation first_schedulable: placement "FirstSchedulableWithinLimit dcc kafkaConfig" for dcc kafkaConfig
proof (rule placementI)
  fix db clusters kafkas k s c
  assume law: "store_lawful db clusters kafkas" and e: "\<not> DesiredBillingModelIsEnterprise k"
    and f: "FirstSchedulableWithinLimit dcc kafkaConfig db k s = Inr (Some c)"
  obtain cs P where "FindAllClusters db (kafka_criteria k) s = Inr cs" "List.find P cs = Some c"
    by (rule FirstSchedulableWithinLimit_Some[OF f e])
  then show "c \<in> set (clusters s) \<and> criteria_where (kafka_criteria k) c"
    using FindAllClusters_rows(1)[OF law, of "kafka_criteria k" s cs] find_in_set[of P cs c] by blast
qed (simp add: FirstSchedulableWithinLimit_def)

interpretation first_with_capacity: placement "FirstReadyWithCapacity kafkaConfig" for kafkaConfig
proof (rule placementI)
  fix db clusters kafkas k s c
  assume law: "store_lawful db clusters kafkas" and e: "\<not> DesiredBillingModelIsEnterprise k"
    and f: "FirstReadyWithCapacity kafkaConfig db k s = Inr (Some c)"
  obtain cs P where "FindAllClusters db (kafka_criteria k) s = Inr cs" "List.find P cs = Some c"
    by (rule FirstReadyWithCapacity_Some[OF f e])
  then show "c \<in> set (clusters s) \<and> criteria_where (kafka_criteria k) c"
    using FindAllClusters_rows(1)[OF law, of "kafka_criteria k" s cs] find_in_set[of P cs c] by blast
qed (simp add: FirstReadyWithCapacity_def)

interpretation chosen: placement "NewClusterPlacementStrategy dcc kafkaConfig" for dcc kafkaConfig
  unfolding NewClusterPlacementStrategy_def
  by (simp add: first_ready.placement_axioms first_schedulable.placement_axioms first_with_capacity.placement_axioms)

section \<open>Properties\<close>

text \<open>A further Kafka of the second size for the sample data plane.\<close>

definition new_kafka :: KafkaRequest where
  "new_kafka = (sample_kafka ''k9'' ''x2'' KafkaRequestStatusAccepted)\<lparr>k_ClusterID := ''''\<rparr>"

lemma new_kafka_fields [simp]:
  "k_InstanceType new_kafka = STANDARD" "k_SizeId new_kafka = ''x2''" "k_CloudProvider new_kafka = ''aws''"
  "k_Region new_kafka = ''us-east-1''" "k_MultiAZ new_kafka"
  by (simp_all add: new_kafka_def sample_kafka_def)

lemma new_kafka_standard: "\<not> DesiredBillingModelIsEnterprise new_kafka"
  by (simp add: DesiredBillingModelIsEnterprise_def new_kafka_def sample_kafka_def zero_Kafka_def StringEqualsIgnoreCase_def
      EqualFold_def BillingModelEnterprise_def ToLower_def)

lemma standard_plain: "like_plain STANDARD"
  by (simp add: like_plain_def STANDARD_def)

lemma sample_matches: "criteria_where (kafka_criteria new_kafka) sample_cluster"
proof -
  have "Sprintf ''%%%s%%'' [FStr STANDARD] = CHR ''%'' # STANDARD @ ''%''"
    by (simp add: Sprintf_def fmt_arg_def verb_ok_def)
  moreover have "Contains_str (c_SupportedInstanceType sample_cluster) STANDARD"
    by (simp add: STANDARD_def HasPrefix_def sample_cluster_def)
  ultimately have "sql_like (Sprintf ''%%%s%%'' [FStr STANDARD]) (c_SupportedInstanceType sample_cluster)"
    using sql_like_contains[OF standard_plain] by (simp only:)
  then show ?thesis
    by (simp add: criteria_where_def kafka_criteria_def del: sql_like.simps) (simp add: sample_cluster_def)
qed

lemma sample_found: "FindAllClusters mem_db (kafka_criteria new_kafka) sample_state = Inr [sample_cluster]"
  using sample_matches by (simp add: FindAllClusters_def mem_db_ops order_rows_def sample_state_def)

lemma sample_scheduled: "FirstSchedulableWithinLimit sample_dataplane sample_config mem_db new_kafka sample_state = Inr (Some sample_cluster)"
proof -
  have sched: "IsClusterSchedulable ''c1'' (dc_ClusterConfig sample_dataplane)"
    by (simp add: IsClusterSchedulable_def sample_dataplane_def NewClusterConfig_def sample_manual_cluster_def)
  have lim: "IsNumberOfStreamingUnitsWithinClusterLimit ''c1'' n (dc_ClusterConfig sample_dataplane) \<longleftrightarrow> n \<le> 5" for n
    by (simp add: IsNumberOfStreamingUnitsWithinClusterLimit_def sample_dataplane_def NewClusterConfig_def sample_manual_cluster_def)
  have c: "c_ClusterID sample_cluster = ''c1''" "c_ClusterType sample_cluster = ManagedDataPlaneClusterType"
    by (simp_all add: sample_cluster_def)
  have "FindKafkaInstanceCount mem_db sample_config [''c1''] sample_state = Inr [\<lparr>ic_ClusterID = ''c1'', ic_Count = 3\<rparr>]"
    using sample_kafkas[of "[''c1'']"]
    by (simp add: FindKafkaInstanceCount_def) (simp add: sample_kafka_def size_x_def)
  then show ?thesis
    by (simp add: FirstSchedulableWithinLimit_def new_kafka_standard sample_found c sched lim findConsumedStreamingUnitPerClusterID_def
        searchForClusterFromClustersList_def size_x_def)
qed

text \<open>C9. Whatever the scaling mode, a cluster chosen for a Kafka is a ready cluster of the table.  For an
  enterprise Kafka it is the cluster the request names and belongs to the organisation of the request, and nothing is
  required of its location and instance types.  For any other Kafka it spans several zones when that is requested; it lies in
  the provider and in the region the request names, where it names one; and the instance type of the request, when it has no
  wildcard of \<^verbatim>\<open>LIKE\<close>, is part of its list of supported instance types.\<close>

theorem placement_sound:
  assumes "store_lawful db clusters kafkas" "NewClusterPlacementStrategy dcc kafkaConfig db k s = Inr (Some c)"
  shows "c \<in> set (clusters s) \<and> c_Status c = ClusterReady \<and>
         (if DesiredBillingModelIsEnterprise k
          then c_ClusterID c = k_ClusterID k \<and> c_OrganizationID c = k_OrganisationId k
          else (k_CloudProvider k \<noteq> '''' \<longrightarrow> c_CloudProvider c = k_CloudProvider k) \<and> (k_Region k \<noteq> '''' \<longrightarrow> c_Region c = k_Region k) \<and>
               (k_MultiAZ k \<longrightarrow> c_MultiAZ c) \<and>
               (like_plain (k_InstanceType k) \<longrightarrow> Contains_str (c_SupportedInstanceType c) (k_InstanceType k)))"
  using chosen.found_ready[OF assms] chosen.found_own[OF assms] chosen.found_location[OF assms] chosen.found_serves[OF assms] by simp

theorem placement_sound_witness:
  "\<exists>c. NewClusterPlacementStrategy sample_dataplane sample_config mem_db new_kafka sample_state = Inr (Some c) \<and>
     c \<in> set (fst sample_state) \<and> c_Status c = ClusterReady \<and> c_Region c = k_Region new_kafka \<and>
     Contains_str (c_SupportedInstanceType c) (k_InstanceType new_kafka)"
proof -
  have "NewClusterPlacementStrategy sample_dataplane sample_config mem_db new_kafka sample_state = Inr (Some sample_cluster)"
    using sample_scheduled by (simp add: NewClusterPlacementStrategy_def IsDataPlaneManualScalingEnabled_def sample_dataplane_def)
  moreover have "\<not> DesiredBillingModelIsEnterprise new_kafka" "k_Region new_kafka \<noteq> ''''" "like_plain (k_InstanceType new_kafka)" by code_simp+
  ultimately show ?thesis using placement_sound[OF mem_db_lawful, of sample_dataplane sample_config new_kafka sample_state sample_cluster]
    by (intro exI[of _ sample_cluster]) (simp only: if_False simp_thms)
qed

text \<open>A cluster admits a Kafka when it is managed, schedulable, and its limit, unless it is \<^verbatim>\<open>-1\<close>, covers the
  capacities of the Kafkas on it together with the new one.\<close>

definition admits :: "DataplaneClusterConfig \<Rightarrow> KafkaConfig \<Rightarrow> KafkaRequest list \<Rightarrow> KafkaRequest \<Rightarrow> Cluster \<Rightarrow> bool" where
  "admits dcc kafkaConfig ks k c \<longleftrightarrow>
     c_ClusterType c = ManagedDataPlaneClusterType \<and> IsClusterSchedulable (c_ClusterID c) (dc_ClusterConfig dcc) \<and>
     IsNumberOfStreamingUnitsWithinClusterLimit (c_ClusterID c)
       (sum_list (map (kafka_units kafkaConfig) (filter (\<lambda>k. consuming k \<and> k_ClusterID k = c_ClusterID c) ks)) + kafka_units kafkaConfig k)
       (dc_ClusterConfig dcc)"

text \<open>C25. With manual scaling the chosen cluster of a Kafka that is not an enterprise one is a managed, schedulable
  cluster whose configured limit admits the capacities of its Kafkas together with the new one, and no
  cluster that would do as well was created earlier: the choice follows the order of creation, not the order of the
  configuration which the comment in the loop asks for.\<close>

theorem FirstSchedulableWithinLimit_within_limit:
  assumes "store_lawful db clusters kafkas" "FirstSchedulableWithinLimit dcc kafkaConfig db k s = Inr (Some c)"
    and "\<not> DesiredBillingModelIsEnterprise k"
  shows "admits dcc kafkaConfig (kafkas s) k c \<and>
         (\<forall>c' \<in> set (clusters s). criteria_where (kafka_criteria k) c' \<and> admits dcc kafkaConfig (kafkas s) k c' \<longrightarrow>
            c_CreatedAt c \<le> c_CreatedAt c')"
proof -
  obtain z cs consumed where z: "GetKafkaInstanceSize kafkaConfig (k_InstanceType k) (k_SizeId k) = Inr z"
    and cs: "FindAllClusters db (kafka_criteria k) s = Inr cs"
    and con: "findConsumedStreamingUnitPerClusterID kafkaConfig db (findClusterIDsOfManagedClustersThatAreSchedulable (dc_ClusterConfig dcc) cs) s = Inr consumed"
    and f: "List.find (\<lambda>c. (c_ClusterType c = ManagedDataPlaneClusterType \<and> IsClusterSchedulable (c_ClusterID c) (dc_ClusterConfig dcc)) \<and>
        fits_limit (dc_ClusterConfig dcc) consumed z (c_ClusterID c)) cs = Some c"
    by (rule FirstSchedulableWithinLimit_Some[OF assms(2,3)])
  have u: "kafka_units kafkaConfig k = sz_CapacityConsumed z" by (simp add: kafka_units_def z)
  have adm: "admits dcc kafkaConfig (kafkas s) k c' \<longleftrightarrow>
      (c_ClusterType c' = ManagedDataPlaneClusterType \<and> IsClusterSchedulable (c_ClusterID c') (dc_ClusterConfig dcc)) \<and>
        fits_limit (dc_ClusterConfig dcc) consumed z (c_ClusterID c')" if "c' \<in> set cs" for c'
  proof (cases "c_ClusterType c' = ManagedDataPlaneClusterType \<and> IsClusterSchedulable (c_ClusterID c') (dc_ClusterConfig dcc)")
    case True
    then have "c_ClusterID c' \<in> set (findClusterIDsOfManagedClustersThatAreSchedulable (dc_ClusterConfig dcc) cs)"
      unfolding schedulable_ids_eq using that by auto
    then show ?thesis using consumed_sums[OF assms(1) con] True u by (simp add: admits_def fits_limit_def)
  qed (auto simp: admits_def)
  have "List.find (admits dcc kafkaConfig (kafkas s) k) cs = Some c"
    unfolding f[symmetric] by (rule find_cong[OF refl]) (rule adm)
  then show ?thesis using earliest_found[OF assms(1) cs] by blast
qed

theorem FirstSchedulableWithinLimit_within_limit_witness:
  "\<exists>c. FirstSchedulableWithinLimit sample_dataplane sample_config mem_db new_kafka sample_state = Inr (Some c) \<and>
     admits sample_dataplane sample_config (snd sample_state) new_kafka c"
  using FirstSchedulableWithinLimit_within_limit[OF mem_db_lawful sample_scheduled new_kafka_standard] sample_scheduled by blast

text \<open>The room a managed cluster has according to the counts.\<close>

definition has_room :: "KafkaStreamingUnitCountPerCluster list \<Rightarrow> KafkaConfig \<Rightarrow> KafkaRequest \<Rightarrow> Cluster \<Rightarrow> bool" where
  "has_room es kafkaConfig k c \<longleftrightarrow> c_ClusterType c = ManagedDataPlaneClusterType \<and>
     GetStreamingUnitCountForClusterAndInstanceType es (c_ClusterID c) (k_InstanceType k) + kafka_units kafkaConfig k
       \<le> sint (case map_of (RetrieveDynamicCapacityInfo c) (k_InstanceType k) of Some i \<Rightarrow> MaxUnits i | None \<Rightarrow> 0)"

text \<open>C26. With automatic scaling the chosen cluster of a Kafka that is not an enterprise one is a managed cluster
  whose maximum number of streaming units covers the units counted for the instance type together with the new
  ones, and no cluster that would do as well was created earlier.\<close>

theorem FirstReadyWithCapacity_has_room:
  assumes "store_lawful db clusters kafkas" "FirstReadyWithCapacity kafkaConfig db k s = Inr (Some c)"
    and "\<not> DesiredBillingModelIsEnterprise k"
  shows "\<exists>es. FindStreamingUnitCountByClusterAndInstanceType db kafkaConfig s = Inr es \<and> has_room es kafkaConfig k c \<and>
         (\<forall>c' \<in> set (clusters s). criteria_where (kafka_criteria k) c' \<and> has_room es kafkaConfig k c' \<longrightarrow> c_CreatedAt c \<le> c_CreatedAt c')"
proof -
  obtain z cs es where z: "GetKafkaInstanceSize kafkaConfig (k_InstanceType k) (k_SizeId k) = Inr z"
    and cs: "FindAllClusters db (kafka_criteria k) s = Inr cs"
    and es: "FindStreamingUnitCountByClusterAndInstanceType db kafkaConfig s = Inr es"
    and f: "List.find (\<lambda>c. c_ClusterType c = ManagedDataPlaneClusterType \<and> isManagedClusterNotFull c es k z) cs = Some c"
    by (rule FirstReadyWithCapacity_Some[OF assms(2,3)])
  have room: "(\<lambda>c. c_ClusterType c = ManagedDataPlaneClusterType \<and> isManagedClusterNotFull c es k z) = has_room es kafkaConfig k"
    by (simp add: fun_eq_iff has_room_def isManagedClusterNotFull_def kafka_units_def z Let_def)
  show ?thesis using earliest_found[OF assms(1) cs f[unfolded room]] es by blast
qed

theorem FirstReadyWithCapacity_has_room_witness:
  "\<exists>c es. FirstReadyWithCapacity sample_config mem_db new_kafka sample_state = Inr (Some c) \<and> has_room es sample_config new_kafka c"
proof -
  obtain es where es: "FindStreamingUnitCountByClusterAndInstanceType mem_db sample_config sample_state = Inr es"
    and n: "GetStreamingUnitCountForClusterAndInstanceType es ''c1'' STANDARD = 3"
    using sample_entries by blast
  have "isManagedClusterNotFull sample_cluster es new_kafka (size_x ''x2'' 2)"
    using n by (simp add: isManagedClusterNotFull_def sample_cluster_def RetrieveDynamicCapacityInfo_def size_x_def)
  moreover have "c_ClusterType sample_cluster = ManagedDataPlaneClusterType" by (simp add: sample_cluster_def)
  ultimately have c: "FirstReadyWithCapacity sample_config mem_db new_kafka sample_state = Inr (Some sample_cluster)"
    by (simp add: FirstReadyWithCapacity_def new_kafka_standard sample_found es)
  then show ?thesis using FirstReadyWithCapacity_has_room[OF mem_db_lawful c new_kafka_standard] by blast
qed

text \<open>C33. When the consumption of the schedulable clusters cannot be read, the manual strategy reports neither the
  error nor a cluster, so its caller takes the failure for a lack of capacity.\<close>

theorem FirstSchedulableWithinLimit_drops_error:
  assumes "\<not> DesiredBillingModelIsEnterprise k" "GetKafkaInstanceSize kafkaConfig (k_InstanceType k) (k_SizeId k) = Inr z"
    and "FindAllClusters db (kafka_criteria k) s = Inr cs"
    and "findConsumedStreamingUnitPerClusterID kafkaConfig db (findClusterIDsOfManagedClustersThatAreSchedulable (dc_ClusterConfig dcc) cs) s = Inl e"
  shows "FirstSchedulableWithinLimit dcc kafkaConfig db k s = Inr None"
  using assms by (simp add: FirstSchedulableWithinLimit_def Let_def Wrapf_def cluster_result_def)

definition broken_db :: "(Cluster list \<times> KafkaRequest list) db" where
  "broken_db = mem_db\<lparr>kafkaT := (kafkaT mem_db)\<lparr>t_scan := (\<lambda>p ord s. Inl (ErrorString ''connection refused''))\<rparr>\<rparr>"

theorem FirstSchedulableWithinLimit_drops_error_witness:
  "FindKafkaInstanceCount broken_db sample_config [''c1''] sample_state = Inl (ErrorString ''connection refused'') \<and>
   FirstSchedulableWithinLimit sample_dataplane sample_config broken_db new_kafka sample_state = Inr None"
proof -
  have "FindAllClusters broken_db (kafka_criteria new_kafka) sample_state = Inr [sample_cluster]"
    using sample_found by (simp add: FindAllClusters_def broken_db_def)
  moreover have f: "FindKafkaInstanceCount broken_db sample_config ids sample_state = Inl (ErrorString ''connection refused'')" for ids
    by (simp add: FindKafkaInstanceCount_def broken_db_def)
  moreover have "GetKafkaInstanceSize sample_config (k_InstanceType new_kafka) (k_SizeId new_kafka) = Inr (size_x ''x2'' 2)" by simp
  ultimately show ?thesis
    using FirstSchedulableWithinLimit_drops_error[OF new_kafka_standard, of sample_config "size_x ''x2'' 2" broken_db sample_state "[sample_cluster]"
        sample_dataplane "ErrorString ''connection refused''"]
    by (simp add: findConsumedStreamingUnitPerClusterID_def)
qed

end
