(* ===== verification/Dynamic_Scaling.thy ===== *)
theory Dynamic_Scaling
  imports Placement
begin

text \<open>
  Dynamic scaling of the data plane: \<^verbatim>\<open>dynamic_scale_up_mgr.go\<close> and \<^verbatim>\<open>dynamic_scale_down_mgr.go\<close> of
  \<^verbatim>\<open>internal/kafka/internal/workers/cluster_mgrs\<close>.  The scale up decision is characterised by a closed
  formula over the matching clusters; the scale down loop is shown to remove only empty managed
  clusters and never to make a scale up necessary, so the two managers do not work against each other.
\<close>

section \<open>Scale up\<close>

(* src/internal/kafka/internal/workers/cluster_mgrs/dynamic_scale_up_mgr.go:136-141 supportedInstanceTypeLocator *)
record supportedInstanceTypeLocator =
  l_provider :: string
  l_region :: string
  l_instanceTypeName :: string
  l_clusterType :: string

(* src/internal/kafka/internal/workers/cluster_mgrs/dynamic_scale_up_mgr.go:143-148 supportedInstanceTypeLocator.Equal *)
definition locator_Equal :: "supportedInstanceTypeLocator \<Rightarrow> supportedInstanceTypeLocator \<Rightarrow> bool" where
  "locator_Equal l oth \<longleftrightarrow> l_provider l = l_provider oth \<and> l_region l = l_region oth \<and>
     l_instanceTypeName l = l_instanceTypeName oth \<and> l_clusterType l = l_clusterType oth"

(* src/internal/kafka/internal/workers/cluster_mgrs/dynamic_scale_up_mgr.go:344-361 instanceTypeConsumptionSummary *)
record instanceTypeConsumptionSummary =
  sm_maxStreamingUnits :: int
  sm_freeStreamingUnits :: int
  sm_consumedStreamingUnits :: int
  sm_ongoingScaleUpAction :: bool
  sm_biggestInstanceSizeCapacityAvailable :: bool

(* src/internal/kafka/internal/workers/cluster_mgrs/dynamic_scale_up_mgr.go:188-200 standardDynamicScaleUpProcessor *)
record scaleUpProcessor =
  up_locator :: supportedInstanceTypeLocator
  up_instanceTypeConfig :: InstanceTypeConfig
  up_kafkaStreamingUnitCountPerClusterList :: "KafkaStreamingUnitCountPerCluster list"
  up_supportedKafkaInstanceTypesConfig :: SupportedKafkaInstanceTypesConfig
  up_dryRun :: bool

definition clusterStatesTowardReadyState :: "string list" where
  "clusterStatesTowardReadyState = [ClusterProvisioning, ClusterProvisioned, ClusterAccepted, ClusterWaitingForKasFleetShardOperator]"

definition clusterStatesTowardDeletion :: "string list" where
  "clusterStatesTowardDeletion = [ClusterDeprovisioning, ClusterCleanup]"

(* src/internal/kafka/internal/workers/cluster_mgrs/dynamic_scale_up_mgr.go:449-461 instanceTypeConsumptionSummaryCalculator.getBiggestCapacityConsumedSize *)
definition getBiggestCapacityConsumedSize :: "SupportedKafkaInstanceTypesConfig \<Rightarrow> supportedInstanceTypeLocator \<Rightarrow> int err" where
  "getBiggestCapacityConsumedSize types loc =
     (case GetKafkaInstanceTypeByID (l_instanceTypeName loc) types of
        Inl err \<Rightarrow> Inl err
      | Inr kafkaInstanceTypeConfig \<Rightarrow>
          Inr (case GetBiggestCapacityConsumedSize kafkaInstanceTypeConfig of Some z \<Rightarrow> sz_CapacityConsumed z | None \<Rightarrow> - 1))"

definition su_locator :: "KafkaStreamingUnitCountPerCluster \<Rightarrow> supportedInstanceTypeLocator" where
  "su_locator e = \<lparr>l_provider = su_CloudProvider e, l_region = su_Region e, l_instanceTypeName = su_InstanceType e, l_clusterType = su_ClusterType e\<rparr>"

text \<open>The loop variables are the consumed and the maximal streaming units, whether some cluster can hold the
  biggest size, and whether a scale up is ongoing.\<close>

(* src/internal/kafka/internal/workers/cluster_mgrs/dynamic_scale_up_mgr.go:405-436 instanceTypeConsumptionSummaryCalculator.Calculate *)
fun summary_loop :: "supportedInstanceTypeLocator \<Rightarrow> int \<Rightarrow> int \<times> int \<times> bool \<times> bool \<Rightarrow> KafkaStreamingUnitCountPerCluster list \<Rightarrow> int \<times> int \<times> bool \<times> bool" where
  "summary_loop loc biggest acc [] = acc"
| "summary_loop loc biggest (consumed, maxUnits, fits, ongoing) (e # es) =
     (if \<not> locator_Equal loc (su_locator e) then summary_loop loc biggest (consumed, maxUnits, fits, ongoing) es
      else if Contains clusterStatesTowardReadyState (su_Status e) then summary_loop loc biggest (consumed, maxUnits, fits, True) es
      else if Contains clusterStatesTowardDeletion (su_Status e) then summary_loop loc biggest (consumed, maxUnits, fits, ongoing) es
      else summary_loop loc biggest
             (consumed + sint (su_Count e), maxUnits + sint (su_MaxUnits e),
              (if sint (FreeStreamingUnits e) \<ge> sint (word_of_int biggest :: int32) then True else fits), ongoing) es)"

(* src/internal/kafka/internal/workers/cluster_mgrs/dynamic_scale_up_mgr.go:388-447 instanceTypeConsumptionSummaryCalculator.Calculate *)
definition Calculate :: "SupportedKafkaInstanceTypesConfig \<Rightarrow> supportedInstanceTypeLocator \<Rightarrow> KafkaStreamingUnitCountPerCluster list \<Rightarrow> instanceTypeConsumptionSummary err" where
  "Calculate types loc es =
     (case getBiggestCapacityConsumedSize types loc of
        Inl err \<Rightarrow> Inl err
      | Inr biggest \<Rightarrow>
        (case summary_loop loc biggest (0, 0, False, False) es of
           (consumed, maxUnits, fits, ongoing) \<Rightarrow>
             Inr \<lparr>sm_maxStreamingUnits = maxUnits, sm_freeStreamingUnits = maxUnits - consumed, sm_consumedStreamingUnits = consumed,
                  sm_ongoingScaleUpAction = ongoing, sm_biggestInstanceSizeCapacityAvailable = fits\<rparr>))"

(* src/internal/kafka/internal/workers/cluster_mgrs/dynamic_scale_up_mgr.go:311-319 standardDynamicScaleUpProcessor.enoughCapacitySlackInRegion *)
definition enoughCapacitySlackInRegion :: "InstanceTypeConfig \<Rightarrow> instanceTypeConsumptionSummary \<Rightarrow> bool" where
  "enoughCapacitySlackInRegion cfg summary \<longleftrightarrow> sm_freeStreamingUnits summary \<ge> itc_MinAvailableCapacitySlackStreamingUnits cfg"

(* src/internal/kafka/internal/workers/cluster_mgrs/dynamic_scale_up_mgr.go:321-332 standardDynamicScaleUpProcessor.regionLimitReached *)
definition regionLimitReached :: "InstanceTypeConfig \<Rightarrow> instanceTypeConsumptionSummary \<Rightarrow> bool" where
  "regionLimitReached cfg summary = (case itc_Limit cfg of None \<Rightarrow> False | Some limit \<Rightarrow> sm_consumedStreamingUnits summary \<ge> limit)"

(* src/internal/kafka/internal/workers/cluster_mgrs/dynamic_scale_up_mgr.go:334-336 standardDynamicScaleUpProcessor.freeCapacityForBiggestInstanceSize *)
definition freeCapacityForBiggestInstanceSize :: "instanceTypeConsumptionSummary \<Rightarrow> bool" where
  "freeCapacityForBiggestInstanceSize summary = sm_biggestInstanceSizeCapacityAvailable summary"

(* src/internal/kafka/internal/workers/cluster_mgrs/dynamic_scale_up_mgr.go:338-340 standardDynamicScaleUpProcessor.ongoingScaleUpAction *)
definition ongoingScaleUpAction :: "instanceTypeConsumptionSummary \<Rightarrow> bool" where
  "ongoingScaleUpAction summary = sm_ongoingScaleUpAction summary"

(* src/internal/kafka/internal/workers/cluster_mgrs/dynamic_scale_up_mgr.go:236-275 standardDynamicScaleUpProcessor.ShouldScaleUp *)
definition ShouldScaleUp :: "scaleUpProcessor \<Rightarrow> bool err" where
  "ShouldScaleUp p =
     (case Calculate (up_supportedKafkaInstanceTypesConfig p) (up_locator p) (up_kafkaStreamingUnitCountPerClusterList p) of
        Inl err \<Rightarrow> Inl err
      | Inr summary \<Rightarrow>
          if regionLimitReached (up_instanceTypeConfig p) summary then Inr False
          else if ongoingScaleUpAction summary then Inr False
          else if \<not> freeCapacityForBiggestInstanceSize summary then Inr True
          else if \<not> enoughCapacitySlackInRegion (up_instanceTypeConfig p) summary then Inr True
          else Inr False)"

(* src/internal/kafka/internal/workers/cluster_mgrs/dynamic_scale_up_mgr.go:279-309 standardDynamicScaleUpProcessor.ScaleUp *)
definition ScaleUp :: "'s db \<Rightarrow> string \<Rightarrow> scaleUpProcessor \<Rightarrow> 's \<Rightarrow> goerror option \<times> 's" where
  "ScaleUp db newID p s =
     (if up_dryRun p then (None, s)
      else
        let clusterRequest = zero_Cluster\<lparr>c_CloudProvider := l_provider (up_locator p), c_Region := l_region (up_locator p),
               c_SupportedInstanceType := l_instanceTypeName (up_locator p),
               c_MultiAZ := (l_instanceTypeName (up_locator p) = StandardTypeSupport), c_Status := ClusterAccepted,
               c_ProviderType := ClusterProviderOCM, c_AccessKafkasViaPrivateNetwork := False, c_ClusterType := ManagedDataPlaneClusterType\<rparr> in
        case RegisterClusterJob db newID clusterRequest s of
          (Some err, s') \<Rightarrow> (Some (ServiceErr err), s')
        | (None, s') \<Rightarrow> (None, s'))"

text \<open>The three nested range loops visit the locators below, with the configuration of each.\<close>

definition scale_up_targets :: "Provider list \<Rightarrow> (supportedInstanceTypeLocator \<times> InstanceTypeConfig) list" where
  "scale_up_targets providers =
     concat (map (\<lambda>p. concat (map (\<lambda>r. map (\<lambda>(name, cfg).
       (\<lparr>l_provider = pv_Name p, l_region = rg_Name r, l_instanceTypeName = name, l_clusterType = ManagedDataPlaneClusterType\<rparr>, cfg))
       (rg_SupportedInstanceTypes r)) (pv_Regions p))) providers)"

text \<open>\<open>newIDs\<close> are the identifiers generated for the clusters registered in turn.\<close>

(* src/internal/kafka/internal/workers/cluster_mgrs/dynamic_scale_up_mgr.go:90-124 DynamicScaleUpManager.processDynamicScaleUpReconcileEvent *)
fun scale_up_loop :: "'s db \<Rightarrow> (nat \<Rightarrow> string) \<Rightarrow> SupportedKafkaInstanceTypesConfig \<Rightarrow> bool \<Rightarrow> KafkaStreamingUnitCountPerCluster list \<Rightarrow>
    goerror list \<Rightarrow> (supportedInstanceTypeLocator \<times> InstanceTypeConfig) list \<Rightarrow> 's \<Rightarrow> goerror list \<times> 's" where
  "scale_up_loop db newIDs types dryRun es errList [] s = (errList, s)"
| "scale_up_loop db newIDs types dryRun es errList ((loc, cfg) # rest) s =
     (let p = \<lparr>up_locator = loc, up_instanceTypeConfig = cfg, up_kafkaStreamingUnitCountPerClusterList = es,
               up_supportedKafkaInstanceTypesConfig = types, up_dryRun = dryRun\<rparr> in
      case ShouldScaleUp p of
        Inl err \<Rightarrow> scale_up_loop db newIDs types dryRun es (AddErrors errList [err]) rest s
      | Inr shouldScaleUp \<Rightarrow>
          if shouldScaleUp then
            (case ScaleUp db (newIDs (length rest)) p s of
               (Some err, s') \<Rightarrow> scale_up_loop db newIDs types dryRun es (AddErrors errList [err]) rest s'
             | (None, s') \<Rightarrow> scale_up_loop db newIDs types dryRun es errList rest s')
          else scale_up_loop db newIDs types dryRun es errList rest s)"

(* src/internal/kafka/internal/workers/cluster_mgrs/dynamic_scale_up_mgr.go:82-131 DynamicScaleUpManager.processDynamicScaleUpReconcileEvent *)
definition processDynamicScaleUpReconcileEvent ::
  "'s db \<Rightarrow> (nat \<Rightarrow> string) \<Rightarrow> KafkaConfig \<Rightarrow> DataplaneClusterConfig \<Rightarrow> Provider list \<Rightarrow> 's \<Rightarrow> goerror option \<times> 's" where
  "processDynamicScaleUpReconcileEvent db newIDs kafkaConfig dcc providers s =
     (case FindStreamingUnitCountByClusterAndInstanceType db kafkaConfig s of
        Inl err \<Rightarrow> (Some (ErrorListErr (AddErrors [] [err])), s)
      | Inr es \<Rightarrow>
        (case scale_up_loop db newIDs (kc_SupportedInstanceTypes kafkaConfig)
                (\<not> IsDataplaneScaleUpTriggerEnabled (dc_DynamicScalingConfig dcc)) es [] (scale_up_targets providers) s of
           (errList, s') \<Rightarrow> (if ErrorList_IsEmpty errList then None else Some (ErrorListErr errList), s')))"

(* src/internal/kafka/internal/workers/cluster_mgrs/dynamic_scale_up_mgr.go:62-78 DynamicScaleUpManager.Reconcile *)
definition ScaleUp_Reconcile ::
  "'s db \<Rightarrow> (nat \<Rightarrow> string) \<Rightarrow> KafkaConfig \<Rightarrow> DataplaneClusterConfig \<Rightarrow> Provider list \<Rightarrow> 's \<Rightarrow> goerror list \<times> 's" where
  "ScaleUp_Reconcile db newIDs kafkaConfig dcc providers s =
     (if \<not> IsDataPlaneAutoScalingEnabled dcc then ([], s)
      else case processDynamicScaleUpReconcileEvent db newIDs kafkaConfig dcc providers s of
        (Some err, s') \<Rightarrow> (ToErrorSlice (AddErrors [] [err]), s')
      | (None, s') \<Rightarrow> (ToErrorSlice [], s'))"

section \<open>Scale down\<close>

(* src/internal/kafka/internal/workers/cluster_mgrs/dynamic_scale_down_mgr.go:139-142 processed *)
record processed_entry =
  pr_indexesOfStreamingUnitForSameClusterID :: "nat list"
  pr_processed :: bool

(* src/internal/kafka/internal/workers/cluster_mgrs/dynamic_scale_down_mgr.go:162-185 DynamicScaleDownManager.createAMapOfProcessedClusters *)
fun processed_loop :: "nat \<Rightarrow> (string \<rightharpoonup> processed_entry) \<Rightarrow> KafkaStreamingUnitCountPerCluster list \<Rightarrow> (string \<rightharpoonup> processed_entry)" where
  "processed_loop i m [] = m"
| "processed_loop i m (e # es) =
     processed_loop (Suc i) (m(su_ClusterId e \<mapsto>
       (case m (su_ClusterId e) of
          None \<Rightarrow> \<lparr>pr_indexesOfStreamingUnitForSameClusterID = [i], pr_processed = (su_Status e \<noteq> ClusterReady)\<rparr>
        | Some existing \<Rightarrow> existing\<lparr>pr_indexesOfStreamingUnitForSameClusterID := pr_indexesOfStreamingUnitForSameClusterID existing @ [i]\<rparr>))) es"

(* src/internal/kafka/internal/workers/cluster_mgrs/dynamic_scale_down_mgr.go:162-185 DynamicScaleDownManager.createAMapOfProcessedClusters *)
definition createAMapOfProcessedClusters :: "KafkaStreamingUnitCountPerCluster list \<Rightarrow> (string \<rightharpoonup> processed_entry)" where
  "createAMapOfProcessedClusters es = processed_loop 0 Map.empty es"

(* src/internal/kafka/internal/workers/cluster_mgrs/dynamic_scale_down_mgr.go:188-198 DynamicScaleDownManager.findRegionInstanceTypeConfiguration *)
definition findRegionInstanceTypeConfiguration :: "Provider list \<Rightarrow> KafkaStreamingUnitCountPerCluster \<Rightarrow> InstanceTypeMap" where
  "findRegionInstanceTypeConfiguration providers suCount =
     (case ProviderList_GetByName (su_CloudProvider suCount) providers of
        None \<Rightarrow> []
      | Some provider \<Rightarrow>
        (case RegionList_GetByName (su_Region suCount) (pv_Regions provider) of
           None \<Rightarrow> [] | Some region \<Rightarrow> rg_SupportedInstanceTypes region))"

(* src/internal/kafka/internal/workers/cluster_mgrs/dynamic_scale_down_mgr.go:220-235 standardDynamicScaleDownProcessor *)
record scaleDownProcessor =
  dn_clusterID :: string
  dn_regionsSupportedInstanceType :: InstanceTypeMap
  dn_kafkaStreamingUnitCountPerClusterList :: "KafkaStreamingUnitCountPerCluster list"
  dn_indexesOfStreamingUnitForSameClusterID :: "nat list"
  dn_supportedKafkaInstanceTypesConfig :: SupportedKafkaInstanceTypesConfig
  dn_dryRun :: bool

(* src/internal/kafka/internal/workers/cluster_mgrs/dynamic_scale_down_mgr.go:284-291 standardDynamicScaleDownProcessor.isEnterpriseCluster *)
definition isEnterpriseCluster :: "scaleDownProcessor \<Rightarrow> bool" where
  "isEnterpriseCluster p =
     (case dn_indexesOfStreamingUnitForSameClusterID p of
        [] \<Rightarrow> False
      | index # rest \<Rightarrow> su_ClusterType (dn_kafkaStreamingUnitCountPerClusterList p ! index) = EnterpriseDataPlaneClusterType)"

(* src/internal/kafka/internal/workers/cluster_mgrs/dynamic_scale_down_mgr.go:295-305 standardDynamicScaleDownProcessor.isClusterNotEmpty *)
definition isClusterNotEmpty :: "scaleDownProcessor \<Rightarrow> bool" where
  "isClusterNotEmpty p =
     list_ex (\<lambda>i. sint (su_Count (dn_kafkaStreamingUnitCountPerClusterList p ! i)) > 0) (dn_indexesOfStreamingUnitForSameClusterID p)"

(* src/internal/kafka/internal/workers/cluster_mgrs/dynamic_scale_down_mgr.go:310-337 standardDynamicScaleDownProcessor.createNewStreamingUnitPerClusterListAfterRemovalOfCandidateCluster *)
fun list_after_removal :: "string \<Rightarrow> KafkaStreamingUnitCountPerCluster list \<Rightarrow> KafkaStreamingUnitCountPerCluster list" where
  "list_after_removal clusterID [] = []"
| "list_after_removal clusterID (suCount # rest) =
     (if Contains clusterStatesTowardReadyState (su_Status suCount) then list_after_removal clusterID rest
      else if su_ClusterId suCount = clusterID then list_after_removal clusterID rest
      else suCount # list_after_removal clusterID rest)"

(* src/internal/kafka/internal/workers/cluster_mgrs/dynamic_scale_down_mgr.go:341-380 standardDynamicScaleDownProcessor.isScaleUpNeededAfterCandidateClusterRemoval *)
fun isScaleUpNeededAfterCandidateClusterRemoval :: "scaleDownProcessor \<Rightarrow> KafkaStreamingUnitCountPerCluster list \<Rightarrow> nat list \<Rightarrow> bool err" where
  "isScaleUpNeededAfterCandidateClusterRemoval p newList [] = Inr False"
| "isScaleUpNeededAfterCandidateClusterRemoval p newList (i # rest) =
     (let suCount = dn_kafkaStreamingUnitCountPerClusterList p ! i;
          currLocator = \<lparr>l_provider = su_CloudProvider suCount, l_region = su_Region suCount, l_instanceTypeName = su_InstanceType suCount,
                         l_clusterType = ManagedDataPlaneClusterType\<rparr> in
      case map_of (dn_regionsSupportedInstanceType p) (su_InstanceType suCount) of
        None \<Rightarrow> isScaleUpNeededAfterCandidateClusterRemoval p newList rest
      | Some instanceTypeConfig \<Rightarrow>
        (case ShouldScaleUp \<lparr>up_locator = currLocator, up_instanceTypeConfig = instanceTypeConfig,
                up_kafkaStreamingUnitCountPerClusterList = newList,
                up_supportedKafkaInstanceTypesConfig = dn_supportedKafkaInstanceTypesConfig p, up_dryRun = True\<rparr> of
           Inl err \<Rightarrow> Inl err
         | Inr shouldScaleUp \<Rightarrow> if shouldScaleUp then Inr True else isScaleUpNeededAfterCandidateClusterRemoval p newList rest))"

(* src/internal/kafka/internal/workers/cluster_mgrs/dynamic_scale_down_mgr.go:254-280 standardDynamicScaleDownProcessor.ShouldScaleDown *)
definition ShouldScaleDown :: "scaleDownProcessor \<Rightarrow> bool err" where
  "ShouldScaleDown p =
     (if isEnterpriseCluster p then Inr False
      else if isClusterNotEmpty p then Inr False
      else if length (dn_regionsSupportedInstanceType p) = 0 then Inr True
      else case isScaleUpNeededAfterCandidateClusterRemoval p (list_after_removal (dn_clusterID p) (dn_kafkaStreamingUnitCountPerClusterList p))
                  (dn_indexesOfStreamingUnitForSameClusterID p) of
        Inl err \<Rightarrow> Inl err
      | Inr scaleUpNeededAfterRemoval \<Rightarrow> Inr (\<not> scaleUpNeededAfterRemoval))"

text \<open>The list of counts is shared with the caller; the result carries its new content.\<close>

(* src/internal/kafka/internal/workers/cluster_mgrs/dynamic_scale_down_mgr.go:383-403 standardDynamicScaleDownProcessor.ScaleDown *)
definition ScaleDown :: "'s db \<Rightarrow> scaleDownProcessor \<Rightarrow> 's \<Rightarrow> goerror option \<times> KafkaStreamingUnitCountPerCluster list \<times> 's" where
  "ScaleDown db p s =
     (let es = dn_kafkaStreamingUnitCountPerClusterList p in
      if dn_dryRun p then (None, es, s)
      else case UpdateStatus db (zero_Cluster\<lparr>c_ClusterID := dn_clusterID p\<rparr>) ClusterDeprovisioning s of
        (Some err, s') \<Rightarrow> (Some err, es, s')
      | (None, s') \<Rightarrow> (None, foldl (\<lambda>es i. es[i := (es ! i)\<lparr>su_Status := ClusterDeprovisioning\<rparr>]) es (dn_indexesOfStreamingUnitForSameClusterID p), s'))"

(* src/internal/kafka/internal/workers/cluster_mgrs/dynamic_scale_down_mgr.go:89-128 DynamicScaleDownManager.processDynamicScaleDownReconcileEvent *)
fun scale_down_loop :: "'s db \<Rightarrow> Provider list \<Rightarrow> SupportedKafkaInstanceTypesConfig \<Rightarrow> bool \<Rightarrow>
    (string \<rightharpoonup> processed_entry) \<Rightarrow> goerror list \<Rightarrow> KafkaStreamingUnitCountPerCluster list \<Rightarrow> nat list \<Rightarrow> 's \<Rightarrow>
    goerror list \<times> KafkaStreamingUnitCountPerCluster list \<times> 's" where
  "scale_down_loop db providers types dryRun processedClusters errList es [] s = (errList, es, s)"
| "scale_down_loop db providers types dryRun processedClusters errList es (i # rest) s =
     (let suCount = es ! i; clusterID = su_ClusterId suCount;
          existing = (case processedClusters clusterID of Some x \<Rightarrow> x | None \<Rightarrow> \<lparr>pr_indexesOfStreamingUnitForSameClusterID = [], pr_processed = False\<rparr>) in
      if pr_processed existing then scale_down_loop db providers types dryRun processedClusters errList es rest s
      else
        let processedClusters' = processedClusters(clusterID \<mapsto> existing\<lparr>pr_processed := True\<rparr>);
            p = \<lparr>dn_clusterID = clusterID, dn_regionsSupportedInstanceType = findRegionInstanceTypeConfiguration providers suCount,
                 dn_kafkaStreamingUnitCountPerClusterList = es,
                 dn_indexesOfStreamingUnitForSameClusterID = pr_indexesOfStreamingUnitForSameClusterID existing,
                 dn_supportedKafkaInstanceTypesConfig = types, dn_dryRun = dryRun\<rparr> in
        case ShouldScaleDown p of
          Inl err \<Rightarrow> scale_down_loop db providers types dryRun processedClusters' (AddErrors errList [err]) es rest s
        | Inr shouldScaleDown \<Rightarrow>
            if shouldScaleDown then
              (case ScaleDown db p s of
                 (Some err, es', s') \<Rightarrow> scale_down_loop db providers types dryRun processedClusters' (AddErrors errList [err]) es' rest s'
               | (None, es', s') \<Rightarrow> scale_down_loop db providers types dryRun processedClusters' errList es' rest s')
            else scale_down_loop db providers types dryRun processedClusters' errList es rest s)"

(* src/internal/kafka/internal/workers/cluster_mgrs/dynamic_scale_down_mgr.go:78-135 DynamicScaleDownManager.processDynamicScaleDownReconcileEvent *)
definition processDynamicScaleDownReconcileEvent ::
  "'s db \<Rightarrow> KafkaConfig \<Rightarrow> DataplaneClusterConfig \<Rightarrow> Provider list \<Rightarrow> 's \<Rightarrow> goerror option \<times> 's" where
  "processDynamicScaleDownReconcileEvent db kafkaConfig dcc providers s =
     (case FindStreamingUnitCountByClusterAndInstanceType db kafkaConfig s of
        Inl err \<Rightarrow> (Some (ErrorListErr (AddErrors [] [err])), s)
      | Inr es \<Rightarrow>
        (case scale_down_loop db providers (kc_SupportedInstanceTypes kafkaConfig)
                (\<not> IsDataplaneScaleDownTriggerEnabled (dc_DynamicScalingConfig dcc)) (createAMapOfProcessedClusters es) [] es [0..<length es] s of
           (errList, es', s') \<Rightarrow> (if ErrorList_IsEmpty errList then None else Some (ErrorListErr errList), s')))"

(* src/internal/kafka/internal/workers/cluster_mgrs/dynamic_scale_down_mgr.go:60-76 DynamicScaleDownManager.Reconcile *)
definition ScaleDown_Reconcile :: "'s db \<Rightarrow> KafkaConfig \<Rightarrow> DataplaneClusterConfig \<Rightarrow> Provider list \<Rightarrow> 's \<Rightarrow> goerror list \<times> 's" where
  "ScaleDown_Reconcile db kafkaConfig dcc providers s =
     (if \<not> IsDataPlaneAutoScalingEnabled dcc then ([], s)
      else case processDynamicScaleDownReconcileEvent db kafkaConfig dcc providers s of
        (Some err, s') \<Rightarrow> (ToErrorSlice (AddErrors [] [err]), s')
      | (None, s') \<Rightarrow> (ToErrorSlice [], s'))"

section \<open>The scale up decision\<close>

definition matching :: "supportedInstanceTypeLocator \<Rightarrow> KafkaStreamingUnitCountPerCluster list \<Rightarrow> KafkaStreamingUnitCountPerCluster list" where
  "matching loc es = filter (\<lambda>e. su_locator e = loc) es"

definition live :: "supportedInstanceTypeLocator \<Rightarrow> KafkaStreamingUnitCountPerCluster list \<Rightarrow> KafkaStreamingUnitCountPerCluster list" where
  "live loc es = filter (\<lambda>e. su_Status e \<notin> set clusterStatesTowardReadyState \<and> su_Status e \<notin> set clusterStatesTowardDeletion) (matching loc es)"

definition growing :: "supportedInstanceTypeLocator \<Rightarrow> KafkaStreamingUnitCountPerCluster list \<Rightarrow> bool" where
  "growing loc es \<longleftrightarrow> (\<exists>e \<in> set (matching loc es). su_Status e \<in> set clusterStatesTowardReadyState)"

lemma locator_Equal_eq [simp]: "locator_Equal a b \<longleftrightarrow> a = b"
  by (auto simp: locator_Equal_def)

lemma summary_loop_spec:
  "summary_loop loc b (c, m, f, g) es =
     (c + sum_list (map (\<lambda>e. sint (su_Count e)) (live loc es)), m + sum_list (map (\<lambda>e. sint (su_MaxUnits e)) (live loc es)),
      f \<or> (\<exists>e \<in> set (live loc es). sint (word_of_int b :: int32) \<le> sint (FreeStreamingUnits e)), g \<or> growing loc es)"
  by (induction es arbitrary: c m f g) (auto simp: live_def matching_def growing_def)

definition free_units :: "supportedInstanceTypeLocator \<Rightarrow> KafkaStreamingUnitCountPerCluster list \<Rightarrow> int" where
  "free_units loc es = sum_list (map (\<lambda>e. sint (su_MaxUnits e)) (live loc es)) - sum_list (map (\<lambda>e. sint (su_Count e)) (live loc es))"

text \<open>The limit of the region is not reached, no cluster is on its way, and either no cluster can hold the
  biggest size or the free capacity is below the slack.\<close>

definition scale_up_needed :: "supportedInstanceTypeLocator \<Rightarrow> InstanceTypeConfig \<Rightarrow> int \<Rightarrow> KafkaStreamingUnitCountPerCluster list \<Rightarrow> bool" where
  "scale_up_needed loc cfg b es \<longleftrightarrow>
     (\<forall>limit. itc_Limit cfg = Some limit \<longrightarrow> sum_list (map (\<lambda>e. sint (su_Count e)) (live loc es)) < limit) \<and> \<not> growing loc es \<and>
     ((\<forall>e \<in> set (live loc es). sint (FreeStreamingUnits e) < sint (word_of_int b :: int32)) \<or>
      free_units loc es < itc_MinAvailableCapacitySlackStreamingUnits cfg)"

lemma ShouldScaleUp_eq:
  "ShouldScaleUp \<lparr>up_locator = loc, up_instanceTypeConfig = cfg, up_kafkaStreamingUnitCountPerClusterList = es,
       up_supportedKafkaInstanceTypesConfig = types, up_dryRun = d\<rparr> =
     (case getBiggestCapacityConsumedSize types loc of Inl err \<Rightarrow> Inl err | Inr b \<Rightarrow> Inr (scale_up_needed loc cfg b es))"
  by (auto simp: ShouldScaleUp_def Calculate_def summary_loop_spec scale_up_needed_def free_units_def regionLimitReached_def
      ongoingScaleUpAction_def freeCapacityForBiggestInstanceSize_def enoughCapacitySlackInRegion_def not_le not_less
      split: sum.splits option.splits)

section \<open>Marking a cluster\<close>

definition mark_cluster :: "string \<Rightarrow> KafkaStreamingUnitCountPerCluster list \<Rightarrow> KafkaStreamingUnitCountPerCluster list" where
  "mark_cluster c es = map (\<lambda>e. if su_ClusterId e = c then e\<lparr>su_Status := ClusterDeprovisioning\<rparr> else e) es"

definition entries_of :: "string \<Rightarrow> KafkaStreamingUnitCountPerCluster list \<Rightarrow> nat list" where
  "entries_of c es = filter (\<lambda>i. su_ClusterId (es ! i) = c) [0..<length es]"

lemma set_entries_of [simp]: "set (entries_of c es) = {i. i < length es \<and> su_ClusterId (es ! i) = c}"
  by (auto simp: entries_of_def)

lemma mark_cluster_length [simp]: "length (mark_cluster c es) = length es"
  by (simp add: mark_cluster_def)

lemma mark_cluster_nth:
  "i < length es \<Longrightarrow> mark_cluster c es ! i = (if su_ClusterId (es ! i) = c then (es ! i)\<lparr>su_Status := ClusterDeprovisioning\<rparr> else es ! i)"
  by (simp add: mark_cluster_def)

lemma mark_loop_nth:
  "length (foldl (\<lambda>es i. es[i := (es ! i)\<lparr>su_Status := st\<rparr>]) es is') = length es \<and>
   (\<forall>j < length es. foldl (\<lambda>es i. es[i := (es ! i)\<lparr>su_Status := st\<rparr>]) es is' ! j =
      (if j \<in> set is' then (es ! j)\<lparr>su_Status := st\<rparr> else es ! j))"
proof (induction is' arbitrary: es)
  case (Cons a is')
  have upd: "j < length es \<Longrightarrow> es[a := x] ! j = (if a = j then x else es ! j)" for j x by (cases "a = j") simp_all
  show ?case using Cons.IH[of "es[a := (es ! a)\<lparr>su_Status := st\<rparr>]"] by (auto simp: upd)
qed simp

lemma mark_loop_eq:
  "foldl (\<lambda>es i. es[i := (es ! i)\<lparr>su_Status := ClusterDeprovisioning\<rparr>]) es (entries_of c es) = mark_cluster c es"
  using mark_loop_nth[of ClusterDeprovisioning es "entries_of c es"]
  by (intro nth_equalityI) (auto simp: mark_cluster_nth)

lemma mark_entries_of [simp]: "entries_of c (mark_cluster d es) = entries_of c es"
  by (auto simp: entries_of_def mark_cluster_nth intro!: filter_cong)

lemma list_after_removal_eq:
  "list_after_removal c es = filter (\<lambda>e. su_Status e \<notin> set clusterStatesTowardReadyState \<and> su_ClusterId e \<noteq> c) es"
  by (induction es) auto

lemma su_locator_status [simp]: "su_locator (e\<lparr>su_Status := st\<rparr>) = su_locator e"
  by (simp add: su_locator_def)

lemma deprovisioning_states:
  "ClusterDeprovisioning \<in> set clusterStatesTowardDeletion" "ClusterDeprovisioning \<notin> set clusterStatesTowardReadyState"
  by (simp_all add: clusterStatesTowardDeletion_def clusterStatesTowardReadyState_def)

lemma live_mark: "live loc (mark_cluster c es) = live loc (list_after_removal c es)"
  unfolding list_after_removal_eq
  by (induction es) (auto simp: live_def matching_def mark_cluster_def deprovisioning_states)

lemma not_growing_removed: "\<not> growing loc (list_after_removal c es)"
  by (auto simp: growing_def matching_def list_after_removal_eq)

lemma scale_up_after_mark:
  "\<not> scale_up_needed loc cfg b (list_after_removal c es) \<Longrightarrow> \<not> scale_up_needed loc cfg b (mark_cluster c es)"
  using not_growing_removed[of loc c es] by (auto simp: scale_up_needed_def live_mark free_units_def)

lemma matching_mark_other:
  assumes "\<forall>e \<in> set es. su_ClusterId e = c \<longrightarrow> su_locator e \<noteq> loc"
  shows "matching loc (mark_cluster c es) = matching loc es"
  using assms by (induction es) (auto simp: matching_def mark_cluster_def)

lemma scale_up_mark_other:
  assumes "\<forall>e \<in> set es. su_ClusterId e = c \<longrightarrow> su_locator e \<noteq> loc"
  shows "scale_up_needed loc cfg b (mark_cluster c es) = scale_up_needed loc cfg b es"
  using matching_mark_other[OF assms] by (simp add: scale_up_needed_def free_units_def live_def growing_def)

section \<open>The map of processed clusters\<close>

lemma processed_loop_append:
  "processed_loop i m (es @ [e]) = (let m' = processed_loop i m es in m'(su_ClusterId e \<mapsto>
       (case m' (su_ClusterId e) of
          None \<Rightarrow> \<lparr>pr_indexesOfStreamingUnitForSameClusterID = [i + length es], pr_processed = (su_Status e \<noteq> ClusterReady)\<rparr>
        | Some existing \<Rightarrow> existing\<lparr>pr_indexesOfStreamingUnitForSameClusterID := pr_indexesOfStreamingUnitForSameClusterID existing @ [i + length es]\<rparr>)))"
  by (induction es arbitrary: i m) (simp_all add: Let_def cong: option.case_cong)

lemma entries_of_snoc: "entries_of c (es @ [e]) = entries_of c es @ (if su_ClusterId e = c then [length es] else [])"
proof -
  have "filter (\<lambda>i. su_ClusterId ((es @ [e]) ! i) = c) [0..<length es] = filter (\<lambda>i. su_ClusterId (es ! i) = c) [0..<length es]"
    by (rule filter_cong) (auto simp: nth_append)
  then show ?thesis by (auto simp: entries_of_def)
qed

lemma createAMap_spec:
  "createAMapOfProcessedClusters es c =
     (if entries_of c es = [] then None
      else Some \<lparr>pr_indexesOfStreamingUnitForSameClusterID = entries_of c es,
                 pr_processed = (su_Status (es ! hd (entries_of c es)) \<noteq> ClusterReady)\<rparr>)"
proof (induction es rule: rev_induct)
  case Nil
  then show ?case by (simp add: createAMapOfProcessedClusters_def entries_of_def)
next
  case (snoc e es)
  have lt: "entries_of c es \<noteq> [] \<Longrightarrow> hd (entries_of c es) < length es" using set_entries_of[of c es] by (metis hd_in_set mem_Collect_eq)
  show ?case
    using snoc lt
    by (auto simp: createAMapOfProcessedClusters_def processed_loop_append Let_def entries_of_snoc nth_append hd_append)
qed

section \<open>Rounds of scale down\<close>

text \<open>One removal marks all entries of a ready cluster whose removal the processor approved; a round is a
  sequence of removals, recorded with the identifiers of the removed clusters.\<close>

inductive scale_down_steps :: "Provider list \<Rightarrow> SupportedKafkaInstanceTypesConfig \<Rightarrow> KafkaStreamingUnitCountPerCluster list \<Rightarrow>
    KafkaStreamingUnitCountPerCluster list \<Rightarrow> string set \<Rightarrow> bool" for providers types es where
  no_removal: "scale_down_steps providers types es es {}"
| removal: "scale_down_steps providers types es es1 R \<Longrightarrow> i < length es1 \<Longrightarrow> su_Status (es1 ! i) = ClusterReady \<Longrightarrow>
    c = su_ClusterId (es1 ! i) \<Longrightarrow> c \<noteq> '''' \<Longrightarrow>
    ShouldScaleDown \<lparr>dn_clusterID = c, dn_regionsSupportedInstanceType = findRegionInstanceTypeConfiguration providers (es1 ! i),
      dn_kafkaStreamingUnitCountPerClusterList = es1, dn_indexesOfStreamingUnitForSameClusterID = entries_of c es1,
      dn_supportedKafkaInstanceTypesConfig = types, dn_dryRun = d\<rparr> = Inr True \<Longrightarrow>
    scale_down_steps providers types es (mark_cluster c es1) (insert c R)"

text \<open>The identifier of a ready cluster belongs to one cluster.\<close>

definition coherent :: "KafkaStreamingUnitCountPerCluster list \<Rightarrow> bool" where
  "coherent es \<longleftrightarrow> (\<forall>i < length es. \<forall>j < length es. su_ClusterId (es ! i) = su_ClusterId (es ! j) \<and> su_Status (es ! i) = ClusterReady \<longrightarrow>
     su_Status (es ! j) = ClusterReady \<and> su_CloudProvider (es ! j) = su_CloudProvider (es ! i) \<and>
     su_Region (es ! j) = su_Region (es ! i) \<and> su_ClusterType (es ! j) = su_ClusterType (es ! i))"

lemma coherentD:
  assumes "coherent es" "i < length es" "j < length es" "su_ClusterId (es ! i) = su_ClusterId (es ! j)" "su_Status (es ! i) = ClusterReady"
  shows "su_Status (es ! j) = ClusterReady" "su_CloudProvider (es ! j) = su_CloudProvider (es ! i)"
    "su_Region (es ! j) = su_Region (es ! i)" "su_ClusterType (es ! j) = su_ClusterType (es ! i)"
  using assms unfolding coherent_def by blast+

lemma coherent_mark: "coherent es \<Longrightarrow> coherent (mark_cluster c es)"
  unfolding coherent_def mark_cluster_length
proof (intro allI impI)
  fix i j
  assume coh: "\<forall>i < length es. \<forall>j < length es. su_ClusterId (es ! i) = su_ClusterId (es ! j) \<and> su_Status (es ! i) = ClusterReady \<longrightarrow>
     su_Status (es ! j) = ClusterReady \<and> su_CloudProvider (es ! j) = su_CloudProvider (es ! i) \<and>
     su_Region (es ! j) = su_Region (es ! i) \<and> su_ClusterType (es ! j) = su_ClusterType (es ! i)"
    and i: "i < length es" and j: "j < length es"
    and eq: "su_ClusterId (mark_cluster c es ! i) = su_ClusterId (mark_cluster c es ! j) \<and> su_Status (mark_cluster c es ! i) = ClusterReady"
  then have ne: "su_ClusterId (es ! i) \<noteq> c" by (auto simp: mark_cluster_nth)
  then have m: "mark_cluster c es ! i = es ! i" using i by (simp add: mark_cluster_nth)
  then have "su_ClusterId (es ! j) \<noteq> c" using eq ne j by (auto simp: mark_cluster_nth split: if_splits)
  then have "mark_cluster c es ! j = es ! j" using j by (simp add: mark_cluster_nth)
  then show "su_Status (mark_cluster c es ! j) = ClusterReady \<and> su_CloudProvider (mark_cluster c es ! j) = su_CloudProvider (mark_cluster c es ! i) \<and>
     su_Region (mark_cluster c es ! j) = su_Region (mark_cluster c es ! i) \<and> su_ClusterType (mark_cluster c es ! j) = su_ClusterType (mark_cluster c es ! i)"
    using coh[rule_format, OF i j] eq m by simp
qed

definition managed_locator :: "KafkaStreamingUnitCountPerCluster \<Rightarrow> supportedInstanceTypeLocator" where
  "managed_locator e = \<lparr>l_provider = su_CloudProvider e, l_region = su_Region e, l_instanceTypeName = su_InstanceType e, l_clusterType = ManagedDataPlaneClusterType\<rparr>"

text \<open>No scale up is due for the configured instance type of an entry.\<close>

definition quiet :: "Provider list \<Rightarrow> SupportedKafkaInstanceTypesConfig \<Rightarrow> KafkaStreamingUnitCountPerCluster list \<Rightarrow> KafkaStreamingUnitCountPerCluster \<Rightarrow> bool" where
  "quiet providers types es e \<longleftrightarrow>
     (\<forall>cfg d. map_of (findRegionInstanceTypeConfiguration providers e) (su_InstanceType e) = Some cfg \<longrightarrow>
        ShouldScaleUp \<lparr>up_locator = managed_locator e, up_instanceTypeConfig = cfg, up_kafkaStreamingUnitCountPerClusterList = es,
          up_supportedKafkaInstanceTypesConfig = types, up_dryRun = d\<rparr> = Inr False)"

lemma findRegion_cong:
  "su_CloudProvider e = su_CloudProvider e' \<Longrightarrow> su_Region e = su_Region e' \<Longrightarrow>
   findRegionInstanceTypeConfiguration providers e = findRegionInstanceTypeConfiguration providers e'"
  by (simp add: findRegionInstanceTypeConfiguration_def cong: option.case_cong)

lemma quiet_cong:
  assumes "su_CloudProvider e = su_CloudProvider e'" "su_Region e = su_Region e'" "su_InstanceType e = su_InstanceType e'"
  shows "quiet providers types es e = quiet providers types es e'"
  using findRegion_cong[OF assms(1,2), of providers] assms by (simp add: quiet_def managed_locator_def)

lemma not_needed_after_removal:
  assumes "isScaleUpNeededAfterCandidateClusterRemoval p newList is' = Inr False" "i \<in> set is'"
    and "map_of (dn_regionsSupportedInstanceType p) (su_InstanceType (dn_kafkaStreamingUnitCountPerClusterList p ! i)) = Some cfg"
  shows "\<exists>b. getBiggestCapacityConsumedSize (dn_supportedKafkaInstanceTypesConfig p) (managed_locator (dn_kafkaStreamingUnitCountPerClusterList p ! i)) = Inr b \<and>
             \<not> scale_up_needed (managed_locator (dn_kafkaStreamingUnitCountPerClusterList p ! i)) cfg b newList"
  using assms(1,2)
proof (induction is')
  case (Cons j is')
  show ?case
  proof (cases "i = j")
    case True
    then show ?thesis
      using Cons.prems(1) assms(3) by (auto simp: Let_def ShouldScaleUp_eq managed_locator_def split: sum.splits if_splits)
  next
    case False
    then have "isScaleUpNeededAfterCandidateClusterRemoval p newList is' = Inr False"
      using Cons.prems(1) by (auto simp: Let_def split: option.splits sum.splits if_splits)
    then show ?thesis using Cons.IH Cons.prems(2) False by simp
  qed
qed simp

lemma removal_facts:
  assumes "ShouldScaleDown \<lparr>dn_clusterID = c, dn_regionsSupportedInstanceType = findRegionInstanceTypeConfiguration providers (es ! i),
      dn_kafkaStreamingUnitCountPerClusterList = es, dn_indexesOfStreamingUnitForSameClusterID = entries_of c es,
      dn_supportedKafkaInstanceTypesConfig = types, dn_dryRun = d\<rparr> = Inr True"
    and "coherent es" "i < length es" "c = su_ClusterId (es ! i)" "su_Status (es ! i) = ClusterReady"
    and "j < length es" "su_ClusterId (es ! j) = c"
  shows "sint (su_Count (es ! j)) \<le> 0" "su_ClusterType (es ! j) \<noteq> EnterpriseDataPlaneClusterType" "quiet providers types (mark_cluster c es) (es ! j)"
proof -
  let ?p = "\<lparr>dn_clusterID = c, dn_regionsSupportedInstanceType = findRegionInstanceTypeConfiguration providers (es ! i),
      dn_kafkaStreamingUnitCountPerClusterList = es, dn_indexesOfStreamingUnitForSameClusterID = entries_of c es,
      dn_supportedKafkaInstanceTypesConfig = types, dn_dryRun = d\<rparr>"
  have ent: "\<not> isEnterpriseCluster ?p" and empty: "\<not> isClusterNotEmpty ?p"
    using assms(1) by (auto simp: ShouldScaleDown_def split: if_splits)
  have j: "j \<in> set (entries_of c es)" using assms(6,7) by simp
  then obtain k rest where k: "entries_of c es = k # rest" by (cases "entries_of c es") auto
  then have kk: "k < length es" "su_ClusterId (es ! k) = c" using set_entries_of[of c es] by auto
  show "sint (su_Count (es ! j)) \<le> 0" using empty j by (auto simp: isClusterNotEmpty_def list_ex_iff not_less)
  have "su_ClusterType (es ! k) \<noteq> EnterpriseDataPlaneClusterType" using ent by (simp add: isEnterpriseCluster_def k)
  then show "su_ClusterType (es ! j) \<noteq> EnterpriseDataPlaneClusterType"
    using coherentD(4)[OF assms(2,3) kk(1)] coherentD(4)[OF assms(2,3,6)] kk(2) assms(4,5,7) by simp
  have reg: "findRegionInstanceTypeConfiguration providers (es ! j) = findRegionInstanceTypeConfiguration providers (es ! i)"
    using coherentD(2,3)[OF assms(2,3,6)] assms(4,5,7) by (intro findRegion_cong) simp_all
  show "quiet providers types (mark_cluster c es) (es ! j)"
    unfolding quiet_def
  proof (intro allI impI)
    fix cfg d'
    assume cfg: "map_of (findRegionInstanceTypeConfiguration providers (es ! j)) (su_InstanceType (es ! j)) = Some cfg"
    then have "length (dn_regionsSupportedInstanceType ?p) \<noteq> 0" unfolding reg by auto
    then have "isScaleUpNeededAfterCandidateClusterRemoval ?p (list_after_removal c es) (entries_of c es) = Inr False"
      using assms(1) ent empty by (auto simp: ShouldScaleDown_def split: sum.splits)
    from not_needed_after_removal[OF this j] cfg reg
    show "ShouldScaleUp \<lparr>up_locator = managed_locator (es ! j), up_instanceTypeConfig = cfg, up_kafkaStreamingUnitCountPerClusterList = mark_cluster c es,
          up_supportedKafkaInstanceTypesConfig = types, up_dryRun = d'\<rparr> = Inr False"
      using scale_up_after_mark by (auto simp: ShouldScaleUp_eq)
  qed
qed

lemma quiet_mark_other:
  assumes "quiet providers types es e" "\<forall>x \<in> set es. su_ClusterId x = c \<longrightarrow> su_locator x \<noteq> managed_locator e"
  shows "quiet providers types (mark_cluster c es) e"
  using assms(1) unfolding quiet_def ShouldScaleUp_eq scale_up_mark_other[OF assms(2)] .

text \<open>The invariant of a round: an entry changes only from ready to deprovisioning, it is empty and not an
  enterprise one, and no scale up is due for it.\<close>

definition round_inv :: "Provider list \<Rightarrow> SupportedKafkaInstanceTypesConfig \<Rightarrow> KafkaStreamingUnitCountPerCluster list \<Rightarrow>
    KafkaStreamingUnitCountPerCluster list \<Rightarrow> string set \<Rightarrow> bool" where
  "round_inv providers types es es' R \<longleftrightarrow> length es' = length es \<and> coherent es' \<and> '''' \<notin> R \<and>
     (\<forall>c \<in> R. \<exists>j < length es. su_ClusterId (es ! j) = c \<and> su_Status (es ! j) = ClusterReady) \<and>
     (\<forall>j < length es. es' ! j \<noteq> es ! j \<longleftrightarrow> su_ClusterId (es ! j) \<in> R) \<and>
     (\<forall>j < length es. es' ! j = es ! j \<or>
        su_Status (es ! j) = ClusterReady \<and> es' ! j = (es ! j)\<lparr>su_Status := ClusterDeprovisioning\<rparr> \<and> sint (su_Count (es ! j)) \<le> 0 \<and>
        su_ClusterType (es ! j) \<noteq> EnterpriseDataPlaneClusterType \<and> quiet providers types es' (es ! j))"

lemma round_invD:
  assumes "round_inv providers types es es' R"
  shows "length es' = length es" "coherent es'" "'''' \<notin> R"
    and "c \<in> R \<Longrightarrow> \<exists>j < length es. su_ClusterId (es ! j) = c \<and> su_Status (es ! j) = ClusterReady"
    and "j < length es \<Longrightarrow> su_ClusterId (es ! j) \<notin> R \<Longrightarrow> es' ! j = es ! j"
    and "j < length es \<Longrightarrow> su_ClusterId (es ! j) \<in> R \<Longrightarrow>
        su_Status (es ! j) = ClusterReady \<and> es' ! j = (es ! j)\<lparr>su_Status := ClusterDeprovisioning\<rparr> \<and> sint (su_Count (es ! j)) \<le> 0 \<and>
        su_ClusterType (es ! j) \<noteq> EnterpriseDataPlaneClusterType \<and> quiet providers types es' (es ! j)"
  using assms unfolding round_inv_def by blast+

lemma round_inv_id:
  assumes "round_inv providers types es es' R" "j < length es"
  shows "su_ClusterId (es' ! j) = su_ClusterId (es ! j)"
  using round_invD(5,6)[OF assms] by (cases "su_ClusterId (es ! j) \<in> R") simp_all

lemma round_inv_steps:
  assumes "scale_down_steps providers types es es' R" "coherent es"
  shows "round_inv providers types es es' R"
  using assms
proof (induction rule: scale_down_steps.induct)
  case no_removal
  then show ?case by (simp add: round_inv_def)
next
  case (removal es1 R i c d)
  have inv: "round_inv providers types es es1 R" using removal by blast
  have coh: "coherent es1" and len: "length es1 = length es" using round_invD(1,2)[OF inv] by auto
  note facts = removal_facts[OF removal(6) coh removal(2,4,3)]
  have keep: "quiet providers types (mark_cluster c es1) e" if "quiet providers types es1 e" for e
  proof (cases "\<exists>k < length es1. su_ClusterId (es1 ! k) = c \<and> su_locator (es1 ! k) = managed_locator e")
    case True
    then obtain k where "k < length es1" "su_ClusterId (es1 ! k) = c" "su_locator (es1 ! k) = managed_locator e" by blast
    then show ?thesis
      using facts(3)[of k] quiet_cong[of "es1 ! k" e] by (simp add: su_locator_def managed_locator_def)
  next
    case False
    then have "\<forall>x \<in> set es1. su_ClusterId x = c \<longrightarrow> su_locator x \<noteq> managed_locator e"
      by (auto simp: in_set_conv_nth)
    then show ?thesis by (rule quiet_mark_other[OF that])
  qed
  have ready: "es1 ! j = es ! j \<and> su_Status (es ! j) = ClusterReady" if j: "j < length es" "su_ClusterId (es1 ! j) = c" for j
  proof -
    have st: "su_Status (es1 ! j) = ClusterReady" using coherentD(1)[OF coh removal(2)] j len removal(3,4) by simp
    then have "su_ClusterId (es ! j) \<notin> R" using round_invD(6)[OF inv j(1)] by auto
    then show ?thesis using st round_invD(5)[OF inv j(1)] by simp
  qed
  have new: "su_Status (es ! j) = ClusterReady \<and> mark_cluster c es1 ! j = (es ! j)\<lparr>su_Status := ClusterDeprovisioning\<rparr> \<and>
      sint (su_Count (es ! j)) \<le> 0 \<and> su_ClusterType (es ! j) \<noteq> EnterpriseDataPlaneClusterType \<and>
      quiet providers types (mark_cluster c es1) (es ! j)" if j: "j < length es" "su_ClusterId (es ! j) \<in> insert c R" for j
  proof (cases "su_ClusterId (es ! j) = c")
    case True
    then show ?thesis using ready[of j] facts[of j] j len round_inv_id[OF inv] by (simp add: mark_cluster_nth)
  next
    case False
    then show ?thesis using round_invD(6)[OF inv j(1)] j keep len round_inv_id[OF inv] by (simp add: mark_cluster_nth)
  qed
  have old: "mark_cluster c es1 ! j = es ! j" if "j < length es" "su_ClusterId (es ! j) \<notin> insert c R" for j
    using round_invD(5)[OF inv that(1)] that len by (simp add: mark_cluster_nth)
  have changed: "mark_cluster c es1 ! j \<noteq> es ! j \<longleftrightarrow> su_ClusterId (es ! j) \<in> insert c R" if "j < length es" for j
  proof
    assume "su_ClusterId (es ! j) \<in> insert c R"
    then have "su_Status (es ! j) \<noteq> su_Status (mark_cluster c es1 ! j)" using new[OF that] by simp
    then show "mark_cluster c es1 ! j \<noteq> es ! j" by metis
  qed (use old[OF that] in blast)
  have ids: "\<exists>j < length es. su_ClusterId (es ! j) = x \<and> su_Status (es ! j) = ClusterReady" if "x \<in> insert c R" for x
    using that round_invD(4)[OF inv, of x] ready[of i] removal(2,4) len by auto
  have "'''' \<notin> insert c R" using round_invD(3)[OF inv] removal(5) by simp
  then show ?case
    unfolding round_inv_def using coherent_mark[OF coh] len ids changed new by (simp only: mark_cluster_length) blast
qed

text \<open>The loop performs a round.\<close>

definition processed_ok :: "(string \<rightharpoonup> processed_entry) \<Rightarrow> KafkaStreamingUnitCountPerCluster list \<Rightarrow> bool" where
  "processed_ok pm es \<longleftrightarrow> (\<forall>j < length es. \<exists>x. pm (su_ClusterId (es ! j)) = Some x \<and>
     pr_indexesOfStreamingUnitForSameClusterID x = entries_of (su_ClusterId (es ! j)) es \<and>
     (\<not> pr_processed x \<longrightarrow> su_Status (es ! j) = ClusterReady))"

lemma processed_ok_init: "coherent es \<Longrightarrow> processed_ok (createAMapOfProcessedClusters es) es"
  unfolding processed_ok_def
proof (intro allI impI)
  fix j assume coh: "coherent es" and j: "j < length es"
  let ?is = "entries_of (su_ClusterId (es ! j)) es"
  have "j \<in> set ?is" using j by simp
  then have ne: "?is \<noteq> []" by (metis empty_iff empty_set)
  have "hd ?is \<in> set ?is" by (rule hd_in_set[OF ne])
  then have h: "hd ?is < length es" "su_ClusterId (es ! hd ?is) = su_ClusterId (es ! j)" unfolding set_entries_of mem_Collect_eq by (rule conjunct1, rule conjunct2)
  show "\<exists>x. createAMapOfProcessedClusters es (su_ClusterId (es ! j)) = Some x \<and>
     pr_indexesOfStreamingUnitForSameClusterID x = ?is \<and> (\<not> pr_processed x \<longrightarrow> su_Status (es ! j) = ClusterReady)"
    using ne coherentD(1)[OF coh h(1) j h(2)] by (simp add: createAMap_spec)
qed

lemma processed_ok_mark:
  assumes "processed_ok pm es" "i < length es" "pm (su_ClusterId (es ! i)) = Some x"
  shows "processed_ok (pm(su_ClusterId (es ! i) \<mapsto> x\<lparr>pr_processed := True\<rparr>)) es"
    and "processed_ok (pm(su_ClusterId (es ! i) \<mapsto> x\<lparr>pr_processed := True\<rparr>)) (mark_cluster (su_ClusterId (es ! i)) es)"
  using assms unfolding processed_ok_def by (auto simp: mark_cluster_nth)

lemma ScaleDown_rows:
  assumes "store_lawful db clusters kafkas" "ScaleDown db p s = (e, es', s')"
    and "dn_indexesOfStreamingUnitForSameClusterID p = entries_of (dn_clusterID p) (dn_kafkaStreamingUnitCountPerClusterList p)"
  shows "kafkas s' = kafkas s"
    and "(es' = dn_kafkaStreamingUnitCountPerClusterList p \<and> clusters s' = clusters s) \<or>
         (dn_clusterID p \<noteq> '''' \<and> es' = mark_cluster (dn_clusterID p) (dn_kafkaStreamingUnitCountPerClusterList p) \<and>
          clusters s' = map (\<lambda>c. if c_ClusterID c = dn_clusterID p then c\<lparr>c_Status := ClusterDeprovisioning\<rparr> else c) (clusters s))"
  using assms(2,3) UpdateStatus_by_ClusterID[OF assms(1), of "dn_clusterID p" ClusterDeprovisioning s]
  by (auto simp: ScaleDown_def Let_def mark_loop_eq split: if_splits prod.splits option.splits)

text \<open>The rows after a round: the clusters with a removed identifier are deprovisioning.\<close>

definition deprovisioned :: "string set \<Rightarrow> Cluster list \<Rightarrow> Cluster list" where
  "deprovisioned R cs = map (\<lambda>c. if c_ClusterID c \<in> R then c\<lparr>c_Status := ClusterDeprovisioning\<rparr> else c) cs"

lemma deprovisioned_empty [simp]: "deprovisioned {} cs = cs"
  by (simp add: deprovisioned_def)

lemma deprovisioned_insert:
  "map (\<lambda>c. if c_ClusterID c = i then c\<lparr>c_Status := ClusterDeprovisioning\<rparr> else c) (deprovisioned R cs) = deprovisioned (insert i R) cs"
  by (auto simp: deprovisioned_def)

lemma scale_down_loop_steps:
  assumes "store_lawful db clusters kafkas" "scale_down_loop db providers types dryRun pm errs es1 is' s = (errs', es', s')"
    and "scale_down_steps providers types es es1 R \<and> clusters s = deprovisioned R cs"
    and "processed_ok pm es1" "set is' \<subseteq> {..<length es1}"
  shows "kafkas s' = kafkas s \<and> (\<exists>R'. scale_down_steps providers types es es' R' \<and> clusters s' = deprovisioned R' cs)"
  using assms(2-)
proof (induction is' arbitrary: pm errs es1 s R)
  case (Cons i is')
  let ?c = "su_ClusterId (es1 ! i)"
  have i: "i < length es1" using Cons.prems(4) by simp
  obtain x where x: "pm ?c = Some x" "pr_indexesOfStreamingUnitForSameClusterID x = entries_of ?c es1"
      "\<not> pr_processed x \<longrightarrow> su_Status (es1 ! i) = ClusterReady"
    using Cons.prems(3) i unfolding processed_ok_def by blast
  let ?pm = "pm(?c \<mapsto> x\<lparr>pr_processed := True\<rparr>)"
  let ?p = "\<lparr>dn_clusterID = ?c, dn_regionsSupportedInstanceType = findRegionInstanceTypeConfiguration providers (es1 ! i),
      dn_kafkaStreamingUnitCountPerClusterList = es1, dn_indexesOfStreamingUnitForSameClusterID = entries_of ?c es1,
      dn_supportedKafkaInstanceTypesConfig = types, dn_dryRun = dryRun\<rparr>"
  note ok = processed_ok_mark[OF Cons.prems(3) i x(1)]
  have sub: "set is' \<subseteq> {..<length es1}" using Cons.prems(4) by simp
  have l: "(if pr_processed x then scale_down_loop db providers types dryRun pm errs es1 is' s
      else case ShouldScaleDown ?p of
          Inl err \<Rightarrow> scale_down_loop db providers types dryRun ?pm (AddErrors errs [err]) es1 is' s
        | Inr shouldScaleDown \<Rightarrow>
            if shouldScaleDown then
              (case ScaleDown db ?p s of
                 (Some err, es', s') \<Rightarrow> scale_down_loop db providers types dryRun ?pm (AddErrors errs [err]) es' is' s'
               | (None, es', s') \<Rightarrow> scale_down_loop db providers types dryRun ?pm errs es' is' s')
            else scale_down_loop db providers types dryRun ?pm errs es1 is' s) = (errs', es', s')"
    using Cons.prems(1) unfolding scale_down_loop.simps Let_def x(1) option.case x(2) .
  consider "pr_processed x" | err where "\<not> pr_processed x" "ShouldScaleDown ?p = Inl err" | "\<not> pr_processed x" "ShouldScaleDown ?p = Inr False"
    | (down) "\<not> pr_processed x" "ShouldScaleDown ?p = Inr True"
    by (cases "ShouldScaleDown ?p") auto
  then show ?case
  proof cases
    case 1
    then have "scale_down_loop db providers types dryRun pm errs es1 is' s = (errs', es', s')" using l by (simp only: if_True)
    then show ?thesis by (rule Cons.IH[OF _ Cons.prems(2,3) sub])
  next
    case 2
    then have "scale_down_loop db providers types dryRun ?pm (AddErrors errs [err]) es1 is' s = (errs', es', s')"
      using l by (simp only: if_False sum.case)
    then show ?thesis by (rule Cons.IH[OF _ Cons.prems(2) ok(1) sub])
  next
    case 3
    then have "scale_down_loop db providers types dryRun ?pm errs es1 is' s = (errs', es', s')"
      using l by (simp only: if_False sum.case)
    then show ?thesis by (rule Cons.IH[OF _ Cons.prems(2) ok(1) sub])
  next
    case down
    obtain e es2 s2 where sd: "ScaleDown db ?p s = (e, es2, s2)" by (rule prod_cases3)
    note rows = ScaleDown_rows[OF assms(1) sd, simplified]
    obtain errs1 where rest: "scale_down_loop db providers types dryRun ?pm errs1 es2 is' s2 = (errs', es', s')"
      using l down sd by (cases e) (simp_all only: if_False if_True sum.case prod.case option.case)
    have "?c \<noteq> '''' \<Longrightarrow> scale_down_steps providers types es (mark_cluster ?c es1) (insert ?c R)"
      using removal[OF conjunct1[OF Cons.prems(2)] i _ refl _ down(2)] x(3) down(1) by simp
    then obtain R2 where "scale_down_steps providers types es es2 R2 \<and> clusters s2 = deprovisioned R2 cs" "processed_ok ?pm es2" "set is' \<subseteq> {..<length es2}"
      using rows(2) ok Cons.prems(2) sub deprovisioned_insert[of ?c R cs] by (auto simp del: fun_upd_apply)
    from Cons.IH[OF rest this] show ?thesis using rows(1) by simp
  qed
qed auto

lemma scale_down_round:
  assumes "store_lawful db clusters kafkas" "coherent es"
    and "scale_down_loop db providers types dryRun (createAMapOfProcessedClusters es) errs es [0..<length es] s = (errs', es', s')"
  obtains R where "round_inv providers types es es' R" "clusters s' = deprovisioned R (clusters s)" "kafkas s' = kafkas s"
proof -
  have start: "scale_down_steps providers types es es {} \<and> clusters s = deprovisioned {} (clusters s)" by (simp add: no_removal)
  have "set [0..<length es] \<subseteq> {..<length es}" by auto
  from scale_down_loop_steps[OF assms(1,3) start processed_ok_init[OF assms(2)] this]
  obtain R where "kafkas s' = kafkas s" "scale_down_steps providers types es es' R" "clusters s' = deprovisioned R (clusters s)" by blast
  then show ?thesis using that round_inv_steps[OF _ assms(2)] by blast
qed

section \<open>Rounds and hosted Kafkas\<close>

text \<open>What the other components keep true of the tables.  The identifier of a ready cluster is its own; every
  Kafka that uses resources has a configured size of positive capacity and lies on a cluster of its location that
  lists its instance type; and the capacities together fit a 32 bit number.\<close>

definition cluster_ids_unique :: "Cluster list \<Rightarrow> bool" where
  "cluster_ids_unique cs \<longleftrightarrow> (\<forall>c \<in> set cs. \<forall>c' \<in> set cs. c_Status c = ClusterReady \<and> c_ClusterID c = c_ClusterID c' \<longrightarrow> c = c')"

definition instance_types_of :: "Cluster \<Rightarrow> string list" where
  "instance_types_of c = filter (\<lambda>t. t \<noteq> '''') (map TrimSpace (Split (c_SupportedInstanceType c) CHR '',''))"

definition well_placed :: "KafkaConfig \<Rightarrow> Cluster list \<Rightarrow> KafkaRequest list \<Rightarrow> bool" where
  "well_placed kafkaConfig cs ks \<longleftrightarrow>
     (\<forall>k \<in> set ks. consuming k \<longrightarrow> 0 < kafka_units kafkaConfig k \<and>
        (\<forall>c \<in> set cs. c_ClusterID c = k_ClusterID k \<longrightarrow> c_CloudProvider c = k_CloudProvider k \<and> c_Region c = k_Region k \<and>
           k_InstanceType k \<in> set (instance_types_of c))) \<and>
     sum_list (map (kafka_units kafkaConfig) (filter consuming ks)) < 2 ^ 31"

lemma empty_counts_fields:
  assumes "e\<lparr>su_Count := 0\<rparr> \<in> set (empty_counts c)"
  shows "su_ClusterId e = c_ClusterID c" "su_Status e = c_Status c" "su_CloudProvider e = c_CloudProvider c"
    "su_Region e = c_Region c" "su_ClusterType e = c_ClusterType c" "su_InstanceType e \<in> set (instance_types_of c)"
proof -
  obtain t f where t: "t \<in> set (instance_types_of c)"
    and e: "e\<lparr>su_Count := 0\<rparr> = \<lparr>su_Region = c_Region c, su_InstanceType = t, su_ID = c_ID c, su_ClusterId = c_ClusterID c, su_Count = 0,
      su_CloudProvider = c_CloudProvider c, su_MaxUnits = f, su_Status = c_Status c, su_ClusterType = c_ClusterType c\<rparr>"
    using assms unfolding empty_counts_def instance_types_of_def by (auto simp only: set_map)
  note f = arg_cong[OF e]
  show "su_ClusterId e = c_ClusterID c" using f[of su_ClusterId] by simp
  show "su_Status e = c_Status c" using f[of su_Status] by simp
  show "su_CloudProvider e = c_CloudProvider c" using f[of su_CloudProvider] by simp
  show "su_Region e = c_Region c" using f[of su_Region] by simp
  show "su_ClusterType e = c_ClusterType c" using f[of su_ClusterType] by simp
  show "su_InstanceType e \<in> set (instance_types_of c)" using f[of su_InstanceType] t by simp
qed

lemma entry_cluster:
  assumes "store_lawful db clusters kafkas" "FindStreamingUnitCountByClusterAndInstanceType db kafkaConfig s = Inr es" "j < length es"
  obtains c where "c \<in> set (clusters s)" "(es ! j)\<lparr>su_Count := 0\<rparr> \<in> set (empty_counts c)"
proof -
  have "(es ! j)\<lparr>su_Count := 0\<rparr> \<in> (\<lambda>e. e\<lparr>su_Count := 0\<rparr>) ` set es" using nth_mem[OF assms(3)] by blast
  then show ?thesis using that unfolding streaming_units_spec(2)[OF assms(1,2)] by blast
qed

lemma entries_coherent:
  assumes "store_lawful db clusters kafkas" "FindStreamingUnitCountByClusterAndInstanceType db kafkaConfig s = Inr es"
    and "cluster_ids_unique (clusters s)"
  shows "coherent es"
  unfolding coherent_def
proof (intro allI impI)
  fix i j assume i: "i < length es" and j: "j < length es" and eq: "su_ClusterId (es ! i) = su_ClusterId (es ! j) \<and> su_Status (es ! i) = ClusterReady"
  obtain c where c: "c \<in> set (clusters s)" "(es ! i)\<lparr>su_Count := 0\<rparr> \<in> set (empty_counts c)" by (rule entry_cluster[OF assms(1,2) i])
  obtain c' where c': "c' \<in> set (clusters s)" "(es ! j)\<lparr>su_Count := 0\<rparr> \<in> set (empty_counts c')" by (rule entry_cluster[OF assms(1,2) j])
  note f = empty_counts_fields[OF c(2)] and f' = empty_counts_fields[OF c'(2)]
  have "c_Status c = ClusterReady" "c_ClusterID c = c_ClusterID c'" using eq f(1,2) f'(1) by auto
  then have "c = c'" using assms(3) c(1) c'(1) unfolding cluster_ids_unique_def by blast
  then show "su_Status (es ! j) = ClusterReady \<and> su_CloudProvider (es ! j) = su_CloudProvider (es ! i) \<and>
     su_Region (es ! j) = su_Region (es ! i) \<and> su_ClusterType (es ! j) = su_ClusterType (es ! i)"
    using eq f f' by simp
qed

lemma sum_word_of_int:
  "sum_list (map (\<lambda>x. word_of_int (f x)) xs) = (word_of_int (sum_list (map f xs)) :: int32)"
  by (induction xs) simp_all

lemma sint_word_of_int_small:
  assumes "0 \<le> x" "x < 2 ^ 31"
  shows "sint (word_of_int x :: int32) = x"
  using assms by (simp add: sint_sbintrunc' signed_take_bit_int_eq_self)

text \<open>A Kafka that uses resources makes an entry of its cluster positive.\<close>

lemma hosting_entry:
  assumes "store_lawful db clusters kafkas" "FindStreamingUnitCountByClusterAndInstanceType db kafkaConfig s = Inr es"
    and "well_placed kafkaConfig (clusters s) (kafkas s)"
    and "k \<in> set (kafkas s)" "consuming k" "c \<in> set (clusters s)" "c_Status c \<noteq> ClusterFailed" "c_ClusterID c = k_ClusterID k" "k_ClusterID k \<noteq> ''''"
  obtains i where "i < length es" "su_ClusterId (es ! i) = k_ClusterID k" "0 < sint (su_Count (es ! i))"
proof -
  let ?units = "kafka_units kafkaConfig"
  let ?on = "\<lambda>k'. consuming k' \<and> k_key k' = k_key k"
  have k: "c_CloudProvider c = k_CloudProvider k" "c_Region c = k_Region k" "k_InstanceType k \<in> set (instance_types_of c)"
    using assms(3-8) unfolding well_placed_def by blast+
  have pos: "0 < ?units k'" if "k' \<in> set (kafkas s)" "consuming k'" for k'
    using that assms(3) unfolding well_placed_def by blast
  have "\<exists>e \<in> set (empty_counts c). su_key e = k_key k"
    unfolding empty_counts_def instance_types_of_def[symmetric] set_map
    by (rule rev_bexI[OF imageI[OF k(3)]]) (use k assms(8) in \<open>simp add: su_key_def k_key_def\<close>)
  then obtain e where e: "e \<in> set (empty_counts c)" "su_key e = k_key k" by blast
  then have "e \<in> (\<lambda>e. e\<lparr>su_Count := 0\<rparr>) ` set es"
    unfolding streaming_units_spec(2)[OF assms(1,2)] using assms(6,7) by blast
  then obtain j where "j < length es" "su_key (es ! j) = k_key k" using e(2) by (auto simp: in_set_conv_nth)
  then have "\<exists>j. j < length es \<and> su_key (es ! j) = k_key k" by blast
  then obtain i where i: "i < length es" "su_key (es ! i) = k_key k" and first: "\<And>j. j < i \<Longrightarrow> \<not> (j < length es \<and> su_key (es ! j) = k_key k)"
    unfolding exists_least_iff[of "\<lambda>j. j < length es \<and> su_key (es ! j) = k_key k"] by blast
  have least: "\<not> (\<exists>j < i. su_key (es ! j) = k_key k)"
  proof
    assume "\<exists>j < i. su_key (es ! j) = k_key k"
    then obtain j where "j < i" "su_key (es ! j) = k_key k" by blast
    then show False using first[of j] i by simp
  qed
  have id: "su_ClusterId (es ! i) = k_ClusterID k" using i(2) by (simp add: su_key_def k_key_def)
  have cnt: "su_Count (es ! i) = word_of_int (sum_list (map ?units (filter ?on (kafkas s))))"
  proof -
    have n: "\<not> (su_ClusterId (es ! i) = '''' \<or> (\<exists>j < i. su_key (es ! j) = k_key k))"
      unfolding id using least assms(9) by blast
    show ?thesis using streaming_units_spec(1)[OF assms(1,2) i(1)] unfolding i(2) if_not_P[OF n] sum_word_of_int .
  qed
  have nn: "0 \<le> sum_list (map ?units (filter P ks))" if "\<forall>k' \<in> set ks. P k' \<longrightarrow> 0 < ?units k'" for P ks
    using that by (induction ks) (auto intro: add_nonneg_nonneg)
  have le: "sum_list (map ?units (filter ?on ks)) \<le> sum_list (map ?units (filter consuming ks))"
    if "\<forall>k' \<in> set ks. consuming k' \<longrightarrow> 0 < ?units k'" for ks using that by (induction ks) auto
  have low: "?units k \<le> sum_list (map ?units (filter ?on ks))" if "\<forall>k' \<in> set ks. ?on k' \<longrightarrow> 0 < ?units k'" "k \<in> set ks" for ks
    using that nn[of _ ?on] assms(5) by (induction ks) force+
  have "0 < sum_list (map ?units (filter ?on (kafkas s)))"
    using low[of "kafkas s"] pos assms(4,5) by force
  moreover have "sum_list (map ?units (filter ?on (kafkas s))) < 2 ^ 31"
    using le[of "kafkas s"] pos assms(3) unfolding well_placed_def by force
  ultimately have "0 < sint (su_Count (es ! i))" unfolding cnt by (simp only: sint_word_of_int_small)
  then show ?thesis using that i(1) id by blast
qed

section \<open>Properties\<close>

text \<open>Two ready clusters for the standard instance type: one uses three of its five streaming units, the other is
  empty.\<close>

definition two_entries :: "KafkaStreamingUnitCountPerCluster list" where
  "two_entries = map (\<lambda>(c, n). \<lparr>su_Region = ''us-east-1'', su_InstanceType = STANDARD, su_ID = c, su_ClusterId = c, su_Count = n,
     su_CloudProvider = ''aws'', su_MaxUnits = 5, su_Status = ClusterReady, su_ClusterType = ManagedDataPlaneClusterType\<rparr>) [(''c1'', 3), (''c2'', 0)]"

lemma two_entries_round:
  "(case scale_down_loop mem_db sample_providers (kc_SupportedInstanceTypes sample_config) False (createAMapOfProcessedClusters two_entries) []
      two_entries [0..<length two_entries] ([], []) of (errs, es', s') \<Rightarrow> errs = [] \<and> map su_Status es' = [ClusterReady, ClusterDeprovisioning] \<and> s' = ([], []))"
  by code_simp

text \<open>C35. A scale up is decided exactly when the clusters of the location that are neither on their way to ready
  nor being removed use less than the limit, no cluster is on its way to ready, and either none of them has
  room for the biggest size or their free units are fewer than the configured slack.  It fails when the instance type
  is not configured.\<close>

theorem ShouldScaleUp_decision:
  "ShouldScaleUp \<lparr>up_locator = loc, up_instanceTypeConfig = cfg, up_kafkaStreamingUnitCountPerClusterList = es,
       up_supportedKafkaInstanceTypesConfig = types, up_dryRun = d\<rparr> =
     (case getBiggestCapacityConsumedSize types loc of Inl err \<Rightarrow> Inl err | Inr b \<Rightarrow> Inr (scale_up_needed loc cfg b es))"
  by (rule ShouldScaleUp_eq)

text \<open>C11. Scale down does not work against scale up.  An entry that a round changes belonged to a ready cluster, now
  being deprovisioned with all its entries; it was empty and not an enterprise one; and at the end of the round
  the scale up manager would decide against a new cluster for its location and instance type.\<close>

theorem scale_down_no_oscillation:
  assumes "store_lawful db clusters kafkas" "coherent es" "j < length es" "es' ! j \<noteq> es ! j"
    and "scale_down_loop db providers types dryRun (createAMapOfProcessedClusters es) errs es [0..<length es] s = (errs', es', s')"
  shows "su_Status (es ! j) = ClusterReady \<and> sint (su_Count (es ! j)) \<le> 0 \<and> su_ClusterType (es ! j) \<noteq> EnterpriseDataPlaneClusterType \<and>
         (\<forall>i < length es. su_ClusterId (es ! i) = su_ClusterId (es ! j) \<longrightarrow> es' ! i = (es ! i)\<lparr>su_Status := ClusterDeprovisioning\<rparr>) \<and>
         quiet providers types es' (es ! j)"
proof -
  obtain R where inv: "round_inv providers types es es' R" by (rule scale_down_round[OF assms(1,2,5)])
  then have R: "su_ClusterId (es ! j) \<in> R" using round_invD(5)[OF inv assms(3)] assms(4) by blast
  show ?thesis using round_invD(6)[OF inv assms(3) R] round_invD(6)[OF inv] R by auto
qed

theorem scale_down_no_oscillation_witness:
  "\<exists>errs' es' s'. scale_down_loop mem_db sample_providers (kc_SupportedInstanceTypes sample_config) False (createAMapOfProcessedClusters two_entries) []
      two_entries [0..<length two_entries] ([], []) = (errs', es', s') \<and>
     coherent two_entries \<and> es' ! 1 \<noteq> two_entries ! 1 \<and> quiet sample_providers (kc_SupportedInstanceTypes sample_config) es' (two_entries ! 1)"
proof -
  obtain errs' es' s' where r: "scale_down_loop mem_db sample_providers (kc_SupportedInstanceTypes sample_config) False
      (createAMapOfProcessedClusters two_entries) [] two_entries [0..<length two_entries] ([], []) = (errs', es', s')" by (rule prod_cases3)
  then have st: "map su_Status es' = [ClusterReady, ClusterDeprovisioning]" using two_entries_round by simp
  then have "su_Status (es' ! 1) = ClusterDeprovisioning" by (cases es'; cases "tl es'") auto
  then have ne: "es' ! 1 \<noteq> two_entries ! 1" by (auto simp: two_entries_def)
  have coh: "coherent two_entries" by (auto simp: coherent_def two_entries_def less_Suc_eq)
  have "1 < length two_entries" by (simp add: two_entries_def)
  from scale_down_no_oscillation[OF mem_db_lawful coh this ne r] show ?thesis using r coh ne by blast
qed

text \<open>C10. A round of scale down only deprovisions ready, managed clusters that host no Kafka in a status other than deleting,
  and changes nothing else in the tables; Kafkas in status deleting do not hold a cluster.  This is for tables in which the
  cluster identifiers are unique and each of the other Kafkas is of a configured size and lies on a cluster of its own
  provider, region and instance type, with a total capacity below \<open>2 ^ 31\<close>: the counts are by these keys, so a Kafka that differs from
  its cluster in one of them is not seen.\<close>

theorem scale_down_spares_hosts:
  assumes "store_lawful db clusters kafkas" "cluster_ids_unique (clusters s)" "well_placed kafkaConfig (clusters s) (kafkas s)"
    and "processDynamicScaleDownReconcileEvent db kafkaConfig dcc providers s = (r, s')"
  shows "kafkas s' = kafkas s \<and>
         (\<exists>R. clusters s' = deprovisioned R (clusters s) \<and>
            (\<forall>c \<in> set (clusters s). c_ClusterID c \<in> R \<longrightarrow> c_Status c = ClusterReady \<and> c_ClusterType c \<noteq> EnterpriseDataPlaneClusterType \<and>
               (\<forall>k \<in> set (kafkas s). consuming k \<longrightarrow> k_ClusterID k \<noteq> c_ClusterID c)))"
proof (cases "FindStreamingUnitCountByClusterAndInstanceType db kafkaConfig s")
  case (Inl err)
  then have "s' = s" using assms(4) by (simp add: processDynamicScaleDownReconcileEvent_def)
  then show ?thesis by (intro conjI exI[of _ "{}"]) simp_all
next
  case (Inr es)
  let ?types = "kc_SupportedInstanceTypes kafkaConfig"
  obtain errs' es' where l: "scale_down_loop db providers ?types (\<not> IsDataplaneScaleDownTriggerEnabled (dc_DynamicScalingConfig dcc))
      (createAMapOfProcessedClusters es) [] es [0..<length es] s = (errs', es', s')"
    using assms(4) Inr by (auto simp: processDynamicScaleDownReconcileEvent_def split: prod.splits)
  have coh: "coherent es" by (rule entries_coherent[OF assms(1) Inr assms(2)])
  obtain R where inv: "round_inv providers ?types es es' R" and cs: "clusters s' = deprovisioned R (clusters s)" and kaf: "kafkas s' = kafkas s"
    by (rule scale_down_round[OF assms(1) coh l])
  have "c_Status c = ClusterReady \<and> c_ClusterType c \<noteq> EnterpriseDataPlaneClusterType \<and> (\<forall>k \<in> set (kafkas s). consuming k \<longrightarrow> k_ClusterID k \<noteq> c_ClusterID c)"
    if c: "c \<in> set (clusters s)" "c_ClusterID c \<in> R" for c
  proof -
    obtain j where j: "j < length es" "su_ClusterId (es ! j) = c_ClusterID c" "su_Status (es ! j) = ClusterReady"
      using round_invD(4)[OF inv c(2)] by blast
    obtain c0 where c0: "c0 \<in> set (clusters s)" "(es ! j)\<lparr>su_Count := 0\<rparr> \<in> set (empty_counts c0)" by (rule entry_cluster[OF assms(1) Inr j(1)])
    note f = empty_counts_fields[OF c0(2)]
    have "c0 = c" using assms(2) c0(1) c(1) j f(1,2) unfolding cluster_ids_unique_def by metis
    then have ready: "c_Status c = ClusterReady" "c_ClusterType c \<noteq> EnterpriseDataPlaneClusterType"
      using f j round_invD(6)[OF inv j(1)] c(2) by auto
    have "k_ClusterID k \<noteq> c_ClusterID c" if k: "k \<in> set (kafkas s)" "consuming k" for k
    proof
      assume on: "k_ClusterID k = c_ClusterID c"
      then have "c_ClusterID c = k_ClusterID k" "k_ClusterID k \<noteq> ''''" "c_Status c \<noteq> ClusterFailed"
        using round_invD(3)[OF inv] c(2) ready(1) by auto
      then obtain i where i: "i < length es" "su_ClusterId (es ! i) = k_ClusterID k" "0 < sint (su_Count (es ! i))"
        using hosting_entry[OF assms(1) Inr assms(3) k c(1)] by blast
      then show False using round_invD(6)[OF inv i(1)] on c(2) by simp
    qed
    then show ?thesis using ready by blast
  qed
  then show ?thesis using kaf cs by blast
qed

definition idle_cluster :: Cluster where
  "idle_cluster = sample_cluster\<lparr>c_ID := ''id2'', c_ClusterID := ''c2'', c_SupportedInstanceType := STANDARD\<rparr>"

definition idle_state :: "Cluster list \<times> KafkaRequest list" where
  "idle_state = ([sample_cluster\<lparr>c_SupportedInstanceType := STANDARD\<rparr>, idle_cluster], snd sample_state)"

theorem scale_down_spares_hosts_witness:
  "cluster_ids_unique (fst idle_state) \<and> well_placed sample_config (fst idle_state) (snd idle_state) \<and>
   (\<exists>r s'. processDynamicScaleDownReconcileEvent mem_db sample_config sample_dataplane sample_providers idle_state = (r, s') \<and>
      map c_Status (fst s') = [ClusterReady, ClusterDeprovisioning] \<and> snd s' = snd idle_state)"
proof -
  have u: "cluster_ids_unique (fst idle_state)" by code_simp
  have w: "well_placed sample_config (fst idle_state) (snd idle_state)" by code_simp
  obtain r s' where p: "processDynamicScaleDownReconcileEvent mem_db sample_config sample_dataplane sample_providers idle_state = (r, s')"
    by (rule prod.exhaust)
  have "map c_Status (fst (snd (processDynamicScaleDownReconcileEvent mem_db sample_config sample_dataplane sample_providers idle_state))) =
      [ClusterReady, ClusterDeprovisioning]" by code_simp
  then show ?thesis using scale_down_spares_hosts[OF mem_db_lawful u w p] u w p by simp
qed

end
