(* ===== verification/Kafka_Service.thy ===== *)
theory Kafka_Service
  imports Placement
begin

text \<open>
  The Kafka service, \<^verbatim>\<open>internal/kafka/internal/services/kafka.go\<close>, with the helpers of \<^verbatim>\<open>util.go\<close> beside it
  and of \<^verbatim>\<open>pkg/services/util.go\<close>: reading and updating the table of Kafka requests, the registration of a
  Kafka with its capacity and quota checks, its preparation and its deletion.

  The services it is built from are the fields of the record \<open>kafkaService\<close>, as in the struct of the code.
  Identity management, certificates, DNS and quota are interfaces, modelled as records of their methods
  over the state.  \<^verbatim>\<open>api.NewID()\<close> and \<^verbatim>\<open>time.Now()\<close> are arguments.  Metrics and log messages are left out, and
  so are the mutex of the registration and the time stamp \<^verbatim>\<open>updated_at\<close> that the object mapper sets.
\<close>

section \<open>Reading\<close>

definition kafkaDeletionStatuses :: "string list" where
  "kafkaDeletionStatuses = [KafkaRequestStatusDeleting, KafkaRequestStatusDeprovision]"

(* src/internal/kafka/internal/services/kafka.go:57-61 statusesOfKafkaThatAreNotActive *)
definition statusesOfKafkaThatAreNotActive :: "string list" where
  "statusesOfKafkaThatAreNotActive = [KafkaRequestStatusDeleting, KafkaRequestStatusDeprovision, KafkaRequestStatusSuspended]"

(* src/pkg/services/util.go:11-17 piiFields *)
definition piiFields :: "string list" where
  "piiFields = [''username'', ''first_name'', ''last_name'', ''email'', ''address'']"

(* src/pkg/services/util.go:19-31 HandleGetError *)
definition HandleGetError :: "string \<Rightarrow> string \<Rightarrow> string \<Rightarrow> goerror \<Rightarrow> ServiceError" where
  "HandleGetError resourceType field value err =
     (let value' = (if field \<in> set piiFields then ''<redacted>'' else value) in
      if err = ErrRecordNotFound
      then NotFound (''%s with %s='' @ [CHR 0x27] @ ''%v'' @ [CHR 0x27] @ '' not found'') [FStr resourceType, FStr field, FStr value']
      else general_cause err (''unable to find %s with %s='' @ [CHR 0x27] @ ''%v'' @ [CHR 0x27]) [FStr resourceType, FStr field, FStr value'])"

(* src/internal/kafka/internal/services/kafka.go:660-671 kafkaService.GetByID *)
definition GetByID :: "'s db \<Rightarrow> string \<Rightarrow> 's \<Rightarrow> KafkaRequest svc" where
  "GetByID db i s =
     (if i = '''' then Inl (Validation ''id is undefined'' [])
      else case t_first (kafkaT db) (\<lambda>r. k_ID r = i) ByPrimaryKey s of
          Inl err \<Rightarrow> Inl (HandleGetError ''KafkaResource'' ''id'' i err)
        | Inr k \<Rightarrow> Inr k)"

text \<open>The context of a request: its claims, if any, and the marks set by the handlers before.\<close>

record claims =
  cl_Username :: string
  cl_OrgId :: string
  cl_IsOrgAdmin :: bool

record request_context =
  ctx_claims :: "claims err"
  ctx_IsAdmin :: bool
  ctx_FilterByOrganisation :: bool

(* src/internal/kafka/internal/services/kafka.go:619-658 kafkaService.Get *)
definition Kafka_Get :: "'s db \<Rightarrow> request_context \<Rightarrow> string \<Rightarrow> 's \<Rightarrow> KafkaRequest svc" where
  "Kafka_Get db ctx i s =
     (if i = '''' then Inl (Validation ''id is undefined'' [])
      else case ctx_claims ctx of
        Inl err \<Rightarrow> Inl (NewWithCause ErrorUnauthenticated (Some err) ''user not authenticated'' [])
      | Inr claims \<Rightarrow>
        (let user = (if ctx_IsAdmin ctx then '''' else cl_Username claims);
             cond = (\<lambda>r. k_ID r = i \<and> (ctx_IsAdmin ctx \<or>
                       (if ctx_FilterByOrganisation ctx then k_OrganisationId r = cl_OrgId claims else k_Owner r = user))) in
         if \<not> ctx_IsAdmin ctx \<and> user = '''' then Inl (Unauthenticated ''user not authenticated'' [])
         else case t_first (kafkaT db) cond ByPrimaryKey s of
           Inl err \<Rightarrow> Inl (HandleGetError (if user \<noteq> '''' then Sprintf ''%s for user %s'' [FStr ''KafkaResource'', FStr user] else ''KafkaResource'')
                        ''id'' i err)
         | Inr k \<Rightarrow> Inr k))"

(* src/internal/kafka/internal/services/kafka.go:582-595 kafkaService.ListByStatus *)
definition Kafka_ListByStatus :: "'s db \<Rightarrow> string list \<Rightarrow> 's \<Rightarrow> KafkaRequest list svc" where
  "Kafka_ListByStatus db status s =
     (if length status = 0 then Inl (GeneralError ''no status provided'' [])
      else case t_scan (kafkaT db) (\<lambda>r. k_Status r \<in> set status) Unordered s of
          Inl err \<Rightarrow> Inl (general_cause err ''failed to list by status'' [])
        | Inr kafkas \<Rightarrow> Inr kafkas)"

(* src/internal/kafka/internal/services/kafka.go:597-617 kafkaService.ListKafkasToBePromoted *)
definition ListKafkasToBePromoted :: "'s db \<Rightarrow> 's \<Rightarrow> KafkaRequest list svc" where
  "ListKafkasToBePromoted db s =
     (let validPromotionStatuses = [KafkaRequestStatusReady, KafkaRequestStatusSuspended, KafkaRequestStatusResuming] in
      case t_scan (kafkaT db) (\<lambda>r. k_ActualKafkaBillingModel r \<noteq> k_DesiredKafkaBillingModel r \<and>
             k_PromotionStatus r \<noteq> KafkaPromotionStatusFailed \<and> k_Status r \<in> set validPromotionStatuses) Unordered s of
        Inl err \<Rightarrow> Inl (general_cause err ''failed to list kafkas to be promoted'' [])
      | Inr kafkas \<Rightarrow> Inr kafkas)"

(* src/internal/kafka/internal/services/kafka.go:850-858 kafkaService.ListAll *)
definition Kafka_ListAll :: "'s db \<Rightarrow> 's \<Rightarrow> KafkaRequest list svc" where
  "Kafka_ListAll db s =
     (case t_scan (kafkaT db) (\<lambda>r. True) Unordered s of
        Inl err \<Rightarrow> Inl (general_cause err ''unable to list kafka requests'' [])
      | Inr kafkas \<Rightarrow> Inr kafkas)"

(* src/internal/kafka/internal/services/kafka.go:1200-1207 kafkaService.ListKafkasWithRoutesNotCreated *)
definition ListKafkasWithRoutesNotCreated :: "'s db \<Rightarrow> 's \<Rightarrow> KafkaRequest list svc" where
  "ListKafkasWithRoutesNotCreated db s =
     (case t_scan (kafkaT db) (\<lambda>r. k_Routes r \<noteq> JNil \<and> \<not> k_RoutesCreated r) Unordered s of
        Inl err \<Rightarrow> Inl (general_cause err ''failed to list kafka requests'' [])
      | Inr kafkas \<Rightarrow> Inr kafkas)"

section \<open>Updating\<close>

text \<open>\<^verbatim>\<open>Model(kafkaRequest)\<close> restricts a statement to the primary key of the object when it has one.\<close>

definition same_key :: "KafkaRequest \<Rightarrow> KafkaRequest \<Rightarrow> bool" where
  "same_key k r \<longleftrightarrow> (k_ID k \<noteq> '''' \<longrightarrow> k_ID r = k_ID k)"

definition ErrMissingWhereClause :: goerror where
  "ErrMissingWhereClause = Sentinel ''WHERE conditions required''"

text \<open>\<^verbatim>\<open>Updates\<close> with a struct writes the fields that are not zero.\<close>

definition Kafka_nonzero :: "KafkaRequest \<Rightarrow> KafkaRequest \<Rightarrow> KafkaRequest" where
  "Kafka_nonzero new row = row\<lparr>
     k_CreatedAt := nz 0 (k_CreatedAt new) (k_CreatedAt row),
     k_Region := nz '''' (k_Region new) (k_Region row),
     k_ClusterID := nz '''' (k_ClusterID new) (k_ClusterID row),
     k_CloudProvider := nz '''' (k_CloudProvider new) (k_CloudProvider row),
     k_MultiAZ := nz False (k_MultiAZ new) (k_MultiAZ row),
     k_Name := nz '''' (k_Name new) (k_Name row),
     k_Status := nz '''' (k_Status new) (k_Status row),
     k_CanaryServiceAccountClientID := nz '''' (k_CanaryServiceAccountClientID new) (k_CanaryServiceAccountClientID row),
     k_CanaryServiceAccountClientSecret := nz '''' (k_CanaryServiceAccountClientSecret new) (k_CanaryServiceAccountClientSecret row),
     k_SubscriptionId := nz '''' (k_SubscriptionId new) (k_SubscriptionId row),
     k_Owner := nz '''' (k_Owner new) (k_Owner row),
     k_OwnerAccountId := nz '''' (k_OwnerAccountId new) (k_OwnerAccountId row),
     k_BootstrapServerHost := nz '''' (k_BootstrapServerHost new) (k_BootstrapServerHost row),
     k_AdminApiServerURL := nz '''' (k_AdminApiServerURL new) (k_AdminApiServerURL row),
     k_OrganisationId := nz '''' (k_OrganisationId new) (k_OrganisationId row),
     k_FailedReason := nz '''' (k_FailedReason new) (k_FailedReason row),
     k_PlacementId := nz '''' (k_PlacementId new) (k_PlacementId row),
     k_DesiredKafkaVersion := nz '''' (k_DesiredKafkaVersion new) (k_DesiredKafkaVersion row),
     k_ActualKafkaVersion := nz '''' (k_ActualKafkaVersion new) (k_ActualKafkaVersion row),
     k_DesiredStrimziVersion := nz '''' (k_DesiredStrimziVersion new) (k_DesiredStrimziVersion row),
     k_ActualStrimziVersion := nz '''' (k_ActualStrimziVersion new) (k_ActualStrimziVersion row),
     k_DesiredKafkaIBPVersion := nz '''' (k_DesiredKafkaIBPVersion new) (k_DesiredKafkaIBPVersion row),
     k_ActualKafkaIBPVersion := nz '''' (k_ActualKafkaIBPVersion new) (k_ActualKafkaIBPVersion row),
     k_KafkaUpgrading := nz False (k_KafkaUpgrading new) (k_KafkaUpgrading row),
     k_StrimziUpgrading := nz False (k_StrimziUpgrading new) (k_StrimziUpgrading row),
     k_KafkaIBPUpgrading := nz False (k_KafkaIBPUpgrading new) (k_KafkaIBPUpgrading row),
     k_MaxDataRetentionSize := nz '''' (k_MaxDataRetentionSize new) (k_MaxDataRetentionSize row),
     k_InstanceType := nz '''' (k_InstanceType new) (k_InstanceType row),
     k_QuotaType := nz '''' (k_QuotaType new) (k_QuotaType row),
     k_Routes := nz JNil (k_Routes new) (k_Routes row),
     k_RoutesCreated := nz False (k_RoutesCreated new) (k_RoutesCreated row),
     k_Namespace := nz '''' (k_Namespace new) (k_Namespace row),
     k_ReauthenticationEnabled := nz False (k_ReauthenticationEnabled new) (k_ReauthenticationEnabled row),
     k_RoutesCreationId := nz '''' (k_RoutesCreationId new) (k_RoutesCreationId row),
     k_SizeId := nz '''' (k_SizeId new) (k_SizeId row),
     k_BillingCloudAccountId := nz '''' (k_BillingCloudAccountId new) (k_BillingCloudAccountId row),
     k_Marketplace := nz '''' (k_Marketplace new) (k_Marketplace row),
     k_ActualKafkaBillingModel := nz '''' (k_ActualKafkaBillingModel new) (k_ActualKafkaBillingModel row),
     k_DesiredKafkaBillingModel := nz '''' (k_DesiredKafkaBillingModel new) (k_DesiredKafkaBillingModel row),
     k_PromotionStatus := nz '''' (k_PromotionStatus new) (k_PromotionStatus row),
     k_PromotionDetails := nz '''' (k_PromotionDetails new) (k_PromotionDetails row),
     k_KafkasRoutesBaseDomainName := nz '''' (k_KafkasRoutesBaseDomainName new) (k_KafkasRoutesBaseDomainName row),
     k_KafkasRoutesBaseDomainTLSKeyRef := nz '''' (k_KafkasRoutesBaseDomainTLSKeyRef new) (k_KafkasRoutesBaseDomainTLSKeyRef row),
     k_KafkasRoutesBaseDomainTLSCrtRef := nz '''' (k_KafkasRoutesBaseDomainTLSCrtRef new) (k_KafkasRoutesBaseDomainTLSCrtRef row),
     k_ExpiresAt := nz None (k_ExpiresAt new) (k_ExpiresAt row)\<rparr>"

(* src/internal/kafka/internal/services/kafka.go:1018-1028 kafkaService.Update *)
definition Kafka_Update :: "'s db \<Rightarrow> KafkaRequest \<Rightarrow> 's \<Rightarrow> ServiceError option \<times> 's" where
  "Kafka_Update db kafkaRequest s =
     (case t_update (kafkaT db) (\<lambda>r. same_key kafkaRequest r \<and> k_Status r \<notin> set kafkaDeletionStatuses) (Kafka_nonzero kafkaRequest) s of
        (Inl err, s') \<Rightarrow> (Some (general_cause err ''failed to update kafka'' []), s')
      | (Inr n, s') \<Rightarrow> (None, s'))"

text \<open>The map of column values is the change of a row it stands for.\<close>

(* src/internal/kafka/internal/services/kafka.go:1030-1040 kafkaService.Updates *)
definition Kafka_Updates :: "'s db \<Rightarrow> KafkaRequest \<Rightarrow> (KafkaRequest \<Rightarrow> KafkaRequest) \<Rightarrow> 's \<Rightarrow> ServiceError option \<times> 's" where
  "Kafka_Updates db kafkaRequest values s =
     (case t_update (kafkaT db) (\<lambda>r. same_key kafkaRequest r \<and> k_Status r \<notin> set kafkaDeletionStatuses) values s of
        (Inl err, s') \<Rightarrow> (Some (general_cause err ''failed to update kafka'' []), s')
      | (Inr n, s') \<Rightarrow> (None, s'))"

(* src/internal/kafka/internal/services/kafka.go:1042-1064 kafkaService.VerifyAndUpdateKafkaAdmin *)
definition VerifyAndUpdateKafkaAdmin :: "'s db \<Rightarrow> request_context \<Rightarrow> KafkaRequest \<Rightarrow> 's \<Rightarrow> ServiceError option \<times> 's" where
  "VerifyAndUpdateKafkaAdmin db ctx kafkaRequest s =
     (if \<not> ctx_IsAdmin ctx then (Some (New ErrorUnauthenticated ''user not authenticated'' []), s)
      else if k_ID kafkaRequest = '''' then (Some (general_cause ErrMissingWhereClause ''failed to update kafka'' []), s)
      else case t_update (kafkaT db) (same_key kafkaRequest)
             (\<lambda>r. r\<lparr>k_MaxDataRetentionSize := k_MaxDataRetentionSize kafkaRequest, k_DesiredStrimziVersion := k_DesiredStrimziVersion kafkaRequest,
                    k_DesiredKafkaVersion := k_DesiredKafkaVersion kafkaRequest, k_DesiredKafkaIBPVersion := k_DesiredKafkaIBPVersion kafkaRequest,
                    k_Status := k_Status kafkaRequest\<rparr>) s of
        (Inl err, s') \<Rightarrow> (Some (general_cause err ''failed to update kafka'' []), s')
      | (Inr n, s') \<Rightarrow> (None, s'))"

text \<open>The boolean tells whether the update was tried.\<close>

(* src/internal/kafka/internal/services/kafka.go:1066-1088 kafkaService.UpdateStatus *)
definition Kafka_UpdateStatus :: "'s db \<Rightarrow> string \<Rightarrow> string \<Rightarrow> 's \<Rightarrow> (bool \<times> ServiceError option) \<times> 's" where
  "Kafka_UpdateStatus db i status s =
     (case GetByID db i s of
        Inl err \<Rightarrow> ((True, Some (general_cause (ServiceErr err) ''failed to update status'' [])), s)
      | Inr kafka \<Rightarrow>
          if k_Status kafka = KafkaRequestStatusDeprovision \<and> status \<noteq> KafkaRequestStatusDeleting
          then ((False, Some (GeneralError ''failed to update status: cluster is deprovisioning'' [])), s)
          else if k_Status kafka = status
          then ((False, Some (GeneralError ''failed to update status: the cluster %s is already in %s state'' [FStr i, FStr status])), s)
          else case t_update (kafkaT db) (\<lambda>r. k_ID r = i) (\<lambda>r. r\<lparr>k_Status := status\<rparr>) s of
            (Inl err, s') \<Rightarrow> ((True, Some (general_cause err ''failed to update kafka status'' [])), s')
          | (Inr n, s') \<Rightarrow> ((True, None), s'))"

(* src/internal/kafka/internal/services/kafka.go:674-714 kafkaService.RegisterKafkaDeprovisionJob *)
definition RegisterKafkaDeprovisionJob :: "'s db \<Rightarrow> request_context \<Rightarrow> string \<Rightarrow> 's \<Rightarrow> ServiceError option \<times> 's" where
  "RegisterKafkaDeprovisionJob db ctx i s =
     (if i = '''' then (Some (Validation ''id is undefined'' []), s)
      else case ctx_claims ctx of
        Inl err \<Rightarrow> (Some (NewWithCause ErrorUnauthenticated (Some err) ''user not authenticated'' []), s)
      | Inr claims \<Rightarrow>
        (let cond = (\<lambda>r. k_ID r = i \<and> (ctx_IsAdmin ctx \<or>
                      (if cl_IsOrgAdmin claims then k_OrganisationId r = cl_OrgId claims else k_Owner r = cl_Username claims))) in
         case t_first (kafkaT db) cond ByPrimaryKey s of
           Inl err \<Rightarrow> (Some (HandleGetError ''KafkaResource'' ''id'' i err), s)
         | Inr kafkaRequest \<Rightarrow>
           (case Kafka_UpdateStatus db i KafkaRequestStatusDeprovision s of
              ((True, Some err), s') \<Rightarrow> (Some (HandleGetError ''KafkaResource'' ''id'' i (ServiceErr err)), s')
            | (r, s') \<Rightarrow> (None, s'))))"

(* src/internal/kafka/internal/services/kafka.go:716-738 kafkaService.DeprovisionKafkaForUsers *)
definition DeprovisionKafkaForUsers :: "'s db \<Rightarrow> string list \<Rightarrow> 's \<Rightarrow> ServiceError option \<times> 's" where
  "DeprovisionKafkaForUsers db users s =
     (case t_update (kafkaT db) (\<lambda>r. k_Owner r \<in> set users \<and> k_Status r \<notin> set kafkaDeletionStatuses)
             (\<lambda>r. r\<lparr>k_Status := KafkaRequestStatusDeprovision\<rparr>) s of
        (Inl err, s') \<Rightarrow> (Some (general_cause err ''unable to deprovision kafka requests for users'' []), s')
      | (Inr n, s') \<Rightarrow> (None, s'))"

(* src/internal/kafka/internal/services/kafka.go:740-750 kafkaService.kafkaWithExpiresAtShouldBeDeprovisioned *)
definition kafkaWithExpiresAtShouldBeDeprovisioned :: "KafkaRequest \<Rightarrow> time \<Rightarrow> bool" where
  "kafkaWithExpiresAtShouldBeDeprovisioned kafkaRequest currentTime =
     ((case k_ExpiresAt kafkaRequest of Some t \<Rightarrow> t | None \<Rightarrow> 0) < currentTime)"

(* src/internal/kafka/internal/services/kafka.go:752-794 kafkaService.DeprovisionExpiredKafkas *)
definition DeprovisionExpiredKafkas :: "'s db \<Rightarrow> time \<Rightarrow> 's \<Rightarrow> ServiceError option \<times> 's" where
  "DeprovisionExpiredKafkas db timeNow s =
     (case t_scan (kafkaT db) (\<lambda>r. k_Status r \<notin> set kafkaDeletionStatuses \<and> k_ExpiresAt r \<noteq> None) Unordered s of
        Inl err \<Rightarrow> (Some (general_cause err ''unable to deprovision expired kafkas'' []), s)
      | Inr existingKafkaRequests \<Rightarrow>
        (let kafkasToDeprovisionIDs =
               map k_ID (filter (\<lambda>k. kafkaWithExpiresAtShouldBeDeprovisioned k timeNow) existingKafkaRequests) in
         if length kafkasToDeprovisionIDs > 0 then
           (case t_update (kafkaT db) (\<lambda>r. k_ID r \<in> set kafkasToDeprovisionIDs) (\<lambda>r. r\<lparr>k_Status := KafkaRequestStatusDeprovision\<rparr>) s of
              (Inl err, s') \<Rightarrow> (Some (general_cause err ''unable to deprovision expired kafkas'' []), s')
            | (Inr n, s') \<Rightarrow> (None, s'))
         else (None, s)))"

(* src/internal/kafka/internal/services/kafka.go:1148-1151 KafkaStatusCount *)
record KafkaStatusCount =
  ksc_Status :: string
  ksc_Count :: nat

(* src/internal/kafka/internal/services/kafka.go:1153-1175 kafkaService.CountByStatus *)
definition Kafka_CountByStatus :: "'s db \<Rightarrow> string list \<Rightarrow> 's \<Rightarrow> KafkaStatusCount list err" where
  "Kafka_CountByStatus db status s =
     (case t_scan (kafkaT db) (\<lambda>r. k_Status r \<in> set status) Unordered s of
        Inl err \<Rightarrow> Inl (ServiceErr (general_cause err ''failed to count kafkas'' []))
      | Inr kafkas \<Rightarrow>
        (let results = map (\<lambda>(st, n). \<lparr>ksc_Status = st, ksc_Count = n\<rparr>) (group_count (map k_Status kafkas)) in
         Inr (if length status > 0
              then results @ map (\<lambda>st. \<lparr>ksc_Status = st, ksc_Count = 0\<rparr>) (filter (\<lambda>st. st \<notin> set (map ksc_Status results)) status)
              else results)))"

section \<open>The services it is built from\<close>

text \<open>Reserving quota also writes the billing model into the request, so the changed request is part of the
  result.\<close>

(* src/internal/kafka/internal/services/quota.go:11-30 QuotaService *)
record 's quota_service =
  qs_CheckIfQuotaIsDefinedForInstanceType :: "string \<Rightarrow> string \<Rightarrow> string \<Rightarrow> KafkaBillingModel \<Rightarrow> 's \<Rightarrow> bool svc"
  qs_ReserveQuota :: "KafkaRequest \<Rightarrow> 's \<Rightarrow> string go \<times> KafkaRequest \<times> 's"
  qs_ReserveQuotaIfNotAlreadyReserved :: "KafkaRequest \<Rightarrow> 's \<Rightarrow> string go \<times> KafkaRequest \<times> 's"
  qs_DeleteQuota :: "string \<Rightarrow> 's \<Rightarrow> ServiceError option \<times> 's"
  qs_DeleteQuotaForBillingModel :: "string \<Rightarrow> KafkaBillingModel \<Rightarrow> 's \<Rightarrow> ServiceError option \<times> 's"
  qs_ValidateBillingAccount :: "string \<Rightarrow> string \<Rightarrow> string \<Rightarrow> string \<Rightarrow> string option \<Rightarrow> 's \<Rightarrow> ServiceError option"
  qs_IsQuotaEntitlementActive :: "KafkaRequest \<Rightarrow> 's \<Rightarrow> bool err"

text \<open>The methods of the identity service, of the certificate service and of the DNS client that this service
  calls.  A certificate is the pair of its text and key, a reference the pair of theirs.\<close>

record 's keycloak =
  kk_EnableAuthenticationOnKafka :: bool
  kk_CreateServiceAccountInternal :: "string \<Rightarrow> KafkaRequest \<Rightarrow> 's \<Rightarrow> (string \<times> string) svc \<times> 's"
  kk_DeleteServiceAccountInternal :: "string \<Rightarrow> 's \<Rightarrow> ServiceError option \<times> 's"

record 's tls_service =
  tl_IsAutomaticCertificateManagementEnabled :: bool
  tl_GetCertificate :: "string \<times> string \<Rightarrow> 's \<Rightarrow> (string \<times> string) err"
  tl_RevokeCertificate :: "string \<Rightarrow> 's \<Rightarrow> goerror option \<times> 's"
  tl_ManageCertificate :: "string \<Rightarrow> 's \<Rightarrow> (string \<times> string) err \<times> 's"

definition fs_ErrNotExist :: goerror where
  "fs_ErrNotExist = Sentinel ''file does not exist''"

record dns_change =
  dns_Action :: string
  dns_Name :: string
  dns_Type :: string
  dns_TTL :: int
  dns_Value :: string

record change_info =
  ci_Id :: string
  ci_Status :: string

record 's dns_client =
  dns_ChangeResourceRecordSets :: "string \<Rightarrow> dns_change list \<Rightarrow> 's \<Rightarrow> change_info err \<times> 's"
  dns_GetChange :: "string \<Rightarrow> 's \<Rightarrow> change_info err"

(* src/internal/kafka/internal/services/kafka.go:154-168 kafkaService *)
record 's kafkaService =
  ks_db :: "'s db"
  ks_clusterProviders :: "string \<rightharpoonup> provider"
  ks_keycloakService :: "'s keycloak"
  ks_kafkaConfig :: KafkaConfig
  ks_quotaServiceFactory :: "string \<Rightarrow> 's quota_service svc"
  ks_dnsClientFactory :: "string \<Rightarrow> 's dns_client err"
  ks_dataplaneClusterConfig :: DataplaneClusterConfig
  ks_providerConfig :: "Provider list"
  ks_clusterPlacementStrategy :: "KafkaRequest \<Rightarrow> 's \<Rightarrow> Cluster option err"
  ks_kafkaTLSCertificateManagementService :: "'s tls_service"
  ks_IsDNS1035Label :: "string \<Rightarrow> string list"

section \<open>Capacity\<close>

(* src/internal/kafka/internal/services/kafka.go:238-244 kafkaService.capacityAvailableForRegionAndInstanceType *)
fun region_capacity_loop :: "KafkaConfig \<Rightarrow> int \<Rightarrow> KafkaRequest list \<Rightarrow> int err" where
  "region_capacity_loop kafkaConfig count' [] = Inr count'"
| "region_capacity_loop kafkaConfig count' (kafka # rest) =
     (case GetKafkaInstanceSize kafkaConfig (k_InstanceType kafka) (k_SizeId kafka) of
        Inl e \<Rightarrow> Inl e
      | Inr kafkaInstanceSize \<Rightarrow> region_capacity_loop kafkaConfig (count' + sz_CapacityConsumed kafkaInstanceSize) rest)"

(* src/internal/kafka/internal/services/kafka.go:220-254 kafkaService.capacityAvailableForRegionAndInstanceType *)
definition capacityAvailableForRegionAndInstanceType :: "'s kafkaService \<Rightarrow> int option \<Rightarrow> KafkaRequest \<Rightarrow> 's \<Rightarrow> bool svc" where
  "capacityAvailableForRegionAndInstanceType K instTypeRegCapacity kafkaRequest s =
     (let errMessage = Sprintf (''failed to check kafka capacity for region '' @ [CHR 0x27] @ ''%s'' @ [CHR 0x27] @ '' and instance type '' @ [CHR 0x27] @ ''%s'' @ [CHR 0x27])
                         [FStr (k_Region kafkaRequest), FStr (k_InstanceType kafkaRequest)];
          unsupported = (\<lambda>e. NewWithCause ErrorInstancePlanNotSupported (Some e) errMessage []) in
      case t_scan (kafkaT (ks_db K)) (\<lambda>r. k_Region r = k_Region kafkaRequest \<and> k_CloudProvider r = k_CloudProvider kafkaRequest \<and>
             k_InstanceType r = k_InstanceType kafkaRequest \<and> k_ActualKafkaBillingModel r \<noteq> BillingModelEnterprise) Unordered s of
        Inl err \<Rightarrow> Inl (general_cause err errMessage [])
      | Inr kafkas \<Rightarrow>
        (case region_capacity_loop (ks_kafkaConfig K) 0 kafkas of
           Inl e \<Rightarrow> Inl (unsupported e)
         | Inr count' \<Rightarrow>
           (case GetKafkaInstanceSize (ks_kafkaConfig K) (k_InstanceType kafkaRequest) (k_SizeId kafkaRequest) of
              Inl e \<Rightarrow> Inl (unsupported e)
            | Inr kafkaInstanceSize \<Rightarrow>
                Inr (case instTypeRegCapacity of None \<Rightarrow> True
                     | Some capacity \<Rightarrow> count' + sz_CapacityConsumed kafkaInstanceSize \<le> capacity))))"

(* src/internal/kafka/internal/services/kafka.go:201-218 kafkaService.HasAvailableCapacityInRegion *)
definition HasAvailableCapacityInRegion :: "'s kafkaService \<Rightarrow> KafkaRequest \<Rightarrow> 's \<Rightarrow> bool svc" where
  "HasAvailableCapacityInRegion K kafkaRequest s =
     (case GetInstanceLimit (ks_providerConfig K) (k_Region kafkaRequest) (k_CloudProvider kafkaRequest) (k_InstanceType kafkaRequest) of
        Inl e \<Rightarrow> Inl e
      | Inr regInstTypeLimit \<Rightarrow>
          if regInstTypeLimit = Some 0 then Inr False
          else if IsDataPlaneAutoScalingEnabled (ks_dataplaneClusterConfig K) \<and> regInstTypeLimit = None then Inr True
          else capacityAvailableForRegionAndInstanceType K regInstTypeLimit kafkaRequest s)"

text \<open>The search for the largest size that still fits, from the last size of the list to the first.\<close>

(* src/internal/kafka/internal/services/kafka.go:275-307 kafkaService.GetAvailableSizesInRegion *)
fun biggest_size_loop :: "'s kafkaService \<Rightarrow> FindClusterCriteria \<Rightarrow> 's \<Rightarrow> KafkaInstanceSize list \<Rightarrow> nat \<Rightarrow> nat option svc" where
  "biggest_size_loop K criteria s sizes 0 = Inr None"
| "biggest_size_loop K criteria s sizes (Suc i) =
     (let kafka = zero_Kafka\<lparr>k_CloudProvider := fc_Provider criteria, k_Region := fc_Region criteria,
                    k_InstanceType := fc_SupportedInstanceType criteria, k_MultiAZ := fc_MultiAZ criteria, k_SizeId := sz_Id (sizes ! i)\<rparr> in
      case HasAvailableCapacityInRegion K kafka s of
        Inl err \<Rightarrow> Inl err
      | Inr hasCapacity \<Rightarrow>
          if hasCapacity \<and> IsDataPlaneAutoScalingEnabled (ks_dataplaneClusterConfig K) then Inr (Some i)
          else if hasCapacity then
            (case ks_clusterPlacementStrategy K kafka s of
               Inl err \<Rightarrow> Inl (general_cause err (''failed to find data plane cluster for kafka with criteria '' @ [CHR 0x27] @ ''%v'' @ [CHR 0x27]) [criteria_text criteria])
             | Inr (Some cluster) \<Rightarrow> Inr (Some i)
             | Inr None \<Rightarrow> biggest_size_loop K criteria s sizes i)
          else biggest_size_loop K criteria s sizes i)"

(* src/internal/kafka/internal/services/kafka.go:256-316 kafkaService.GetAvailableSizesInRegion *)
definition GetAvailableSizesInRegion :: "'s kafkaService \<Rightarrow> FindClusterCriteria option \<Rightarrow> 's \<Rightarrow> string list svc" where
  "GetAvailableSizesInRegion K criteria s =
     (case criteria of
        None \<Rightarrow> Inl (GeneralError ''unable to get available sizes in region: criteria was not specified'' [])
      | Some criteria \<Rightarrow>
        (case GetKafkaInstanceTypeByID (fc_SupportedInstanceType criteria) (kc_SupportedInstanceTypes (ks_kafkaConfig K)) of
           Inl err \<Rightarrow> Inl (InstanceTypeNotSupported ''unable to get available sizes in region: %s'' [FStr (err_Error err)])
         | Inr instanceType \<Rightarrow>
           (case biggest_size_loop K criteria s (it_Sizes instanceType) (length (it_Sizes instanceType)) of
              Inl err \<Rightarrow> Inl err
            | Inr None \<Rightarrow> Inr []
            | Inr (Some indexOfBiggestKafkaSizeAllowed) \<Rightarrow> Inr (map sz_Id (take (Suc indexOfBiggestKafkaSizeAllowed) (it_Sizes instanceType))))))"

section \<open>Registration\<close>

(* src/internal/kafka/internal/services/kafka.go:192-199 kafkaService.ValidateBillingAccount *)
definition Kafka_ValidateBillingAccount :: "'s kafkaService \<Rightarrow> string \<Rightarrow> string \<Rightarrow> string \<Rightarrow> string \<Rightarrow> string option \<Rightarrow> 's \<Rightarrow> ServiceError option" where
  "Kafka_ValidateBillingAccount K externalId instanceType billingModelID billingCloudAccountId marketplace s =
     (case ks_quotaServiceFactory K (qc_Type (kc_Quota (ks_kafkaConfig K))) of
        Inl factoryErr \<Rightarrow> Some (general_cause (ServiceErr factoryErr) ''unable to check quota during billing account validation'' [])
      | Inr quotaService \<Rightarrow> qs_ValidateBillingAccount quotaService externalId instanceType billingModelID billingCloudAccountId marketplace s)"

(* src/internal/kafka/internal/services/kafka.go:328-336 kafkaService.AssignInstanceType *)
fun billing_model_loop :: "'s quota_service \<Rightarrow> string \<Rightarrow> string \<Rightarrow> string \<Rightarrow> KafkaBillingModel list \<Rightarrow> 's \<Rightarrow> bool svc" where
  "billing_model_loop quotaService owner organisationId instanceTypeId [] s = Inr False"
| "billing_model_loop quotaService owner organisationId instanceTypeId (bm # rest) s =
     (case qs_CheckIfQuotaIsDefinedForInstanceType quotaService owner organisationId instanceTypeId bm s of
        Inl err \<Rightarrow> Inl err
      | Inr hasQuota \<Rightarrow> if hasQuota then Inr True else billing_model_loop quotaService owner organisationId instanceTypeId rest s)"

(* src/internal/kafka/internal/services/kafka.go:324-337 kafkaService.AssignInstanceType *)
fun assign_type_loop :: "'s quota_service \<Rightarrow> string \<Rightarrow> string \<Rightarrow> KafkaInstanceType list \<Rightarrow> 's \<Rightarrow> string svc" where
  "assign_type_loop quotaService owner organisationId [] s = Inr DEVELOPER"
| "assign_type_loop quotaService owner organisationId (instanceType # rest) s =
     (if it_Id instanceType = DEVELOPER then assign_type_loop quotaService owner organisationId rest s
      else case billing_model_loop quotaService owner organisationId (it_Id instanceType) (it_SupportedBillingModels instanceType) s of
        Inl err \<Rightarrow> Inl err
      | Inr found \<Rightarrow> if found then Inr (it_Id instanceType) else assign_type_loop quotaService owner organisationId rest s)"

(* src/internal/kafka/internal/services/kafka.go:318-340 kafkaService.AssignInstanceType *)
definition AssignInstanceType :: "'s kafkaService \<Rightarrow> string \<Rightarrow> string \<Rightarrow> 's \<Rightarrow> string svc" where
  "AssignInstanceType K owner organisationId s =
     (case ks_quotaServiceFactory K (qc_Type (kc_Quota (ks_kafkaConfig K))) of
        Inl factoryErr \<Rightarrow> Inl (general_cause (ServiceErr factoryErr) ''unable to check quota'' [])
      | Inr quotaService \<Rightarrow>
          assign_type_loop quotaService owner organisationId (SupportedKafkaInstanceTypes (kc_SupportedInstanceTypes (ks_kafkaConfig K))) s)"

text \<open>The check of the number of developer instances of an owner.\<close>

(* src/internal/kafka/internal/services/kafka.go:344-372 kafkaService.reserveQuota *)
definition developer_check :: "'s kafkaService \<Rightarrow> KafkaRequest \<Rightarrow> 's \<Rightarrow> ServiceError option" where
  "developer_check K kafkaRequest s =
     (if k_InstanceType kafkaRequest \<noteq> DEVELOPER then None
      else case GetKafkaInstanceTypeByID (k_InstanceType kafkaRequest) (kc_SupportedInstanceTypes (ks_kafkaConfig K)) of
        Inl err \<Rightarrow> Some (general_cause err ''unable to reserve quota'' [])
      | Inr instType \<Rightarrow>
          if \<not> qc_AllowDeveloperInstance (kc_Quota (ks_kafkaConfig K))
          then Some (NewWithCause ErrorForbidden None ''kafka %s instances are not allowed'' [FStr (it_DisplayName instType)])
          else case t_scan (kafkaT (ks_db K)) (\<lambda>r. k_InstanceType r = DEVELOPER \<and> k_Owner r = k_Owner kafkaRequest \<and>
                      k_OrganisationId r = k_OrganisationId kafkaRequest) Unordered s of
            Inl err \<Rightarrow> Some (general_cause err ''failed to count kafka %s instances'' [FStr (it_DisplayName instType)])
          | Inr rows \<Rightarrow>
            (let maxAllowedDeveloperInstances = qc_MaxAllowedDeveloperInstances (kc_Quota (ks_kafkaConfig K)) in
             if int (length rows) \<ge> maxAllowedDeveloperInstances
             then Some (TooManyKafkaInstancesReached (Sprintf ''only %d %s instance is allowed'' [FInt maxAllowedDeveloperInstances, FStr (it_DisplayName instType)]) [])
             else None))"

(* src/internal/kafka/internal/services/kafka.go:343-380 kafkaService.reserveQuota *)
definition reserveQuota :: "'s kafkaService \<Rightarrow> KafkaRequest \<Rightarrow> 's \<Rightarrow> string go \<times> KafkaRequest \<times> 's" where
  "reserveQuota K kafkaRequest s =
     (case developer_check K kafkaRequest s of
        Some err \<Rightarrow> (Err (ServiceErr err), kafkaRequest, s)
      | None \<Rightarrow>
        (case ks_quotaServiceFactory K (qc_Type (kc_Quota (ks_kafkaConfig K))) of
           Inl factoryErr \<Rightarrow> (Err (ServiceErr (general_cause (ServiceErr factoryErr) ''unable to check quota'' [])), kafkaRequest, s)
         | Inr quotaService \<Rightarrow> qs_ReserveQuota quotaService kafkaRequest s))"

(* src/internal/kafka/internal/services/kafka.go:488-506 kafkaService.findADataPlaneClusterToPlaceTheKafka *)
definition findADataPlaneClusterToPlaceTheKafka :: "'s kafkaService \<Rightarrow> KafkaRequest \<Rightarrow> 's \<Rightarrow> Cluster svc" where
  "findADataPlaneClusterToPlaceTheKafka K kafkaRequest s =
     (let userMsg = (if DesiredBillingModelIsEnterprise kafkaRequest
                     then Sprintf ''cluster %q cannot accept instance type: %q at this moment'' [FStr (k_ClusterID kafkaRequest), FStr (k_InstanceType kafkaRequest)]
                     else Sprintf ''region %s cannot accept instance type: %s at this moment'' [FStr (k_Region kafkaRequest), FStr (k_InstanceType kafkaRequest)]) in
      case ks_clusterPlacementStrategy K kafkaRequest s of
        Inr (Some cluster) \<Rightarrow> Inr cluster
      | _ \<Rightarrow> Inl (TooManyKafkaInstancesReached userMsg []))"

text \<open>The mark of multiple zones follows from the instance type.\<close>

(* src/internal/kafka/internal/services/kafka.go:396-404 kafkaService.RegisterKafkaJob *)
definition with_multi_az :: "KafkaRequest \<Rightarrow> KafkaRequest" where
  "with_multi_az k =
     (if k_InstanceType k = STANDARD then k\<lparr>k_MultiAZ := True\<rparr>
      else if k_InstanceType k = DEVELOPER then k\<lparr>k_MultiAZ := False\<rparr> else k)"

(* src/internal/kafka/internal/services/kafka.go:406-421 kafkaService.RegisterKafkaJob *)
definition region_check :: "'s kafkaService \<Rightarrow> KafkaRequest \<Rightarrow> 's \<Rightarrow> ServiceError option" where
  "region_check K kafkaRequest s =
     (if DesiredBillingModelIsEnterprise kafkaRequest then None
      else case HasAvailableCapacityInRegion K kafkaRequest s of
        Inl err \<Rightarrow> Some (if Code err = ErrorGeneral then general_cause (ServiceErr err) ''unable to validate your request, please try again'' [] else err)
      | Inr hasCapacity \<Rightarrow>
          if hasCapacity then None
          else Some (TooManyKafkaInstancesReached (Sprintf ''region %s cannot accept instance type: %s at this moment''
                 [FStr (k_Region kafkaRequest), FStr (k_InstanceType kafkaRequest)]) []))"

(* src/internal/kafka/internal/services/kafka.go:423-437 kafkaService.RegisterKafkaJob *)
definition place_kafka :: "'s kafkaService \<Rightarrow> KafkaRequest \<Rightarrow> 's \<Rightarrow> KafkaRequest svc" where
  "place_kafka K kafkaRequest s =
     (if \<not> IsDataPlaneAutoScalingEnabled (ks_dataplaneClusterConfig K) \<or> DesiredBillingModelIsEnterprise kafkaRequest then
        (case findADataPlaneClusterToPlaceTheKafka K kafkaRequest s of
           Inl err \<Rightarrow> Inl err
         | Inr cluster \<Rightarrow>
           (let k = kafkaRequest\<lparr>k_ClusterID := c_ClusterID cluster\<rparr> in
            Inr (if DesiredBillingModelIsEnterprise k then k\<lparr>k_CloudProvider := c_CloudProvider cluster, k_Region := c_Region cluster\<rparr> else k)))
      else Inr kafkaRequest)"

text \<open>The request that is written, once the quota is reserved.\<close>

(* src/internal/kafka/internal/services/kafka.go:445-478 kafkaService.RegisterKafkaJob *)
definition accepted_kafka :: "KafkaConfig \<Rightarrow> time \<Rightarrow> string \<Rightarrow> KafkaRequest \<Rightarrow> KafkaRequest svc" where
  "accepted_kafka kafkaConfig timeNow subscriptionId kafkaRequest =
     (case GetKafkaInstanceTypeByID (k_InstanceType kafkaRequest) (kc_SupportedInstanceTypes kafkaConfig) of
        Inl e \<Rightarrow> Inl (InstanceTypeNotSupported (err_Error e) [])
      | Inr instanceType \<Rightarrow>
        (case GetKafkaInstanceSizeByID (k_SizeId kafkaRequest) instanceType of
           Inl e \<Rightarrow> Inl (InstancePlanNotSupported (err_Error e) [])
         | Inr size' \<Rightarrow>
             Inr (kafkaRequest\<lparr>k_SubscriptionId := subscriptionId, k_Status := KafkaRequestStatusAccepted,
                    k_MaxDataRetentionSize := sz_MaxDataRetentionSize size', k_CreatedAt := timeNow, k_UpdatedAt := timeNow,
                    k_ExpiresAt := (case sz_LifespanSeconds size' of Some n \<Rightarrow> Some (timeNow + n * 1000000000) | None \<Rightarrow> k_ExpiresAt kafkaRequest),
                    k_QuotaType := qc_Type (kc_Quota kafkaConfig)\<rparr>)))"

(* src/internal/kafka/internal/services/kafka.go:390-486 kafkaService.RegisterKafkaJob *)
definition RegisterKafkaJob :: "'s kafkaService \<Rightarrow> string \<Rightarrow> time \<Rightarrow> KafkaRequest \<Rightarrow> 's \<Rightarrow> unit go \<times> 's" where
  "RegisterKafkaJob K newID timeNow kafkaRequest s =
     (let kafka = with_multi_az (kafkaRequest\<lparr>k_ID := newID\<rparr>) in
      case region_check K kafka s of
        Some err \<Rightarrow> (Err (ServiceErr err), s)
      | None \<Rightarrow>
        (case place_kafka K kafka s of
           Inl err \<Rightarrow> (Err (ServiceErr err), s)
         | Inr kafka \<Rightarrow>
           (case reserveQuota K kafka s of
              (Panic m, kafka', s') \<Rightarrow> (Panic m, s')
            | (Err err, kafka', s') \<Rightarrow> (Err err, s')
            | (Ok subscriptionId, kafka', s') \<Rightarrow>
              (case accepted_kafka (ks_kafkaConfig K) timeNow subscriptionId kafka' of
                 Inl err \<Rightarrow> (Err (ServiceErr err), s')
               | Inr row \<Rightarrow>
                 (case t_save (kafkaT (ks_db K)) row s' of
                    (Inl err, s'') \<Rightarrow> (Err (ServiceErr (general_cause err ''failed to create kafka request'' [])), s'')
                  | (Inr u, s'') \<Rightarrow> (Ok (), s''))))))"

section \<open>Preparation\<close>

(* src/internal/kafka/internal/services/util.go:26-32 TruncateString *)
definition TruncateString :: "string \<Rightarrow> nat \<Rightarrow> string" where
  "TruncateString str num = (if length str > num then take num str else str)"

(* src/internal/kafka/internal/services/util.go:36-38 buildTruncateKafkaIdentifier *)
definition buildTruncateKafkaIdentifier :: "KafkaRequest \<Rightarrow> string" where
  "buildTruncateKafkaIdentifier kafkaRequest =
     Sprintf ''%s-%s'' [FStr (TruncateString (k_Name kafkaRequest) 10), FStr (ToLower (k_ID kafkaRequest))]"

(* src/internal/kafka/internal/services/util.go:42-51 MaskProceedingandTrailingDash *)
definition MaskProceedingandTrailingDash :: "string \<Rightarrow> string" where
  "MaskProceedingandTrailingDash name =
     (let name' = (if HasSuffix name ''-'' then butlast name @ ''a'' else name) in
      if HasPrefix name' ''-'' then Replace1 name' ''-'' ''a'' else name')"

definition lower_letter :: "char \<Rightarrow> bool" where
  "lower_letter c \<longleftrightarrow> (97 :: nat) \<le> of_char c \<and> (of_char c :: nat) \<le> 122"

definition digit :: "char \<Rightarrow> bool" where
  "digit c \<longleftrightarrow> (48 :: nat) \<le> of_char c \<and> (of_char c :: nat) \<le> 57"

text \<open>\<^verbatim>\<open>ReplaceAllString\<close> with the pattern \<^verbatim>\<open>[^a-z]([^-a-z0-9]*[^a-z0-9])?\<close> and a dash.  A match starts at a character that
  is no letter and takes the run of characters after it that are neither dash, letter nor digit, together with one dash
  that may follow it.\<close>

(* src/internal/kafka/internal/services/util.go:24-24 dns1035ReplacementRE *)
function dns1035_replace :: "string \<Rightarrow> string" where
  "dns1035_replace [] = []"
| "dns1035_replace (c # s) =
     (if lower_letter c then c # dns1035_replace s
      else let rest = dropWhile (\<lambda>d. \<not> (d = CHR ''-'' \<or> lower_letter d \<or> digit d)) s in
        CHR ''-'' # (case rest of [] \<Rightarrow> [] | d # rest' \<Rightarrow> if d = CHR ''-'' then dns1035_replace rest' else dns1035_replace (d # rest')))"
  by pat_completeness auto
termination
proof (relation "measure length")
  fix c :: char and s rest d rest'
  assume r: "rest = dropWhile (\<lambda>d. \<not> (d = CHR ''-'' \<or> lower_letter d \<or> digit d)) s" "rest = d # rest'"
  have le: "length rest \<le> length s" unfolding r(1) by (rule length_dropWhile_le)
  then show "(rest', c # s) \<in> measure length" using r(2) by simp
  show "(d # rest', c # s) \<in> measure length" using le r(2) by simp
qed simp_all

(* src/internal/kafka/internal/services/util.go:54-66 replaceHostSpecialChar *)
definition replaceHostSpecialChar :: "(string \<Rightarrow> string list) \<Rightarrow> string \<Rightarrow> string err" where
  "replaceHostSpecialChar isDNS1035Label name =
     (let replacedName = MaskProceedingandTrailingDash (dns1035_replace (ToLower name)); validationErrors = isDNS1035Label replacedName in
      if length validationErrors > 0
      then Inl (ErrorString (Sprintf (''host name is not valid: %s. A DNS-1035 label must consist of lower case alphanumeric characters or '' @ [CHR 0x27] @ ''-'' @ [CHR 0x27] @
             '', start with an alphabetic character, and end with an alphanumeric character, regex used for validation is '' @ [CHR 0x27] @
             ''[a-z]([-a-z0-9]*[a-z0-9])?'' @ [CHR 0x27]) [FStr (Join validationErrors '','')]))
      else Inr replacedName)"

definition ManagedKafkaIngressDnsNamePrefix :: string where "ManagedKafkaIngressDnsNamePrefix = ''kas''"

definition DefaultIngressDnsNamePrefix :: string where "DefaultIngressDnsNamePrefix = ''apps''"

(* src/internal/kafka/internal/services/kafka.go:1411-1433 kafkaService.AssignBootstrapServerHost *)
definition AssignBootstrapServerHost :: "'s kafkaService \<Rightarrow> KafkaRequest \<Rightarrow> 's \<Rightarrow> KafkaRequest go \<times> 's" where
  "AssignBootstrapServerHost K kafkaRequest s =
     (case replaceHostSpecialChar (ks_IsDNS1035Label K) (buildTruncateKafkaIdentifier kafkaRequest) of
        Inl replaceErr \<Rightarrow> (Err (ServiceErr (general_cause replaceErr ''generated host is not valid'' [])), s)
      | Inr truncatedKafkaIdentifier \<Rightarrow>
          if kc_EnableKafkaCNAMERegistration (ks_kafkaConfig K)
          then (Ok (kafkaRequest\<lparr>k_BootstrapServerHost := Sprintf ''%s.%s'' [FStr truncatedKafkaIdentifier, FStr (k_KafkasRoutesBaseDomainName kafkaRequest)]\<rparr>), s)
          else case GetClusterDNS (ks_db K) (ks_clusterProviders K) (k_ClusterID kafkaRequest) s of
            (Panic m, s') \<Rightarrow> (Panic m, s')
          | (Err err, s') \<Rightarrow> (Err (ServiceErr (general_cause err ''error retrieving cluster DNS'' [])), s')
          | (Ok clusterDNS, s') \<Rightarrow>
              (Ok (kafkaRequest\<lparr>k_BootstrapServerHost := Sprintf ''%s.%s''
                 [FStr truncatedKafkaIdentifier, FStr (Replace1 clusterDNS DefaultIngressDnsNamePrefix ManagedKafkaIngressDnsNamePrefix)]\<rparr>), s'))"

(* src/internal/kafka/internal/services/kafka.go:1476-1490 kafkaService.getKafkaRoutesBaseDomainName *)
definition getKafkaRoutesBaseDomainName :: "'s kafkaService \<Rightarrow> KafkaRequest \<Rightarrow> string" where
  "getKafkaRoutesBaseDomainName K kafkaRequest =
     (let domain = kc_KafkaDomainName (ks_kafkaConfig K) in
      if \<not> tl_IsAutomaticCertificateManagementEnabled (ks_kafkaTLSCertificateManagementService K) then domain
      else if k_Status kafkaRequest = KafkaRequestStatusAccepted \<or> k_Status kafkaRequest = KafkaRequestStatusPreparing then
        (if IsADeveloperInstance kafkaRequest then Sprintf ''%s.%s'' [FStr TrialKafkasDomainShard, FStr domain]
         else Sprintf ''%s.%s'' [FStr (k_ID kafkaRequest), FStr domain])
      else domain)"

text \<open>The certificate step: whether the preparation goes on, stops until a later round, or fails.\<close>

datatype certificate_step = Continue | NotYet | CertificateError ServiceError

(* src/internal/kafka/internal/services/kafka.go:513-535 kafkaService.PrepareKafkaRequest *)
definition certificate_check :: "'s kafkaService \<Rightarrow> KafkaRequest \<Rightarrow> 's \<Rightarrow> certificate_step" where
  "certificate_check K kafkaRequest s =
     (let tls = ks_kafkaTLSCertificateManagementService K in
      if \<not> tl_IsAutomaticCertificateManagementEnabled tls then Continue
      else if \<not> HasCertificateInfo kafkaRequest then NotYet
      else case tl_GetCertificate tls (k_KafkasRoutesBaseDomainTLSCrtRef kafkaRequest, k_KafkasRoutesBaseDomainTLSKeyRef kafkaRequest) s of
        Inr certificate \<Rightarrow> Continue
      | Inl err \<Rightarrow>
          if err = fs_ErrNotExist then NotYet
          else CertificateError (general_cause err ''error checking if certificate for kafka %q has been created'' [FStr (k_ID kafkaRequest)]))"

(* src/internal/kafka/internal/services/kafka.go:542-561 kafkaService.PrepareKafkaRequest *)
definition canary_account :: "'s kafkaService \<Rightarrow> KafkaRequest \<Rightarrow> 's \<Rightarrow> KafkaRequest svc \<times> 's" where
  "canary_account K kafkaRequest s =
     (let keycloak = ks_keycloakService K in
      if \<not> kk_EnableAuthenticationOnKafka keycloak then (Inr kafkaRequest, s)
      else case kk_CreateServiceAccountInternal keycloak (ToLower (Sprintf ''%s-%s'' [FStr ''canary'', FStr (k_ID kafkaRequest)])) kafkaRequest s of
        (Inl err, s') \<Rightarrow> (Inl (FailedToCreateSSOClient ''failed to  create canary service account %s:%v'' [FStr (k_ID kafkaRequest), FStr (err_Error (ServiceErr err))]), s')
      | (Inr (clientID, clientSecret), s') \<Rightarrow>
          (Inr (kafkaRequest\<lparr>k_CanaryServiceAccountClientID := clientID, k_CanaryServiceAccountClientSecret := clientSecret\<rparr>), s'))"

text \<open>The object is changed in memory up to the step that fails; the result carries it.\<close>

(* src/internal/kafka/internal/services/kafka.go:508-580 kafkaService.PrepareKafkaRequest *)
definition PrepareKafkaRequest :: "'s kafkaService \<Rightarrow> string \<Rightarrow> KafkaRequest \<Rightarrow> 's \<Rightarrow> (ServiceError option \<times> KafkaRequest) go \<times> 's" where
  "PrepareKafkaRequest K newID kafkaRequest s =
     (let k1 = kafkaRequest\<lparr>k_Namespace := Sprintf ''kafka-%s'' [FStr (ToLower (k_ID kafkaRequest))]\<rparr>;
          k2 = k1\<lparr>k_KafkasRoutesBaseDomainName := getKafkaRoutesBaseDomainName K k1\<rparr> in
      case certificate_check K k2 s of
        NotYet \<Rightarrow> (Ok (None, k2), s)
      | CertificateError err \<Rightarrow> (Ok (Some err, k2), s)
      | Continue \<Rightarrow>
        (case AssignBootstrapServerHost K k2 s of
           (Panic m, s') \<Rightarrow> (Panic m, s')
         | (Err err, s') \<Rightarrow> (Ok (Some (general_cause err ''error assigning bootstrap server host to kafka %s'' [FStr (k_ID k2)]), k2), s')
         | (Ok k3, s') \<Rightarrow>
           (case canary_account K k3 s' of
              (Inl err, s'') \<Rightarrow> (Ok (Some err, k3), s'')
            | (Inr k4, s'') \<Rightarrow>
              (case Kafka_Update (ks_db K) (zero_Kafka\<lparr>k_ID := k_ID k4, k_BootstrapServerHost := k_BootstrapServerHost k4,
                      k_CanaryServiceAccountClientID := k_CanaryServiceAccountClientID k4,
                      k_CanaryServiceAccountClientSecret := k_CanaryServiceAccountClientSecret k4, k_PlacementId := newID,
                      k_Status := KafkaRequestStatusProvisioning, k_Namespace := k_Namespace k4\<rparr>) s'' of
                 (Some err, s3) \<Rightarrow> (Ok (Some (general_cause (ServiceErr err) ''failed to update kafka request'' []), k4), s3)
               | (None, s3) \<Rightarrow> (Ok (None, k4), s3)))))"

(* src/internal/kafka/internal/services/kafka.go:1435-1468 kafkaService.ManagedKafkasRoutesTLSCertificate *)
definition ManagedKafkasRoutesTLSCertificate :: "'s kafkaService \<Rightarrow> KafkaRequest \<Rightarrow> 's \<Rightarrow> goerror option \<times> 's" where
  "ManagedKafkasRoutesTLSCertificate K kafkaRequest s =
     (if Contains statusesOfKafkaThatAreNotActive (k_Status kafkaRequest) then (None, s)
      else
        let k = (if HasCertificateInfo kafkaRequest then kafkaRequest
                 else kafkaRequest\<lparr>k_KafkasRoutesBaseDomainName := getKafkaRoutesBaseDomainName K kafkaRequest\<rparr>) in
        case tl_ManageCertificate (ks_kafkaTLSCertificateManagementService K) (k_KafkasRoutesBaseDomainName k) s of
          (Inl err, s') \<Rightarrow> (Some err, s')
        | (Inr (certRef, keyRef), s') \<Rightarrow>
          (case Kafka_Updates (ks_db K) k (\<lambda>r. r\<lparr>k_KafkasRoutesBaseDomainTLSKeyRef := keyRef, k_KafkasRoutesBaseDomainTLSCrtRef := certRef,
                  k_KafkasRoutesBaseDomainName := k_KafkasRoutesBaseDomainName k\<rparr>) s' of
             (Some svcErr, s'') \<Rightarrow> (Some (ServiceErr svcErr), s'')
           | (None, s'') \<Rightarrow> (None, s'')))"

section \<open>Routes and deletion\<close>

(* src/internal/kafka/internal/services/kafka.go:1503-1512 kafkaService.getRoute53RegionFromKafkaRequest *)
definition getRoute53RegionFromKafkaRequest :: "KafkaRequest \<Rightarrow> string err" where
  "getRoute53RegionFromKafkaRequest kafkaRequest =
     (if k_CloudProvider kafkaRequest = AWS then Inr ''us-east-1''
      else if k_CloudProvider kafkaRequest = GCP then Inr ''us-east-1''
      else Inl (ServiceErr (GeneralError ''unknown cloud provider: %q'' [FStr (k_CloudProvider kafkaRequest)])))"

(* src/internal/kafka/internal/services/kafka.go:1389-1409 buildResourceRecordChange *)
definition buildResourceRecordChange :: "string \<Rightarrow> string \<Rightarrow> string \<Rightarrow> dns_change" where
  "buildResourceRecordChange recordName clusterIngress action =
     \<lparr>dns_Action = action, dns_Name = recordName, dns_Type = ''CNAME'', dns_TTL = 300, dns_Value = clusterIngress\<rparr>"

(* src/internal/kafka/internal/services/kafka.go:1376-1387 buildKafkaClusterCNAMESRecordBatch *)
definition buildKafkaClusterCNAMESRecordBatch :: "DataPlaneKafkaRoute list \<Rightarrow> string \<Rightarrow> dns_change list" where
  "buildKafkaClusterCNAMESRecordBatch routes action = map (\<lambda>r. buildResourceRecordChange (r_Domain r) (r_Router r) action) routes"

definition KafkaRoutesActionCreate :: string where "KafkaRoutesActionCreate = ''CREATE''"
definition KafkaRoutesActionDelete :: string where "KafkaRoutesActionDelete = ''DELETE''"

text \<open>A request whose routes column is null has nil routes.\<close>

(* src/internal/kafka/internal/services/kafka.go:1090-1119 kafkaService.ChangeKafkaCNAMErecords *)
definition ChangeKafkaCNAMErecords :: "'s kafkaService \<Rightarrow> KafkaRequest \<Rightarrow> string \<Rightarrow> 's \<Rightarrow> change_info svc \<times> 's" where
  "ChangeKafkaCNAMErecords K kafkaRequest action s =
     (if k_Routes kafkaRequest = JNil then (Inl (NewWithCause ErrorGeneral None ''failed to get routes'' []), s)
      else case GetRoutes kafkaRequest of
        Inl err \<Rightarrow> (Inl (general_cause err ''failed to get routes'' []), s)
      | Inr routes \<Rightarrow>
        (case getRoute53RegionFromKafkaRequest kafkaRequest of
           Inl err \<Rightarrow> (Inl (general_cause err ''error getting route 53 region from kafka request'' []), s)
         | Inr route53Region \<Rightarrow>
           (case ks_dnsClientFactory K route53Region of
              Inl err \<Rightarrow> (Inl (general_cause err ''unable to create aws client'' []), s)
            | Inr awsClient \<Rightarrow>
              (case dns_ChangeResourceRecordSets awsClient (kc_KafkaDomainName (ks_kafkaConfig K)) (buildKafkaClusterCNAMESRecordBatch routes action) s of
                 (Inl err, s') \<Rightarrow> (Inl (general_cause err ''unable to create domain record sets'' []), s')
               | (Inr changeRecordsOutput, s') \<Rightarrow> (Inr changeRecordsOutput, s')))))"

(* src/internal/kafka/internal/services/kafka.go:1121-1146 kafkaService.GetCNAMERecordStatus *)
definition GetCNAMERecordStatus :: "'s kafkaService \<Rightarrow> KafkaRequest \<Rightarrow> 's \<Rightarrow> change_info err" where
  "GetCNAMERecordStatus K kafkaRequest s =
     (case getRoute53RegionFromKafkaRequest kafkaRequest of
        Inl err \<Rightarrow> Inl (ServiceErr (general_cause err ''error getting route 53 region from kafka request'' []))
      | Inr route53Region \<Rightarrow>
        (case ks_dnsClientFactory K route53Region of
           Inl err \<Rightarrow> Inl (ServiceErr (general_cause err ''unable to create aws client'' []))
         | Inr awsClient \<Rightarrow>
           (case dns_GetChange awsClient (k_RoutesCreationId kafkaRequest) s of
              Inl err \<Rightarrow> Inl (ServiceErr (general_cause err ''unable to get status of Route53 change batch request with ID %q'' [FStr (k_RoutesCreationId kafkaRequest)]))
            | Inr changeInfo \<Rightarrow> Inr changeInfo)))"

text \<open>The clean up outside the database that precedes the deletion.\<close>

(* src/internal/kafka/internal/services/kafka.go:800-836 kafkaService.Delete *)
definition release_kafka :: "'s kafkaService \<Rightarrow> KafkaRequest \<Rightarrow> 's \<Rightarrow> ServiceError option \<times> 's" where
  "release_kafka K kafkaRequest s =
     (let keycloak = ks_keycloakService K; tls = ks_kafkaTLSCertificateManagementService K;
          (accountErr, s1) = (if kk_EnableAuthenticationOnKafka keycloak \<and> k_CanaryServiceAccountClientID kafkaRequest \<noteq> ''''
                              then kk_DeleteServiceAccountInternal keycloak (k_CanaryServiceAccountClientID kafkaRequest) s else (None, s)) in
      case (case accountErr of Some e \<Rightarrow> if Code e = ErrorServiceAccountNotFound then None else Some e | None \<Rightarrow> None) of
        Some keycloakErr \<Rightarrow> (Some (general_cause (ServiceErr keycloakErr) ''error deleting canary service account'' []), s1)
      | None \<Rightarrow>
        (case GetRoutes kafkaRequest of
           Inl err \<Rightarrow> (Some (general_cause err ''failed to get routes'' []), s1)
         | Inr routes \<Rightarrow>
           (case (if k_Routes kafkaRequest \<noteq> JNil \<and> kc_EnableKafkaCNAMERegistration (ks_kafkaConfig K)
                  then ChangeKafkaCNAMErecords K kafkaRequest KafkaRoutesActionDelete s1 else (Inr \<lparr>ci_Id = '''', ci_Status = ''''\<rparr>, s1)) of
              (Inl err, s2) \<Rightarrow> (Some err, s2)
            | (Inr output, s2) \<Rightarrow>
                if HasCertificateInfo kafkaRequest \<and> \<not> IsUsingSharedTLSCertificate (kc_KafkaDomainName (ks_kafkaConfig K)) kafkaRequest
                then (case tl_RevokeCertificate tls (k_KafkasRoutesBaseDomainName kafkaRequest) s2 of
                        (Some err, s3) \<Rightarrow> (Some (general_cause err ''error revoking certificate for the base domain %q of kafka with id %q''
                                            [FStr (k_KafkasRoutesBaseDomainName kafkaRequest), FStr (k_ID kafkaRequest)]), s3)
                      | (None, s3) \<Rightarrow> (None, s3))
                else (None, s2))))"

(* src/internal/kafka/internal/services/kafka.go:796-847 kafkaService.Delete *)
definition Kafka_Delete :: "'s kafkaService \<Rightarrow> KafkaRequest \<Rightarrow> 's \<Rightarrow> ServiceError option \<times> 's" where
  "Kafka_Delete K kafkaRequest s =
     (case (if k_ClusterID kafkaRequest \<noteq> '''' then release_kafka K kafkaRequest s else (None, s)) of
        (Some err, s') \<Rightarrow> (Some err, s')
      | (None, s') \<Rightarrow>
        (case (if k_ID kafkaRequest = '''' then (Inl ErrMissingWhereClause, s') else t_delete (kafkaT (ks_db K)) (\<lambda>r. k_ID r = k_ID kafkaRequest) s') of
           (Inl err, s'') \<Rightarrow> (Some (general_cause err ''unable to delete kafka request with id %s'' [FStr (k_ID kafkaRequest)]), s'')
         | (Inr u, s'') \<Rightarrow> (None, s'')))"

(* src/internal/kafka/internal/services/kafka.go:1514-1521 kafkaService.IsQuotaEntitlementActive *)
definition Kafka_IsQuotaEntitlementActive :: "'s kafkaService \<Rightarrow> KafkaRequest \<Rightarrow> 's \<Rightarrow> bool err" where
  "Kafka_IsQuotaEntitlementActive K kafkaRequest s =
     (case ks_quotaServiceFactory K (qc_Type (kc_Quota (ks_kafkaConfig K))) of
        Inl factoryErr \<Rightarrow> Inl (ServiceErr factoryErr)
      | Inr quotaService \<Rightarrow> qs_IsQuotaEntitlementActive quotaService kafkaRequest s)"

section \<open>Effects on the rows\<close>

text \<open>A table evolves along a relation when each row is kept or changed along it, under its identifier.\<close>

definition evolves :: "(KafkaRequest \<Rightarrow> KafkaRequest \<Rightarrow> bool) \<Rightarrow> KafkaRequest list \<Rightarrow> KafkaRequest list \<Rightarrow> bool" where
  "evolves T ks ks' \<longleftrightarrow> list_all2 (\<lambda>k k'. k_ID k' = k_ID k \<and> (k' = k \<or> T k k')) ks ks'"

lemma evolves_refl [intro, simp]: "evolves T ks ks"
  by (simp add: evolves_def list_all2_same)

lemma evolves_mono: "evolves T ks ks' \<Longrightarrow> (\<And>k k'. k \<in> set ks \<Longrightarrow> T k k' \<Longrightarrow> T' k k') \<Longrightarrow> evolves T' ks ks'"
  unfolding evolves_def list_all2_conv_all_nth by (metis nth_mem)

lemma evolves_map:
  assumes "\<And>k. k \<in> set ks \<Longrightarrow> p k \<Longrightarrow> k_ID (f k) = k_ID k \<and> T k (f k)"
  shows "evolves T ks (map (\<lambda>k. if p k then f k else k) ks)"
  unfolding evolves_def list_all2_conv_all_nth
proof (intro conjI allI impI)
  fix i assume i: "i < length ks"
  show "k_ID (map (\<lambda>k. if p k then f k else k) ks ! i) = k_ID (ks ! i)"
    and "map (\<lambda>k. if p k then f k else k) ks ! i = ks ! i \<or> T (ks ! i) (map (\<lambda>k. if p k then f k else k) ks ! i)"
    using assms[OF nth_mem[OF i]] i by auto
qed simp

lemma evolves_ids: "evolves T ks ks' \<Longrightarrow> map k_ID ks' = map k_ID ks"
  unfolding evolves_def by (induction rule: list_all2_induct) auto

lemma kafka_update_rows:
  assumes "store_lawful db clusters kafkas" "t_update (kafkaT db) p f s = (r, s')"
  shows "clusters s' = clusters s" and "kafkas s' = (if isl r then kafkas s else map (\<lambda>k. if p k then f k else k) (kafkas s))"
  using kafkaT_frame(1)[OF assms] t_update_rows[OF kafkaT_lawful[OF assms(1)]] t_update_fail[OF kafkaT_lawful[OF assms(1)]] assms(2)
  by (cases r; simp)+

text \<open>The statuses of a request that is being removed.\<close>

definition under_deletion :: "KafkaRequest \<Rightarrow> bool" where
  "under_deletion k \<longleftrightarrow> k_Status k \<in> set kafkaDeletionStatuses"

lemma under_deletion_iff: "under_deletion k \<longleftrightarrow> k_Status k = KafkaRequestStatusDeleting \<or> k_Status k = KafkaRequestStatusDeprovision"
  by (simp add: under_deletion_def kafkaDeletionStatuses_def)

lemma Kafka_nonzero_fields [simp]:
  "k_ID (Kafka_nonzero new row) = k_ID row"
  "k_Status (Kafka_nonzero new row) = (if k_Status new = '''' then k_Status row else k_Status new)"
  by (simp_all add: Kafka_nonzero_def nz_def)

text \<open>The guarded updates change rows with the key of the object that are not being removed.\<close>

lemma Kafka_Updates_rows:
  assumes "store_lawful db clusters kafkas" "Kafka_Updates db k f s = (r, s')" "\<And>x. k_ID (f x) = k_ID x"
  shows "clusters s' = clusters s" and "evolves (\<lambda>x x'. same_key k x \<and> \<not> under_deletion x \<and> x' = f x) (kafkas s) (kafkas s')"
proof -
  obtain r0 where u: "t_update (kafkaT db) (\<lambda>r. same_key k r \<and> k_Status r \<notin> set kafkaDeletionStatuses) f s = (r0, s')"
    using assms(2) by (auto simp: Kafka_Updates_def split: prod.splits sum.splits)
  note rows = kafka_update_rows[OF assms(1) u]
  show "clusters s' = clusters s" by (rule rows(1))
  show "evolves (\<lambda>x x'. same_key k x \<and> \<not> under_deletion x \<and> x' = f x) (kafkas s) (kafkas s')"
    unfolding rows(2) by (auto simp: under_deletion_def assms(3) intro!: evolves_map)
qed

lemma Kafka_Update_rows:
  assumes "store_lawful db clusters kafkas" "Kafka_Update db k s = (r, s')"
  shows "clusters s' = clusters s" and "evolves (\<lambda>x x'. same_key k x \<and> \<not> under_deletion x \<and> x' = Kafka_nonzero k x) (kafkas s) (kafkas s')"
proof -
  have "Kafka_Updates db k (Kafka_nonzero k) s = (r, s')" using assms(2) by (simp add: Kafka_Update_def Kafka_Updates_def)
  from Kafka_Updates_rows[OF assms(1) this]
  show "clusters s' = clusters s" "evolves (\<lambda>x x'. same_key k x \<and> \<not> under_deletion x \<and> x' = Kafka_nonzero k x) (kafkas s) (kafkas s')" by simp_all
qed

lemma GetByID_row:
  assumes "store_lawful db clusters kafkas" "GetByID db i s = Inr k"
  shows "k \<in> set (kafkas s)" "k_ID k = i" "i \<noteq> ''''"
  using assms(2) t_first_row[OF kafkaT_lawful[OF assms(1)]]
  by (auto simp: GetByID_def split: if_splits sum.splits)

lemma id_unique: "distinct (map k_ID ks) \<Longrightarrow> k \<in> set ks \<Longrightarrow> k' \<in> set ks \<Longrightarrow> k_ID k = k_ID k' \<Longrightarrow> k = k'"
  by (metis (no_types, lifting) distinct_map inj_onD)

lemma Kafka_UpdateStatus_rows:
  assumes "store_lawful db clusters kafkas" "Kafka_UpdateStatus db i st s = ((tried, err), s')" "distinct (map k_ID (kafkas s))"
  shows "clusters s' = clusters s"
    and "evolves (\<lambda>x x'. k_ID x = i \<and> k_Status x \<noteq> st \<and> (k_Status x = KafkaRequestStatusDeprovision \<longrightarrow> st = KafkaRequestStatusDeleting) \<and>
           x' = x\<lparr>k_Status := st\<rparr>) (kafkas s) (kafkas s')"
    and "err = None \<Longrightarrow> \<exists>k \<in> set (kafkas s'). k_ID k = i \<and> k_Status k = st"
    and "err \<noteq> None \<Longrightarrow> kafkas s' = kafkas s"
proof -
  let ?T = "\<lambda>x x'. k_ID x = i \<and> k_Status x \<noteq> st \<and> (k_Status x = KafkaRequestStatusDeprovision \<longrightarrow> st = KafkaRequestStatusDeleting) \<and> x' = x\<lparr>k_Status := st\<rparr>"
  have "clusters s' = clusters s \<and> evolves ?T (kafkas s) (kafkas s') \<and> (err = None \<longrightarrow> (\<exists>k \<in> set (kafkas s'). k_ID k = i \<and> k_Status k = st)) \<and>
      (err \<noteq> None \<longrightarrow> kafkas s' = kafkas s)"
  proof (cases "\<exists>k. GetByID db i s = Inr k \<and> \<not> (k_Status k = KafkaRequestStatusDeprovision \<and> st \<noteq> KafkaRequestStatusDeleting) \<and> k_Status k \<noteq> st")
    case True
    then obtain k where k: "GetByID db i s = Inr k" "\<not> (k_Status k = KafkaRequestStatusDeprovision \<and> st \<noteq> KafkaRequestStatusDeleting)" "k_Status k \<noteq> st"
      by blast
    obtain r0 where u: "t_update (kafkaT db) (\<lambda>r. k_ID r = i) (\<lambda>r. r\<lparr>k_Status := st\<rparr>) s = (r0, s')" and err: "isl r0 = (err \<noteq> None)"
      using assms(2) k by (auto simp: Kafka_UpdateStatus_def split: prod.splits sum.splits)
    note row = GetByID_row[OF assms(1) k(1)] and rows = kafka_update_rows[OF assms(1) u]
    have same: "x = k" if "x \<in> set (kafkas s)" "k_ID x = i" for x using id_unique[OF assms(3) that(1) row(1)] that(2) row(2) by simp
    have "evolves ?T (kafkas s) (map (\<lambda>r. if k_ID r = i then r\<lparr>k_Status := st\<rparr> else r) (kafkas s))"
      using k(2,3) same by (intro evolves_map) auto
    then have ev: "evolves ?T (kafkas s) (kafkas s')" unfolding rows(2) by simp
    have "k\<lparr>k_Status := st\<rparr> \<in> set (map (\<lambda>r. if k_ID r = i then r\<lparr>k_Status := st\<rparr> else r) (kafkas s))"
      using row(1,2) by (auto simp: image_iff intro!: bexI[of _ k])
    then have "\<exists>x \<in> set (kafkas s'). k_ID x = i \<and> k_Status x = st" if "err = None"
      unfolding rows(2) using err that row(2) by (intro bexI[of _ "k\<lparr>k_Status := st\<rparr>"]) simp_all
    moreover have "kafkas s' = kafkas s" if "err \<noteq> None" unfolding rows(2) using err that by simp
    ultimately show ?thesis using rows(1) ev by blast
  next
    case False
    then show ?thesis using assms(2) by (auto simp: Kafka_UpdateStatus_def split: sum.splits if_splits)
  qed
  then show "clusters s' = clusters s" "evolves ?T (kafkas s) (kafkas s')" "err = None \<Longrightarrow> \<exists>k \<in> set (kafkas s'). k_ID k = i \<and> k_Status k = st"
    "err \<noteq> None \<Longrightarrow> kafkas s' = kafkas s" by blast+
qed

section \<open>Quota\<close>

text \<open>What the registration relies on in a quota service: reserving quota leaves the tables alone, keeps where and
  what the request is, and on success fixes the billing model, which is the desired one when the request has one.\<close>

definition same_request :: "KafkaRequest \<Rightarrow> KafkaRequest \<Rightarrow> bool" where
  "same_request k k' \<longleftrightarrow> k_ID k' = k_ID k \<and> k_Region k' = k_Region k \<and> k_CloudProvider k' = k_CloudProvider k \<and>
     k_InstanceType k' = k_InstanceType k \<and> k_SizeId k' = k_SizeId k \<and> k_ClusterID k' = k_ClusterID k"

locale quota_provider =
  fixes q :: "'s quota_service" and clusters :: "'s \<Rightarrow> Cluster list" and kafkas :: "'s \<Rightarrow> KafkaRequest list"
  assumes reserve_frame: "qs_ReserveQuota q k s = (r, k', s') \<Longrightarrow> kafkas s' = kafkas s \<and> clusters s' = clusters s"
    and reserve_same: "qs_ReserveQuota q k s = (r, k', s') \<Longrightarrow> same_request k k'"
    and reserve_model: "qs_ReserveQuota q k s = (Ok sub, k', s') \<Longrightarrow>
      k_ActualKafkaBillingModel k' = k_DesiredKafkaBillingModel k' \<and>
      (k_DesiredKafkaBillingModel k \<noteq> '''' \<longrightarrow> k_DesiredKafkaBillingModel k' = k_DesiredKafkaBillingModel k)"
begin

lemma reserve_enterprise:
  assumes "qs_ReserveQuota q k s = (Ok sub, k', s')" "k_DesiredKafkaBillingModel k = BillingModelEnterprise"
  shows "k_ActualKafkaBillingModel k' = BillingModelEnterprise"
  using reserve_model[OF assms(1)] assms(2) by (simp add: BillingModelEnterprise_def)

lemma reserve_located:
  assumes "qs_ReserveQuota q k s = (Ok sub, k', s')" "accepted_kafka kafkaConfig t sub k' = Inr row"
  shows "same_request k row" "k_Status row = KafkaRequestStatusAccepted" "k_ActualKafkaBillingModel row = k_ActualKafkaBillingModel k'"
  using reserve_same[OF assms(1)] assms(2) by (auto simp: accepted_kafka_def same_request_def split: sum.splits)

end

section \<open>Region limits\<close>

text \<open>The capacity that counts against the limit of a region.\<close>

definition region_use :: "KafkaConfig \<Rightarrow> KafkaRequest list \<Rightarrow> string \<Rightarrow> string \<Rightarrow> string \<Rightarrow> int" where
  "region_use kafkaConfig ks region provider instanceType =
     sum_list (map (kafka_units kafkaConfig) (filter (\<lambda>r. k_Region r = region \<and> k_CloudProvider r = provider \<and>
       k_InstanceType r = instanceType \<and> k_ActualKafkaBillingModel r \<noteq> BillingModelEnterprise) ks))"

definition within_region_limits :: "'s kafkaService \<Rightarrow> KafkaRequest list \<Rightarrow> bool" where
  "within_region_limits K ks \<longleftrightarrow> (\<forall>region provider instanceType limit.
     GetInstanceLimit (ks_providerConfig K) region provider instanceType = Inr (Some limit) \<longrightarrow>
     region_use (ks_kafkaConfig K) ks region provider instanceType \<le> limit)"

lemma region_capacity_loop_sum: "region_capacity_loop kafkaConfig n ks = Inr m \<Longrightarrow> m = n + sum_list (map (kafka_units kafkaConfig) ks)"
proof (induction ks arbitrary: n)
  case (Cons k ks)
  obtain z where z: "GetKafkaInstanceSize kafkaConfig (k_InstanceType k) (k_SizeId k) = Inr z"
    "region_capacity_loop kafkaConfig (n + sz_CapacityConsumed z) ks = Inr m"
    using Cons.prems by (auto split: sum.splits)
  show ?case using Cons.IH[OF z(2)] z(1) by (simp add: kafka_units_def)
qed simp

lemma HasAvailableCapacityInRegion_limit:
  assumes "store_lawful (ks_db K) clusters kafkas" "HasAvailableCapacityInRegion K k s = Inr True"
    and "GetInstanceLimit (ks_providerConfig K) (k_Region k) (k_CloudProvider k) (k_InstanceType k) = Inr (Some limit)"
  shows "region_use (ks_kafkaConfig K) (kafkas s) (k_Region k) (k_CloudProvider k) (k_InstanceType k) + kafka_units (ks_kafkaConfig K) k \<le> limit"
proof -
  let ?p = "\<lambda>r. k_Region r = k_Region k \<and> k_CloudProvider r = k_CloudProvider k \<and>
             k_InstanceType r = k_InstanceType k \<and> k_ActualKafkaBillingModel r \<noteq> BillingModelEnterprise"
  obtain rows n z where rows: "t_scan (kafkaT (ks_db K)) ?p Unordered s = Inr rows"
    and n: "region_capacity_loop (ks_kafkaConfig K) 0 rows = Inr n"
    and z: "GetKafkaInstanceSize (ks_kafkaConfig K) (k_InstanceType k) (k_SizeId k) = Inr z" "n + sz_CapacityConsumed z \<le> limit"
    using assms(2,3) by (auto simp: HasAvailableCapacityInRegion_def capacityAvailableForRegionAndInstanceType_def Let_def split: sum.splits if_splits)
  have "sum_list (map (kafka_units (ks_kafkaConfig K)) (filter (\<lambda>x. True) rows)) =
      sum_list (map (kafka_units (ks_kafkaConfig K)) (filter (\<lambda>x. ?p x \<and> True) (kafkas s)))"
    by (rule t_scan_sum[OF kafkaT_lawful[OF assms(1)] rows])
  then show ?thesis using region_capacity_loop_sum[OF n] z by (simp add: region_use_def kafka_units_def)
qed

lemma region_use_append:
  "region_use kafkaConfig (ks @ [row]) region provider instanceType = region_use kafkaConfig ks region provider instanceType +
     (if k_Region row = region \<and> k_CloudProvider row = provider \<and> k_InstanceType row = instanceType \<and> k_ActualKafkaBillingModel row \<noteq> BillingModelEnterprise
      then kafka_units kafkaConfig row else 0)"
  by (simp add: region_use_def)

lemma same_request_units: "same_request k row \<Longrightarrow> kafka_units kafkaConfig row = kafka_units kafkaConfig k"
  by (simp add: same_request_def kafka_units_def)

lemma with_multi_az_fields [simp]:
  "k_ID (with_multi_az k) = k_ID k" "k_Region (with_multi_az k) = k_Region k" "k_CloudProvider (with_multi_az k) = k_CloudProvider k"
  "k_InstanceType (with_multi_az k) = k_InstanceType k" "k_SizeId (with_multi_az k) = k_SizeId k"
  "k_DesiredKafkaBillingModel (with_multi_az k) = k_DesiredKafkaBillingModel k"
  by (simp_all add: with_multi_az_def)

lemma place_kafka_fields:
  assumes "place_kafka K k s = Inr k'"
  shows "k_ID k' = k_ID k" "k_InstanceType k' = k_InstanceType k" "k_SizeId k' = k_SizeId k" "k_DesiredKafkaBillingModel k' = k_DesiredKafkaBillingModel k"
    "\<not> DesiredBillingModelIsEnterprise k \<Longrightarrow> k_Region k' = k_Region k \<and> k_CloudProvider k' = k_CloudProvider k"
proof -
  have e: "DesiredBillingModelIsEnterprise (k\<lparr>k_ClusterID := x\<rparr>) = DesiredBillingModelIsEnterprise k" for x
    by (simp add: DesiredBillingModelIsEnterprise_def)
  show "k_ID k' = k_ID k" "k_InstanceType k' = k_InstanceType k" "k_SizeId k' = k_SizeId k" "k_DesiredKafkaBillingModel k' = k_DesiredKafkaBillingModel k"
    "\<not> DesiredBillingModelIsEnterprise k \<Longrightarrow> k_Region k' = k_Region k \<and> k_CloudProvider k' = k_CloudProvider k"
    using assms by (auto simp: place_kafka_def Let_def e split: if_splits sum.splits)
qed

text \<open>The steps of a successful registration.\<close>

lemma RegisterKafkaJob_steps:
  assumes "RegisterKafkaJob K newID now k s = (r, s')"
  obtains (rejected) "r \<noteq> Ok ()" "s' = s"
    | (quota) placed x k' where "region_check K (with_multi_az (k\<lparr>k_ID := newID\<rparr>)) s = None"
        "place_kafka K (with_multi_az (k\<lparr>k_ID := newID\<rparr>)) s = Inr placed" "reserveQuota K placed s = (x, k', s')" "r \<noteq> Ok ()"
    | (reserved) placed sub k' s1 where "region_check K (with_multi_az (k\<lparr>k_ID := newID\<rparr>)) s = None"
        "place_kafka K (with_multi_az (k\<lparr>k_ID := newID\<rparr>)) s = Inr placed" "reserveQuota K placed s = (Ok sub, k', s1)"
        "(r \<noteq> Ok () \<and> s' = s1) \<or> (\<exists>row u. accepted_kafka (ks_kafkaConfig K) now sub k' = Inr row \<and> t_save (kafkaT (ks_db K)) row s1 = (u, s') \<and> (r = Ok () \<longleftrightarrow> \<not> isl u))"
proof (cases "region_check K (with_multi_az (k\<lparr>k_ID := newID\<rparr>)) s")
  case (Some err)
  have "r \<noteq> Ok ()" "s' = s" using assms by (auto simp: RegisterKafkaJob_def Let_def Some)
  then show ?thesis by (rule rejected)
next
  case None
  show ?thesis
  proof (cases "place_kafka K (with_multi_az (k\<lparr>k_ID := newID\<rparr>)) s")
    case (Inl e)
    have "r \<noteq> Ok ()" "s' = s" using assms by (auto simp: RegisterKafkaJob_def Let_def None Inl)
    then show ?thesis by (rule rejected)
  next
    case (Inr placed)
    obtain x k' s1 where res: "reserveQuota K placed s = (x, k', s1)" by (rule prod_cases3)
    show ?thesis
    proof (cases "\<exists>sub. x = Ok sub")
      case False
      have "r \<noteq> Ok ()" "s' = s1" using assms False by (auto simp: RegisterKafkaJob_def Let_def None Inr res split: go.splits)
      then show ?thesis using quota[OF None Inr, of x k'] res by simp
    next
      case True
      then obtain sub where x: "x = Ok sub" by blast
      show ?thesis
        by (rule reserved[OF None Inr res[unfolded x]])
          (use assms in \<open>auto simp: RegisterKafkaJob_def Let_def None Inr res x split: sum.splits prod.splits\<close>)
    qed
  qed
qed

lemma reserveQuota_ok:
  assumes "reserveQuota K k s = (x, k', s')"
  shows "(k' = k \<and> s' = s \<and> (\<forall>v. x \<noteq> Ok v)) \<or> (\<exists>t q. ks_quotaServiceFactory K t = Inr q \<and> qs_ReserveQuota q k s = (x, k', s'))"
  using assms by (auto simp: reserveQuota_def split: option.splits sum.splits)

lemma kafka_save_rows:
  assumes "store_lawful db clusters kafkas" "t_save (kafkaT db) row s = (u, s')" "k_ID row \<notin> k_ID ` set (kafkas s)"
  shows "clusters s' = clusters s" "kafkas s' = (if isl u then kafkas s else kafkas s @ [row])"
proof -
  show "clusters s' = clusters s" by (rule kafkaT_frame(2)[OF assms(1,2)])
  show "kafkas s' = (if isl u then kafkas s else kafkas s @ [row])"
  proof (cases u)
    case (Inl e)
    then show ?thesis using t_save_fail[OF kafkaT_lawful[OF assms(1)] assms(2)[unfolded Inl]] by simp
  next
    case (Inr x)
    then show ?thesis using t_save_rows[OF kafkaT_lawful[OF assms(1)] assms(2)[unfolded Inr]] upsert_new[OF assms(3)] by simp
  qed
qed

text \<open>The row of a request that passed the check of its region and got its quota keeps the limits.\<close>

lemma accepted_within_limits:
  assumes "store_lawful (ks_db K) clusters kafkas" "DesiredBillingModelIsEnterprise k \<Longrightarrow> k_DesiredKafkaBillingModel k = BillingModelEnterprise"
    and "within_region_limits K (kafkas s)" "region_check K (with_multi_az (k\<lparr>k_ID := newID\<rparr>)) s = None" "place_kafka K (with_multi_az (k\<lparr>k_ID := newID\<rparr>)) s = Inr located"
    and Q: "quota_provider q clusters kafkas" and q: "qs_ReserveQuota q located s = (Ok sub, k', s1)" and acc: "accepted_kafka (ks_kafkaConfig K) now sub k' = Inr row"
  shows "within_region_limits K (kafkas s @ [row])"
  unfolding within_region_limits_def
proof (intro allI impI)
  let ?k = "with_multi_az (k\<lparr>k_ID := newID\<rparr>)"
  note row = quota_provider.reserve_located[OF Q q acc] and pl = place_kafka_fields[OF assms(5)]
  fix region provider instanceType limit
  assume lim: "GetInstanceLimit (ks_providerConfig K) region provider instanceType = Inr (Some limit)"
  have old: "region_use (ks_kafkaConfig K) (kafkas s) region provider instanceType \<le> limit"
    using assms(3) lim unfolding within_region_limits_def by blast
  show "region_use (ks_kafkaConfig K) (kafkas s @ [row]) region provider instanceType \<le> limit"
  proof (cases "k_Region row = region \<and> k_CloudProvider row = provider \<and> k_InstanceType row = instanceType \<and> k_ActualKafkaBillingModel row \<noteq> BillingModelEnterprise")
    case True
    have ent: "DesiredBillingModelIsEnterprise ?k = DesiredBillingModelIsEnterprise k" by (simp add: DesiredBillingModelIsEnterprise_def)
    have no: "\<not> DesiredBillingModelIsEnterprise k"
    proof
      assume "DesiredBillingModelIsEnterprise k"
      then have "k_DesiredKafkaBillingModel located = BillingModelEnterprise" using assms(2) pl(4) by simp
      then show False using quota_provider.reserve_enterprise[OF Q q] row(3) True by simp
    qed
    then have "HasAvailableCapacityInRegion K ?k s = Inr True"
      using assms(4) ent by (auto simp: region_check_def split: sum.splits if_splits)
    moreover have loc: "k_Region ?k = region" "k_CloudProvider ?k = provider" "k_InstanceType ?k = instanceType"
      using row(1) pl(2,5) ent True no by (auto simp: same_request_def)
    ultimately have "region_use (ks_kafkaConfig K) (kafkas s) region provider instanceType + kafka_units (ks_kafkaConfig K) ?k \<le> limit"
      using HasAvailableCapacityInRegion_limit[OF assms(1), of ?k s limit] lim unfolding loc by blast
    moreover have "kafka_units (ks_kafkaConfig K) row = kafka_units (ks_kafkaConfig K) ?k"
      using row(1) pl(2,3) by (simp add: same_request_def kafka_units_def)
    ultimately show ?thesis unfolding region_use_append if_P[OF True] by simp
  next
    case False
    show ?thesis unfolding region_use_append if_not_P[OF False] using old by simp
  qed
qed

section \<open>Properties\<close>

text \<open>C2. Registering a Kafka rejects the request with the tables unchanged, or adds it as an accepted Kafka under its new
  identifier.  In both cases the capacity of the Kafkas that count against a limit of a region still respects it, provided that
  a billing model the code takes for the enterprise one is spelled \<^verbatim>\<open>enterprise\<close>: the check of the region is skipped whatever the
  letter case, while the sum leaves out only that spelling.\<close>

theorem RegisterKafkaJob_region_limits:
  assumes "store_lawful (ks_db K) clusters kafkas" "\<And>t q. ks_quotaServiceFactory K t = Inr q \<Longrightarrow> quota_provider q clusters kafkas"
    and "newID \<notin> k_ID ` set (kafkas s)" "within_region_limits K (kafkas s)" "RegisterKafkaJob K newID now k s = (r, s')"
  shows "((DesiredBillingModelIsEnterprise k \<longrightarrow> k_DesiredKafkaBillingModel k = BillingModelEnterprise) \<longrightarrow>
            within_region_limits K (kafkas s')) \<and> clusters s' = clusters s \<and>
         (if r = Ok () then \<exists>row. kafkas s' = kafkas s @ [row] \<and> k_ID row = newID \<and> k_Status row = KafkaRequestStatusAccepted
          else kafkas s' = kafkas s)"
  using assms(5)
proof (cases rule: RegisterKafkaJob_steps)
  case rejected
  then show ?thesis using assms(4) by simp
next
  case (quota placed x k')
  have "kafkas s' = kafkas s \<and> clusters s' = clusters s"
    using reserveQuota_ok[OF quota(3)] quota_provider.reserve_frame[OF assms(2)] by blast
  then show ?thesis using assms(4) quota(4) by simp
next
  case (reserved placed sub k' s1)
  let ?k = "with_multi_az (k\<lparr>k_ID := newID\<rparr>)"
  obtain t q where q: "ks_quotaServiceFactory K t = Inr q" "qs_ReserveQuota q placed s = (Ok sub, k', s1)"
    using reserveQuota_ok[OF reserved(3)] by auto
  note Q = assms(2)[OF q(1)]
  have s1: "kafkas s1 = kafkas s" "clusters s1 = clusters s" using quota_provider.reserve_frame[OF Q q(2)] by auto
  from reserved(4) consider "r \<noteq> Ok ()" "s' = s1"
    | row u where "accepted_kafka (ks_kafkaConfig K) now sub k' = Inr row" "t_save (kafkaT (ks_db K)) row s1 = (u, s')" "r = Ok () \<longleftrightarrow> \<not> isl u"
    by blast
  then show ?thesis
  proof cases
    case 1
    then show ?thesis using s1 assms(4) by simp
  next
    case 2
    note row = quota_provider.reserve_located[OF Q q(2) 2(1)] and pl = place_kafka_fields[OF reserved(2)]
    have id: "k_ID row = newID" using row(1) pl(1) by (simp add: same_request_def)
    then have "k_ID row \<notin> k_ID ` set (kafkas s1)" using assms(3) s1 by simp
    note save = kafka_save_rows[OF assms(1) 2(2) this, unfolded s1]
    have "within_region_limits K (kafkas s @ [row])"
      if "DesiredBillingModelIsEnterprise k \<Longrightarrow> k_DesiredKafkaBillingModel k = BillingModelEnterprise"
      using accepted_within_limits[OF assms(1) that assms(4) reserved(1,2) Q q(2) 2(1)] by blast
    then show ?thesis using save id row(2) 2(3) assms(4) by (cases "isl u") auto
  qed
qed

text \<open>A service over the in-memory tables with automatic scaling and a quota service that grants every request.\<close>

definition granting_quota :: "'s quota_service" where
  "granting_quota = \<lparr>qs_CheckIfQuotaIsDefinedForInstanceType = (\<lambda>u o' t bm s. Inr True),
     qs_ReserveQuota = (\<lambda>k s. (Ok '''', k\<lparr>k_ActualKafkaBillingModel := k_DesiredKafkaBillingModel k\<rparr>, s)),
     qs_ReserveQuotaIfNotAlreadyReserved = (\<lambda>k s. (Ok '''', k\<lparr>k_ActualKafkaBillingModel := k_DesiredKafkaBillingModel k\<rparr>, s)),
     qs_DeleteQuota = (\<lambda>i s. (None, s)), qs_DeleteQuotaForBillingModel = (\<lambda>i bm s. (None, s)),
     qs_ValidateBillingAccount = (\<lambda>o' t bm a m s. None), qs_IsQuotaEntitlementActive = (\<lambda>k s. Inr True)\<rparr>"

lemma granting_quota_provider: "quota_provider granting_quota clusters kafkas"
  by unfold_locales (auto simp: granting_quota_def same_request_def)

definition sample_service :: "(Cluster list \<times> KafkaRequest list) kafkaService" where
  "sample_service = \<lparr>ks_db = mem_db, ks_clusterProviders = Map.empty,
     ks_keycloakService = \<lparr>kk_EnableAuthenticationOnKafka = False, kk_CreateServiceAccountInternal = (\<lambda>c k s. (Inr (c, c), s)),
       kk_DeleteServiceAccountInternal = (\<lambda>c s. (None, s))\<rparr>,
     ks_kafkaConfig = sample_config, ks_quotaServiceFactory = (\<lambda>t. Inr granting_quota),
     ks_dnsClientFactory = (\<lambda>r. Inl (ErrorString ''no client'')),
     ks_dataplaneClusterConfig = sample_dataplane\<lparr>dc_DataPlaneClusterScalingType := AutoScaling\<rparr>, ks_providerConfig = sample_providers,
     ks_clusterPlacementStrategy = (\<lambda>k s. Inr None),
     ks_kafkaTLSCertificateManagementService = \<lparr>tl_IsAutomaticCertificateManagementEnabled = False, tl_GetCertificate = (\<lambda>r s. Inr r),
       tl_RevokeCertificate = (\<lambda>d s. (None, s)), tl_ManageCertificate = (\<lambda>d s. (Inr (d, d), s))\<rparr>,
     ks_IsDNS1035Label = (\<lambda>h. if h = '''' then [''empty''] else [])\<rparr>"

definition one_kafka :: "Cluster list \<times> KafkaRequest list" where
  "one_kafka = ([sample_cluster], [sample_kafka ''k1'' ''x1'' KafkaRequestStatusReady])"

definition small_kafka :: KafkaRequest where
  "small_kafka = zero_Kafka\<lparr>k_CloudProvider := ''aws'', k_Region := ''us-east-1'', k_InstanceType := STANDARD, k_SizeId := ''x2'',
     k_DesiredKafkaBillingModel := ''standard''\<rparr>"

lemma one_kafka_limits: "within_region_limits sample_service (snd one_kafka)"
  unfolding within_region_limits_def
proof (intro allI impI)
  fix region provider instanceType limit
  assume l: "GetInstanceLimit (ks_providerConfig sample_service) region provider instanceType = Inr (Some limit)"
  have "limit = 3 \<or> limit = 2" using l
    by (auto simp: sample_service_def sample_providers_def sample_region_def GetInstanceLimit_def ProviderList_GetByName_def RegionList_GetByName_def
        getLimitSetForInstanceTypeInRegion_def split: option.splits if_splits)
  moreover have "region_use (ks_kafkaConfig sample_service) (snd one_kafka) region provider instanceType \<le> 1"
    by (simp add: region_use_def one_kafka_def sample_service_def kafka_units_def sample_kafka_def size_x_def)
  ultimately show "region_use (ks_kafkaConfig sample_service) (snd one_kafka) region provider instanceType \<le> limit" by auto
qed

theorem RegisterKafkaJob_region_limits_witness:
  "\<exists>r s'. RegisterKafkaJob sample_service ''k9'' 100 small_kafka one_kafka = (r, s') \<and> r = Ok () \<and> map k_ID (snd s') = [''k1'', ''k9''] \<and>
     within_region_limits sample_service (snd s')"
proof -
  obtain r s' where j: "RegisterKafkaJob sample_service ''k9'' 100 small_kafka one_kafka = (r, s')" by (rule prod.exhaust)
  have "fst (RegisterKafkaJob sample_service ''k9'' 100 small_kafka one_kafka) = Ok ()" by code_simp
  then have r: "r = Ok ()" using j by simp
  have law: "store_lawful (ks_db sample_service) fst snd" using mem_db_lawful by (simp add: sample_service_def)
  have q: "\<And>t q. ks_quotaServiceFactory sample_service t = Inr q \<Longrightarrow> quota_provider q fst snd"
    using granting_quota_provider by (simp add: sample_service_def)
  have bm: "DesiredBillingModelIsEnterprise small_kafka \<longrightarrow> k_DesiredKafkaBillingModel small_kafka = BillingModelEnterprise" by code_simp
  have new: "''k9'' \<notin> k_ID ` set (snd one_kafka)" by (simp add: one_kafka_def sample_kafka_def)
  have t: "((DesiredBillingModelIsEnterprise small_kafka \<longrightarrow> k_DesiredKafkaBillingModel small_kafka = BillingModelEnterprise) \<longrightarrow>
        within_region_limits sample_service (snd s')) \<and> fst s' = fst one_kafka \<and>
      (if r = Ok () then \<exists>row. snd s' = snd one_kafka @ [row] \<and> k_ID row = ''k9'' \<and> k_Status row = KafkaRequestStatusAccepted
       else snd s' = snd one_kafka)"
    by (rule RegisterKafkaJob_region_limits[OF law _ new one_kafka_limits j]) (rule q)
  then obtain row where "snd s' = snd one_kafka @ [row]" "k_ID row = ''k9''" using r by auto
  then have "map k_ID (snd s') = [''k1'', ''k9'']" by (simp add: one_kafka_def sample_kafka_def)
  then show ?thesis using t bm r j by auto
qed

text \<open>The condition on the spelling is needed: a request for the billing model \<^verbatim>\<open>Enterprise\<close> in a region that is full is
  accepted and takes the region beyond its limit.\<close>

definition spelled_service :: "(Cluster list \<times> KafkaRequest list) kafkaService" where
  "spelled_service = sample_service\<lparr>ks_clusterPlacementStrategy := (\<lambda>k s. Inr (Some sample_cluster))\<rparr>"

definition full_region :: "Cluster list \<times> KafkaRequest list" where
  "full_region = ([sample_cluster], [sample_kafka ''k1'' ''x1'' KafkaRequestStatusReady, sample_kafka ''k2'' ''x2'' KafkaRequestStatusReady])"

lemma enterprise_spelling_breaks_limits:
  "(case RegisterKafkaJob spelled_service ''k9'' 100 (small_kafka\<lparr>k_DesiredKafkaBillingModel := ''Enterprise''\<rparr>) full_region of (r, s') \<Rightarrow>
      r = Ok () \<and> GetInstanceLimit sample_providers ''us-east-1'' ''aws'' STANDARD = Inr (Some 3) \<and>
      region_use sample_config (snd full_region) ''us-east-1'' ''aws'' STANDARD = 3 \<and>
      region_use sample_config (snd s') ''us-east-1'' ''aws'' STANDARD = 5)"
  by code_simp

text \<open>C36. A status update that succeeds leaves exactly one trace: the Kafka with the identifier has the new status, which
  differs from the old one; a Kafka that is to be deprovisioned only goes on to deletion.  An update that fails or is refused
  changes nothing.\<close>

theorem Kafka_UpdateStatus_guarded:
  assumes "store_lawful db clusters kafkas" "Kafka_UpdateStatus db i st s = ((tried, err), s')" "distinct (map k_ID (kafkas s))"
  shows "clusters s' = clusters s \<and> map k_ID (kafkas s') = map k_ID (kafkas s) \<and>
         (if err = None
          then \<exists>k \<in> set (kafkas s). k_ID k = i \<and> k_Status k \<noteq> st \<and>
                 (k_Status k = KafkaRequestStatusDeprovision \<longrightarrow> st = KafkaRequestStatusDeleting) \<and>
                 kafkas s' = map (\<lambda>r. if k_ID r = i then r\<lparr>k_Status := st\<rparr> else r) (kafkas s)
          else kafkas s' = kafkas s)"
proof (cases "err = None")
  case False
  then have "kafkas s' = kafkas s" by (rule Kafka_UpdateStatus_rows(4)[OF assms])
  then show ?thesis using Kafka_UpdateStatus_rows(1)[OF assms] False by (simp del: not_None_eq)
next
  case True
  obtain k u where k: "GetByID db i s = Inr k" "\<not> (k_Status k = KafkaRequestStatusDeprovision \<and> st \<noteq> KafkaRequestStatusDeleting)" "k_Status k \<noteq> st"
    and u: "t_update (kafkaT db) (\<lambda>r. k_ID r = i) (\<lambda>r. r\<lparr>k_Status := st\<rparr>) s = (Inr u, s')"
    using assms(2) True by (auto simp: Kafka_UpdateStatus_def split: prod.splits sum.splits if_splits)
  note row = GetByID_row[OF assms(1) k(1)] and rows = kafka_update_rows[OF assms(1) u]
  have "kafkas s' = map (\<lambda>r. if k_ID r = i then r\<lparr>k_Status := st\<rparr> else r) (kafkas s)" using rows(2) by simp
  then show ?thesis
    using True k(2,3) row(1,2) evolves_ids[OF Kafka_UpdateStatus_rows(2)[OF assms]] Kafka_UpdateStatus_rows(1)[OF assms]
    by (simp only: if_True simp_thms) blast
qed

theorem Kafka_UpdateStatus_guarded_witness:
  "distinct (map k_ID (snd sample_state)) \<and>
   (\<exists>s'. Kafka_UpdateStatus mem_db ''k1'' KafkaRequestStatusDeprovision sample_state = ((True, None), s') \<and>
      map k_ID (snd s') = [''k1'', ''k2'', ''k3''])"
proof -
  have d: "distinct (map k_ID (snd sample_state))" by code_simp
  obtain tried err s' where u: "Kafka_UpdateStatus mem_db ''k1'' KafkaRequestStatusDeprovision sample_state = ((tried, err), s')" by (metis prod.exhaust)
  have "fst (Kafka_UpdateStatus mem_db ''k1'' KafkaRequestStatusDeprovision sample_state) = (True, None)" by code_simp
  then show ?thesis using Kafka_UpdateStatus_guarded[OF mem_db_lawful u d] u d by (simp add: sample_state_def sample_kafka_def)
qed

end
