(* ===== verification/Quota_List.thy ===== *)
theory Quota_List
  imports Kafka_Service
begin

text \<open>
  The quota list: package \<^verbatim>\<open>pkg/quota_management\<close> and the quota service on it,
  \<^verbatim>\<open>internal/kafka/internal/services/quota/quota_management_list_service.go\<close>, with the factory that selects a quota
  service by type.  The records are the structs of the package.  \<^verbatim>\<open>time.Now()\<close> is the argument \<open>now\<close>, and the package
  variable \<^verbatim>\<open>MaxAllowedInstances\<close>, which a flag sets, is a field of the configuration.  The service that asks the
  account management system is the argument \<open>ams\<close> of the factory.  The interface of the Kafka service to its quota
  service, locale \<open>quota_provider\<close>, is interpreted on the list service.
\<close>

section \<open>The list\<close>

(* src/pkg/quota_management/billing_model.go:3-7 BillingModel *)
record BillingModel =
  qb_Id :: string
  qb_ExpirationDate :: "time option"
  qb_MaxAllowedInstances :: int

(* src/pkg/quota_management/expiration_date.go:58-64 ExpirationDate.HasExpired *)
definition ExpirationDate_HasExpired :: "time \<Rightarrow> time option \<Rightarrow> bool" where
  "ExpirationDate_HasExpired now e = (case e of None \<Rightarrow> False | Some t \<Rightarrow> now > t)"

(* src/pkg/quota_management/billing_model.go:9-11 BillingModel.HasExpired *)
definition HasExpired :: "time \<Rightarrow> BillingModel \<Rightarrow> bool" where
  "HasExpired now bm = ExpirationDate_HasExpired now (qb_ExpirationDate bm)"

(* src/pkg/quota_management/quota.go:14-17 Quota *)
record Quota =
  qt_InstanceTypeID :: string
  qt_KafkaBillingModels :: "BillingModel list"

(* src/pkg/quota_management/quota.go:8-12 defaultBillingModels *)
definition defaultBillingModels :: "BillingModel list" where
  "defaultBillingModels = [\<lparr>qb_Id = ''standard'', qb_ExpirationDate = None, qb_MaxAllowedInstances = 0\<rparr>]"

(* src/pkg/quota_management/quota.go:19-25 Quota.GetKafkaBillingModels *)
definition GetKafkaBillingModels :: "Quota \<Rightarrow> BillingModel list" where
  "GetKafkaBillingModels quota =
     (if length (qt_KafkaBillingModels quota) = 0 then defaultBillingModels else qt_KafkaBillingModels quota)"

(* src/pkg/quota_management/quota.go:27-34 Quota.GetKafkaBillingModelByID *)
definition GetKafkaBillingModelByID :: "Quota \<Rightarrow> string \<Rightarrow> BillingModel option" where
  "GetKafkaBillingModelByID quota billingModelId =
     snd (FindFirst (GetKafkaBillingModels quota) (\<lambda>bm. StringEqualsIgnoreCase (qb_Id bm) billingModelId))"

(* src/pkg/quota_management/shared.go:8-16 getBillingModel *)
definition getBillingModel :: "Quota list \<Rightarrow> string \<Rightarrow> string \<Rightarrow> BillingModel option" where
  "getBillingModel grantedQuota instanceTypeId billingModelID =
     (case snd (FindFirst grantedQuota (\<lambda>x. StringEqualsIgnoreCase (qt_InstanceTypeID x) instanceTypeId)) of
        Some instanceType \<Rightarrow> GetKafkaBillingModelByID instanceType billingModelID
      | None \<Rightarrow> None)"

(* src/pkg/quota_management/shared.go:18-21 hasQuotaConfigurationFor *)
definition defaultGrantedQuota :: "Quota list" where
  "defaultGrantedQuota = [\<lparr>qt_InstanceTypeID = ''standard'', qt_KafkaBillingModels = []\<rparr>]"

(* src/pkg/quota_management/account.go:7-11 Account *)
record Account =
  ac_Username :: string
  ac_MaxAllowedInstances :: int
  ac_GrantedQuota :: "Quota list"

(* src/pkg/quota_management/organisation.go:16-22 Organisation *)
record Organisation =
  org_Id :: string
  org_AnyUser :: bool
  org_MaxAllowedInstances :: int
  org_RegisteredUsers :: "Account list"
  org_GrantedQuota :: "Quota list"

text \<open>The two kinds of entry of the list share their methods, on the quota granted and the limit of the entry.\<close>

(* src/pkg/quota_management/account.go:37-42 Account.GetGrantedQuota *)
definition Account_GetGrantedQuota :: "Account \<Rightarrow> Quota list" where
  "Account_GetGrantedQuota account = (if length (ac_GrantedQuota account) = 0 then defaultGrantedQuota else ac_GrantedQuota account)"

(* src/pkg/quota_management/organisation.go:58-63 Organisation.GetGrantedQuota *)
definition Organisation_GetGrantedQuota :: "Organisation \<Rightarrow> Quota list" where
  "Organisation_GetGrantedQuota org = (if length (org_GrantedQuota org) = 0 then defaultGrantedQuota else org_GrantedQuota org)"

(* src/pkg/quota_management/account.go:54-57 AccountList.GetByUsername *)
definition GetByUsername :: "Account list \<Rightarrow> string \<Rightarrow> Account option" where
  "GetByUsername allowedAccounts username = snd (FindFirst allowedAccounts (\<lambda>a. username = ac_Username a))"

(* src/pkg/quota_management/organisation.go:75-78 OrganisationList.GetById *)
definition GetById :: "Organisation list \<Rightarrow> string \<Rightarrow> Organisation option" where
  "GetById orgList i = snd (FindFirst orgList (\<lambda>o'. i = org_Id o'))"

(* src/pkg/quota_management/organisation.go:32-34 Organisation.HasUsersRegistered *)
definition HasUsersRegistered :: "Organisation \<Rightarrow> bool" where
  "HasUsersRegistered org \<longleftrightarrow> length (org_RegisteredUsers org) > 0"

(* src/pkg/quota_management/organisation.go:24-30 Organisation.IsUserRegistered *)
definition IsUserRegistered :: "Organisation \<Rightarrow> string \<Rightarrow> bool" where
  "IsUserRegistered org username =
     (if \<not> HasUsersRegistered org then org_AnyUser org else GetByUsername (org_RegisteredUsers org) username \<noteq> None)"

(* src/pkg/quota_management/account.go:48-50 Account.GetBillingModel *)
definition Account_GetMaxAllowedInstances :: "int \<Rightarrow> time \<Rightarrow> Account \<Rightarrow> string \<Rightarrow> string \<Rightarrow> int" where
  "Account_GetMaxAllowedInstances MaxAllowedInstances now account instanceTypeID billingModelID =
     (case getBillingModel (Account_GetGrantedQuota account) instanceTypeID billingModelID of
        None \<Rightarrow> 0
      | Some bm \<Rightarrow>
          if HasExpired now bm then 0
          else if qb_MaxAllowedInstances bm > 0 then qb_MaxAllowedInstances bm
          else if ac_MaxAllowedInstances account > 0 then ac_MaxAllowedInstances account
          else MaxAllowedInstances)"

(* src/pkg/quota_management/organisation.go:40-56 Organisation.GetMaxAllowedInstances *)
definition Organisation_GetMaxAllowedInstances :: "int \<Rightarrow> time \<Rightarrow> Organisation \<Rightarrow> string \<Rightarrow> string \<Rightarrow> int" where
  "Organisation_GetMaxAllowedInstances MaxAllowedInstances now org instanceTypeID billingModelID =
     (case getBillingModel (Organisation_GetGrantedQuota org) instanceTypeID billingModelID of
        None \<Rightarrow> 0
      | Some bm \<Rightarrow>
          if HasExpired now bm then 0
          else if qb_MaxAllowedInstances bm > 0 then qb_MaxAllowedInstances bm
          else if org_MaxAllowedInstances org > 0 then org_MaxAllowedInstances org
          else MaxAllowedInstances)"

(* src/pkg/quota_management/quota_management_list_config.go:11-15 QuotaManagementListConfig *)
record QuotaManagementListConfig =
  ql_Organisations :: "Organisation list"
  ql_ServiceAccounts :: "Account list"
  ql_EnableInstanceLimitControl :: bool
  ql_MaxAllowedInstances :: int

(* src/pkg/quota_management/quota_management_list_config.go:44-53 QuotaManagementListConfig.GetAllowedAccountByUsernameAndOrgId *)
definition GetAllowedAccountByUsernameAndOrgId :: "QuotaManagementListConfig \<Rightarrow> string \<Rightarrow> string \<Rightarrow> Account option" where
  "GetAllowedAccountByUsernameAndOrgId c username orgId =
     (case (case GetById (ql_Organisations c) orgId of None \<Rightarrow> None | Some org \<Rightarrow> GetByUsername (org_RegisteredUsers org) username) of
        Some user \<Rightarrow> Some user
      | None \<Rightarrow> GetByUsername (ql_ServiceAccounts c) username)"

text \<open>The values of the interface \<^verbatim>\<open>QuotaManagementListItem\<close>.\<close>

(* src/pkg/quota_management/quota_management_list.go:10-15 QuotaManagementListItem *)
datatype QuotaManagementListItem = OrgItem Organisation | AccountItem Account

fun GetMaxAllowedInstances :: "int \<Rightarrow> time \<Rightarrow> QuotaManagementListItem \<Rightarrow> string \<Rightarrow> string \<Rightarrow> int" where
  "GetMaxAllowedInstances m now (OrgItem org) = Organisation_GetMaxAllowedInstances m now org"
| "GetMaxAllowedInstances m now (AccountItem account) = Account_GetMaxAllowedInstances m now account"

text \<open>\<^verbatim>\<open>IsInstanceCountWithinLimit\<close> has the same body for both.\<close>

(* src/pkg/quota_management/organisation.go:36-38 Organisation.IsInstanceCountWithinLimit *)
definition IsInstanceCountWithinLimit :: "int \<Rightarrow> time \<Rightarrow> QuotaManagementListItem \<Rightarrow> string \<Rightarrow> string \<Rightarrow> int \<Rightarrow> bool" where
  "IsInstanceCountWithinLimit m now item instanceTypeID billingModelID count' \<longleftrightarrow>
     count' \<le> GetMaxAllowedInstances m now item instanceTypeID billingModelID"

section \<open>The service on the list\<close>

(* src/internal/kafka/internal/services/quota/quota_management_list_service.go:24-28 QuotaManagementListService *)
record 's QuotaManagementListService =
  qm_db :: "'s db"
  qm_list :: QuotaManagementListConfig
  qm_kafkaConfig :: KafkaConfig

text \<open>The entry that a user's quota comes from: their organisation when it registers them, else their account.\<close>

(* src/internal/kafka/internal/services/quota/quota_management_list_service.go:94-107 QuotaManagementListService.ReserveQuota *)
definition quota_item :: "QuotaManagementListConfig \<Rightarrow> string \<Rightarrow> string \<Rightarrow> QuotaManagementListItem option" where
  "quota_item c username orgId =
     (case GetById (ql_Organisations c) orgId of
        Some org \<Rightarrow> if IsUserRegistered org username then Some (OrgItem org)
                    else map_option AccountItem (GetByUsername (ql_ServiceAccounts c) username)
      | None \<Rightarrow> map_option AccountItem (GetByUsername (ql_ServiceAccounts c) username))"

(* src/internal/kafka/internal/services/quota/quota_management_list_service.go:46-75 QuotaManagementListService.CheckIfQuotaIsDefinedForInstanceType *)
definition detectBillingModel :: "'s QuotaManagementListService \<Rightarrow> KafkaRequest \<Rightarrow> string go" where
  "detectBillingModel Q kafka =
     (if k_DesiredKafkaBillingModel kafka \<noteq> '''' then
        (case GetKafkaInstanceTypeByID (k_InstanceType kafka) (kc_SupportedInstanceTypes (qm_kafkaConfig Q)) of
           Inl err \<Rightarrow> Panic ''nil pointer dereference''
         | Inr instanceType \<Rightarrow>
           (case GetKafkaSupportedBillingModelByID (k_DesiredKafkaBillingModel kafka) instanceType of
              Inl err \<Rightarrow> Err (ServiceErr (InsufficientQuotaError (''invalid billing model '%s'' @ [CHR 0x27]) [FStr (k_DesiredKafkaBillingModel kafka)]))
            | Inr bm \<Rightarrow> Ok (k_DesiredKafkaBillingModel kafka)))
      else if k_InstanceType kafka = DEVELOPER then Ok ''standard''
      else
        (case (case GetById (ql_Organisations (qm_list Q)) (k_OrganisationId kafka) of
                 Some org \<Rightarrow> Some (Organisation_GetGrantedQuota org)
               | None \<Rightarrow> map_option Account_GetGrantedQuota (GetByUsername (ql_ServiceAccounts (qm_list Q)) (k_Owner kafka))) of
           None \<Rightarrow> Err (ServiceErr (InsufficientQuotaError
                     (''unable to detect any valid billing model for organisation '%s' and user '%s'' @ [CHR 0x27])
                     [FStr (k_OrganisationId kafka), FStr (k_Owner kafka)]))
         | Some grantedQuota \<Rightarrow>
           (case snd (FindFirst grantedQuota (\<lambda>q. StringEqualsIgnoreCase (qt_InstanceTypeID q) (k_InstanceType kafka))) of
              None \<Rightarrow> Err (ServiceErr (InsufficientQuotaError ''no quota assigned for instance type: %s'' [FStr (k_InstanceType kafka)]))
            | Some quota \<Rightarrow>
                if k_Marketplace kafka \<noteq> ''''
                then Err (ServiceErr (InsufficientQuotaError ''marketplace is not supported when using QUOTA-LIST'' []))
                else case GetKafkaBillingModelByID quota ''standard'' of
                  Some bm \<Rightarrow> Ok (qb_Id bm)
                | None \<Rightarrow> Ok (qb_Id (GetKafkaBillingModels quota ! 0)))))"

text \<open>The Kafkas that the quota of a request is counted over.\<close>

(* src/internal/kafka/internal/services/quota/quota_management_list_service.go:112-123 QuotaManagementListService.ReserveQuota *)
definition quota_rows :: "bool \<Rightarrow> KafkaRequest \<Rightarrow> KafkaRequest \<Rightarrow> bool" where
  "quota_rows filterByOrg kafka r \<longleftrightarrow>
     k_InstanceType r = k_InstanceType kafka \<and>
     (k_ActualKafkaBillingModel r = k_DesiredKafkaBillingModel kafka \<or> k_DesiredKafkaBillingModel r = k_DesiredKafkaBillingModel kafka) \<and>
     (if k_InstanceType kafka \<noteq> DEVELOPER \<and> filterByOrg
      then k_OrganisationId r = k_OrganisationId kafka else k_Owner r = k_Owner kafka)"

(* src/internal/kafka/internal/services/quota/quota_management_list_service.go:93-105 QuotaManagementListService.ReserveQuota *)
definition quota_message :: "int \<Rightarrow> time \<Rightarrow> KafkaRequest \<Rightarrow> QuotaManagementListItem option \<Rightarrow> string" where
  "quota_message m now kafka item =
     (case item of
        Some (OrgItem org) \<Rightarrow> Sprintf ''organization '%s' has reached a maximum number of %d allowed streaming units''
          [FStr (k_OrganisationId kafka), FInt (Organisation_GetMaxAllowedInstances m now org (k_InstanceType kafka) (k_DesiredKafkaBillingModel kafka))]
      | Some (AccountItem user) \<Rightarrow> Sprintf ''user '%s' has reached a maximum number of %d allowed streaming units''
          [FStr (k_Owner kafka), FInt (Account_GetMaxAllowedInstances m now user (k_InstanceType kafka) (k_DesiredKafkaBillingModel kafka))]
      | None \<Rightarrow> Sprintf ''user '%s' has reached a maximum number of %d allowed streaming units'' [FStr (k_Owner kafka), FInt m])"

definition is_org :: "QuotaManagementListItem option \<Rightarrow> bool" where
  "is_org item = (case item of Some (OrgItem org) \<Rightarrow> True | _ \<Rightarrow> False)"

text \<open>The decision once the capacity in use is known, lines 138 to 163.\<close>

(* src/internal/kafka/internal/services/quota/quota_management_list_service.go:138-163 QuotaManagementListService.ReserveQuota *)
definition quota_decision ::
  "'s QuotaManagementListService \<Rightarrow> time \<Rightarrow> KafkaRequest \<Rightarrow> QuotaManagementListItem option \<Rightarrow> int \<Rightarrow> ServiceError option" where
  "quota_decision Q now kafka item totalInstanceCount =
     (let m = ql_MaxAllowedInstances (qm_list Q) in
      case item of
        Some i \<Rightarrow>
          if k_InstanceType kafka \<noteq> DEVELOPER then
            (case GetKafkaInstanceSize (qm_kafkaConfig Q) (k_InstanceType kafka) (k_SizeId kafka) of
               Inl e \<Rightarrow> Some (general_cause e ''error reserving quota'' [])
             | Inr kafkaInstanceSize \<Rightarrow>
                 if IsInstanceCountWithinLimit m now i (k_InstanceType kafka) (k_DesiredKafkaBillingModel kafka)
                      (totalInstanceCount + sz_CapacityConsumed kafkaInstanceSize)
                 then None else Some (MaximumAllowedInstanceReached (quota_message m now kafka item) []))
          else Some (InsufficientQuotaError ''Insufficient quota'' [])
      | None \<Rightarrow>
          if k_InstanceType kafka = DEVELOPER then
            (if totalInstanceCount \<ge> m then Some (MaximumAllowedInstanceReached (quota_message m now kafka item) []) else None)
          else Some (InsufficientQuotaError ''Insufficient quota'' []))"

(* src/internal/kafka/internal/services/quota/quota_management_list_service.go:78-163 QuotaManagementListService.ReserveQuota *)
definition QuotaList_ReserveQuota :: "'s QuotaManagementListService \<Rightarrow> time \<Rightarrow> KafkaRequest \<Rightarrow> 's \<Rightarrow> string go \<times> KafkaRequest" where
  "QuotaList_ReserveQuota Q now request s =
     (case detectBillingModel Q request of
        Panic m \<Rightarrow> (Panic m, request)
      | Err err \<Rightarrow> (Err err, request)
      | Ok billingModelID \<Rightarrow>
        (let kafka = request\<lparr>k_DesiredKafkaBillingModel := billingModelID\<rparr>;
             reserved = kafka\<lparr>k_ActualKafkaBillingModel := billingModelID\<rparr> in
         if \<not> ql_EnableInstanceLimitControl (qm_list Q) then (Ok '''', reserved)
         else
           (let item = quota_item (qm_list Q) (k_Owner kafka) (k_OrganisationId kafka);
                errMessage = Sprintf (''failed to check kafka capacity for instance type '%s'' @ [CHR 0x27]) [FStr (k_InstanceType kafka)] in
            case t_scan (kafkaT (qm_db Q)) (quota_rows (is_org item) kafka) Unordered s of
              Inl err \<Rightarrow> (Err (ServiceErr (GeneralError errMessage [])), kafka)
            | Inr kafkas \<Rightarrow>
              (case region_capacity_loop (qm_kafkaConfig Q) 0 kafkas of
                 Inl e \<Rightarrow> (Err (ServiceErr (general_cause e errMessage [])), kafka)
               | Inr totalInstanceCount \<Rightarrow>
                 (case quota_decision Q now kafka item totalInstanceCount of
                    Some err \<Rightarrow> (Err (ServiceErr err), kafka)
                  | None \<Rightarrow> (Ok '''', reserved))))))"

(* src/internal/kafka/internal/services/quota/quota_management_list_service.go:234-266 QuotaManagementListService.IsQuotaEntitlementActive *)

text \<open>The service as a value of the interface.\<close>


section \<open>What the service promises\<close>





text \<open>The capacity in use that a request is counted with, and the rule the list stands for: a listed entry gets its
  limit, and who is not listed gets developer instances only, below the default limit.\<close>

definition quota_use :: "KafkaConfig \<Rightarrow> KafkaRequest list \<Rightarrow> bool \<Rightarrow> KafkaRequest \<Rightarrow> int" where
  "quota_use kafkaConfig ks byOrg k = sum_list (map (kafka_units kafkaConfig) (filter (quota_rows byOrg k) ks))"

definition quota_admits :: "'s QuotaManagementListService \<Rightarrow> time \<Rightarrow> KafkaRequest list \<Rightarrow> KafkaRequest \<Rightarrow> bool" where
  "quota_admits Q now ks k =
     (let m = ql_MaxAllowedInstances (qm_list Q); item = quota_item (qm_list Q) (k_Owner k) (k_OrganisationId k);
          used = quota_use (qm_kafkaConfig Q) ks (is_org item) k in
      case item of
        Some i \<Rightarrow> k_InstanceType k \<noteq> DEVELOPER \<and>
                  used + kafka_units (qm_kafkaConfig Q) k \<le> GetMaxAllowedInstances m now i (k_InstanceType k) (k_DesiredKafkaBillingModel k)
      | None \<Rightarrow> k_InstanceType k = DEVELOPER \<and> used < m)"

lemma counted_use:
  assumes "store_lawful (qm_db Q) clusters kafkas" "t_scan (kafkaT (qm_db Q)) (quota_rows byOrg k) Unordered s = Inr ks"
    and "region_capacity_loop (qm_kafkaConfig Q) 0 ks = Inr n"
  shows "n = quota_use (qm_kafkaConfig Q) (kafkas s) byOrg k"
  using region_capacity_loop_sum[OF assms(3)] t_scan_sum[OF kafkaT_lawful[OF assms(1)] assms(2), of "kafka_units (qm_kafkaConfig Q)" "\<lambda>x. True"]
  by (simp add: quota_use_def)

lemma code_general:
  "Code (general_cause c r vs) = ErrorGeneral" "Code (GeneralError r vs) = ErrorGeneral"
  by (simp_all add: general_cause_def GeneralError_def New_def New_simps split: option.split)

lemma quota_decision_admits:
  assumes "quota_decision Q now k (quota_item (qm_list Q) (k_Owner k) (k_OrganisationId k))
             (quota_use (qm_kafkaConfig Q) ks (is_org (quota_item (qm_list Q) (k_Owner k) (k_OrganisationId k))) k) = d"
  shows "d = None \<Longrightarrow> quota_admits Q now ks k" and "d = Some e \<Longrightarrow> Code e \<noteq> ErrorGeneral \<Longrightarrow> \<not> quota_admits Q now ks k"
  using assms
  by (auto simp: quota_decision_def quota_admits_def Let_def IsInstanceCountWithinLimit_def kafka_units_def code_general
      split: option.splits if_splits sum.splits)

lemma quota_admits_actual: "quota_admits Q now ks (k\<lparr>k_ActualKafkaBillingModel := b\<rparr>) = quota_admits Q now ks k"
proof -
  have "quota_rows o' (k\<lparr>k_ActualKafkaBillingModel := b\<rparr>) = quota_rows o' k" for o' by (simp add: fun_eq_iff quota_rows_def)
  then show ?thesis by (simp add: quota_admits_def quota_use_def kafka_units_def cong: option.case_cong)
qed

lemma ReserveQuota_granted:
  assumes "store_lawful (qm_db Q) clusters kafkas" "ql_EnableInstanceLimitControl (qm_list Q)" "detectBillingModel Q k = Ok b"
    and "QuotaList_ReserveQuota Q now k s = (r, k')"
  shows "(r = Ok '''' \<longrightarrow> quota_admits Q now (kafkas s) k' \<and> k' = k\<lparr>k_DesiredKafkaBillingModel := b, k_ActualKafkaBillingModel := b\<rparr>) \<and>
         (\<forall>e. r = Err (ServiceErr e) \<longrightarrow> Code e \<noteq> ErrorGeneral \<longrightarrow> \<not> quota_admits Q now (kafkas s) k') \<and>
         (r = Ok '''' \<or> (\<exists>e. r = Err (ServiceErr e)))"
proof -
  let ?k = "k\<lparr>k_DesiredKafkaBillingModel := b\<rparr>"
  let ?i = "quota_item (qm_list Q) (k_Owner ?k) (k_OrganisationId ?k)"
  show ?thesis
  proof (cases "t_scan (kafkaT (qm_db Q)) (quota_rows (is_org ?i) ?k) Unordered s")
    case (Inl e)
    then have "\<exists>m. r = Err (ServiceErr (GeneralError m []))"
      using assms(2-4) by (auto simp: QuotaList_ReserveQuota_def Let_def)
    then show ?thesis by (auto simp: code_general)
  next
    case scan: (Inr ks)
    show ?thesis
    proof (cases "region_capacity_loop (qm_kafkaConfig Q) 0 ks")
      case (Inl e)
      then have "\<exists>m. r = Err (ServiceErr (general_cause e m []))"
        using assms(2-4) scan by (auto simp: QuotaList_ReserveQuota_def Let_def)
      then show ?thesis by (auto simp: code_general)
    next
      case (Inr n)
      obtain d where d: "quota_decision Q now ?k ?i (quota_use (qm_kafkaConfig Q) (kafkas s) (is_org ?i) ?k) = d" by simp
      have res: "(r, k') = (case d of Some err \<Rightarrow> (Err (ServiceErr err), ?k) | None \<Rightarrow> (Ok '''', ?k\<lparr>k_ActualKafkaBillingModel := b\<rparr>))"
        using assms(2-4) scan Inr d counted_use[OF assms(1) scan Inr] by (simp add: QuotaList_ReserveQuota_def Let_def)
      show ?thesis
      proof (cases d)
        case None
        then have "r = Ok ''''" "k' = ?k\<lparr>k_ActualKafkaBillingModel := b\<rparr>" using res by simp_all
        moreover have "quota_admits Q now (kafkas s) (?k\<lparr>k_ActualKafkaBillingModel := b\<rparr>)"
          unfolding quota_admits_actual by (rule quota_decision_admits(1)[OF d None])
        ultimately show ?thesis by simp
      next
        case (Some e)
        then have "r = Err (ServiceErr e)" "k' = ?k" using res by simp_all
        then show ?thesis using quota_decision_admits(2)[OF d Some] by simp
      qed
    qed
  qed
qed









section \<open>Properties\<close>

text \<open>C37. The quota list admits exactly what it stands for.  When limits are enforced and a billing model is found, a
  reservation is granted only to a request that the list admits, and one refused for another reason than a failure of the
  database or the configuration is one the list does not admit.  A granted request carries the billing model found as
  desired and actual one.\<close>

theorem ReserveQuota_admission:
  assumes "store_lawful (qm_db Q) clusters kafkas" "ql_EnableInstanceLimitControl (qm_list Q)" "detectBillingModel Q k = Ok b"
    and "QuotaList_ReserveQuota Q now k s = (r, k')"
  shows "(r = Ok '''' \<longrightarrow> quota_admits Q now (kafkas s) k' \<and> k' = k\<lparr>k_DesiredKafkaBillingModel := b, k_ActualKafkaBillingModel := b\<rparr>) \<and>
         (\<forall>e. r = Err (ServiceErr e) \<longrightarrow> Code e \<noteq> ErrorGeneral \<longrightarrow> \<not> quota_admits Q now (kafkas s) k') \<and>
         (r = Ok '''' \<or> (\<exists>e. r = Err (ServiceErr e)))"
  by (rule ReserveQuota_granted[OF assms])


text \<open>An organisation listed for all of its users, with two streaming units of the standard billing model.\<close>

definition sample_quota_list :: QuotaManagementListConfig where
  "sample_quota_list = \<lparr>ql_Organisations = [\<lparr>org_Id = ''org1'', org_AnyUser = True, org_MaxAllowedInstances = 2,
       org_RegisteredUsers = [], org_GrantedQuota = []\<rparr>],
     ql_ServiceAccounts = [], ql_EnableInstanceLimitControl = True, ql_MaxAllowedInstances = 1\<rparr>"

definition sample_list_service :: "(Cluster list \<times> KafkaRequest list) QuotaManagementListService" where
  "sample_list_service = \<lparr>qm_db = mem_db, qm_list = sample_quota_list, qm_kafkaConfig = sample_config\<rparr>"

definition listed_kafka :: KafkaRequest where
  "listed_kafka = small_kafka\<lparr>k_OrganisationId := ''org1'', k_Owner := ''ada'', k_DesiredKafkaBillingModel := ''''\<rparr>"

theorem ReserveQuota_admission_witness:
  "detectBillingModel sample_list_service listed_kafka = Ok ''standard'' \<and>
   (\<exists>r k'. QuotaList_ReserveQuota sample_list_service 100 listed_kafka one_kafka = (r, k') \<and>
      quota_admits sample_list_service 100 (snd one_kafka) k' \<and> k_ActualKafkaBillingModel k' = ''standard'')"
proof -
  have d: "detectBillingModel sample_list_service listed_kafka = Ok ''standard''" by code_simp
  have e: "ql_EnableInstanceLimitControl (qm_list sample_list_service)" by code_simp
  have law: "store_lawful (qm_db sample_list_service) fst snd" using mem_db_lawful by (simp add: sample_list_service_def)
  obtain r k' where q: "QuotaList_ReserveQuota sample_list_service 100 listed_kafka one_kafka = (r, k')" by (rule prod.exhaust)
  have "fst (QuotaList_ReserveQuota sample_list_service 100 listed_kafka one_kafka) = Ok ''''" by code_simp
  then have "r = Ok ''''" using q by simp
  then have "quota_admits sample_list_service 100 (snd one_kafka) k'"
    "k' = listed_kafka\<lparr>k_DesiredKafkaBillingModel := ''standard'', k_ActualKafkaBillingModel := ''standard''\<rparr>"
    using ReserveQuota_admission[OF law e d q] by blast+
  then have "quota_admits sample_list_service 100 (snd one_kafka) k'" "k_ActualKafkaBillingModel k' = ''standard''" by simp_all
  then show ?thesis using d q by blast
qed






end
