(* ===== verification/Data_Plane.thy ===== *)
theory Data_Plane
  imports Kafka_Service
begin

text \<open>
  The reports of the data plane: \<^verbatim>\<open>internal/kafka/internal/services/data_plane_kafka.go\<close>, which takes the statuses of
  the Kafkas of a cluster into the table, and \<^verbatim>\<open>data_plane_cluster.go\<close>, which takes the status of the cluster.
  The statuses and deployment types of a managed Kafka are the strings of the code.  \<^verbatim>\<open>api.NewID()\<close> is a stream of
  identifiers, indexed by the position of the report.  The counts of reserved Kafkas, which the code hands to the
  metrics, are part of the result; log messages and other metrics are left out.

  The writes of a report go through the guarded updates of the Kafka service.  What a report does to the table is
  stated as a relation between the row before and after, \<open>report_step\<close>, which is reflexive and transitive and so
  describes a whole list of reports.
\<close>

section \<open>Reading a report\<close>

text \<open>The constants of lines 36 to 50 that name a status.\<close>

definition statusInstalling :: string where "statusInstalling = ''installing''"
definition statusReady :: string where "statusReady = ''ready''"
definition statusError :: string where "statusError = ''error''"
definition statusRejected :: string where "statusRejected = ''rejected''"
definition statusRejectedClusterFull :: string where "statusRejectedClusterFull = ''rejectedClusterFull''"
definition statusDeleted :: string where "statusDeleted = ''deleted''"
definition statusUnknown :: string where "statusUnknown = ''unknown''"
definition statusSuspended :: string where "statusSuspended = ''suspended''"

(* src/internal/kafka/internal/services/data_plane_kafka.go:467-498 dataPlaneKafkaService.getManagedKafkaStatus *)
fun managed_status :: "DataPlaneKafkaStatusCondition list \<Rightarrow> string" where
  "managed_status [] = statusInstalling"
| "managed_status (c # rest) =
     (if \<not> EqualFold (cond_Type c) ''Ready'' then managed_status rest
      else if EqualFold (cond_Reason c) ''Suspended'' then statusSuspended
      else if EqualFold (cond_Status c) ''True'' then statusReady
      else if EqualFold (cond_Status c) ''Unknown'' then statusUnknown
      else if EqualFold (cond_Reason c) ''Installing'' then statusInstalling
      else if EqualFold (cond_Reason c) ''Deleted'' then statusDeleted
      else if EqualFold (cond_Reason c) ''Error'' then statusError
      else if EqualFold (cond_Reason c) ''Rejected'' then
        (if EqualFold (cond_Message c) ''Cluster has insufficient resources'' then statusRejectedClusterFull else statusRejected)
      else managed_status rest)"

(* src/internal/kafka/internal/services/data_plane_kafka.go:466-499 dataPlaneKafkaService.getManagedKafkaStatus *)
definition getManagedKafkaStatus :: "DataPlaneKafkaStatus \<Rightarrow> string" where
  "getManagedKafkaStatus status = managed_status (ds_Conditions status)"

definition reservedDeploymentType :: string where "reservedDeploymentType = ''reserved''"
definition realDeploymentType :: string where "realDeploymentType = ''real''"

(* src/internal/kafka/internal/services/data_plane_kafka.go:525-531 dataPlaneKafkaService.getManagedKafkaDeploymentType *)
definition getManagedKafkaDeploymentType :: "DataPlaneKafkaStatus \<Rightarrow> string" where
  "getManagedKafkaDeploymentType ks =
     (if HasPrefix (ds_KafkaClusterId ks) (reservedDeploymentType @ ''-'') then reservedDeploymentType else realDeploymentType)"

(* src/internal/kafka/internal/services/data_plane_kafka.go:501-520 dataPlaneKafkaService.buildKafkaRoutes *)
fun buildKafkaRoutes :: "DataPlaneKafkaRoute list \<Rightarrow> DataPlaneKafkaRouteRequest list \<Rightarrow> string \<Rightarrow> string \<Rightarrow> DataPlaneKafkaRoute list err" where
  "buildKafkaRoutes routes [] bootstrapServer clusterDNS = Inr routes"
| "buildKafkaRoutes routes (r # rest) bootstrapServer clusterDNS =
     (if HasSuffix (rr_Router r) clusterDNS
      then buildKafkaRoutes (routes @ [\<lparr>r_Domain = (if rr_Prefix r \<noteq> '''' then Sprintf ''%s-%s'' [FStr (rr_Prefix r), FStr bootstrapServer] else bootstrapServer),
                                        r_Router = rr_Router r\<rparr>]) rest bootstrapServer clusterDNS
      else Inl (ErrorString (Sprintf ''router domain is not valid. router = %q, expected domain = %q'' [FStr (rr_Router r), FStr clusterDNS])))"

section \<open>Taking a report of a Kafka\<close>

(* src/internal/kafka/internal/services/data_plane_kafka.go:418-426 dataPlaneKafkaService.checkKafkaRequestCurrentStatus *)
definition checkKafkaRequestCurrentStatus :: "'s db \<Rightarrow> KafkaRequest \<Rightarrow> string \<Rightarrow> 's \<Rightarrow> bool svc" where
  "checkKafkaRequestCurrentStatus db kafka status s =
     (case GetByID db (k_ID kafka) s of Inl err \<Rightarrow> Inl err | Inr currentInstance \<Rightarrow> Inr (k_Status currentInstance = status))"

text \<open>An error of the Kafka service is passed on under its code.\<close>

definition wrap_error :: "ServiceError \<Rightarrow> string \<Rightarrow> fmtarg list \<Rightarrow> ServiceError" where
  "wrap_error err reason values = NewWithCause (Code err) (Some (ServiceErr err)) reason values"

text \<open>The routes that are stored come with the request that holds them, for the steps that follow.\<close>

(* src/internal/kafka/internal/services/data_plane_kafka.go:429-464 dataPlaneKafkaService.persistKafkaRoutes *)
definition persistKafkaRoutes ::
  "'s db \<Rightarrow> (string \<rightharpoonup> provider) \<Rightarrow> KafkaRequest \<Rightarrow> DataPlaneKafkaStatus \<Rightarrow> Cluster \<Rightarrow> 's \<Rightarrow> KafkaRequest go \<times> 's" where
  "persistKafkaRoutes db providers kafka kafkaStatus cluster s =
     (if k_Routes kafka \<noteq> JNil then (Ok kafka, s)
      else if length (ds_Routes kafkaStatus) < 1 then (Ok kafka, s)
      else case GetClusterDNS db providers (c_ClusterID cluster) s of
        (Panic m, s1) \<Rightarrow> (Panic m, s1)
      | (Err err, s1) \<Rightarrow> (Err (case err of
            ServiceErr e \<Rightarrow> ServiceErr (wrap_error e ''failed to get DNS entry for ClusterID %q'' [FStr (c_ClusterID cluster)]) | e \<Rightarrow> e), s1)
      | (Ok clusterDNS, s1) \<Rightarrow>
        (case buildKafkaRoutes [] (ds_Routes kafkaStatus) (k_BootstrapServerHost kafka) (TrimPrefix clusterDNS (DefaultIngressDnsNamePrefix @ ''.'')) of
           Inl routesErr \<Rightarrow> (Err (ServiceErr (NewWithCause ErrorBadRequest (Some routesErr) ''routes are not valid'' [])), s1)
         | Inr routes \<Rightarrow>
           (let kafka = SetRoutes routes kafka in
            case Kafka_Update db kafka s1 of
              (Some err, s2) \<Rightarrow> (Err (ServiceErr (wrap_error err ''failed to update routes for kafka %q'' [FStr (k_ID kafka)])), s2)
            | (None, s2) \<Rightarrow> (Ok kafka, s2))))"

(* src/internal/kafka/internal/services/data_plane_kafka.go:222-249 dataPlaneKafkaService.setKafkaClusterReady *)
definition setKafkaClusterReady :: "'s db \<Rightarrow> KafkaRequest \<Rightarrow> 's \<Rightarrow> ServiceError option \<times> 's" where
  "setKafkaClusterReady db kafka s =
     (if \<not> k_RoutesCreated kafka then (None, s)
      else case checkKafkaRequestCurrentStatus db kafka KafkaRequestStatusProvisioning s of
        Inl err \<Rightarrow> (Some err, s)
      | Inr shouldSendMetric \<Rightarrow>
        (case Kafka_Updates db kafka (\<lambda>r. r\<lparr>k_AdminApiServerURL := k_AdminApiServerURL kafka, k_FailedReason := '''', k_Status := KafkaRequestStatusReady\<rparr>) s of
           (Some err, s') \<Rightarrow> (Some (wrap_error err ''failed to update kafka %q'' [FStr (k_ID kafka)]), s')
         | (None, s') \<Rightarrow> (None, s')))"

(* src/internal/kafka/internal/services/data_plane_kafka.go:337-363 dataPlaneKafkaService.setKafkaClusterFailed *)
definition setKafkaClusterFailed :: "'s db \<Rightarrow> KafkaRequest \<Rightarrow> string \<Rightarrow> 's \<Rightarrow> ServiceError option \<times> KafkaRequest \<times> 's" where
  "setKafkaClusterFailed db kafka errMessage s =
     (if k_Status kafka = KafkaRequestStatusFailed then (None, kafka, s)
      else case checkKafkaRequestCurrentStatus db kafka KafkaRequestStatusProvisioning s of
        Inl err \<Rightarrow> (Some err, kafka, s)
      | Inr shouldSendMetric \<Rightarrow>
        (let kafka = kafka\<lparr>k_Status := KafkaRequestStatusFailed, k_FailedReason := ''Kafka reported as failed from the data plane''\<rparr> in
         case Kafka_Update db kafka s of
           (Some err, s') \<Rightarrow> (Some (wrap_error err ''failed to update kafka cluster to %q status for kafka %q'' [FStr KafkaRequestStatusFailed, FStr (k_ID kafka)]), kafka, s')
         | (None, s') \<Rightarrow> (None, kafka, s')))"

(* src/internal/kafka/internal/services/data_plane_kafka.go:365-375 dataPlaneKafkaService.setKafkaClusterDeleting *)
definition setKafkaClusterDeleting :: "'s db \<Rightarrow> KafkaRequest \<Rightarrow> 's \<Rightarrow> ServiceError option \<times> 's" where
  "setKafkaClusterDeleting db kafka s =
     (case Kafka_UpdateStatus db (k_ID kafka) KafkaRequestStatusDeleting s of
        ((ok, Some updateErr), s') \<Rightarrow>
          (if ok then Some (wrap_error updateErr ''failed to update status %q for kafka %q'' [FStr KafkaRequestStatusDeleting, FStr (k_ID kafka)]) else None, s')
      | ((ok, None), s') \<Rightarrow> (None, s'))"

(* src/internal/kafka/internal/services/data_plane_kafka.go:378-393 dataPlaneKafkaService.reassignKafkaCluster *)
definition reassignKafkaCluster :: "'s db \<Rightarrow> string \<Rightarrow> KafkaRequest \<Rightarrow> 's \<Rightarrow> ServiceError option \<times> 's" where
  "reassignKafkaCluster db newID kafka s =
     (if k_Status kafka = KafkaRequestStatusProvisioning then Kafka_Update db (kafka\<lparr>k_PlacementId := newID\<rparr>) s else (None, s))"

(* src/internal/kafka/internal/services/data_plane_kafka.go:397-416 dataPlaneKafkaService.unassignKafkaFromDataplaneCluster *)
definition unassignKafkaFromDataplaneCluster :: "'s db \<Rightarrow> KafkaRequest \<Rightarrow> 's \<Rightarrow> ServiceError option \<times> 's" where
  "unassignKafkaFromDataplaneCluster db kafka s =
     (if k_Status kafka = KafkaRequestStatusProvisioning \<and> \<not> DesiredBillingModelIsEnterprise kafka then
        (case Kafka_Updates db kafka (\<lambda>r. r\<lparr>k_ClusterID := '''', k_BootstrapServerHost := '''', k_DesiredStrimziVersion := '''',
                k_DesiredKafkaVersion := '''', k_DesiredKafkaIBPVersion := ''''\<rparr>) s of
           (Some err, s') \<Rightarrow> (Some (wrap_error err ''failed to reset fields for kafka %q'' [FStr (k_ID kafka)]), s')
         | (None, s') \<Rightarrow> (None, s'))
      else (None, s))"

text \<open>The version fields after a report; an update is needed when one of them changed.\<close>

(* src/internal/kafka/internal/services/data_plane_kafka.go:252-317 dataPlaneKafkaService.setKafkaRequestVersionFields *)
definition reported_versions :: "DataPlaneKafkaStatus \<Rightarrow> KafkaRequest \<Rightarrow> KafkaRequest" where
  "reported_versions status kafka =
     (let k1 = (if ds_KafkaVersion status \<noteq> '''' then kafka\<lparr>k_ActualKafkaVersion := ds_KafkaVersion status\<rparr> else kafka);
          k2 = (if ds_KafkaIBPVersion status \<noteq> '''' then k1\<lparr>k_ActualKafkaIBPVersion := ds_KafkaIBPVersion status\<rparr> else k1);
          k3 = (if ds_StrimziVersion status \<noteq> '''' then k2\<lparr>k_ActualStrimziVersion := ds_StrimziVersion status\<rparr> else k2) in
      case GetReadyCondition status of
        None \<Rightarrow> k3
      | Some readyCondition \<Rightarrow>
          k3\<lparr>k_StrimziUpgrading := (cond_Reason readyCondition = ''StrimziUpdating''),
             k_KafkaUpgrading := (cond_Reason readyCondition = ''KafkaUpdating''),
             k_KafkaIBPUpgrading := (cond_Reason readyCondition = ''KafkaIbpUpdating'')\<rparr>)"

(* src/internal/kafka/internal/services/data_plane_kafka.go:251-335 dataPlaneKafkaService.setKafkaRequestVersionFields *)
definition setKafkaRequestVersionFields :: "'s db \<Rightarrow> KafkaRequest \<Rightarrow> DataPlaneKafkaStatus \<Rightarrow> 's \<Rightarrow> ServiceError option \<times> 's" where
  "setKafkaRequestVersionFields db kafka status s =
     (let kafka' = reported_versions status kafka in
      if kafka' = kafka then (None, s)
      else case Kafka_Updates db kafka' (\<lambda>r. r\<lparr>k_ActualStrimziVersion := k_ActualStrimziVersion kafka', k_ActualKafkaVersion := k_ActualKafkaVersion kafka',
               k_ActualKafkaIBPVersion := k_ActualKafkaIBPVersion kafka', k_StrimziUpgrading := k_StrimziUpgrading kafka',
               k_KafkaUpgrading := k_KafkaUpgrading kafka', k_KafkaIBPUpgrading := k_KafkaIBPUpgrading kafka'\<rparr>) s of
        (Some err, s') \<Rightarrow> (Some (wrap_error err ''failed to update actual version fields for kafka %q'' [FStr (k_ID kafka)]), s')
      | (None, s') \<Rightarrow> (None, s'))"

text \<open>The switch over the reported status.  Errors are logged, so only a panic is passed on, with the request in memory
  otherwise.\<close>

(* src/internal/kafka/internal/services/data_plane_kafka.go:170-214 dataPlaneKafkaService.processRealKafkaDeployment *)
definition report_switch ::
  "'s db \<Rightarrow> (string \<rightharpoonup> provider) \<Rightarrow> string \<Rightarrow> DataPlaneKafkaStatus \<Rightarrow> Cluster \<Rightarrow> KafkaRequest \<Rightarrow> 's \<Rightarrow> KafkaRequest go \<times> 's" where
  "report_switch db providers newID ks cluster kafka s =
     (let st = getManagedKafkaStatus ks;
          suspended = (k_Status kafka = KafkaRequestStatusSuspending \<or> k_Status kafka = KafkaRequestStatusSuspended) in
      if st = statusReady then
        (if suspended then (Ok kafka, s)
         else case persistKafkaRoutes db providers kafka ks cluster s of
           (Panic m, s1) \<Rightarrow> (Panic m, s1)
         | (Err e, s1) \<Rightarrow> (Ok kafka, s1)
         | (Ok kafka1, s1) \<Rightarrow>
           (let kafka2 = kafka1\<lparr>k_AdminApiServerURL := ds_AdminServerURI ks\<rparr> in (Ok kafka2, snd (setKafkaClusterReady db kafka2 s1))))
      else if st = statusInstalling then
        (case persistKafkaRoutes db providers kafka ks cluster s of
           (Panic m, s1) \<Rightarrow> (Panic m, s1)
         | (Err e, s1) \<Rightarrow> (Ok kafka, s1)
         | (Ok kafka1, s1) \<Rightarrow> (Ok kafka1, s1))
      else if st = statusError then
        (if suspended then (Ok kafka, s)
         else (let (e, kafka1, s1) = setKafkaClusterFailed db kafka (case GetReadyCondition ks of Some c \<Rightarrow> cond_Message c | None \<Rightarrow> '''') s in (Ok kafka1, s1)))
      else if st = statusDeleted then (Ok kafka, snd (setKafkaClusterDeleting db kafka s))
      else if st = statusRejected then (Ok kafka, snd (reassignKafkaCluster db newID kafka s))
      else if st = statusRejectedClusterFull then (Ok kafka, snd (unassignKafkaFromDataplaneCluster db kafka s))
      else if st = statusSuspended then
        (if k_Status kafka = KafkaRequestStatusSuspending
         then (Ok kafka, snd (Kafka_UpdateStatus db (k_ID kafka) KafkaRequestStatusSuspended s)) else (Ok kafka, s))
      else (Ok kafka, s))"

(* src/internal/kafka/internal/services/data_plane_kafka.go:144-220 dataPlaneKafkaService.processRealKafkaDeployment *)
definition processRealKafkaDeployment ::
  "'s db \<Rightarrow> (string \<rightharpoonup> provider) \<Rightarrow> string \<Rightarrow> DataPlaneKafkaStatus \<Rightarrow> Cluster \<Rightarrow> 's \<Rightarrow> unit go \<times> 's" where
  "processRealKafkaDeployment db providers newID ks cluster s =
     (case GetByID db (ds_KafkaClusterId ks) s of
        Inl getErr \<Rightarrow> (Ok (), s)
      | Inr kafka \<Rightarrow>
          if k_ClusterID kafka \<noteq> c_ClusterID cluster then (Ok (), s)
          else case report_switch db providers newID ks cluster kafka s of
            (Ok kafka1, s1) \<Rightarrow> (Ok (), snd (setKafkaRequestVersionFields db kafka1 ks s1))
          | (Err e, s1) \<Rightarrow> (Ok (), s1)
          | (Panic m, s1) \<Rightarrow> (Panic m, s1))"

text \<open>The counts of the reserved Kafkas by instance type and status.\<close>

type_synonym prewarming = "string \<rightharpoonup> (string \<rightharpoonup> int)"

(* src/internal/kafka/internal/services/data_plane_kafka.go:125-141 dataPlaneKafkaService.processReservedKafkaDeployment *)
definition processReservedKafkaDeployment :: "DataPlaneKafkaStatus \<Rightarrow> prewarming \<Rightarrow> prewarming" where
  "processReservedKafkaDeployment ks info =
     (let parsedID = Split (ds_KafkaClusterId ks) CHR ''-'' in
      if length parsedID < 4 then info
      else let instanceType = parsedID ! 2 in
        case info instanceType of
          None \<Rightarrow> info
        | Some counts \<Rightarrow>
            (let st = getManagedKafkaStatus ks in
             info(instanceType \<mapsto> counts(st \<mapsto> (case counts st of Some n \<Rightarrow> n | None \<Rightarrow> 0) + 1))))"

(* src/internal/kafka/internal/services/data_plane_kafka.go:82-97 dataPlaneKafkaService.UpdateDataPlaneKafkaService *)
definition empty_prewarming :: "Cluster \<Rightarrow> prewarming" where
  "empty_prewarming cluster =
     (\<lambda>t. if t \<in> set (GetSupportedInstanceTypes cluster)
          then Some (\<lambda>st. if st \<in> {statusReady, statusError, statusUnknown, statusDeleted, statusRejected, statusInstalling, statusRejectedClusterFull}
                          then Some 0 else None)
          else None)"

(* src/internal/kafka/internal/services/data_plane_kafka.go:99-107 dataPlaneKafkaService.UpdateDataPlaneKafkaService *)
fun reports_loop ::
  "'s db \<Rightarrow> (string \<rightharpoonup> provider) \<Rightarrow> (nat \<Rightarrow> string) \<Rightarrow> nat \<Rightarrow> Cluster \<Rightarrow> DataPlaneKafkaStatus list \<Rightarrow> prewarming \<Rightarrow> 's \<Rightarrow> prewarming go \<times> 's" where
  "reports_loop db providers newID i cluster [] info s = (Ok info, s)"
| "reports_loop db providers newID i cluster (ks # rest) info s =
     (if getManagedKafkaDeploymentType ks = realDeploymentType then
        (case processRealKafkaDeployment db providers (newID i) ks cluster s of
           (Panic m, s1) \<Rightarrow> (Panic m, s1)
         | (r, s1) \<Rightarrow> reports_loop db providers newID (i + 1) cluster rest info s1)
      else reports_loop db providers newID (i + 1) cluster rest (processReservedKafkaDeployment ks info) s)"

(* src/internal/kafka/internal/services/data_plane_kafka.go:71-122 dataPlaneKafkaService.UpdateDataPlaneKafkaService *)
definition UpdateDataPlaneKafkaService ::
  "'s db \<Rightarrow> (string \<rightharpoonup> provider) \<Rightarrow> (nat \<Rightarrow> string) \<Rightarrow> string \<Rightarrow> DataPlaneKafkaStatus list \<Rightarrow> 's \<Rightarrow> prewarming go \<times> 's" where
  "UpdateDataPlaneKafkaService db providers newID clusterID status s =
     (case FindClusterByID db clusterID s of
        Inl err \<Rightarrow> (Err (ServiceErr err), s)
      | Inr None \<Rightarrow> (Err (ServiceErr (BadRequest ''clusterID %q not found'' [FStr clusterID])), s)
      | Inr (Some cluster) \<Rightarrow> reports_loop db providers newID 0 cluster status (empty_prewarming cluster) s)"

section \<open>Taking the report of a cluster\<close>

text \<open>\<^verbatim>\<open>strconv.ParseBool\<close>.\<close>

definition ParseBool :: "string \<Rightarrow> bool err" where
  "ParseBool str =
     (if str \<in> {''1'', ''t'', ''T'', ''true'', ''TRUE'', ''True''} then Inr True
      else if str \<in> {''0'', ''f'', ''F'', ''false'', ''FALSE'', ''False''} then Inr False
      else Inl (ErrorString (Sprintf ''strconv.ParseBool: parsing %q: invalid syntax'' [FStr str])))"

(* src/internal/kafka/internal/services/data_plane_cluster.go:164-175 dataPlaneClusterService.isFleetShardOperatorReady *)
definition isFleetShardOperatorReady :: "DataPlaneClusterStatus \<Rightarrow> bool err" where
  "isFleetShardOperatorReady status =
     (case List.find (\<lambda>cond. cond_Type cond = ''Ready'') (dcs_Conditions status) of
        Some cond \<Rightarrow> ParseBool (cond_Status cond)
      | None \<Rightarrow> Inr False)"

(* src/internal/kafka/internal/services/data_plane_cluster.go:177-181 dataPlaneClusterService.clusterCanProcessStatusReports *)
definition clusterCanProcessStatusReports :: "Cluster \<Rightarrow> bool" where
  "clusterCanProcessStatusReports cluster \<longleftrightarrow>
     c_Status cluster = ClusterReady \<or> c_Status cluster = ClusterFull \<or> c_Status cluster = ClusterWaitingForKasFleetShardOperator"

(* src/internal/kafka/internal/services/data_plane_cluster.go:117-128 dataPlaneClusterService.setClusterStatus *)
definition merge_capacity :: "(string \<times> DynamicCapacityInfo) list \<Rightarrow> (string \<times> DynamicCapacityInfo) list \<Rightarrow> (string \<times> DynamicCapacityInfo) list" where
  "merge_capacity reported capacities =
     map (\<lambda>(instanceType, capacity).
       (instanceType, case map_of reported instanceType of
          None \<Rightarrow> capacity
        | Some newCapacity \<Rightarrow> \<lparr>MaxNodes = MaxNodes capacity, MaxUnits = MaxUnits newCapacity, RemainingUnits = RemainingUnits newCapacity\<rparr>)) capacities"

(* src/internal/kafka/internal/services/data_plane_cluster.go:106-162 dataPlaneClusterService.setClusterStatus *)
definition setClusterStatus :: "'v semver \<Rightarrow> 's db \<Rightarrow> Cluster \<Rightarrow> DataPlaneClusterStatus \<Rightarrow> 's \<Rightarrow> goerror option \<times> 's" where
  "setClusterStatus sv db cluster status s =
     (case GetAvailableStrimziVersions cluster of
        Inl err \<Rightarrow> (Some err, s)
      | Inr prevAvailableStrimziVersions \<Rightarrow>
        (let cluster1 = SetDynamicCapacityInfo (merge_capacity (dcs_DynamicCapacityInfo status) (RetrieveDynamicCapacityInfo cluster)) cluster;
             new = dcs_AvailableStrimziVersions status in
         case (if length new > 0 \<and> prevAvailableStrimziVersions \<noteq> new then SetAvailableStrimziVersions sv new cluster1 else Inr cluster1) of
           Inl err \<Rightarrow> (Some err, s)
         | Inr cluster2 \<Rightarrow>
           (case Update db (cluster2\<lparr>c_Status := ClusterReady\<rparr>) s of
              (Some svcErr, s') \<Rightarrow> (Some (ServiceErr svcErr), s')
            | (None, s') \<Rightarrow> (None, s'))))"

(* src/internal/kafka/internal/services/data_plane_cluster.go:67-104 dataPlaneClusterService.UpdateDataPlaneClusterStatus *)
definition UpdateDataPlaneClusterStatus :: "'v semver \<Rightarrow> 's db \<Rightarrow> string \<Rightarrow> DataPlaneClusterStatus \<Rightarrow> 's \<Rightarrow> ServiceError option \<times> 's" where
  "UpdateDataPlaneClusterStatus sv db clusterID status s =
     (case FindClusterByID db clusterID s of
        Inl svcErr \<Rightarrow> (Some svcErr, s)
      | Inr None \<Rightarrow> (Some (BadRequest (''cluster agent with ID '%s' not found'') [FStr clusterID]), s)
      | Inr (Some cluster) \<Rightarrow>
          if \<not> clusterCanProcessStatusReports cluster then (None, s)
          else case isFleetShardOperatorReady status of
            Inl err \<Rightarrow> (ToServiceError err, s)
          | Inr fleetShardOperatorReady \<Rightarrow>
              if \<not> fleetShardOperatorReady then
                (if c_Status cluster \<noteq> ClusterWaitingForKasFleetShardOperator then
                   (case UpdateStatus db cluster ClusterWaitingForKasFleetShardOperator s of
                      (Some err, s') \<Rightarrow> (ToServiceError err, s')
                    | (None, s') \<Rightarrow> (None, s'))
                 else (None, s))
              else (case setClusterStatus sv db cluster status s of
                      (Some err, s') \<Rightarrow> (ToServiceError err, s')
                    | (None, s') \<Rightarrow> (None, s')))"

text \<open>The configuration sent to a cluster, with the settings of the observability component.\<close>

(* src/internal/kafka/internal/api/dbapi/data_plane_cluster_status.go:18-33 DataPlaneClusterConfig *)
record DataPlaneClusterConfig =
  dpc_AccessToken :: string
  dpc_Channel :: string
  dpc_Repository :: string
  dpc_Tag :: string
  dpc_DynamicCapacityInfo :: "(string \<times> DynamicCapacityInfo) list"
  dpc_Private :: bool

(* src/internal/kafka/internal/services/data_plane_cluster.go:43-65 dataPlaneClusterService.GetDataPlaneClusterConfig *)
definition GetDataPlaneClusterConfig ::
  "'s db \<Rightarrow> string \<times> string \<times> string \<times> string \<Rightarrow> string \<Rightarrow> 's \<Rightarrow> DataPlaneClusterConfig svc" where
  "GetDataPlaneClusterConfig db observability clusterID s =
     (case FindClusterByID db clusterID s of
        Inl svcErr \<Rightarrow> Inl svcErr
      | Inr None \<Rightarrow> Inl (BadRequest ''cluster agent with ID '%s' not found'' [FStr clusterID])
      | Inr (Some cluster) \<Rightarrow>
        (let (token, channel, repo, tag) = observability in
         Inr \<lparr>dpc_AccessToken = token, dpc_Channel = channel, dpc_Repository = repo, dpc_Tag = tag,
              dpc_DynamicCapacityInfo = RetrieveDynamicCapacityInfo cluster, dpc_Private = c_AccessKafkasViaPrivateNetwork cluster\<rparr>))"

section \<open>What reports do to the table of Kafkas\<close>

text \<open>The moves of the status that reports make.  The relation is reflexive and transitive.\<close>

definition report_moves :: "string \<Rightarrow> string \<Rightarrow> bool" where
  "report_moves a b \<longleftrightarrow> a = b \<or> b = KafkaRequestStatusDeleting \<or> (a = KafkaRequestStatusSuspending \<and> b = KafkaRequestStatusSuspended) \<or>
     (a \<notin> {KafkaRequestStatusSuspending, KafkaRequestStatusSuspended, KafkaRequestStatusDeprovision, KafkaRequestStatusDeleting} \<and>
      b \<in> {KafkaRequestStatusReady, KafkaRequestStatusFailed})"

text \<open>Who owns a Kafka, what it is and how it is billed is none of the data plane's business; routes are stored once, and
  a Kafka keeps its cluster or loses it.\<close>

definition report_step :: "KafkaRequest \<Rightarrow> KafkaRequest \<Rightarrow> bool" where
  "report_step x x' \<longleftrightarrow> report_moves (k_Status x) (k_Status x') \<and> (k_Routes x \<noteq> JNil \<longrightarrow> k_Routes x' = k_Routes x) \<and>
     k_RoutesCreated x' = k_RoutesCreated x \<and> (k_ClusterID x' = k_ClusterID x \<or> k_ClusterID x' = '''') \<and>
     (k_Owner x', k_OrganisationId x', k_InstanceType x', k_SizeId x', k_CloudProvider x', k_Region x', k_ExpiresAt x', k_SubscriptionId x',
      k_ActualKafkaBillingModel x', k_DesiredKafkaBillingModel x') =
     (k_Owner x, k_OrganisationId x, k_InstanceType x, k_SizeId x, k_CloudProvider x, k_Region x, k_ExpiresAt x, k_SubscriptionId x,
      k_ActualKafkaBillingModel x, k_DesiredKafkaBillingModel x)"

lemmas kafka_statuses = KafkaRequestStatusSuspending_def KafkaRequestStatusSuspended_def KafkaRequestStatusDeprovision_def
  KafkaRequestStatusDeleting_def KafkaRequestStatusReady_def KafkaRequestStatusFailed_def KafkaRequestStatusProvisioning_def
  KafkaRequestStatusAccepted_def KafkaRequestStatusPreparing_def KafkaRequestStatusResuming_def

lemma report_moves_refl [simp]: "report_moves a a" by (simp add: report_moves_def)

lemma report_moves_trans: "report_moves a b \<Longrightarrow> report_moves b c \<Longrightarrow> report_moves a c"
  unfolding report_moves_def by (elim disjE conjE) (auto simp: kafka_statuses)

lemma report_step_refl [simp]: "report_step x x" by (simp add: report_step_def)

lemma report_step_trans: "report_step x y \<Longrightarrow> report_step y z \<Longrightarrow> report_step x z"
  unfolding report_step_def using report_moves_trans[of "k_Status x" "k_Status y" "k_Status z"] by auto

lemma evolves_trans:
  assumes "evolves T ks ks1" "evolves U ks1 ks2" "\<And>x y. T x y \<Longrightarrow> W x y" "\<And>x y. k_ID y = k_ID x \<Longrightarrow> U x y \<Longrightarrow> W x y"
    and "\<And>x y z. T x y \<Longrightarrow> k_ID y = k_ID x \<Longrightarrow> U y z \<Longrightarrow> W x z"
  shows "evolves W ks ks2"
  using assms(1,2) unfolding evolves_def list_all2_conv_all_nth
  using assms(3-5) by (metis (no_types, lifting))

lemma evolves_pre: "evolves T ks ks' \<Longrightarrow> y \<in> set ks' \<Longrightarrow> \<exists>x \<in> set ks. k_ID y = k_ID x \<and> (y = x \<or> T x y)"
  unfolding evolves_def by (induction rule: list_all2_induct) auto

lemma evolves_post: "evolves T ks ks' \<Longrightarrow> x \<in> set ks \<Longrightarrow> \<exists>y \<in> set ks'. k_ID y = k_ID x \<and> (y = x \<or> T x y)"
  unfolding evolves_def by (induction rule: list_all2_induct) auto

text \<open>A guarded update of one object moves its row along what holds of the change there.\<close>

lemma guarded_update:
  assumes "store_lawful db clusters kafkas" "Kafka_Updates db k f s = (r, s')" "k_ID k \<noteq> ''''" "\<And>x. k_ID (f x) = k_ID x"
    and "\<And>x. x \<in> set (kafkas s) \<Longrightarrow> k_ID x = k_ID k \<Longrightarrow> \<not> under_deletion x \<Longrightarrow> T x (f x)"
  shows "clusters s' = clusters s" and "evolves (\<lambda>x x'. k_ID x = k_ID k \<and> T x x') (kafkas s) (kafkas s')"
  using Kafka_Updates_rows[OF assms(1,2,4)]
  by (simp, elim evolves_mono) (use assms(3,5) in \<open>auto simp: same_key_def\<close>)

lemma Kafka_Update_Updates: "Kafka_Update db k s = Kafka_Updates db k (Kafka_nonzero k) s"
  by (simp add: Kafka_Update_def Kafka_Updates_def)

lemma GetClusterDNS_frame: "store_lawful db clusters kafkas \<Longrightarrow> GetClusterDNS db providers i s = (r, s') \<Longrightarrow> kafkas s' = kafkas s"
  by (auto simp: GetClusterDNS_def Update_def split: sum.splits option.splits if_splits prod.splits dest: clusterT_frame(1))

lemma nonzero_routes: "Kafka_nonzero (k\<lparr>k_Routes := JText ro\<rparr>) k = k\<lparr>k_Routes := JText ro\<rparr>"
  by (simp add: Kafka_nonzero_def nz_def)

lemma nonzero_failed: "Kafka_nonzero (k\<lparr>k_Status := KafkaRequestStatusFailed, k_FailedReason := m\<rparr>) k =
    k\<lparr>k_Status := KafkaRequestStatusFailed, k_FailedReason := nz '''' m (k_FailedReason k)\<rparr>"
  by (simp add: Kafka_nonzero_def nz_def kafka_statuses)

lemma nonzero_placement: "Kafka_nonzero (k\<lparr>k_PlacementId := p\<rparr>) k = k\<lparr>k_PlacementId := nz '''' p (k_PlacementId k)\<rparr>"
  by (simp add: Kafka_nonzero_def nz_def)

text \<open>The row of a request in the table, under unique identifiers.\<close>

definition row_of :: "KafkaRequest \<Rightarrow> KafkaRequest list \<Rightarrow> bool" where
  "row_of k ks \<longleftrightarrow> distinct (map k_ID ks) \<and> k \<in> set ks \<and> k_ID k \<noteq> ''''"

lemma row_of_same: "row_of k ks \<Longrightarrow> x \<in> set ks \<Longrightarrow> k_ID x = k_ID k \<Longrightarrow> x = k"
  unfolding row_of_def using id_unique by blast

abbreviation row_steps :: "KafkaRequest \<Rightarrow> (KafkaRequest \<Rightarrow> bool) \<Rightarrow> KafkaRequest list \<Rightarrow> KafkaRequest list \<Rightarrow> bool" where
  "row_steps k P ks ks' \<equiv> evolves (\<lambda>x x'. x = k \<and> P x') ks ks'"

lemma persistKafkaRoutes_rows:
  assumes "store_lawful db clusters kafkas" "persistKafkaRoutes db providers k ks cluster s = (r, s')" "row_of k (kafkas s)"
  shows "row_steps k (\<lambda>x'. k_Routes k = JNil \<and> (\<exists>ro. x' = k\<lparr>k_Routes := ro\<rparr>)) (kafkas s) (kafkas s')"
    and "r = Ok k' \<Longrightarrow> k' = k \<or> (\<exists>ro. k' = k\<lparr>k_Routes := ro\<rparr>)"
proof -
  let ?P = "\<lambda>x'. k_Routes k = JNil \<and> (\<exists>ro. x' = k\<lparr>k_Routes := ro\<rparr>)"
  have "row_steps k ?P (kafkas s) (kafkas s') \<and> (r = Ok k' \<longrightarrow> k' = k \<or> (\<exists>ro. k' = k\<lparr>k_Routes := ro\<rparr>))"
  proof (cases "k_Routes k \<noteq> JNil \<or> length (ds_Routes ks) < 1")
    case True
    then show ?thesis using assms(2) by (auto simp: persistKafkaRoutes_def split: if_splits)
  next
    case False
    obtain g s1 where g: "GetClusterDNS db providers (c_ClusterID cluster) s = (g, s1)" by (rule prod.exhaust)
    note fr = GetClusterDNS_frame[OF assms(1) g]
    show ?thesis
    proof (cases "\<exists>dns ro. g = Ok dns \<and> buildKafkaRoutes [] (ds_Routes ks) (k_BootstrapServerHost k) (TrimPrefix dns (DefaultIngressDnsNamePrefix @ ''.'')) = Inr ro")
      case True
      then obtain dns ro where ro: "g = Ok dns" "buildKafkaRoutes [] (ds_Routes ks) (k_BootstrapServerHost k) (TrimPrefix dns (DefaultIngressDnsNamePrefix @ ''.'')) = Inr ro"
        by blast
      obtain e where u: "Kafka_Updates db (k\<lparr>k_Routes := JText ro\<rparr>) (Kafka_nonzero (k\<lparr>k_Routes := JText ro\<rparr>)) s1 = (e, s')"
        and r: "r = Ok k' \<longrightarrow> k' = k\<lparr>k_Routes := JText ro\<rparr>"
        using assms(2) False g ro
        by (auto simp: persistKafkaRoutes_def SetRoutes_def Kafka_Update_Updates Let_def split: prod.splits option.splits if_splits)
      have "evolves (\<lambda>x x'. k_ID x = k_ID (k\<lparr>k_Routes := JText ro\<rparr>) \<and> (x = k \<and> ?P x')) (kafkas s1) (kafkas s')"
        using row_of_same[OF assms(3)] assms(3) False nonzero_routes[of ro k] fr
        by (intro guarded_update(2)[OF assms(1) u]) (auto simp: row_of_def)
      then have "row_steps k ?P (kafkas s1) (kafkas s')" by (rule evolves_mono) simp
      then show ?thesis using r fr by auto
    next
      case F: False
      have "s' = s1 \<and> (\<forall>x. r \<noteq> Ok x)"
        using assms(2) False F g by (auto simp: persistKafkaRoutes_def Let_def split: go.splits sum.splits if_splits)
      then show ?thesis using fr by simp
    qed
  qed
  then show "row_steps k ?P (kafkas s) (kafkas s')" "r = Ok k' \<Longrightarrow> k' = k \<or> (\<exists>ro. k' = k\<lparr>k_Routes := ro\<rparr>)" by auto
qed

abbreviation report_evolves :: "string \<Rightarrow> KafkaRequest list \<Rightarrow> KafkaRequest list \<Rightarrow> bool" where
  "report_evolves i ks ks' \<equiv> evolves (\<lambda>x x'. k_ID x = i \<and> report_step x x') ks ks'"

lemma report_evolves_trans:
  assumes "report_evolves i ks ks1" "report_evolves i ks1 ks2"
  shows "report_evolves i ks ks2"
  by (rule evolves_trans[OF assms]) (auto intro: report_step_trans)

definition is_suspended :: "KafkaRequest \<Rightarrow> bool" where
  "is_suspended k \<longleftrightarrow> k_Status k = KafkaRequestStatusSuspending \<or> k_Status k = KafkaRequestStatusSuspended"

lemma setKafkaClusterReady_rows:
  assumes "store_lawful db clusters kafkas" "setKafkaClusterReady db k s = (e, s')" "k_ID k \<noteq> ''''"
    and "\<And>x. x \<in> set (kafkas s) \<Longrightarrow> k_ID x = k_ID k \<Longrightarrow> \<not> is_suspended x"
  shows "report_evolves (k_ID k) (kafkas s) (kafkas s')"
proof (cases "s' = s")
  case False
  let ?f = "\<lambda>r. r\<lparr>k_AdminApiServerURL := k_AdminApiServerURL k, k_FailedReason := '''', k_Status := KafkaRequestStatusReady\<rparr>"
  obtain e' where u: "Kafka_Updates db k ?f s = (e', s')"
    using assms(2) False by (auto simp: setKafkaClusterReady_def split: if_splits sum.splits prod.splits option.splits)
  show ?thesis
    by (rule guarded_update(2)[OF assms(1) u assms(3)])
      (auto simp: report_step_def report_moves_def under_deletion_iff dest: assms(4)[unfolded is_suspended_def])
qed simp

lemma setKafkaClusterFailed_rows:
  assumes "store_lawful db clusters kafkas" "setKafkaClusterFailed db k m s = (e, k', s')" "row_of k (kafkas s)" "\<not> is_suspended k"
  shows "report_evolves (k_ID k) (kafkas s) (kafkas s')" "k_ID k' = k_ID k"
proof -
  show "k_ID k' = k_ID k"
    using assms(2) by (auto simp: setKafkaClusterFailed_def Let_def split: if_splits sum.splits prod.splits option.splits)
  show "report_evolves (k_ID k) (kafkas s) (kafkas s')"
  proof (cases "s' = s")
    case False
    let ?k = "k\<lparr>k_Status := KafkaRequestStatusFailed, k_FailedReason := ''Kafka reported as failed from the data plane''\<rparr>"
    obtain e' where u: "Kafka_Updates db ?k (Kafka_nonzero ?k) s = (e', s')"
      using assms(2) False by (auto simp: setKafkaClusterFailed_def Kafka_Update_Updates Let_def split: if_splits sum.splits prod.splits option.splits)
    have "evolves (\<lambda>x x'. k_ID x = k_ID ?k \<and> report_step x x') (kafkas s) (kafkas s')"
    proof (rule guarded_update(2)[OF assms(1) u])
      fix x assume x: "x \<in> set (kafkas s)" "k_ID x = k_ID ?k" "\<not> under_deletion x"
      then have "x = k" using row_of_same[OF assms(3)] by simp
      then show "report_step x (Kafka_nonzero ?k x)"
        using assms(4) x(3) by (simp add: nonzero_failed report_step_def report_moves_def is_suspended_def under_deletion_iff)
    qed (use assms(3) in \<open>simp_all add: row_of_def\<close>)
    then show ?thesis by simp
  qed simp
qed

lemma setKafkaClusterDeleting_rows:
  assumes "store_lawful db clusters kafkas" "setKafkaClusterDeleting db k s = (e, s')" "distinct (map k_ID (kafkas s))"
  shows "report_evolves (k_ID k) (kafkas s) (kafkas s')"
proof -
  obtain t e' where u: "Kafka_UpdateStatus db (k_ID k) KafkaRequestStatusDeleting s = ((t, e'), s')"
    using assms(2) by (auto simp: setKafkaClusterDeleting_def split: prod.splits option.splits)
  show ?thesis by (rule evolves_mono[OF Kafka_UpdateStatus_rows(2)[OF assms(1) u assms(3)]]) (auto simp: report_step_def report_moves_def)
qed

lemma reassignKafkaCluster_rows:
  assumes "store_lawful db clusters kafkas" "reassignKafkaCluster db p k s = (e, s')" "row_of k (kafkas s)"
  shows "report_evolves (k_ID k) (kafkas s) (kafkas s')"
proof (cases "s' = s")
  case False
  then have u: "Kafka_Updates db (k\<lparr>k_PlacementId := p\<rparr>) (Kafka_nonzero (k\<lparr>k_PlacementId := p\<rparr>)) s = (e, s')"
    using assms(2) by (auto simp: reassignKafkaCluster_def Kafka_Update_Updates split: if_splits)
  have "evolves (\<lambda>x x'. k_ID x = k_ID (k\<lparr>k_PlacementId := p\<rparr>) \<and> report_step x x') (kafkas s) (kafkas s')"
  proof (rule guarded_update(2)[OF assms(1) u])
    fix x assume x: "x \<in> set (kafkas s)" "k_ID x = k_ID (k\<lparr>k_PlacementId := p\<rparr>)"
    then have "x = k" using row_of_same[OF assms(3)] by simp
    then show "report_step x (Kafka_nonzero (k\<lparr>k_PlacementId := p\<rparr>) x)" by (simp add: nonzero_placement report_step_def)
  qed (use assms(3) in \<open>simp_all add: row_of_def\<close>)
  then show ?thesis by simp
qed simp

lemma unassign_rows:
  assumes "store_lawful db clusters kafkas" "unassignKafkaFromDataplaneCluster db k s = (e, s')" "k_ID k \<noteq> ''''"
  shows "report_evolves (k_ID k) (kafkas s) (kafkas s')"
proof (cases "s' = s")
  case False
  then obtain e' where u: "Kafka_Updates db k (\<lambda>r. r\<lparr>k_ClusterID := '''', k_BootstrapServerHost := '''', k_DesiredStrimziVersion := '''',
      k_DesiredKafkaVersion := '''', k_DesiredKafkaIBPVersion := ''''\<rparr>) s = (e', s')"
    using assms(2) by (auto simp: unassignKafkaFromDataplaneCluster_def split: if_splits prod.splits option.splits)
  show ?thesis by (rule guarded_update(2)[OF assms(1) u assms(3)]) (simp_all add: report_step_def)
qed simp

lemma versions_rows:
  assumes "store_lawful db clusters kafkas" "setKafkaRequestVersionFields db k ks s = (e, s')" "k_ID k \<noteq> ''''"
  shows "report_evolves (k_ID k) (kafkas s) (kafkas s')"
proof (cases "s' = s")
  case False
  let ?k = "reported_versions ks k"
  obtain e' where u: "Kafka_Updates db ?k (\<lambda>r. r\<lparr>k_ActualStrimziVersion := k_ActualStrimziVersion ?k, k_ActualKafkaVersion := k_ActualKafkaVersion ?k,
      k_ActualKafkaIBPVersion := k_ActualKafkaIBPVersion ?k, k_StrimziUpgrading := k_StrimziUpgrading ?k,
      k_KafkaUpgrading := k_KafkaUpgrading ?k, k_KafkaIBPUpgrading := k_KafkaIBPUpgrading ?k\<rparr>) s = (e', s')"
    using assms(2) False by (auto simp: setKafkaRequestVersionFields_def Let_def split: if_splits prod.splits option.splits)
  have i: "k_ID ?k = k_ID k" by (simp add: reported_versions_def Let_def split: option.split)
  show ?thesis unfolding i[symmetric]
    by (rule guarded_update(2)[OF assms(1) u]) (simp_all add: report_step_def i assms(3))
qed simp

text \<open>Storing routes and then marking the Kafka ready, the one branch with two writes.\<close>

lemma routes_then_ready:
  assumes "store_lawful db clusters kafkas" "persistKafkaRoutes db providers k ks cluster s = (Ok k1, s1)" "row_of k (kafkas s)" "\<not> is_suspended k"
    and "setKafkaClusterReady db (k1\<lparr>k_AdminApiServerURL := u\<rparr>) s1 = (e, s')"
  shows "report_evolves (k_ID k) (kafkas s) (kafkas s')"
proof -
  note p = persistKafkaRoutes_rows[OF assms(1-3)]
  have i: "k_ID k1 = k_ID k" using p(2)[OF refl] by auto
  have first: "report_evolves (k_ID k) (kafkas s) (kafkas s1)" using p(1) by (rule evolves_mono) (auto simp: report_step_def)
  have "report_evolves (k_ID (k1\<lparr>k_AdminApiServerURL := u\<rparr>)) (kafkas s1) (kafkas s')"
  proof (rule setKafkaClusterReady_rows[OF assms(1,5)])
    fix y assume y: "y \<in> set (kafkas s1)" "k_ID y = k_ID (k1\<lparr>k_AdminApiServerURL := u\<rparr>)"
    from evolves_pre[OF p(1) y(1)] obtain x where x: "x \<in> set (kafkas s)" "k_ID y = k_ID x"
      "y = x \<or> x = k \<and> k_Routes k = JNil \<and> (\<exists>ro. y = k\<lparr>k_Routes := ro\<rparr>)" by (elim bexE conjE)
    then have "x = k" using row_of_same[OF assms(3)] y(2) i by simp
    then have "k_Status y = k_Status k" using x(3) by auto
    then show "\<not> is_suspended y" using assms(4) by (simp add: is_suspended_def)
  qed (use assms(3) i in \<open>simp add: row_of_def\<close>)
  then show ?thesis using report_evolves_trans[OF first] i by simp
qed

text \<open>The branches of the switch.\<close>

lemmas managed_statuses = statusReady_def statusInstalling_def statusError_def statusDeleted_def statusRejected_def
  statusRejectedClusterFull_def statusSuspended_def statusUnknown_def

lemma report_switch_ready:
  "getManagedKafkaStatus ks = statusReady \<Longrightarrow> report_switch db providers newID ks cluster k s =
     (if is_suspended k then (Ok k, s)
      else case persistKafkaRoutes db providers k ks cluster s of
        (Panic m, s1) \<Rightarrow> (Panic m, s1) | (Err e, s1) \<Rightarrow> (Ok k, s1)
      | (Ok k1, s1) \<Rightarrow> (let k2 = k1\<lparr>k_AdminApiServerURL := ds_AdminServerURI ks\<rparr> in (Ok k2, snd (setKafkaClusterReady db k2 s1))))"
  by (simp add: report_switch_def is_suspended_def)

lemma report_switch_branches:
  shows report_switch_installing: "getManagedKafkaStatus ks = statusInstalling \<Longrightarrow> report_switch db providers newID ks cluster k s =
     (case persistKafkaRoutes db providers k ks cluster s of (Panic m, s1) \<Rightarrow> (Panic m, s1) | (Err e, s1) \<Rightarrow> (Ok k, s1) | (Ok k1, s1) \<Rightarrow> (Ok k1, s1))"
    and report_switch_error: "getManagedKafkaStatus ks = statusError \<Longrightarrow> report_switch db providers newID ks cluster k s =
     (if is_suspended k then (Ok k, s)
      else let (e, k1, s1) = setKafkaClusterFailed db k (case GetReadyCondition ks of Some c \<Rightarrow> cond_Message c | None \<Rightarrow> '''') s in (Ok k1, s1))"
    and report_switch_deleted: "getManagedKafkaStatus ks = statusDeleted \<Longrightarrow> report_switch db providers newID ks cluster k s =
     (Ok k, snd (setKafkaClusterDeleting db k s))"
    and report_switch_rejected: "getManagedKafkaStatus ks = statusRejected \<Longrightarrow> report_switch db providers newID ks cluster k s =
     (Ok k, snd (reassignKafkaCluster db newID k s))"
    and report_switch_full: "getManagedKafkaStatus ks = statusRejectedClusterFull \<Longrightarrow> report_switch db providers newID ks cluster k s =
     (Ok k, snd (unassignKafkaFromDataplaneCluster db k s))"
    and report_switch_suspended: "getManagedKafkaStatus ks = statusSuspended \<Longrightarrow> report_switch db providers newID ks cluster k s =
     (if k_Status k = KafkaRequestStatusSuspending then (Ok k, snd (Kafka_UpdateStatus db (k_ID k) KafkaRequestStatusSuspended s)) else (Ok k, s))"
  by (simp_all add: report_switch_def is_suspended_def managed_statuses)

lemma suspend_rows:
  assumes "store_lawful db clusters kafkas" "row_of k (kafkas s)" "k_Status k = KafkaRequestStatusSuspending"
  shows "report_evolves (k_ID k) (kafkas s) (kafkas (snd (Kafka_UpdateStatus db (k_ID k) KafkaRequestStatusSuspended s)))"
proof -
  obtain t e s2 where us: "Kafka_UpdateStatus db (k_ID k) KafkaRequestStatusSuspended s = ((t, e), s2)" by (metis prod.exhaust)
  have d: "distinct (map k_ID (kafkas s))" using assms(2) by (simp add: row_of_def)
  have "report_evolves (k_ID k) (kafkas s) (kafkas s2)"
  proof (rule evolves_mono[OF Kafka_UpdateStatus_rows(2)[OF assms(1) us d]])
    fix x x' assume x: "x \<in> set (kafkas s)" and step: "k_ID x = k_ID k \<and> k_Status x \<noteq> KafkaRequestStatusSuspended \<and>
      (k_Status x = KafkaRequestStatusDeprovision \<longrightarrow> KafkaRequestStatusSuspended = KafkaRequestStatusDeleting) \<and> x' = x\<lparr>k_Status := KafkaRequestStatusSuspended\<rparr>"
    have "x = k" using row_of_same[OF assms(2) x] step by simp
    then show "k_ID x = k_ID k \<and> report_step x x'" using step assms(3) by (simp add: report_step_def report_moves_def)
  qed
  then show ?thesis by (simp add: us)
qed

lemma persisted_rows:
  assumes "store_lawful db clusters kafkas" "persistKafkaRoutes db providers k ks cluster s = (p, s1)" "row_of k (kafkas s)"
  shows "report_evolves (k_ID k) (kafkas s) (kafkas s1)" and "p = Ok k1 \<Longrightarrow> k_ID k1 = k_ID k"
proof -
  note rows = persistKafkaRoutes_rows[OF assms]
  show "report_evolves (k_ID k) (kafkas s) (kafkas s1)" using rows(1) by (rule evolves_mono) (auto simp: report_step_def)
  show "p = Ok k1 \<Longrightarrow> k_ID k1 = k_ID k" using rows(2)[of k1] by auto
qed

lemma report_switch_rows:
  assumes "store_lawful db clusters kafkas" "report_switch db providers newID ks cluster k s = (r, s')" "row_of k (kafkas s)"
  shows "report_evolves (k_ID k) (kafkas s) (kafkas s') \<and> (\<forall>k'. r = Ok k' \<longrightarrow> k_ID k' = k_ID k)"
proof -
  let ?st = "getManagedKafkaStatus ks" and ?goal = "report_evolves (k_ID k) (kafkas s) (kafkas s') \<and> (\<forall>k'. r = Ok k' \<longrightarrow> k_ID k' = k_ID k)"
  have d: "distinct (map k_ID (kafkas s))" "k_ID k \<noteq> ''''" using assms(3) by (simp_all add: row_of_def)
  have idle: ?goal if "(r, s') = (Ok k, t)" "report_evolves (k_ID k) (kafkas s) (kafkas t)" for t using that by simp
  obtain p s1 where p: "persistKafkaRoutes db providers k ks cluster s = (p, s1)" by (rule prod.exhaust)
  note first = persisted_rows[OF assms(1) p assms(3)]
  consider "?st = statusReady" "is_suspended k" | "?st = statusReady" "\<not> is_suspended k" | "?st = statusInstalling"
    | "?st = statusError" "is_suspended k" | "?st = statusError" "\<not> is_suspended k" | "?st = statusDeleted"
    | "?st = statusRejected" | "?st = statusRejectedClusterFull" | "?st = statusSuspended" "k_Status k = KafkaRequestStatusSuspending"
    | "?st = statusSuspended" "k_Status k \<noteq> KafkaRequestStatusSuspending"
    | "?st \<notin> {statusReady, statusInstalling, statusError, statusDeleted, statusRejected, statusRejectedClusterFull, statusSuspended}" by blast
  then show ?goal
  proof cases
    case 1 show ?thesis by (rule idle[of s]) (simp_all add: assms(2)[symmetric] report_switch_ready[OF 1(1)] 1(2))
  next
    case 2
    show ?thesis
    proof (cases p)
      case (Ok k1)
      let ?k = "k1\<lparr>k_AdminApiServerURL := ds_AdminServerURI ks\<rparr>"
      have "(r, s') = (go.Ok ?k, snd (setKafkaClusterReady db ?k s1))"
        unfolding assms(2)[symmetric] report_switch_ready[OF 2(1)] using 2(2) by (simp add: p Ok Let_def)
      then show ?thesis using routes_then_ready[OF assms(1) p[unfolded Ok] assms(3) 2(2) surjective_pairing] first(2)[OF Ok] by simp
    next
      case (Err e)
      have "(r, s') = (go.Ok k, s1)" unfolding assms(2)[symmetric] report_switch_ready[OF 2(1)] using 2(2) by (simp add: p Err)
      then show ?thesis using first(1) by simp
    next
      case (Panic m)
      have "(r, s') = (go.Panic m, s1)" unfolding assms(2)[symmetric] report_switch_ready[OF 2(1)] using 2(2) by (simp add: p Panic)
      then show ?thesis using first(1) by simp
    qed
  next
    case 3
    note eq = assms(2)[unfolded report_switch_installing[OF 3] p]
    show ?thesis
    proof (cases p)
      case (Ok k1)
      then have "r = go.Ok k1" "s' = s1" using eq by simp_all
      then show ?thesis using first(1) first(2)[OF Ok] by simp
    qed (use eq first(1) in auto)
  next
    case 4 show ?thesis by (rule idle[of s]) (simp_all add: assms(2)[symmetric] report_switch_error[OF 4(1)] 4(2))
  next
    case 5
    obtain e k1 s2 where f: "setKafkaClusterFailed db k (case GetReadyCondition ks of Some c \<Rightarrow> cond_Message c | None \<Rightarrow> '''') s = (e, k1, s2)"
      by (rule prod_cases3)
    have "(r, s') = (Ok k1, s2)" unfolding assms(2)[symmetric] report_switch_error[OF 5(1)] using 5(2) by (simp add: f)
    then show ?thesis using setKafkaClusterFailed_rows[OF assms(1) f assms(3) 5(2)] by simp
  next
    case 6 show ?thesis
      by (rule idle[OF _ setKafkaClusterDeleting_rows[OF assms(1) surjective_pairing d(1)]]) (simp add: assms(2)[symmetric] report_switch_deleted[OF 6])
  next
    case 7 show ?thesis
      by (rule idle[OF _ reassignKafkaCluster_rows[OF assms(1) surjective_pairing assms(3)]]) (simp add: assms(2)[symmetric] report_switch_rejected[OF 7])
  next
    case 8 show ?thesis
      by (rule idle[OF _ unassign_rows[OF assms(1) surjective_pairing d(2)]]) (simp add: assms(2)[symmetric] report_switch_full[OF 8])
  next
    case 9 show ?thesis
      by (rule idle[OF _ suspend_rows[OF assms(1,3) 9(2)]]) (simp add: assms(2)[symmetric] report_switch_suspended[OF 9(1)] 9(2))
  next
    case 10 show ?thesis by (rule idle[of s]) (simp_all add: assms(2)[symmetric] report_switch_suspended[OF 10(1)] 10(2))
  next
    case 11 show ?thesis by (rule idle[of s]) (use 11 in \<open>simp_all add: assms(2)[symmetric] report_switch_def\<close>)
  qed
qed

lemma processReal_rows:
  assumes "store_lawful db clusters kafkas" "processRealKafkaDeployment db providers newID ks cluster s = (r, s')" "distinct (map k_ID (kafkas s))"
  shows "evolves (\<lambda>x x'. k_ID x = ds_KafkaClusterId ks \<and> k_ClusterID x = c_ClusterID cluster \<and> report_step x x') (kafkas s) (kafkas s')"
proof (cases "\<exists>k. GetByID db (ds_KafkaClusterId ks) s = Inr k \<and> k_ClusterID k = c_ClusterID cluster")
  case True
  then obtain k where k: "GetByID db (ds_KafkaClusterId ks) s = Inr k" "k_ClusterID k = c_ClusterID cluster" by blast
  note g = GetByID_row[OF assms(1) k(1)]
  have row: "row_of k (kafkas s)" using g assms(3) by (simp add: row_of_def)
  obtain w s1 where w: "report_switch db providers newID ks cluster k s = (w, s1)" by (rule prod.exhaust)
  note sw = report_switch_rows[OF assms(1) w row]
  have "report_evolves (k_ID k) (kafkas s) (kafkas s')"
  proof (cases w)
    case (Ok k1)
    then have "s' = snd (setKafkaRequestVersionFields db k1 ks s1)" using assms(2) k w by simp (simp add: processRealKafkaDeployment_def)
    moreover have "report_evolves (k_ID k) (kafkas s1) (kafkas (snd (setKafkaRequestVersionFields db k1 ks s1)))"
      using versions_rows[OF assms(1) surjective_pairing, where k = k1 and ks = ks and s = s1] sw Ok g by simp
    ultimately show ?thesis using report_evolves_trans[OF conjunct1[OF sw]] by simp
  qed (use assms(2) k w sw in \<open>auto simp: processRealKafkaDeployment_def\<close>)
  then show ?thesis
    by (rule evolves_mono) (use row_of_same[OF row] g(2) k(2) in auto)
next
  case False
  then show ?thesis using assms(2) by (auto simp: processRealKafkaDeployment_def split: sum.splits)
qed

lemma reports_loop_rows:
  assumes "store_lawful db clusters kafkas" "reports_loop db providers newID i cluster rs info s = (r, s')" "distinct (map k_ID (kafkas s))"
  shows "evolves (\<lambda>x x'. k_ID x \<in> ds_KafkaClusterId ` set rs \<and> k_ClusterID x = c_ClusterID cluster \<and> report_step x x') (kafkas s) (kafkas s')"
  using assms(2,3)
proof (induction rs arbitrary: i info s)
  case (Cons ks rs)
  obtain w s1 where w: "processRealKafkaDeployment db providers (newID i) ks cluster s = (w, s1)" by (rule prod.exhaust)
  note first = processReal_rows[OF assms(1) w Cons.prems(2)]
  have d: "distinct (map k_ID (kafkas s1))" using evolves_ids[OF first] Cons.prems(2) by simp
  show ?case
  proof (cases "getManagedKafkaDeploymentType ks = realDeploymentType")
    case True
    show ?thesis
    proof (cases "\<exists>m. w = Panic m")
      case False
      then have "reports_loop db providers newID (i + 1) cluster rs info s1 = (r, s')"
        using Cons.prems(1) True w by (auto split: go.splits)
      from Cons.IH[OF this d] show ?thesis
      proof (rule evolves_trans[OF first])
        fix x y z
        assume "k_ID x = ds_KafkaClusterId ks \<and> k_ClusterID x = c_ClusterID cluster \<and> report_step x y"
          and "k_ID y \<in> ds_KafkaClusterId ` set rs \<and> k_ClusterID y = c_ClusterID cluster \<and> report_step y z"
        then show "k_ID x \<in> ds_KafkaClusterId ` set (ks # rs) \<and> k_ClusterID x = c_ClusterID cluster \<and> report_step x z"
          using report_step_trans[of x y z] by simp
      qed simp_all
    next
      case True
      then have "s' = s1" using Cons.prems(1) \<open>getManagedKafkaDeploymentType ks = realDeploymentType\<close> w by auto
      from first[folded this] show ?thesis by (rule evolves_mono) simp
    qed
  next
    case False
    then have "reports_loop db providers newID (i + 1) cluster rs (processReservedKafkaDeployment ks info) s = (r, s')" using Cons.prems(1) by simp
    from Cons.IH[OF this Cons.prems(2)] show ?thesis by (rule evolves_mono) simp
  qed
qed simp

section \<open>What a report does to the table of clusters\<close>

lemma FindClusterByID_row:
  assumes "store_lawful db clusters kafkas" "FindClusterByID db i s = Inr (Some c)"
  shows "c \<in> set (clusters s)" "c_ClusterID c = i"
  using assms(2) t_first_row[OF clusterT_lawful[OF assms(1)]]
  by (auto simp: FindClusterByID_def split: if_splits sum.splits)

text \<open>The status becomes ready or waiting, the units are those reported, and the nodes stay.\<close>

definition cluster_report_step :: "DataPlaneClusterStatus \<Rightarrow> Cluster \<Rightarrow> Cluster \<Rightarrow> bool" where
  "cluster_report_step status c c' \<longleftrightarrow> clusterCanProcessStatusReports c \<and>
     (c' = c\<lparr>c_Status := ClusterWaitingForKasFleetShardOperator\<rparr> \<and> isFleetShardOperatorReady status = Inr False \<or>
      (\<exists>versions. c' = c\<lparr>c_Status := ClusterReady, c_DynamicCapacityInfo := JText (merge_capacity (dcs_DynamicCapacityInfo status) (RetrieveDynamicCapacityInfo c)),
                        c_AvailableStrimziVersions := versions\<rparr>) \<and> isFleetShardOperatorReady status = Inr True)"

lemma merge_capacity_nodes:
  "map (\<lambda>(t, i). (t, MaxNodes i)) (merge_capacity reported cap) = map (\<lambda>(t, i). (t, MaxNodes i)) cap"
  by (auto simp: merge_capacity_def split: option.split)

lemma Cluster_Updates_report:
  "Cluster_Updates (c\<lparr>c_DynamicCapacityInfo := JText i, c_AvailableStrimziVersions := v, c_Status := ClusterReady\<rparr>) c =
   c\<lparr>c_Status := ClusterReady, c_DynamicCapacityInfo := JText i, c_AvailableStrimziVersions := nz JNil v (c_AvailableStrimziVersions c)\<rparr>"
  by (simp add: Cluster_Updates_def nz_def ClusterReady_def)

lemma setClusterStatus_update:
  assumes "setClusterStatus sv db c status s = (e, s')" "s' \<noteq> s"
  obtains v e' where "Update db (c\<lparr>c_DynamicCapacityInfo := JText (merge_capacity (dcs_DynamicCapacityInfo status) (RetrieveDynamicCapacityInfo c)),
      c_AvailableStrimziVersions := v, c_Status := ClusterReady\<rparr>) s = (e', s')"
proof -
  let ?new = "dcs_AvailableStrimziVersions status"
  define c1 where "c1 = c\<lparr>c_DynamicCapacityInfo := JText (merge_capacity (dcs_DynamicCapacityInfo status) (RetrieveDynamicCapacityInfo c))\<rparr>"
  obtain prev where prev: "GetAvailableStrimziVersions c = Inr prev"
    using assms by (cases "GetAvailableStrimziVersions c") (simp_all add: setClusterStatus_def)
  define up where "up = (if length ?new > 0 \<and> prev \<noteq> ?new then SetAvailableStrimziVersions sv ?new c1 else Inr c1)"
  have eq: "setClusterStatus sv db c status s = (case up of Inl err \<Rightarrow> (Some err, s)
      | Inr c2 \<Rightarrow> (case Update db (c2\<lparr>c_Status := ClusterReady\<rparr>) s of (Some e, s') \<Rightarrow> (Some (ServiceErr e), s') | (None, s') \<Rightarrow> (None, s')))"
    unfolding setClusterStatus_def prev up_def c1_def SetDynamicCapacityInfo_def Let_def by simp
  obtain c2 where c2: "up = Inr c2" using assms eq by (cases up) simp_all
  obtain u s2 where u: "Update db (c2\<lparr>c_Status := ClusterReady\<rparr>) s = (u, s2)" by (rule prod.exhaust)
  have "s2 = s'" using assms(1) eq c2 u by (cases u) simp_all
  moreover have "\<exists>v. c2 = c1\<lparr>c_AvailableStrimziVersions := v\<rparr>"
  proof (cases "length ?new > 0 \<and> prev \<noteq> ?new")
    case True
    then show ?thesis using c2 by (cases "StrimziVersionsDeepSort sv ?new") (auto simp: up_def SetAvailableStrimziVersions_def)
  next
    case False
    then have "c2 = c1\<lparr>c_AvailableStrimziVersions := c_AvailableStrimziVersions c1\<rparr>" using c2 unfolding up_def by (subst (asm) if_not_P) simp_all
    then show ?thesis by blast
  qed
  ultimately show ?thesis using that u unfolding c1_def by auto
qed

lemma cluster_update_row:
  assumes "store_lawful db clusters kafkas" "t_update (clusterT db) (\<lambda>r. c_ID r = c_ID c) f s = (r, s')"
    and "distinct (map c_ID (clusters s))" "c \<in> set (clusters s)"
  shows "kafkas s' = kafkas s" "clusters s' = clusters s \<or> clusters s' = map (\<lambda>x. if x = c then f c else x) (clusters s)"
proof -
  show "kafkas s' = kafkas s" by (rule clusterT_frame(1)[OF assms(1,2)])
  have "map (\<lambda>x. if c_ID x = c_ID c then f x else x) (clusters s) = map (\<lambda>x. if x = c then f c else x) (clusters s)"
    using inj_onD[OF conjunct2[OF assms(3)[unfolded distinct_map]]] assms(4) by (intro map_cong refl) metis
  then show "clusters s' = clusters s \<or> clusters s' = map (\<lambda>x. if x = c then f c else x) (clusters s)"
    using t_update_rows[OF clusterT_lawful[OF assms(1)]] t_update_fail[OF clusterT_lawful[OF assms(1)]] assms(2) by (cases r) auto
qed

lemma report_update:
  assumes "UpdateDataPlaneClusterStatus sv db i status s = (r, s')" "s' \<noteq> s"
  obtains c f w where "FindClusterByID db i s = Inr (Some c)" "cluster_report_step status c (f c)"
    and "c_ID c \<noteq> '''' \<Longrightarrow> t_update (clusterT db) (\<lambda>r. c_ID r = c_ID c) f s = (w, s')"
proof -
  obtain c where c: "FindClusterByID db i s = Inr (Some c)" and can: "clusterCanProcessStatusReports c"
    using assms by (auto simp: UpdateDataPlaneClusterStatus_def split: sum.splits option.splits if_splits)
  obtain ready where ready: "isFleetShardOperatorReady status = Inr ready"
    using assms c can by (cases "isFleetShardOperatorReady status") (simp_all add: UpdateDataPlaneClusterStatus_def)
  show ?thesis
  proof (cases ready)
    case True
    obtain e where "setClusterStatus sv db c status s = (e, s')"
      using assms(1) c can ready True by (cases "setClusterStatus sv db c status s") (auto simp: UpdateDataPlaneClusterStatus_def split: option.splits)
    then obtain v e' where u: "Update db (c\<lparr>c_DynamicCapacityInfo := JText (merge_capacity (dcs_DynamicCapacityInfo status) (RetrieveDynamicCapacityInfo c)),
        c_AvailableStrimziVersions := v, c_Status := ClusterReady\<rparr>) s = (e', s')" using setClusterStatus_update[OF _ assms(2)] by blast
    let ?f = "Cluster_Updates (c\<lparr>c_DynamicCapacityInfo := JText (merge_capacity (dcs_DynamicCapacityInfo status) (RetrieveDynamicCapacityInfo c)),
        c_AvailableStrimziVersions := v, c_Status := ClusterReady\<rparr>)"
    have "cluster_report_step status c (?f c)"
      unfolding Cluster_Updates_report cluster_report_step_def using can ready True by (intro conjI disjI2 exI refl) simp_all
    moreover have "t_update (clusterT db) (\<lambda>r. c_ID r = c_ID c) ?f s = (fst (t_update (clusterT db) (\<lambda>r. c_ID r = c_ID c) ?f s), s')" if "c_ID c \<noteq> ''''"
      using u that by (cases "t_update (clusterT db) (\<lambda>r. c_ID r = c_ID c) ?f s") (auto simp: Update_def split: sum.splits)
    ultimately show ?thesis using that c by blast
  next
    case False
    let ?f = "\<lambda>r. r\<lparr>c_Status := ClusterWaitingForKasFleetShardOperator\<rparr>"
    have "cluster_report_step status c (?f c)" using can ready False by (simp add: cluster_report_step_def)
    moreover have "t_update (clusterT db) (\<lambda>r. c_ID r = c_ID c) ?f s = (fst (t_update (clusterT db) (\<lambda>r. c_ID r = c_ID c) ?f s), s')" if "c_ID c \<noteq> ''''"
      using assms c can ready False that
      by (cases "t_update (clusterT db) (\<lambda>r. c_ID r = c_ID c) ?f s")
        (auto simp: UpdateDataPlaneClusterStatus_def UpdateStatus_def ClusterWaitingForKasFleetShardOperator_def split: sum.splits if_splits)
    ultimately show ?thesis using that c by blast
  qed
qed

section \<open>Properties\<close>

text \<open>C4. Reports of the data plane move Kafkas along the allowed transitions only.  Over a whole list of reports every
  Kafka keeps its row; one that changes is assigned to the reporting cluster and named in a report.  Its status stays, or
  becomes deleting, or goes from suspending to suspended, or goes to ready or failed from a status that is
  neither suspended nor under deletion.  Stored routes, owner, size, place and billing stay, and a Kafka is
  never moved to another cluster.\<close>

theorem reports_keep_lifecycle:
  assumes "store_lawful db clusters kafkas" "distinct (map k_ID (kafkas s))"
    and "UpdateDataPlaneKafkaService db providers newID clusterID reports s = (r, s')"
  shows "evolves (\<lambda>x x'. k_ID x \<in> ds_KafkaClusterId ` set reports \<and> k_ClusterID x = clusterID \<and> report_step x x') (kafkas s) (kafkas s')"
proof (cases "\<exists>c. FindClusterByID db clusterID s = Inr (Some c)")
  case True
  then obtain c where c: "FindClusterByID db clusterID s = Inr (Some c)" by blast
  then have "reports_loop db providers newID 0 c reports (empty_prewarming c) s = (r, s')" using assms(3) by (simp add: UpdateDataPlaneKafkaService_def)
  from reports_loop_rows[OF assms(1) this assms(2)] show ?thesis unfolding FindClusterByID_row(2)[OF assms(1) c] .
next
  case False
  then have "s' = s" using assms(3) by (auto simp: UpdateDataPlaneKafkaService_def split: sum.splits option.splits)
  then show ?thesis by simp
qed

definition suspended_state :: "Cluster list \<times> KafkaRequest list" where
  "suspended_state = ([sample_cluster], [sample_kafka ''k1'' ''x1'' KafkaRequestStatusSuspended])"

definition error_report :: DataPlaneKafkaStatus where
  "error_report = \<lparr>ds_KafkaClusterId = ''k1'', ds_Conditions = [\<lparr>cond_Type = ''Ready'', cond_Reason = ''Error'', cond_Status = ''False'', cond_Message = ''disk''\<rparr>],
     ds_Routes = [], ds_KafkaVersion = ''3.0'', ds_StrimziVersion = '''', ds_KafkaIBPVersion = '''', ds_AdminServerURI = ''''\<rparr>"

theorem reports_keep_lifecycle_witness:
  "distinct (map k_ID (snd suspended_state)) \<and>
   (\<exists>r s'. UpdateDataPlaneKafkaService mem_db Map.empty (\<lambda>i. ''p'') ''c1'' [error_report] suspended_state = (r, s') \<and>
      map k_ActualKafkaVersion (snd s') = [''3.0''] \<and>
      evolves (\<lambda>x x'. k_ID x \<in> {''k1''} \<and> k_ClusterID x = ''c1'' \<and> report_step x x') (snd suspended_state) (snd s'))"
proof -
  have d: "distinct (map k_ID (snd suspended_state))" by code_simp
  obtain r s' where u: "UpdateDataPlaneKafkaService mem_db Map.empty (\<lambda>i. ''p'') ''c1'' [error_report] suspended_state = (r, s')" by (rule prod.exhaust)
  have "map k_ActualKafkaVersion (snd (snd (UpdateDataPlaneKafkaService mem_db Map.empty (\<lambda>i. ''p'') ''c1'' [error_report] suspended_state))) = [''3.0'']" by code_simp
  then show ?thesis using reports_keep_lifecycle[OF mem_db_lawful d u] d u by (simp add: error_report_def)
qed

text \<open>C39. The report of a cluster touches that cluster only, and only when it is ready, full or waiting for its operator.  Its
  status becomes ready or waiting, and the nodes configured for its instance types stay, whatever units are
  reported.\<close>

theorem cluster_report_effect:
  assumes "store_lawful db clusters kafkas" "distinct (map c_ID (clusters s))" "\<forall>c \<in> set (clusters s). c_ID c \<noteq> ''''"
    and "UpdateDataPlaneClusterStatus sv db i status s = (r, s')"
  shows "kafkas s' = kafkas s \<and>
         (clusters s' = clusters s \<or>
          (\<exists>c c'. c \<in> set (clusters s) \<and> c_ClusterID c = i \<and> cluster_report_step status c c' \<and>
             (map (\<lambda>(t, x). (t, MaxNodes x)) (RetrieveDynamicCapacityInfo c') = map (\<lambda>(t, x). (t, MaxNodes x)) (RetrieveDynamicCapacityInfo c)) \<and>
             clusters s' = map (\<lambda>x. if x = c then c' else x) (clusters s)))"
proof (cases "s' = s")
  case False
  then obtain c f w where c: "FindClusterByID db i s = Inr (Some c)" "cluster_report_step status c (f c)"
    "c_ID c \<noteq> '''' \<Longrightarrow> t_update (clusterT db) (\<lambda>r. c_ID r = c_ID c) f s = (w, s')" using report_update[OF assms(4)] by blast
  note row = FindClusterByID_row[OF assms(1) c(1)]
  have u: "t_update (clusterT db) (\<lambda>r. c_ID r = c_ID c) f s = (w, s')" using c(3) assms(3) row(1) by blast
  have "map (\<lambda>(t, x). (t, MaxNodes x)) (RetrieveDynamicCapacityInfo (f c)) = map (\<lambda>(t, x). (t, MaxNodes x)) (RetrieveDynamicCapacityInfo c)"
    using c(2) merge_capacity_nodes by (auto simp: cluster_report_step_def RetrieveDynamicCapacityInfo_def)
  then show ?thesis using cluster_update_row[OF assms(1) u assms(2) row(1)] row c(2) by blast
qed simp

definition cluster_report :: DataPlaneClusterStatus where
  "cluster_report = \<lparr>dcs_Conditions = [\<lparr>cond_Type = ''Ready'', cond_Reason = '''', cond_Status = ''True'', cond_Message = ''''\<rparr>],
     dcs_AvailableStrimziVersions = [], dcs_DynamicCapacityInfo = [(STANDARD, \<lparr>MaxNodes = 99, MaxUnits = 7, RemainingUnits = 6\<rparr>)]\<rparr>"

theorem cluster_report_effect_witness:
  "\<exists>r s'. UpdateDataPlaneClusterStatus length_semver mem_db ''c1'' cluster_report sample_state = (r, s') \<and> snd s' = snd sample_state \<and>
     map c_DynamicCapacityInfo (fst s') = [JText [(STANDARD, \<lparr>MaxNodes = 3, MaxUnits = 7, RemainingUnits = 6\<rparr>)]]"
proof -
  obtain r s' where u: "UpdateDataPlaneClusterStatus length_semver mem_db ''c1'' cluster_report sample_state = (r, s')" by (rule prod.exhaust)
  have "distinct (map c_ID (fst sample_state))" "\<forall>c \<in> set (fst sample_state). c_ID c \<noteq> ''''" by code_simp+
  note t = cluster_report_effect[OF mem_db_lawful this u]
  have "map c_DynamicCapacityInfo (fst (snd (UpdateDataPlaneClusterStatus length_semver mem_db ''c1'' cluster_report sample_state))) =
    [JText [(STANDARD, \<lparr>MaxNodes = 3, MaxUnits = 7, RemainingUnits = 6\<rparr>)]]" by code_simp
  then show ?thesis using t u by auto
qed

end
