(* ===== verification/Kafka_Workers.thy ===== *)
theory Kafka_Workers
  imports Data_Plane
begin

text \<open>
  The workers that reconcile Kafkas, \<^verbatim>\<open>internal/kafka/internal/workers/kafka_mgrs\<close>: one \<^verbatim>\<open>Reconcile\<close> per worker over the
  services of the record \<open>kafkaService\<close>.  A round reads a list of Kafkas and handles them one after the other; an
  error of one Kafka is recorded and the round goes on.  \<^verbatim>\<open>time.Now()\<close> is the argument \<open>now\<close>, the identifiers of
  \<^verbatim>\<open>api.NewID()\<close> come from the argument \<open>newID\<close>, and the framework that repeats the rounds is left out.  Log messages and
  metrics are left out, except for the capacities that the general worker computes for its metrics.

  The object mapper may assign the values of an update with a map to the object in memory.  Where later steps
  read that object the argument \<open>assigned\<close> stands for what it does: it takes the change and the object to the
  object afterwards.
\<close>

section \<open>Rounds\<close>

text \<open>The loop of the rounds: \<open>f\<close> handles a Kafka, \<open>wrap\<close> is how its error is recorded.\<close>

fun reconcile_each ::
  "(KafkaRequest \<Rightarrow> 's \<Rightarrow> unit go \<times> 's) \<Rightarrow> (KafkaRequest \<Rightarrow> goerror \<Rightarrow> goerror) \<Rightarrow> goerror list \<Rightarrow> KafkaRequest list \<Rightarrow> 's \<Rightarrow> goerror list go \<times> 's" where
  "reconcile_each f wrap errs [] s = (Ok errs, s)"
| "reconcile_each f wrap errs (kafka # rest) s =
     (case f kafka s of
        (Panic m, s') \<Rightarrow> (Panic m, s')
      | (Err e, s') \<Rightarrow> reconcile_each f wrap (errs @ [wrap kafka e]) rest s'
      | (Ok u, s') \<Rightarrow> reconcile_each f wrap errs rest s')"

definition wrapf :: "string \<Rightarrow> KafkaRequest \<Rightarrow> goerror \<Rightarrow> goerror" where
  "wrapf format kafka e = WithMessage e (Sprintf format [FStr (k_ID kafka)])"

text \<open>Writing the request and wrapping the error of the service.\<close>

definition write_kafka :: "'s db \<Rightarrow> KafkaRequest \<Rightarrow> string \<Rightarrow> 's \<Rightarrow> unit go \<times> 's" where
  "write_kafka db kafka message s =
     (case Kafka_Update db kafka s of
        (Some err, s') \<Rightarrow> (Err (WithMessage (ServiceErr err) message), s')
      | (None, s') \<Rightarrow> (Ok (), s'))"

section \<open>Accepted Kafkas\<close>

(* src/internal/kafka/internal/workers/kafka_mgrs/accepted_kafkas_mgr.go:159-173 AcceptedKafkaManager.assignDesiredKafkaVersions *)
definition assignDesiredKafkaVersions :: "KafkaRequest \<Rightarrow> StrimziVersion \<Rightarrow> KafkaRequest err" where
  "assignDesiredKafkaVersions kafka latestReadyStrimziVersion =
     (case GetLatestKafkaVersion latestReadyStrimziVersion of
        None \<Rightarrow> Inl (ErrorString (Sprintf ''failed to get Kafka version %s'' [FStr (k_ID kafka)]))
      | Some desiredKafkaVersion \<Rightarrow>
        (case GetLatestKafkaIBPVersion latestReadyStrimziVersion of
           None \<Rightarrow> Inl (ErrorString (Sprintf ''failed to get Kafka IBP version %s'' [FStr (k_ID kafka)]))
         | Some desiredKafkaIBPVersion \<Rightarrow>
             Inr (kafka\<lparr>k_DesiredStrimziVersion := sv_Version latestReadyStrimziVersion, k_DesiredKafkaVersion := kv_Version desiredKafkaVersion,
                        k_DesiredKafkaIBPVersion := ibp_Version desiredKafkaIBPVersion\<rparr>)))"

(* src/internal/kafka/internal/workers/kafka_mgrs/accepted_kafkas_mgr.go:124-138 AcceptedKafkaManager.markTheUnassignedKafkaAsFailedOrAllowRetryClusterPlacementReconciliation *)
definition markTheUnassignedKafkaAsFailed :: "'s kafkaService \<Rightarrow> time \<Rightarrow> KafkaRequest \<Rightarrow> 's \<Rightarrow> unit go \<times> 's" where
  "markTheUnassignedKafkaAsFailed K now kafka s =
     (if now - k_CreatedAt kafka < AcceptedKafkaMaxRetryDurationWhileWaitingForClusterAssignment then (Ok (), s)
      else write_kafka (ks_db K)
             (kafka\<lparr>k_Status := KafkaRequestStatusFailed,
                    k_FailedReason := Sprintf ''Region %s in cloud provider %s cannot accept %s Kafka of size %s at the moment.''
                      [FStr (k_Region kafka), FStr (k_CloudProvider kafka), FStr (k_InstanceType kafka), FStr (k_SizeId kafka)]\<rparr>)
             (Sprintf ''failed to update failed kafka %s'' [FStr (k_ID kafka)]) s)"

(* src/internal/kafka/internal/workers/kafka_mgrs/accepted_kafkas_mgr.go:140-157 AcceptedKafkaManager.markTheAssignedKafkaAsFailedOrAllowRetryStrimziVersionPickingReconciliation *)
definition markTheAssignedKafkaAsFailed :: "'s kafkaService \<Rightarrow> time \<Rightarrow> KafkaRequest \<Rightarrow> 's \<Rightarrow> unit go \<times> 's" where
  "markTheAssignedKafkaAsFailed K now kafka s =
     (if now - k_CreatedAt kafka < AcceptedKafkaMaxRetryDurationWhileWaitingForStrimziVersion then (Ok (), s)
      else write_kafka (ks_db K) (kafka\<lparr>k_Status := KafkaRequestStatusFailed, k_FailedReason := ''Failed to get desired Strimzi version''\<rparr>)
             (Sprintf ''failed to update failed kafka %s'' [FStr (k_ID kafka)]) s)"

text \<open>The cluster of an accepted Kafka: the one it is assigned to, or one the placement strategy finds.  A cluster that
  is not found makes a wrapped nil error.\<close>

(* src/internal/kafka/internal/workers/kafka_mgrs/accepted_kafkas_mgr.go:81-99 AcceptedKafkaManager.reconcileAcceptedKafka *)
definition cluster_of_accepted :: "'s kafkaService \<Rightarrow> KafkaRequest \<Rightarrow> 's \<Rightarrow> Cluster option err" where
  "cluster_of_accepted K kafka s =
     (if k_ClusterID kafka = '''' then
        (case ks_clusterPlacementStrategy K kafka s of
           Inl err \<Rightarrow> Inl (WithMessage err (Sprintf ''failed to find cluster for kafka request %s'' [FStr (k_ID kafka)]))
         | Inr c \<Rightarrow> Inr c)
      else
        (let message = Sprintf (''failed to find cluster with '%s' for kafka request '%s'' @ [CHR 0x27]) [FStr (k_ClusterID kafka), FStr (k_ID kafka)] in
         case FindClusterByID (ks_db K) (k_ClusterID kafka) s of
           Inl e \<Rightarrow> Inl (WithMessage (ServiceErr e) message)
         | Inr None \<Rightarrow> Inl (WithMessage NilServiceError message)
         | Inr (Some c) \<Rightarrow> Inr (Some c)))"

(* src/internal/kafka/internal/workers/kafka_mgrs/accepted_kafkas_mgr.go:80-122 AcceptedKafkaManager.reconcileAcceptedKafka *)
definition reconcileAcceptedKafka :: "'s kafkaService \<Rightarrow> time \<Rightarrow> KafkaRequest \<Rightarrow> 's \<Rightarrow> unit go \<times> 's" where
  "reconcileAcceptedKafka K now kafka s =
     (case cluster_of_accepted K kafka s of
        Inl err \<Rightarrow> (Err err, s)
      | Inr None \<Rightarrow> markTheUnassignedKafkaAsFailed K now kafka s
      | Inr (Some cluster) \<Rightarrow>
        (let kafka = (if k_ClusterID kafka = '''' then kafka\<lparr>k_ClusterID := c_ClusterID cluster\<rparr> else kafka) in
         case GetLatestAvailableAndReadyStrimziVersion cluster of
           Inl err \<Rightarrow> (Err (WithMessage err (Sprintf ''Failed to get latest available ready strimzi version for cluster %s'' [FStr (c_ClusterID cluster)])), s)
         | Inr None \<Rightarrow> markTheAssignedKafkaAsFailed K now kafka s
         | Inr (Some latestReadyStrimziVersion) \<Rightarrow>
           (case assignDesiredKafkaVersions kafka latestReadyStrimziVersion of
              Inl err \<Rightarrow> (Err err, s)
            | Inr kafka \<Rightarrow>
                write_kafka (ks_db K) (kafka\<lparr>k_Status := KafkaRequestStatusPreparing\<rparr>)
                  (Sprintf ''failed to update kafka %s with cluster details'' [FStr (k_ID kafka)]) s)))"

text \<open>A round over the Kafkas of a status.\<close>

definition reconcile_status ::
  "'s kafkaService \<Rightarrow> string \<Rightarrow> string \<Rightarrow> (KafkaRequest \<Rightarrow> 's \<Rightarrow> unit go \<times> 's) \<Rightarrow> string \<Rightarrow> 's \<Rightarrow> goerror list go \<times> 's" where
  "reconcile_status K status listMessage f format s =
     (case Kafka_ListByStatus (ks_db K) [status] s of
        Inl serviceErr \<Rightarrow> (Ok [WithMessage (ServiceErr serviceErr) listMessage], s)
      | Inr kafkas \<Rightarrow> reconcile_each f (wrapf format) [] kafkas s)"

(* src/internal/kafka/internal/workers/kafka_mgrs/accepted_kafkas_mgr.go:56-78 AcceptedKafkaManager.Reconcile *)
definition Accepted_Reconcile :: "'s kafkaService \<Rightarrow> time \<Rightarrow> 's \<Rightarrow> goerror list go \<times> 's" where
  "Accepted_Reconcile K now s =
     reconcile_status K KafkaRequestStatusAccepted ''failed to list accepted kafkas'' (reconcileAcceptedKafka K now) ''failed to reconcile accepted kafka %s'' s"

section \<open>Preparing, provisioning and ready Kafkas\<close>

(* src/internal/kafka/internal/workers/kafka_mgrs/preparing_kafkas_mgr.go:81-110 PreparingKafkaManager.handleKafkaRequestCreationError *)
definition handleKafkaRequestCreationError :: "'s kafkaService \<Rightarrow> time \<Rightarrow> KafkaRequest \<Rightarrow> ServiceError \<Rightarrow> 's \<Rightarrow> unit go \<times> 's" where
  "handleKafkaRequestCreationError K now kafkaRequest err s =
     (let failed = kafkaRequest\<lparr>k_Status := KafkaRequestStatusFailed, k_FailedReason := Reason err\<rparr>;
          retry = Err (WithMessage (ServiceErr err) (Sprintf ''failed to provision kafka %s on cluster %s'' [FStr (k_ID kafkaRequest), FStr (k_ClusterID kafkaRequest)])) in
      if IsServerErrorClass err then
        (if now - k_CreatedAt kafkaRequest > KafkaMaxDurationWithProvisioningErrs then
           (case Kafka_Update (ks_db K) failed s of
              (Some updateErr, s') \<Rightarrow> (Err (WithMessage (ServiceErr updateErr)
                 (Sprintf ''Failed to update kafka %s in failed state. Kafka failed reason %s'' [FStr (k_ID failed), FStr (k_FailedReason failed)])), s')
            | (None, s') \<Rightarrow> (Err (WithMessage (ServiceErr err)
                 (Sprintf ''Kafka %s is in server error failed state. Maximum attempts has been reached'' [FStr (k_ID failed)])), s'))
         else (retry, s))
      else if IsClientErrorClass err then
        (case Kafka_Update (ks_db K) failed s of
           (Some updateErr, s') \<Rightarrow> (Err (WithMessage (ServiceErr err) (Sprintf ''Failed to update kafka %s in failed state'' [FStr (k_ID failed)])), s')
         | (None, s') \<Rightarrow> (Err (WithMessage (ServiceErr err) (Sprintf ''error creating kafka %s'' [FStr (k_ID failed)])), s'))
      else (retry, s))"

(* src/internal/kafka/internal/workers/kafka_mgrs/preparing_kafkas_mgr.go:73-79 PreparingKafkaManager.reconcilePreparingKafka *)
definition reconcilePreparingKafka :: "'s kafkaService \<Rightarrow> (KafkaRequest \<Rightarrow> string) \<Rightarrow> time \<Rightarrow> KafkaRequest \<Rightarrow> 's \<Rightarrow> unit go \<times> 's" where
  "reconcilePreparingKafka K newID now kafka s =
     (case PrepareKafkaRequest K (newID kafka) kafka s of
        (Panic m, s') \<Rightarrow> (Panic m, s')
      | (Err e, s') \<Rightarrow> (Err e, s')
      | (Ok (None, kafka'), s') \<Rightarrow> (Ok (), s')
      | (Ok (Some err, kafka'), s') \<Rightarrow> handleKafkaRequestCreationError K now kafka' err s')"

(* src/internal/kafka/internal/workers/kafka_mgrs/preparing_kafkas_mgr.go:48-71 PreparingKafkaManager.Reconcile *)
definition Preparing_Reconcile :: "'s kafkaService \<Rightarrow> (KafkaRequest \<Rightarrow> string) \<Rightarrow> time \<Rightarrow> 's \<Rightarrow> goerror list go \<times> 's" where
  "Preparing_Reconcile K newID now s =
     reconcile_status K KafkaRequestStatusPreparing ''failed to list preparing kafkas'' (reconcilePreparingKafka K newID now) ''failed to reconcile preparing kafka %s'' s"

(* src/internal/kafka/internal/workers/kafka_mgrs/provisioning_kafkas_mgr.go:76-116 ProvisioningKafkaManager.reassignProvisioningKafka *)
definition reassignProvisioningKafka :: "'s kafkaService \<Rightarrow> KafkaRequest \<Rightarrow> 's \<Rightarrow> unit go \<times> 's" where
  "reassignProvisioningKafka K kafka s =
     (case ks_clusterPlacementStrategy K kafka s of
        Inr (Some cluster) \<Rightarrow>
        (case AssignBootstrapServerHost K (kafka\<lparr>k_ClusterID := c_ClusterID cluster\<rparr>) s of
           (Panic m, s') \<Rightarrow> (Panic m, s')
         | (Err err, s') \<Rightarrow> (Err (WithMessage err (Sprintf ''error assigning bootstrap server host to kafka %s'' [FStr (k_ID kafka)])), s')
         | (Ok k1, s') \<Rightarrow>
           (case GetLatestAvailableAndReadyStrimziVersion cluster of
              Inl err \<Rightarrow> (Err (WithMessage err (Sprintf ''error finding ready strimzi versions for kafka %s'' [FStr (k_ID kafka)])), s')
            | Inr None \<Rightarrow> (Err (ErrorString (Sprintf ''could not find latest strimzi version for kafka %s'' [FStr (k_ID kafka)])), s')
            | Inr (Some latestStrimziVersion) \<Rightarrow>
              (case GetLatestKafkaVersion latestStrimziVersion of
                 None \<Rightarrow> (Err (ErrorString (Sprintf ''failed to get Kafka version for kafka %s'' [FStr (k_ID kafka)])), s')
               | Some desiredKafkaVersion \<Rightarrow>
                 (case GetLatestKafkaIBPVersion latestStrimziVersion of
                    None \<Rightarrow> (Err (ErrorString (Sprintf ''failed to get Kafka IBP version for kafka %s'' [FStr (k_ID kafka)])), s')
                  | Some desiredKafkaIBPVersion \<Rightarrow>
                    (case Kafka_Update (ks_db K) (k1\<lparr>k_DesiredStrimziVersion := sv_Version latestStrimziVersion,
                            k_DesiredKafkaVersion := kv_Version desiredKafkaVersion, k_DesiredKafkaIBPVersion := ibp_Version desiredKafkaIBPVersion\<rparr>) s' of
                       (Some updateErr, s'') \<Rightarrow> (Err (ErrorString (Sprintf ''failed to update kafka %s in provisioning state'' [FStr (k_ID kafka)])), s'')
                     | (None, s'') \<Rightarrow> (Ok (), s''))))))
      | _ \<Rightarrow> (Err (ErrorString (Sprintf ''region %s cannot accept instance type: %s at this moment for kafka %s''
                [FStr (k_Region kafka), FStr (k_InstanceType kafka), FStr (k_ID kafka)])), s))"

(* src/internal/kafka/internal/workers/kafka_mgrs/provisioning_kafkas_mgr.go:48-75 ProvisioningKafkaManager.Reconcile *)
definition Provisioning_Reconcile :: "'s kafkaService \<Rightarrow> 's \<Rightarrow> goerror list go \<times> 's" where
  "Provisioning_Reconcile K s =
     reconcile_status K KafkaRequestStatusProvisioning ''failed to list provisioning kafkas''
       (\<lambda>kafka s. if k_ClusterID kafka = '''' then reassignProvisioningKafka K kafka s else (Ok (), s)) ''failed to reassign provisioning kafka %q'' s"

(* src/internal/kafka/internal/workers/kafka_mgrs/ready_kafkas_mgr.go:79-103 ReadyKafkaManager.reconcileCanaryServiceAccount *)
definition reconcileCanaryServiceAccount :: "'s kafkaService \<Rightarrow> KafkaRequest \<Rightarrow> 's \<Rightarrow> unit go \<times> 's" where
  "reconcileCanaryServiceAccount K kafkaRequest s =
     (if k_CanaryServiceAccountClientID kafkaRequest = '''' \<and> k_CanaryServiceAccountClientSecret kafkaRequest = '''' then
        (case kk_CreateServiceAccountInternal (ks_keycloakService K) (ToLower (Sprintf ''%s-%s'' [FStr ''canary'', FStr (k_ID kafkaRequest)])) kafkaRequest s of
           (Inl err, s') \<Rightarrow> (Err (WithMessage (ServiceErr err) (Sprintf ''failed to create canary service account: %s'' [FStr (ServiceError_Error err)])), s')
         | (Inr (clientID, clientSecret), s') \<Rightarrow>
             write_kafka (ks_db K) (kafkaRequest\<lparr>k_CanaryServiceAccountClientID := clientID, k_CanaryServiceAccountClientSecret := clientSecret\<rparr>)
               (Sprintf ''failed to update kafka %s with canary service account details'' [FStr (k_ID kafkaRequest)]) s')
      else (Ok (), s))"

(* src/internal/kafka/internal/workers/kafka_mgrs/ready_kafkas_mgr.go:51-75 ReadyKafkaManager.Reconcile *)
definition Ready_Reconcile :: "'s kafkaService \<Rightarrow> 's \<Rightarrow> goerror list go \<times> 's" where
  "Ready_Reconcile K s =
     (if \<not> kk_EnableAuthenticationOnKafka (ks_keycloakService K) then (Ok [], s)
      else reconcile_status K KafkaRequestStatusReady ''failed to list ready kafkas'' (reconcileCanaryServiceAccount K)
             ''failed to create ready kafka canary service account: %q'' s)"

section \<open>Kafkas under deletion\<close>

(* src/internal/kafka/internal/workers/kafka_mgrs/deleting_kafkas_mgr.go:95-109 DeletingKafkaManager.reconcileDeletingKafkas *)
definition reconcileDeletingKafkas :: "'s kafkaService \<Rightarrow> KafkaRequest \<Rightarrow> 's \<Rightarrow> unit go \<times> 's" where
  "reconcileDeletingKafkas K kafka s =
     (case ks_quotaServiceFactory K (k_QuotaType kafka) of
        Inl factoryErr \<Rightarrow> (Err (ServiceErr factoryErr), s)
      | Inr quotaService \<Rightarrow>
        (case qs_DeleteQuota quotaService (k_SubscriptionId kafka) s of
           (Some err, s') \<Rightarrow> (Err (WithMessage (ServiceErr err) (Sprintf ''failed to delete subscription id %s for kafka %s'' [FStr (k_SubscriptionId kafka), FStr (k_ID kafka)])), s')
         | (None, s') \<Rightarrow>
           (case Kafka_Delete K kafka s' of
              (Some err, s'') \<Rightarrow> (Err (WithMessage (ServiceErr err) (Sprintf ''failed to delete kafka %s'' [FStr (k_ID kafka)])), s'')
            | (None, s'') \<Rightarrow> (Ok (), s''))))"

(* src/internal/kafka/internal/workers/kafka_mgrs/deleting_kafkas_mgr.go:49-93 DeletingKafkaManager.Reconcile *)
definition Deleting_Reconcile :: "'s kafkaService \<Rightarrow> 's \<Rightarrow> goerror list go \<times> 's" where
  "Deleting_Reconcile K s =
     (let (errs1, deletingKafkas) = (case Kafka_ListByStatus (ks_db K) [KafkaRequestStatusDeleting] s of
            Inl serviceErr \<Rightarrow> ([WithMessage (ServiceErr serviceErr) ''failed to list deleting kafka requests''], [])
          | Inr kafkas \<Rightarrow> ([], kafkas));
          (errs2, deprovisioningKafkas) = (case Kafka_ListByStatus (ks_db K) [KafkaRequestStatusDeprovision] s of
            Inl serviceErr \<Rightarrow> ([WithMessage (ServiceErr serviceErr) ''failed to list kafka deprovisioning requests''], [])
          | Inr kafkas \<Rightarrow> ([], kafkas)) in
      reconcile_each (reconcileDeletingKafkas K) (wrapf ''failed to reconcile deleting kafka request %s'') (errs1 @ errs2)
        (deletingKafkas @ filter (\<lambda>k. k_BootstrapServerHost k = '''') deprovisioningKafkas) s)"

section \<open>Routes and certificates\<close>

(* src/internal/kafka/internal/workers/kafka_mgrs/kafkas_routes_cname_mgr.go:52-81 KafkaRoutesCNAMEManager.Reconcile *)
definition reconcile_routes :: "'s kafkaService \<Rightarrow> KafkaRequest \<Rightarrow> 's \<Rightarrow> unit go \<times> 's" where
  "reconcile_routes K kafka s =
     (case (if kc_EnableKafkaCNAMERegistration (ks_kafkaConfig K) then
              (if k_RoutesCreationId kafka = '''' then
                 (case ChangeKafkaCNAMErecords K kafka KafkaRoutesActionCreate s of
                    (Inl err, s') \<Rightarrow> (Inl (ServiceErr err), s')
                  | (Inr changeInfo, s') \<Rightarrow> (Inr (kafka\<lparr>k_RoutesCreationId := ci_Id changeInfo, k_RoutesCreated := (ci_Status changeInfo = ''INSYNC'')\<rparr>), s'))
               else (case GetCNAMERecordStatus K kafka s of
                    Inl err \<Rightarrow> (Inl err, s)
                  | Inr recordStatus \<Rightarrow> (Inr (kafka\<lparr>k_RoutesCreated := (ci_Status recordStatus = ''INSYNC'')\<rparr>), s)))
            else (Inr (kafka\<lparr>k_RoutesCreated := True\<rparr>), s)) of
        (Inl err, s') \<Rightarrow> (Err err, s')
      | (Inr kafka', s') \<Rightarrow>
        (case Kafka_Update (ks_db K) kafka' s' of
           (Some err, s'') \<Rightarrow> (Err (ServiceErr err), s'')
         | (None, s'') \<Rightarrow> (Ok (), s'')))"

(* src/internal/kafka/internal/workers/kafka_mgrs/kafkas_routes_cname_mgr.go:40-85 KafkaRoutesCNAMEManager.Reconcile *)
definition CNAME_Reconcile :: "'s kafkaService \<Rightarrow> 's \<Rightarrow> goerror list go \<times> 's" where
  "CNAME_Reconcile K s =
     (case ListKafkasWithRoutesNotCreated (ks_db K) s of
        Inl listErr \<Rightarrow> (Ok [WithMessage (ServiceErr listErr) ''failed to list kafkas whose routes are not created''], s)
      | Inr kafkas \<Rightarrow> reconcile_each (reconcile_routes K) (\<lambda>kafka e. e) [] kafkas s)"

(* src/internal/kafka/internal/workers/kafka_mgrs/kafkas_routes_tls_certificate_mgr.go:41-62 KafkasRoutesTLSCertificateManager.Reconcile *)
definition TLS_Reconcile :: "'s kafkaService \<Rightarrow> 's \<Rightarrow> goerror list go \<times> 's" where
  "TLS_Reconcile K s =
     (case Kafka_ListAll (ks_db K) s of
        Inl err \<Rightarrow> (Ok [WithMessage (ServiceErr err) ''failed to list kafkas''], s)
      | Inr kafkas \<Rightarrow>
          reconcile_each (\<lambda>kafka s. case ManagedKafkasRoutesTLSCertificate K kafka s of (Some err, s') \<Rightarrow> (Err err, s') | (None, s') \<Rightarrow> (Ok (), s'))
            (wrapf ''failed to reconcile kafka routes tls certificates%q'') [] kafkas s)"

section \<open>Capacity metrics\<close>

text \<open>The metrics hold the numbers of \<^verbatim>\<open>KafkaStreamingUnitCountPerCluster\<close>.  The code computes with \<^verbatim>\<open>float64\<close>; every
  number whose result fits into 32 bits is exact there.  \<^verbatim>\<open>int32(f)\<close> of a number that does not fit depends on the
  implementation, so the conversion is the argument \<open>to32\<close>.\<close>

(* src/internal/kafka/internal/workers/kafka_mgrs/kafkas_mgr.go:358-370 KafkaManager.getRegionInstanceTypeLimit *)
definition getRegionInstanceTypeLimit :: "'s kafkaService \<Rightarrow> string \<Rightarrow> string \<Rightarrow> string \<Rightarrow> int err" where
  "getRegionInstanceTypeLimit K region cloudProvider instanceType =
     (case GetInstanceLimit (ks_providerConfig K) region cloudProvider instanceType of
        Inl err \<Rightarrow> Inl (WithMessage (ServiceErr err) (Sprintf ''failed to get instance limit for %v on %v and instance type %v''
                          [FStr region, FStr cloudProvider, FStr instanceType]))
      | Inr None \<Rightarrow> Inr (2 ^ 63)
      | Inr (Some limit) \<Rightarrow> Inr limit)"

definition capacity_entry :: "string \<Rightarrow> string \<Rightarrow> string \<Rightarrow> int32 \<Rightarrow> string \<Rightarrow> int32 \<Rightarrow> KafkaStreamingUnitCountPerCluster" where
  "capacity_entry region instanceType clusterId cnt cloudProvider maxUnits =
     \<lparr>su_Region = region, su_InstanceType = instanceType, su_ID = '''', su_ClusterId = clusterId, su_Count = cnt,
      su_CloudProvider = cloudProvider, su_MaxUnits = maxUnits, su_Status = '''', su_ClusterType = ''''\<rparr>"

(* src/internal/kafka/internal/workers/kafka_mgrs/kafkas_mgr.go:242-258 KafkaManager.calculateAvailableAndMadCapacityForEnterpriseClusters *)
definition calculateAvailableAndMadCapacityForEnterpriseClusters ::
  "KafkaStreamingUnitCountPerCluster list \<Rightarrow> KafkaStreamingUnitCountPerCluster list" where
  "calculateAvailableAndMadCapacityForEnterpriseClusters streamingUnitsByRegion =
     map (\<lambda>c. capacity_entry (su_Region c) (su_InstanceType c) (su_ClusterId c) (su_MaxUnits c - su_Count c) (su_CloudProvider c) (su_MaxUnits c))
       (filter (\<lambda>c. su_ClusterType c = EnterpriseDataPlaneClusterType) streamingUnitsByRegion)"

(* src/internal/kafka/internal/workers/kafka_mgrs/kafkas_mgr.go:262-285 KafkaManager.calculateAvailableAndMaxCapacityForDynamicScaling *)
definition calculateAvailableAndMaxCapacityForDynamicScaling ::
  "'s kafkaService \<Rightarrow> (int \<Rightarrow> int32) \<Rightarrow> KafkaStreamingUnitCountPerCluster \<Rightarrow> KafkaStreamingUnitCountPerCluster err" where
  "calculateAvailableAndMaxCapacityForDynamicScaling K to32 c =
     (case getRegionInstanceTypeLimit K (su_Region c) (su_CloudProvider c) (su_InstanceType c) of
        Inl err \<Rightarrow> Inl err
      | Inr limit \<Rightarrow>
        (let maxAvailable = min (sint (su_MaxUnits c)) limit;
             available = max 0 (maxAvailable - sint (su_Count c)) in
         Inr (capacity_entry (su_Region c) (su_InstanceType c) (su_ClusterId c) (to32 available) (su_CloudProvider c) (to32 maxAvailable))))"

(* src/internal/kafka/internal/workers/kafka_mgrs/kafkas_mgr.go:294-307 KafkaManager.calculateCapacityByRegionAndInstanceTypeForManualClusters *)
definition findUsedCapacityForCluster :: "KafkaStreamingUnitCountPerCluster list \<Rightarrow> string \<Rightarrow> string \<Rightarrow> int32 \<times> int32" where
  "findUsedCapacityForCluster units clusterId instanceType =
     (let inCluster = filter (\<lambda>u. su_ClusterId u = clusterId) units in
      (sum_list (map su_Count inCluster), sum_list (map su_Count (filter (\<lambda>u. su_InstanceType u = instanceType) inCluster))))"

(* src/internal/kafka/internal/workers/kafka_mgrs/kafkas_mgr.go:315-351 KafkaManager.calculateCapacityByRegionAndInstanceTypeForManualClusters *)
fun manual_capacity_types ::
  "'s kafkaService \<Rightarrow> (int \<Rightarrow> int32) \<Rightarrow> KafkaStreamingUnitCountPerCluster list \<Rightarrow> ManualCluster \<Rightarrow> string list \<Rightarrow> KafkaStreamingUnitCountPerCluster list err" where
  "manual_capacity_types K to32 units cluster [] = Inr []"
| "manual_capacity_types K to32 units cluster (instanceType # rest) =
     (if instanceType = '''' then manual_capacity_types K to32 units cluster rest
      else case getRegionInstanceTypeLimit K (mc_Region cluster) (mc_CloudProvider cluster) instanceType of
        Inl err \<Rightarrow> Inl err
      | Inr limit \<Rightarrow>
        (let maxAvailable = min (mc_KafkaInstanceLimit cluster) limit;
             (totalUsed, instanceTypeUsed) = findUsedCapacityForCluster units (mc_ClusterId cluster) instanceType;
             availableByInstanceType = min (maxAvailable - sint instanceTypeUsed) (mc_KafkaInstanceLimit cluster - sint totalUsed);
             available = (if availableByInstanceType < 0 then 0 else availableByInstanceType) in
         case manual_capacity_types K to32 units cluster rest of
           Inl err \<Rightarrow> Inl err
         | Inr result \<Rightarrow> Inr (capacity_entry (mc_Region cluster) instanceType (mc_ClusterId cluster) (to32 available)
                               (mc_CloudProvider cluster) (to32 maxAvailable) # result)))"

(* src/internal/kafka/internal/workers/kafka_mgrs/kafkas_mgr.go:289-356 KafkaManager.calculateCapacityByRegionAndInstanceTypeForManualClusters *)
fun manual_capacity ::
  "'s kafkaService \<Rightarrow> (int \<Rightarrow> int32) \<Rightarrow> KafkaStreamingUnitCountPerCluster list \<Rightarrow> ManualCluster list \<Rightarrow> KafkaStreamingUnitCountPerCluster list err" where
  "manual_capacity K to32 units [] = Inr []"
| "manual_capacity K to32 units (cluster # rest) =
     (if \<not> mc_Schedulable cluster then manual_capacity K to32 units rest
      else case manual_capacity_types K to32 units cluster (Split (mc_SupportedInstanceType cluster) (CHR '','')) of
        Inl err \<Rightarrow> Inl err
      | Inr here \<Rightarrow> (case manual_capacity K to32 units rest of Inl err \<Rightarrow> Inl err | Inr result \<Rightarrow> Inr (here @ result)))"

text \<open>The available and maximal capacities that are published before an error ends the loop.\<close>

(* src/internal/kafka/internal/workers/kafka_mgrs/kafkas_mgr.go:205-216 KafkaManager.updateClusterStatusCapacityMetrics *)
fun dynamic_capacity ::
  "'s kafkaService \<Rightarrow> (int \<Rightarrow> int32) \<Rightarrow> KafkaStreamingUnitCountPerCluster list \<Rightarrow> goerror option \<times> KafkaStreamingUnitCountPerCluster list" where
  "dynamic_capacity K to32 [] = (None, [])"
| "dynamic_capacity K to32 (c # rest) =
     (if su_Status c \<noteq> ClusterAccepted \<and> su_ClusterType c \<noteq> EnterpriseDataPlaneClusterType then
        (case calculateAvailableAndMaxCapacityForDynamicScaling K to32 c of
           Inl err \<Rightarrow> (Some err, [])
         | Inr e \<Rightarrow> (let (err, es) = dynamic_capacity K to32 rest in (err, e # es)))
      else dynamic_capacity K to32 rest)"

text \<open>The result: the error, the published used capacities and the published available and maximal ones.\<close>

(* src/internal/kafka/internal/workers/kafka_mgrs/kafkas_mgr.go:192-240 KafkaManager.updateClusterStatusCapacityMetrics *)
definition updateClusterStatusCapacityMetrics ::
  "'s kafkaService \<Rightarrow> (int \<Rightarrow> int32) \<Rightarrow> 's \<Rightarrow> goerror option \<times> KafkaStreamingUnitCountPerCluster list \<times> KafkaStreamingUnitCountPerCluster list" where
  "updateClusterStatusCapacityMetrics K to32 s =
     (case FindStreamingUnitCountByClusterAndInstanceType (ks_db K) (ks_kafkaConfig K) s of
        Inl err \<Rightarrow> (Some (WithMessage err ''failed to count Kafkas by region''), [], [])
      | Inr units \<Rightarrow>
        (let used = filter (\<lambda>u. su_Status u \<noteq> ClusterAccepted) units;
             (err, dynamic) = (if IsDataPlaneAutoScalingEnabled (ks_dataplaneClusterConfig K) then dynamic_capacity K to32 units else (None, [])) in
         case err of
           Some e \<Rightarrow> (Some e, used, dynamic)
         | None \<Rightarrow>
           (case (if IsDataPlaneManualScalingEnabled (ks_dataplaneClusterConfig K)
                  then manual_capacity K to32 units (GetManualClusters (dc_ClusterConfig (ks_dataplaneClusterConfig K))) else Inr []) of
              Inl e \<Rightarrow> (Some e, used, dynamic)
            | Inr manual \<Rightarrow>
                (None, used, dynamic @ filter (\<lambda>u. su_Status u \<noteq> ClusterAccepted) manual @
                   calculateAvailableAndMadCapacityForEnterpriseClusters units))))"

section \<open>The general worker\<close>

text \<open>\<open>assigned\<close> is what the object mapper does to the object in memory.  A day of \<^verbatim>\<open>AddDate\<close> has 24 hours, as in
  UTC.\<close>

(* src/internal/kafka/internal/workers/kafka_mgrs/kafkas_mgr.go:453-466 KafkaManager.updateKafkaExpirationDate *)
definition updateKafkaExpirationDate ::
  "'s kafkaService \<Rightarrow> ((KafkaRequest \<Rightarrow> KafkaRequest) \<Rightarrow> KafkaRequest \<Rightarrow> KafkaRequest) \<Rightarrow> KafkaRequest \<Rightarrow> time option \<Rightarrow> 's \<Rightarrow> goerror option \<times> KafkaRequest \<times> 's" where
  "updateKafkaExpirationDate K assigned kafka expiresAt s =
     (let change = (\<lambda>r. r\<lparr>k_ExpiresAt := expiresAt\<rparr>) in
      case Kafka_Updates (ks_db K) kafka change s of
        (Some err, s') \<Rightarrow> (Some (ServiceErr err), assigned change kafka, s')
      | (None, s') \<Rightarrow> (None, assigned change kafka, s'))"

(* src/internal/kafka/internal/workers/kafka_mgrs/kafkas_mgr.go:428-450 KafkaManager.updateExpiresAtBasedOnQuotaEntitlement *)
definition updateExpiresAtBasedOnQuotaEntitlement ::
  "'s kafkaService \<Rightarrow> ((KafkaRequest \<Rightarrow> KafkaRequest) \<Rightarrow> KafkaRequest \<Rightarrow> KafkaRequest) \<Rightarrow> time \<Rightarrow> KafkaRequest \<Rightarrow> bool \<Rightarrow> 's \<Rightarrow> goerror option \<times> KafkaRequest \<times> 's" where
  "updateExpiresAtBasedOnQuotaEntitlement K assigned now kafka isQuotaEntitlementActive s =
     (if isQuotaEntitlementActive \<and> k_ExpiresAt kafka \<noteq> None then updateKafkaExpirationDate K assigned kafka None s
      else if \<not> isQuotaEntitlementActive \<and> k_ExpiresAt kafka = None then
        (case GetBillingModelByID (ks_kafkaConfig K) (k_InstanceType kafka) (k_ActualKafkaBillingModel kafka) of
           Inl err \<Rightarrow> (Some err, kafka, s)
         | Inr billingModel \<Rightarrow> updateKafkaExpirationDate K assigned kafka (Some (now + bm_GracePeriodDays billingModel * 24 * Hour)) s)
      else (None, kafka, s))"

text \<open>The loop of \<^verbatim>\<open>reconcileKafkaExpiresAt\<close> with the cache of entitlements; the last part of the result is the
  objects as they are in memory afterwards.\<close>

(* src/internal/kafka/internal/workers/kafka_mgrs/kafkas_mgr.go:380-425 KafkaManager.reconcileKafkaExpiresAt *)
fun reconcileKafkaExpiresAt ::
  "'s kafkaService \<Rightarrow> ((KafkaRequest \<Rightarrow> KafkaRequest) \<Rightarrow> KafkaRequest \<Rightarrow> KafkaRequest) \<Rightarrow> time \<Rightarrow> (string \<rightharpoonup> bool) \<Rightarrow> KafkaRequest list \<Rightarrow> 's \<Rightarrow> goerror list \<times> KafkaRequest list \<times> 's" where
  "reconcileKafkaExpiresAt K assigned now cache [] s = ([], [], s)"
| "reconcileKafkaExpiresAt K assigned now cache (kafka # rest) s =
     (let skip = (\<lambda>es. let (errs, ks, s') = reconcileKafkaExpiresAt K assigned now cache rest s in (es @ errs, kafka # ks, s')) in
      if Contains GetDeletingStatuses (k_Status kafka) then skip []
      else case GetKafkaInstanceSize (ks_kafkaConfig K) (k_InstanceType kafka) (k_SizeId kafka) of
        Inl err \<Rightarrow> skip [WithMessage err (Sprintf ''failed to get kafka instance size for %q with instance type %q and size id %q''
                            [FStr (k_ID kafka), FStr (k_InstanceType kafka), FStr (k_SizeId kafka)])]
      | Inr instanceSize \<Rightarrow>
        if sz_LifespanSeconds instanceSize \<noteq> None then skip []
        else
          (let orgBillingModelID = Sprintf ''%s-%s'' [FStr (k_OrganisationId kafka), FStr (k_ActualKafkaBillingModel kafka)] in
           case (case cache orgBillingModelID of
                   Some active \<Rightarrow> Inr active
                 | None \<Rightarrow> Kafka_IsQuotaEntitlementActive K kafka s) of
             Inl err \<Rightarrow> skip [WithMessage err (Sprintf ''failed to get quota entitlement status of kafka instance %q'' [FStr (k_ID kafka)])]
           | Inr active \<Rightarrow>
             (let (e, kafka', s') = updateExpiresAtBasedOnQuotaEntitlement K assigned now kafka active s;
                  here = (case e of None \<Rightarrow> []
                          | Some err \<Rightarrow> [WithMessage err (Sprintf ''failed to update expires_at value based on quota entitlement for kafka instance %q'' [FStr (k_ID kafka)])]);
                  (errs, ks, s'') = reconcileKafkaExpiresAt K assigned now (cache(orgBillingModelID \<mapsto> active)) rest s' in
              (here @ errs, kafka' # ks, s''))))"

(* src/internal/kafka/internal/workers/kafka_mgrs/kafkas_mgr.go:171-177 KafkaManager.reconcileDeniedKafkaOwners *)
definition reconcileDeniedKafkaOwners :: "'s kafkaService \<Rightarrow> string list \<Rightarrow> 's \<Rightarrow> ServiceError option \<times> 's" where
  "reconcileDeniedKafkaOwners K deniedUsers s =
     (if length deniedUsers < 1 then (None, s) else DeprovisionKafkaForUsers (ks_db K) deniedUsers s)"

(* src/internal/kafka/internal/workers/kafka_mgrs/kafkas_mgr.go:28-39 kafkaMetricsStatuses *)
definition kafkaMetricsStatuses :: "string list" where
  "kafkaMetricsStatuses =
     [KafkaRequestStatusAccepted, KafkaRequestStatusPreparing, KafkaRequestStatusProvisioning, KafkaRequestStatusReady, KafkaRequestStatusDeprovision,
      KafkaRequestStatusDeleting, KafkaRequestStatusFailed, KafkaRequestStatusSuspended, KafkaRequestStatusSuspending, KafkaRequestStatusResuming]"

(* src/internal/kafka/internal/workers/kafka_mgrs/kafkas_mgr.go:179-190 KafkaManager.setKafkaStatusCountMetric *)
definition setKafkaStatusCountMetric :: "'s kafkaService \<Rightarrow> 's \<Rightarrow> goerror list" where
  "setKafkaStatusCountMetric K s =
     (case Kafka_CountByStatus (ks_db K) kafkaMetricsStatuses s of
        Inl err \<Rightarrow> [WithMessage err ''failed to count Kafkas by status'']
      | Inr counters \<Rightarrow> [])"

(* src/internal/kafka/internal/workers/kafka_mgrs/kafkas_mgr.go:129-158 KafkaManager.Reconcile *)
fun suspend_loop :: "'s kafkaService \<Rightarrow> time \<Rightarrow> KafkaRequest list \<Rightarrow> 's \<Rightarrow> goerror list \<times> 's" where
  "suspend_loop K now [] s = ([], s)"
| "suspend_loop K now (kafka # rest) s =
     (if \<not> CanBeAutomaticallySuspended kafka then suspend_loop K now rest s
      else let (expired, remainingLifespan) = IsExpired now kafka in
        if expired then suspend_loop K now rest s
        else case GetBillingModelByID (ks_kafkaConfig K) (k_InstanceType kafka) (k_ActualKafkaBillingModel kafka) of
          Inl err \<Rightarrow> (let (errs, s') = suspend_loop K now rest s in (WithMessage err ''failed to suspend expired Kafka instances'' # errs, s'))
        | Inr bm \<Rightarrow>
          if LessThanOrEqual (of_int (bm_GracePeriodDays bm)) remainingLifespan then
            (case Kafka_UpdateStatus (ks_db K) (k_ID kafka) KafkaRequestStatusSuspending s of
               ((executed, Some err), s1) \<Rightarrow>
                 (let (errs, s') = suspend_loop K now rest s1 in (WithMessage (ServiceErr err) ''failed to suspend expired Kafka instances'' # errs, s'))
             | ((executed, None), s1) \<Rightarrow> suspend_loop K now rest s1)
          else suspend_loop K now rest s)"

(* src/internal/kafka/internal/workers/kafka_mgrs/kafkas_mgr.go:79-169 KafkaManager.Reconcile *)
definition General_Reconcile ::
  "'s kafkaService \<Rightarrow> ((KafkaRequest \<Rightarrow> KafkaRequest) \<Rightarrow> KafkaRequest \<Rightarrow> KafkaRequest) \<Rightarrow> (int \<Rightarrow> int32) \<Rightarrow> bool \<Rightarrow> string list \<Rightarrow> time \<Rightarrow> 's \<Rightarrow> goerror list \<times> 's" where
  "General_Reconcile K assigned to32 enableDenyList denyList now s =
     (let (listErrs, kafkas) = (case Kafka_ListAll (ks_db K) s of Inl err \<Rightarrow> ([ServiceErr err], []) | Inr ks \<Rightarrow> ([], ks));
          statusErrors = setKafkaStatusCountMetric K s;
          capacityErrors = (case fst (updateClusterStatusCapacityMetrics K to32 s) of None \<Rightarrow> [] | Some e \<Rightarrow> [e]);
          (denyErr, s1) = (if enableDenyList then reconcileDeniedKafkaOwners K denyList s else (None, s));
          denyErrs = (case denyErr of None \<Rightarrow> []
            | Some e \<Rightarrow> [WithMessage (ServiceErr e) (Sprintf ''failed to deprovision kafka for denied owners %s'' [FStr (''['' @ Join denyList '' '' @ '']'')])]);
          (expiryErrors, kafkas', s2) = reconcileKafkaExpiresAt K assigned now Map.empty kafkas s1;
          expiryErrs = (if expiryErrors = [] then [] else [WithMessage (ErrorListErr expiryErrors) ''failed to update expires_at for kafka instances'']);
          (suspendErrs, s3) = suspend_loop K now kafkas' s2;
          (expiredErr, s4) = DeprovisionExpiredKafkas (ks_db K) now s3;
          expiredErrs = (case expiredErr of None \<Rightarrow> [] | Some e \<Rightarrow> [WithMessage (ServiceErr e) ''failed to deprovision expired Kafka instances'']) in
      (listErrs @ statusErrors @ capacityErrors @ denyErrs @ expiryErrs @ suspendErrs @ expiredErrs, s4))"

section \<open>Promotion\<close>

(* src/internal/kafka/internal/workers/kafka_mgrs/promotion/chain/reconciler_chain.go:21-37 ActionResult *)
record 'a ActionResult =
  hasValue :: bool
  result_value :: 'a

text \<open>An action also hands on the request as it is in memory afterwards.  The result that goes with an error is not
  used.\<close>

type_synonym ('a, 's) action = "KafkaRequest \<Rightarrow> 'a ActionResult \<Rightarrow> 's \<Rightarrow> ('a ActionResult \<times> bool) go \<times> KafkaRequest \<times> 's"

(* src/internal/kafka/internal/workers/kafka_mgrs/promotion/chain/reconciler_chain.go:55-71 ReconcileActionRunner.Run *)
fun chain_Run :: "('a, 's) action list \<Rightarrow> KafkaRequest \<Rightarrow> 'a ActionResult \<Rightarrow> 's \<Rightarrow> 'a go \<times> KafkaRequest \<times> 's" where
  "chain_Run [] kafkaRequest finalResult s = (Ok (result_value finalResult), kafkaRequest, s)"
| "chain_Run (action # rest) kafkaRequest finalResult s =
     (case action kafkaRequest finalResult s of
        (Panic m, k', s') \<Rightarrow> (Panic m, k', s')
      | (Err e, k', s') \<Rightarrow> (Err e, k', s')
      | (Ok (res, endPipeline), k', s') \<Rightarrow>
        (let finalResult' = (if hasValue res then \<lparr>hasValue = True, result_value = result_value res\<rparr> else finalResult) in
         if endPipeline then (Ok (result_value finalResult'), k', s') else chain_Run rest k' finalResult' s'))"

definition no_result :: "string ActionResult" where
  "no_result = \<lparr>hasValue = False, result_value = ''''\<rparr>"

(* src/internal/kafka/internal/workers/kafka_mgrs/promotion/internal/actions/reserve_desired_quota_action.go:30-48 ReserveDesiredQuotaAction.PerformJob *)
definition ReserveDesiredQuotaAction :: "'s kafkaService \<Rightarrow> (string, 's) action" where
  "ReserveDesiredQuotaAction K kafkaRequest currentResult s =
     (case ks_quotaServiceFactory K (qc_Type (kc_Quota (ks_kafkaConfig K))) of
        Inl factoryErr \<Rightarrow> (Err (ServiceErr (general_cause (ServiceErr factoryErr) ''unable to check quota'' [])), kafkaRequest, s)
      | Inr quotaService \<Rightarrow>
        (case qs_ReserveQuotaIfNotAlreadyReserved quotaService kafkaRequest s of
           (Panic m, k', s') \<Rightarrow> (Panic m, kafkaRequest, s')
         | (Err err, k', s') \<Rightarrow> (Err (ServiceErr (general_cause err ''unable to reserve quota'' [])), kafkaRequest, s')
         | (Ok subscriptionID, k', s') \<Rightarrow> (Ok (\<lparr>hasValue = True, result_value = subscriptionID\<rparr>, False), kafkaRequest, s')))"

(* src/internal/kafka/internal/workers/kafka_mgrs/promotion/internal/actions/delete_actual_quota_action.go:27-55 DeleteActualQuotaAction.PerformJob *)
definition DeleteActualQuotaAction :: "'s kafkaService \<Rightarrow> (string, 's) action" where
  "DeleteActualQuotaAction K kafkaRequest currentResult s =
     (case ks_quotaServiceFactory K (qc_Type (kc_Quota (ks_kafkaConfig K))) of
        Inl factoryErr \<Rightarrow> (Err (ServiceErr (general_cause (ServiceErr factoryErr) ''unable to delete quota'' [])), kafkaRequest, s)
      | Inr quotaService \<Rightarrow>
        (case GetKafkaInstanceTypeByID (k_InstanceType kafkaRequest) (kc_SupportedInstanceTypes (ks_kafkaConfig K)) of
           Inl err \<Rightarrow> (Err err, kafkaRequest, s)
         | Inr instanceType \<Rightarrow>
           (case GetKafkaSupportedBillingModelByID (k_ActualKafkaBillingModel kafkaRequest) instanceType of
              Inl err \<Rightarrow> (Err err, kafkaRequest, s)
            | Inr bm \<Rightarrow>
              (case qs_DeleteQuotaForBillingModel quotaService (k_SubscriptionId kafkaRequest) bm s of
                 (Some err, s') \<Rightarrow> (Err (ServiceErr (Build (Recoverable (Wrap err NewServiceErrorBuilder)))), kafkaRequest, s')
               | (None, s') \<Rightarrow> (Ok (no_result, False), kafkaRequest, s')))))"

(* src/internal/kafka/internal/workers/kafka_mgrs/promotion/internal/actions/update_kafka_request_action.go:35-56 UpdateKafkaRequestAction.PerformJob *)
definition UpdateKafkaRequestAction ::
  "'s kafkaService \<Rightarrow> ((KafkaRequest \<Rightarrow> KafkaRequest) \<Rightarrow> KafkaRequest \<Rightarrow> KafkaRequest) \<Rightarrow> (string, 's) action" where
  "UpdateKafkaRequestAction K assigned kafkaRequest currentResult s =
     (let updates = (\<lambda>r. r\<lparr>k_PromotionStatus := '''', k_PromotionDetails := '''', k_ActualKafkaBillingModel := k_DesiredKafkaBillingModel kafkaRequest,
                           k_SubscriptionId := result_value currentResult, k_ExpiresAt := None\<rparr>) in
      case Kafka_Updates (ks_db K) kafkaRequest updates s of
        (Some err, s') \<Rightarrow> (Err (ServiceErr (Build (Recoverable (Wrap err NewServiceErrorBuilder)))), assigned updates kafkaRequest, s')
      | (None, s') \<Rightarrow> (Ok (currentResult, False), assigned updates kafkaRequest, s'))"

(* src/internal/kafka/internal/workers/kafka_mgrs/promotion/promotion_kafkas_mgr.go:93-105 PromotionKafkaManager.promote *)
definition promote ::
  "'s kafkaService \<Rightarrow> ((KafkaRequest \<Rightarrow> KafkaRequest) \<Rightarrow> KafkaRequest \<Rightarrow> KafkaRequest) \<Rightarrow> KafkaRequest \<Rightarrow> 's \<Rightarrow> string go \<times> KafkaRequest \<times> 's" where
  "promote K assigned kafka s =
     chain_Run [ReserveDesiredQuotaAction K, DeleteActualQuotaAction K, UpdateKafkaRequestAction K assigned] kafka no_result s"

(* src/internal/kafka/internal/workers/kafka_mgrs/promotion/promotion_kafkas_mgr.go:49-63 PromotionKafkaManager.updateFailedPromotionDetails *)
definition updateFailedPromotionDetails :: "'s kafkaService \<Rightarrow> KafkaRequest \<Rightarrow> goerror \<Rightarrow> 's \<Rightarrow> ServiceError option \<times> 's" where
  "updateFailedPromotionDetails K kafkaRequest promotionError s =
     Kafka_Update (ks_db K)
       (kafkaRequest\<lparr>k_PromotionDetails := err_Error promotionError,
          k_PromotionStatus := (case promotionError of
              ServiceErr serviceError \<Rightarrow> if ServiceError_Recoverable serviceError then KafkaPromotionStatusPromoting else KafkaPromotionStatusFailed
            | _ \<Rightarrow> KafkaPromotionStatusFailed)\<rparr>) s"

(* src/internal/kafka/internal/workers/kafka_mgrs/promotion/promotion_kafkas_mgr.go:75-88 PromotionKafkaManager.Reconcile *)
fun promotion_loop ::
  "'s kafkaService \<Rightarrow> ((KafkaRequest \<Rightarrow> KafkaRequest) \<Rightarrow> KafkaRequest \<Rightarrow> KafkaRequest) \<Rightarrow> goerror list \<Rightarrow> KafkaRequest list \<Rightarrow> 's \<Rightarrow> goerror list go \<times> 's" where
  "promotion_loop K assigned errs [] s = (Ok errs, s)"
| "promotion_loop K assigned errs (kafka # rest) s =
     (case promote K assigned kafka s of
        (Panic m, k', s') \<Rightarrow> (Panic m, s')
      | (Ok subscriptionID, k', s') \<Rightarrow> promotion_loop K assigned errs rest s'
      | (Err e, k', s') \<Rightarrow>
        (let (updateErr, s'') = updateFailedPromotionDetails K k' e s' in
         promotion_loop K assigned
           (AddErrors errs [WithMessage e (Sprintf (''failed to promote kafka with id '%s'' @ [CHR 0x27]) [FStr (k_ID k')])]) rest s''))"

(* src/internal/kafka/internal/workers/kafka_mgrs/promotion/promotion_kafkas_mgr.go:65-91 PromotionKafkaManager.Reconcile *)
definition Promotion_Reconcile ::
  "'s kafkaService \<Rightarrow> ((KafkaRequest \<Rightarrow> KafkaRequest) \<Rightarrow> KafkaRequest \<Rightarrow> KafkaRequest) \<Rightarrow> 's \<Rightarrow> goerror list go \<times> 's" where
  "Promotion_Reconcile K assigned s =
     (case ListKafkasToBePromoted (ks_db K) s of
        Inl err \<Rightarrow> (Ok [WithMessage (ServiceErr err) ''failed to list kafkas to promote''], s)
      | Inr kafkasToPromote \<Rightarrow> promotion_loop K assigned [] kafkasToPromote s)"

section \<open>A round moves the rows it handles\<close>

text \<open>A handler that changes its own row only, along a relation, makes a round that changes the rows it lists along
  it.\<close>

lemma reconcile_each_rows:
  assumes step: "\<And>k s r s'. f k s = (r, s') \<Longrightarrow> row_of k (kafkas s) \<Longrightarrow> P k \<Longrightarrow> evolves (\<lambda>x x'. x = k \<and> T x x') (kafkas s) (kafkas s')"
  shows "reconcile_each f wrap errs ks s = (r, s') \<Longrightarrow> \<forall>k \<in> set ks. row_of k (kafkas s) \<and> P k \<Longrightarrow> distinct (map k_ID ks) \<Longrightarrow>
    evolves (\<lambda>x x'. x \<in> set ks \<and> T x x') (kafkas s) (kafkas s')"
proof (induction ks arbitrary: errs s)
  case (Cons k ks)
  obtain r1 s1 where f: "f k s = (r1, s1)" by (rule prod.exhaust)
  have e1: "evolves (\<lambda>x x'. x = k \<and> T x x') (kafkas s) (kafkas s1)" using step[OF f] Cons.prems(2) by simp
  have rows: "\<forall>k' \<in> set ks. row_of k' (kafkas s1) \<and> P k'"
  proof
    fix k' assume k': "k' \<in> set ks"
    then have old: "row_of k' (kafkas s)" "P k'" "k' \<noteq> k" using Cons.prems(2,3) by auto
    then obtain y where "y \<in> set (kafkas s1)" "y = k'" using evolves_post[OF e1, of k'] by (auto simp: row_of_def)
    then show "row_of k' (kafkas s1) \<and> P k'" using old evolves_ids[OF e1] by (simp add: row_of_def)
  qed
  have here: "evolves (\<lambda>x x'. x \<in> set (k # ks) \<and> T x x') (kafkas s) (kafkas s1)" by (rule evolves_mono[OF e1]) simp
  have "\<exists>errs1. reconcile_each f wrap errs1 ks s1 = (r, s') \<or> s' = s1" using Cons.prems(1) f by (cases r1) auto
  then consider "s' = s1" | errs1 where "reconcile_each f wrap errs1 ks s1 = (r, s')" by blast
  then show ?case
  proof cases
    case 2
    have e2: "evolves (\<lambda>x x'. x \<in> set ks \<and> T x x') (kafkas s1) (kafkas s')" using Cons.IH[OF 2 rows] Cons.prems(3) by simp
    have "k_ID y \<noteq> k_ID k" if "y \<in> set ks" for y using Cons.prems(3) that by (metis distinct.simps(2) image_eqI list.simps(9) set_map)
    then show ?thesis by (intro evolves_trans[OF e1 e2]) auto
  qed (use here in simp)
qed simp

lemma listed_rows:
  assumes "store_lawful db clusters kafkas" "Kafka_ListByStatus db [st] s = Inr ks"
  shows "mset ks = mset (filter (\<lambda>x. k_Status x = st) (kafkas s))" and "set ks = {x \<in> set (kafkas s). k_Status x = st}"
    and "distinct (map k_ID (kafkas s)) \<Longrightarrow> distinct (map k_ID ks)"
proof -
  have "t_scan (kafkaT db) (\<lambda>r. k_Status r = st) Unordered s = Inr ks"
    using assms(2) by (cases "t_scan (kafkaT db) (\<lambda>r. k_Status r = st) Unordered s") (simp_all add: Kafka_ListByStatus_def)
  note scan = kafkaT_lawful[OF assms(1)] this
  show m: "mset ks = mset (filter (\<lambda>x. k_Status x = st) (kafkas s))" by (rule t_scan_rows[OF scan])
  show "set ks = {x \<in> set (kafkas s). k_Status x = st}" by (rule t_scan_set[OF scan])
  assume "distinct (map k_ID (kafkas s))"
  then have "distinct (map k_ID (filter (\<lambda>x. k_Status x = st) (kafkas s)))" by (rule distinct_map_filter)
  moreover have "mset (map k_ID ks) = mset (map k_ID (filter (\<lambda>x. k_Status x = st) (kafkas s)))" unfolding mset_map m ..
  ultimately show "distinct (map k_ID ks)" using mset_eq_imp_distinct_iff by blast
qed

lemma reconcile_status_rows:
  assumes "store_lawful (ks_db K) clusters kafkas" "distinct (map k_ID (kafkas s))" "\<forall>k \<in> set (kafkas s). k_ID k \<noteq> ''''"
    and "reconcile_status K status listMessage f format s = (r, s')"
    and step: "\<And>k s r s'. f k s = (r, s') \<Longrightarrow> row_of k (kafkas s) \<Longrightarrow> k_Status k = status \<Longrightarrow> evolves (\<lambda>x x'. x = k \<and> T x x') (kafkas s) (kafkas s')"
  shows "evolves (\<lambda>x x'. k_Status x = status \<and> T x x') (kafkas s) (kafkas s')"
proof (cases "Kafka_ListByStatus (ks_db K) [status] s")
  case (Inr ks)
  note set = listed_rows(2)[OF assms(1) Inr] and d = listed_rows(3)[OF assms(1) Inr assms(2)]
  have "\<forall>k \<in> set ks. row_of k (kafkas s) \<and> k_Status k = status" using set assms(2,3) by (auto simp: row_of_def)
  from reconcile_each_rows[where P = "\<lambda>k. k_Status k = status" and kafkas = kafkas and f = f and T = T, OF step _ this d]
  have "evolves (\<lambda>x x'. x \<in> set ks \<and> T x x') (kafkas s) (kafkas s')" using assms(4) Inr by (simp add: reconcile_status_def)
  then show ?thesis by (rule evolves_mono) (use set in auto)
qed (use assms(4) in \<open>simp add: reconcile_status_def\<close>)

text \<open>The effect of an update on the row of a Kafka that is not under deletion.\<close>

lemma Kafka_Updates_failed:
  assumes "store_lawful db clusters kafkas" "Kafka_Updates db k f s = (Some e, s')"
  shows "kafkas s' = kafkas s"
  using assms(2) t_update_fail[OF kafkaT_lawful[OF assms(1)]] by (auto simp: Kafka_Updates_def split: prod.splits sum.splits)

lemma Kafka_Updates_done:
  assumes "store_lawful db clusters kafkas" "Kafka_Updates db k' f s = (None, s')" "row_of k (kafkas s)" "k_ID k' = k_ID k" "\<not> under_deletion k"
  shows "kafkas s' = map (\<lambda>x. if x = k then f k else x) (kafkas s)"
proof -
  obtain n where "t_update (kafkaT db) (\<lambda>r. same_key k' r \<and> k_Status r \<notin> set kafkaDeletionStatuses) f s = (Inr n, s')"
    using assms(2) by (auto simp: Kafka_Updates_def split: prod.splits sum.splits)
  from t_update_rows[OF kafkaT_lawful[OF assms(1)] this] show ?thesis
    using assms(3-5) row_of_same[OF assms(3)] by (auto simp: same_key_def under_deletion_def row_of_def intro!: map_cong)
qed

lemma Kafka_Updates_clusters:
  assumes "store_lawful db clusters kafkas" "Kafka_Updates db k f s = (e, s')"
  shows "clusters s' = clusters s"
  using assms(2) kafkaT_frame(1)[OF assms(1)] by (auto simp: Kafka_Updates_def split: prod.splits sum.splits)

lemma write_kafka_outcome:
  assumes "store_lawful db clusters kafkas" "write_kafka db k' m s = (r, s')" "row_of k (kafkas s)" "k_ID k' = k_ID k" "\<not> under_deletion k"
  shows "clusters s' = clusters s"
    and "(\<exists>e. r = Err e \<and> kafkas s' = kafkas s) \<or> (r = Ok () \<and> kafkas s' = map (\<lambda>x. if x = k then Kafka_nonzero k' k else x) (kafkas s))"
proof -
  obtain u where u: "Kafka_Updates db k' (Kafka_nonzero k') s = (u, s')" and r: "r = (case u of Some err \<Rightarrow> Err (WithMessage (ServiceErr err) m) | None \<Rightarrow> Ok ())"
    using assms(2) by (cases "Kafka_Update db k' s") (auto simp: write_kafka_def Kafka_Update_Updates split: option.splits)
  show "clusters s' = clusters s" by (rule Kafka_Updates_clusters[OF assms(1) u])
  show "(\<exists>e. r = Err e \<and> kafkas s' = kafkas s) \<or> (r = Ok () \<and> kafkas s' = map (\<lambda>x. if x = k then Kafka_nonzero k' k else x) (kafkas s))"
    using Kafka_Updates_failed[OF assms(1), of k' "Kafka_nonzero k'" s] Kafka_Updates_done[OF assms(1) _ assms(3-5), of "Kafka_nonzero k'" s'] u r
    by (cases u) auto
qed

lemma own_row_update:
  assumes "store_lawful db clusters kafkas" "Kafka_Update db k' s = (e, s')" "row_of k (kafkas s)" "k_ID k' = k_ID k"
    and "T k (Kafka_nonzero k' k)"
  shows "evolves (\<lambda>x x'. x = k \<and> T x x') (kafkas s) (kafkas s')"
proof -
  have "k_ID k' \<noteq> ''''" using assms(3,4) by (simp add: row_of_def)
  moreover have "x = k \<and> T x (Kafka_nonzero k' x)" if "x \<in> set (kafkas s)" "k_ID x = k_ID k'" for x
    using row_of_same[OF assms(3) that(1)] that(2) assms(4,5) by simp
  ultimately have "evolves (\<lambda>x x'. k_ID x = k_ID k' \<and> x = k \<and> T x x') (kafkas s) (kafkas s')"
    by (intro guarded_update(2)[OF assms(1) assms(2)[unfolded Kafka_Update_Updates]]) simp_all
  then show ?thesis by (rule evolves_mono) simp
qed

lemma write_kafka_rows:
  assumes "store_lawful db clusters kafkas" "write_kafka db k' m s = (r, s')" "row_of k (kafkas s)" "k_ID k' = k_ID k"
    and "T k (Kafka_nonzero k' k)"
  shows "evolves (\<lambda>x x'. x = k \<and> T x x') (kafkas s) (kafkas s')"
proof -
  obtain e where "Kafka_Update db k' s = (e, s')"
    using assms(2) by (cases "Kafka_Update db k' s") (auto simp: write_kafka_def split: option.splits)
  from own_row_update[where T = T, OF assms(1) this assms(3-5)] show ?thesis .
qed

section \<open>Accepted Kafkas move on or fail\<close>

text \<open>What a round does to an accepted Kafka.\<close>

definition accepted_step :: "time \<Rightarrow> KafkaRequest \<Rightarrow> KafkaRequest \<Rightarrow> bool" where
  "accepted_step now x x' \<longleftrightarrow>
     (k_Status x' = KafkaRequestStatusPreparing \<or>
      (k_Status x' = KafkaRequestStatusFailed \<and> k_FailedReason x' \<noteq> '''' \<and>
       (if k_FailedReason x' = ''Failed to get desired Strimzi version'' then AcceptedKafkaMaxRetryDurationWhileWaitingForStrimziVersion
        else AcceptedKafkaMaxRetryDurationWhileWaitingForClusterAssignment) \<le> now - k_CreatedAt x)) \<and>
     (k_ClusterID x \<noteq> '''' \<longrightarrow> k_ClusterID x' = k_ClusterID x) \<and>
     (k_Owner x', k_OrganisationId x', k_InstanceType x', k_SizeId x', k_CloudProvider x', k_Region x', k_ExpiresAt x', k_SubscriptionId x') =
     (k_Owner x, k_OrganisationId x, k_InstanceType x, k_SizeId x, k_CloudProvider x, k_Region x, k_ExpiresAt x, k_SubscriptionId x)"

lemma versions_assigned:
  assumes "assignDesiredKafkaVersions k v = Inr k'"
  shows "\<exists>a b c. k' = k\<lparr>k_DesiredStrimziVersion := a, k_DesiredKafkaVersion := b, k_DesiredKafkaIBPVersion := c\<rparr>"
  using assms by (auto simp: assignDesiredKafkaVersions_def split: option.splits)

lemma accepted_failed:
  assumes "m \<noteq> ''''" "k_Status k = KafkaRequestStatusAccepted"
    and "(if m = ''Failed to get desired Strimzi version'' then AcceptedKafkaMaxRetryDurationWhileWaitingForStrimziVersion
          else AcceptedKafkaMaxRetryDurationWhileWaitingForClusterAssignment) \<le> now - k_CreatedAt k"
    and "k_ClusterID k = '''' \<or> c = k_ClusterID k"
  shows "accepted_step now k (Kafka_nonzero (k\<lparr>k_ClusterID := c, k_Status := KafkaRequestStatusFailed, k_FailedReason := m\<rparr>) k)"
  using assms by (auto simp: accepted_step_def Kafka_nonzero_def nz_def kafka_statuses)

lemma accepted_preparing:
  assumes "k_ClusterID k = '''' \<or> c = k_ClusterID k"
  shows "accepted_step now k (Kafka_nonzero (k\<lparr>k_ClusterID := c, k_DesiredStrimziVersion := v1, k_DesiredKafkaVersion := v2,
    k_DesiredKafkaIBPVersion := v3, k_Status := KafkaRequestStatusPreparing\<rparr>) k)"
  using assms by (auto simp: accepted_step_def Kafka_nonzero_def nz_def kafka_statuses)

text \<open>The handler does nothing to the table, or writes one of three objects.\<close>

lemma reconcileAcceptedKafka_cases:
  assumes "reconcileAcceptedKafka K now k s = (r, s')"
  obtains "s' = s"
  | m where "write_kafka (ks_db K) (k\<lparr>k_Status := KafkaRequestStatusFailed, k_FailedReason :=
        Sprintf ''Region %s in cloud provider %s cannot accept %s Kafka of size %s at the moment.''
          [FStr (k_Region k), FStr (k_CloudProvider k), FStr (k_InstanceType k), FStr (k_SizeId k)]\<rparr>) m s = (r, s')"
      "AcceptedKafkaMaxRetryDurationWhileWaitingForClusterAssignment \<le> now - k_CreatedAt k"
  | c m where "write_kafka (ks_db K) (k\<lparr>k_ClusterID := c, k_Status := KafkaRequestStatusFailed, k_FailedReason := ''Failed to get desired Strimzi version''\<rparr>) m s = (r, s')"
      "AcceptedKafkaMaxRetryDurationWhileWaitingForStrimziVersion \<le> now - k_CreatedAt k" "k_ClusterID k = '''' \<or> c = k_ClusterID k"
  | c v1 v2 v3 m where "write_kafka (ks_db K) (k\<lparr>k_ClusterID := c, k_DesiredStrimziVersion := v1, k_DesiredKafkaVersion := v2,
        k_DesiredKafkaIBPVersion := v3, k_Status := KafkaRequestStatusPreparing\<rparr>) m s = (r, s')" "k_ClusterID k = '''' \<or> c = k_ClusterID k"
proof (cases "cluster_of_accepted K k s")
  case (Inr co)
  show ?thesis
  proof (cases co)
    case None
    then show ?thesis using assms Inr that(1,2)
      by (cases "now - k_CreatedAt k < AcceptedKafkaMaxRetryDurationWhileWaitingForClusterAssignment")
        (simp_all add: reconcileAcceptedKafka_def markTheUnassignedKafkaAsFailed_def)
  next
    case (Some cl)
    define c where "c = (if k_ClusterID k = '''' then c_ClusterID cl else k_ClusterID k)"
    have cc: "k_ClusterID k = '''' \<or> c = k_ClusterID k" by (simp add: c_def)
    have k1: "(if k_ClusterID k = '''' then k\<lparr>k_ClusterID := c_ClusterID cl\<rparr> else k) = k\<lparr>k_ClusterID := c\<rparr>" by (simp add: c_def)
    note eq = assms[unfolded reconcileAcceptedKafka_def Inr Some sum.case option.case Let_def k1]
    show ?thesis
    proof (cases "GetLatestAvailableAndReadyStrimziVersion cl")
      case vo: (Inr vo)
      show ?thesis
      proof (cases vo)
        case None
        then show ?thesis using eq vo that(1,3) cc
          by (cases "now - k_CreatedAt k < AcceptedKafkaMaxRetryDurationWhileWaitingForStrimziVersion") (simp_all add: markTheAssignedKafkaAsFailed_def)
      next
        case (Some v)
        show ?thesis
        proof (cases "assignDesiredKafkaVersions (k\<lparr>k_ClusterID := c\<rparr>) v")
          case (Inr k2)
          then obtain v1 v2 v3 where k2: "k2 = k\<lparr>k_ClusterID := c, k_DesiredStrimziVersion := v1, k_DesiredKafkaVersion := v2, k_DesiredKafkaIBPVersion := v3\<rparr>"
            using versions_assigned[OF Inr] by blast
          show ?thesis by (rule that(4)[OF eq[unfolded vo Some Inr k2 sum.case option.case] cc])
        qed (use eq vo Some that(1) in simp)
      qed
    qed (use eq that(1) in simp)
  qed
qed (use assms that(1) in \<open>simp add: reconcileAcceptedKafka_def\<close>)

lemma region_reason: "\<exists>m. Sprintf ''Region %s in cloud provider %s cannot accept %s Kafka of size %s at the moment.'' as = CHR ''R'' # m"
  by (simp add: Sprintf_def)

lemma reconcileAcceptedKafka_rows:
  assumes "store_lawful (ks_db K) clusters kafkas" "reconcileAcceptedKafka K now k s = (r, s')" "row_of k (kafkas s)" "k_Status k = KafkaRequestStatusAccepted"
  shows "evolves (\<lambda>x x'. x = k \<and> accepted_step now x x') (kafkas s) (kafkas s')"
  using assms(2)
proof (cases rule: reconcileAcceptedKafka_cases)
  case (2 m)
  obtain w where w: "Sprintf ''Region %s in cloud provider %s cannot accept %s Kafka of size %s at the moment.''
          [FStr (k_Region k), FStr (k_CloudProvider k), FStr (k_InstanceType k), FStr (k_SizeId k)] = CHR ''R'' # w" using region_reason by blast
  have "accepted_step now k (Kafka_nonzero (k\<lparr>k_Status := KafkaRequestStatusFailed, k_FailedReason := CHR ''R'' # w\<rparr>) k)"
    using accepted_failed[of "CHR ''R'' # w" k now "k_ClusterID k"] 2(2) assms(4) by simp
  from write_kafka_rows[where T = "accepted_step now", OF assms(1) 2(1)[unfolded w] assms(3) _ this] show ?thesis by simp
next
  case (3 c m)
  have "accepted_step now k (Kafka_nonzero (k\<lparr>k_ClusterID := c, k_Status := KafkaRequestStatusFailed, k_FailedReason := ''Failed to get desired Strimzi version''\<rparr>) k)"
    using 3(2,3) assms(4) by (intro accepted_failed) simp_all
  from write_kafka_rows[where T = "accepted_step now", OF assms(1) 3(1) assms(3) _ this] show ?thesis by simp
next
  case (4 c v1 v2 v3 m)
  from write_kafka_rows[where T = "accepted_step now", OF assms(1) 4(1) assms(3) _ accepted_preparing[OF 4(2)]] show ?thesis by simp
qed simp

text \<open>What a round without an error for a Kafka does to it, by what is found in a state \<open>s1\<close> of the round: without a
  cluster, or without a Strimzi version on the cluster, it waits until its time is over and then fails; with both it goes on to
  preparing, with the cluster and the version assigned.\<close>

definition accepted_outcome :: "'s kafkaService \<Rightarrow> time \<Rightarrow> 's \<Rightarrow> KafkaRequest \<Rightarrow> KafkaRequest \<Rightarrow> bool" where
  "accepted_outcome K now s1 x x' \<longleftrightarrow>
     (case cluster_of_accepted K x s1 of
        Inl e \<Rightarrow> False
      | Inr None \<Rightarrow>
          (if now - k_CreatedAt x < AcceptedKafkaMaxRetryDurationWhileWaitingForClusterAssignment then x' = x
           else k_Status x' = KafkaRequestStatusFailed \<and> accepted_step now x x')
      | Inr (Some c) \<Rightarrow>
        (case GetLatestAvailableAndReadyStrimziVersion c of
           Inl e \<Rightarrow> False
         | Inr None \<Rightarrow>
             (if now - k_CreatedAt x < AcceptedKafkaMaxRetryDurationWhileWaitingForStrimziVersion then x' = x
              else k_Status x' = KafkaRequestStatusFailed \<and> accepted_step now x x')
         | Inr (Some v) \<Rightarrow>
             k_Status x' = KafkaRequestStatusPreparing \<and> accepted_step now x x' \<and>
             k_ClusterID x' = (if k_ClusterID x = '''' then c_ClusterID c else k_ClusterID x) \<and>
             k_DesiredStrimziVersion x' = nz '''' (sv_Version v) (k_DesiredStrimziVersion x)))"

text \<open>A handler writes its own row or reports an error.\<close>

definition own_outcome :: "('s \<Rightarrow> Cluster list) \<Rightarrow> ('s \<Rightarrow> KafkaRequest list) \<Rightarrow> ('s \<Rightarrow> KafkaRequest \<Rightarrow> KafkaRequest \<Rightarrow> bool) \<Rightarrow>
    KafkaRequest \<Rightarrow> 's \<Rightarrow> unit go \<Rightarrow> 's \<Rightarrow> bool" where
  "own_outcome clusters kafkas Q k s r s' \<longleftrightarrow> clusters s' = clusters s \<and>
     ((\<exists>e. r = Err e \<and> kafkas s' = kafkas s) \<or>
      (\<exists>k'. r = Ok () \<and> Q s k k' \<and> k_ID k' = k_ID k \<and> kafkas s' = map (\<lambda>x. if x = k then k' else x) (kafkas s)))"

lemma same_rows: "map (\<lambda>x. if x = k then k else x) xs = xs"
  by (induction xs) simp_all

lemma own_outcome_kept: "Q s k k \<Longrightarrow> own_outcome clusters kafkas Q k s (Ok ()) s"
  unfolding own_outcome_def by (intro conjI disjI2 exI[of _ k]) (simp_all add: same_rows)

lemma own_outcome_error: "own_outcome clusters kafkas Q k s (Err e) s"
  by (simp add: own_outcome_def)

lemma own_outcome_written:
  assumes "store_lawful db clusters kafkas" "write_kafka db k' m s = (r, s')" "row_of k (kafkas s)" "k_ID k' = k_ID k" "\<not> under_deletion k"
    and "Q s k (Kafka_nonzero k' k)"
  shows "own_outcome clusters kafkas Q k s r s'"
proof -
  have "k_ID (Kafka_nonzero k' k) = k_ID k" by (simp add: Kafka_nonzero_def)
  then show ?thesis using write_kafka_outcome[OF assms(1-5)] assms(6) unfolding own_outcome_def by blast
qed

lemma own_outcome_row:
  assumes "own_outcome clusters kafkas Q k s r s1"
  obtains k' where "clusters s1 = clusters s" "k_ID k' = k_ID k" "kafkas s1 = map (\<lambda>x. if x = k then k' else x) (kafkas s)"
    "(k' = k \<and> (\<exists>e. r = Err e)) \<or> (r = Ok () \<and> Q s k k')"
proof -
  from assms consider e where "r = Err e" "kafkas s1 = kafkas s" "clusters s1 = clusters s"
    | k' where "r = Ok ()" "Q s k k'" "k_ID k' = k_ID k" "kafkas s1 = map (\<lambda>x. if x = k then k' else x) (kafkas s)" "clusters s1 = clusters s"
    unfolding own_outcome_def by blast
  then show ?thesis by cases (rule that[of k], simp_all add: same_rows, rule that, simp_all)
qed

lemma other_rows:
  assumes "row_of x ks" "x \<noteq> k" "k_ID k' = k_ID k"
  shows "row_of x (map (\<lambda>x. if x = k then k' else x) ks)"
proof -
  have "map k_ID (map (\<lambda>x. if x = k then k' else x) ks) = map k_ID ks" using assms(3) by simp
  moreover have "x \<in> set (map (\<lambda>x. if x = k then k' else x) ks)" using assms(1,2) by (auto simp: row_of_def)
  ultimately show ?thesis using assms(1) by (simp only: row_of_def simp_thms)
qed

lemma reconcile_each_outcome:
  assumes step: "\<And>k s r s'. f k s = (r, s') \<Longrightarrow> row_of k (kafkas s) \<Longrightarrow> P k \<Longrightarrow> own_outcome clusters kafkas Q k s r s'"
  shows "reconcile_each f wrap errs ks s = (r, s') \<Longrightarrow> \<forall>k \<in> set ks. row_of k (kafkas s) \<and> P k \<Longrightarrow> distinct (map k_ID ks) \<Longrightarrow>
    \<exists>errs' g. r = Ok (errs @ errs') \<and> clusters s' = clusters s \<and> kafkas s' = map (\<lambda>x. if x \<in> set ks then g x else x) (kafkas s) \<and>
      (\<forall>x \<in> set ks. (g x = x \<and> (\<exists>e. wrap x e \<in> set errs')) \<or> (\<exists>s1. clusters s1 = clusters s \<and> Q s1 x (g x)))"
proof (induction ks arbitrary: errs s)
  case (Cons k ks)
  obtain r1 s1 where f: "f k s = (r1, s1)" by (rule prod.exhaust)
  have own: "own_outcome clusters kafkas Q k s r1 s1" using step[OF f] Cons.prems(2) by simp
  obtain k' where k': "clusters s1 = clusters s" "k_ID k' = k_ID k" "kafkas s1 = map (\<lambda>x. if x = k then k' else x) (kafkas s)"
    and out: "(k' = k \<and> (\<exists>e. r1 = Err e)) \<or> (r1 = Ok () \<and> Q s k k')" by (rule own_outcome_row[OF own])
  have other: "x \<noteq> k \<and> x \<noteq> k'" if "x \<in> set ks" for x
  proof -
    have "k_ID x \<noteq> k_ID k" using Cons.prems(3) imageI[OF that, of k_ID] by auto
    then show ?thesis using k'(2) by auto
  qed
  have rows: "\<forall>x \<in> set ks. row_of x (kafkas s1) \<and> P x" unfolding k'(3) using Cons.prems(2) other other_rows[OF _ _ k'(2)] by simp
  obtain errs1 where rest: "reconcile_each f wrap (errs @ errs1) ks s1 = (r, s')" and e1: "\<forall>e. r1 = Err e \<longrightarrow> wrap k e \<in> set errs1"
  proof (cases r1)
    case (Err e)
    then show ?thesis using Cons.prems(1) f by (intro that[of "[wrap k e]"]) simp_all
  next
    case (Ok u)
    then show ?thesis using Cons.prems(1) f by (intro that[of "[]"]) simp_all
  next
    case (Panic m)
    then show ?thesis using out by simp
  qed
  obtain errs2 g where g: "r = Ok ((errs @ errs1) @ errs2)" "clusters s' = clusters s1" "kafkas s' = map (\<lambda>x. if x \<in> set ks then g x else x) (kafkas s1)"
    "\<forall>x \<in> set ks. (g x = x \<and> (\<exists>e. wrap x e \<in> set errs2)) \<or> (\<exists>s2. clusters s2 = clusters s1 \<and> Q s2 x (g x))"
    using Cons.IH[OF rest rows] Cons.prems(3) by auto
  define h where "h = (\<lambda>x. if x = k then k' else g x)"
  have "kafkas s' = map (\<lambda>x. if x \<in> set (k # ks) then h x else x) (kafkas s)" unfolding g(3) k'(3) h_def using other by auto
  moreover have "(h x = x \<and> (\<exists>e. wrap x e \<in> set (errs1 @ errs2))) \<or> (\<exists>s2. clusters s2 = clusters s \<and> Q s2 x (h x))" if "x \<in> set (k # ks)" for x
  proof (cases "x = k")
    case True
    then show ?thesis using out e1 by (auto simp: h_def)
  next
    case False
    then show ?thesis using that g(4) k'(1) by (auto simp: h_def)
  qed
  ultimately show ?case using g(1,2) k'(1) by (intro exI[of _ "errs1 @ errs2"] exI[of _ h]) simp
qed auto

lemma reconcileAccepted_placed:
  assumes "store_lawful (ks_db K) clusters kafkas" "reconcileAcceptedKafka K now k s = (r, s')" "row_of k (kafkas s)" "k_Status k = KafkaRequestStatusAccepted"
    and cl: "cluster_of_accepted K k s = Inr (Some cl)"
  shows "own_outcome clusters kafkas (accepted_outcome K now) k s r s'"
proof -
  define c where "c = (if k_ClusterID k = '''' then c_ClusterID cl else k_ClusterID k)"
  have cc: "k_ClusterID k = '''' \<or> c = k_ClusterID k" by (simp add: c_def)
  have k1: "(if k_ClusterID k = '''' then k\<lparr>k_ClusterID := c_ClusterID cl\<rparr> else k) = k\<lparr>k_ClusterID := c\<rparr>" by (simp add: c_def)
  note eq = assms(2)[unfolded reconcileAcceptedKafka_def cl sum.case option.case Let_def k1]
  have nd: "\<not> under_deletion k" using assms(4) by (simp add: under_deletion_iff kafka_statuses)
  note written = own_outcome_written[where Q = "accepted_outcome K now", OF assms(1) _ assms(3) _ nd]
  consider e where "GetLatestAvailableAndReadyStrimziVersion cl = Inl e" | (none) "GetLatestAvailableAndReadyStrimziVersion cl = Inr None"
    | (version) v where "GetLatestAvailableAndReadyStrimziVersion cl = Inr (Some v)" by (metis option.exhaust sum.exhaust)
  then show ?thesis
  proof cases
    case 1
    then show ?thesis using eq own_outcome_error by auto
  next
    case none
    show ?thesis
    proof (cases "now - k_CreatedAt k < AcceptedKafkaMaxRetryDurationWhileWaitingForStrimziVersion")
      case True
      then show ?thesis using eq none own_outcome_kept[of "accepted_outcome K now" s k clusters kafkas] cl
        by (simp add: accepted_outcome_def markTheAssignedKafkaAsFailed_def)
    next
      case False
      let ?k = "k\<lparr>k_ClusterID := c, k_Status := KafkaRequestStatusFailed, k_FailedReason := ''Failed to get desired Strimzi version''\<rparr>"
      have "accepted_step now k (Kafka_nonzero ?k k)" using False assms(4) cc by (intro accepted_failed) simp_all
      moreover have "k_Status (Kafka_nonzero ?k k) = KafkaRequestStatusFailed" by (simp add: Kafka_nonzero_def nz_def kafka_statuses)
      ultimately have "accepted_outcome K now s k (Kafka_nonzero ?k k)" using cl none False by (simp add: accepted_outcome_def)
      then show ?thesis using written[of ?k] eq none False by (simp add: markTheAssignedKafkaAsFailed_def)
    qed
  next
    case (version v)
    show ?thesis
    proof (cases "assignDesiredKafkaVersions (k\<lparr>k_ClusterID := c\<rparr>) v")
      case (Inr k2)
      then obtain v2 v3 where k2: "k2 = k\<lparr>k_ClusterID := c, k_DesiredStrimziVersion := sv_Version v, k_DesiredKafkaVersion := v2, k_DesiredKafkaIBPVersion := v3\<rparr>"
        by (auto simp: assignDesiredKafkaVersions_def split: option.splits)
      let ?k = "k2\<lparr>k_Status := KafkaRequestStatusPreparing\<rparr>"
      have "accepted_step now k (Kafka_nonzero ?k k)" using accepted_preparing[OF cc] by (simp add: k2)
      moreover have "k_Status (Kafka_nonzero ?k k) = KafkaRequestStatusPreparing" "k_ClusterID (Kafka_nonzero ?k k) = c"
        "k_DesiredStrimziVersion (Kafka_nonzero ?k k) = nz '''' (sv_Version v) (k_DesiredStrimziVersion k)"
        using cc by (auto simp: Kafka_nonzero_def nz_def kafka_statuses k2)
      ultimately have "accepted_outcome K now s k (Kafka_nonzero ?k k)" using cl version by (simp add: accepted_outcome_def c_def)
      then show ?thesis using written[of ?k] eq version Inr by (simp add: k2)
    qed (use eq version own_outcome_error in auto)
  qed
qed

lemma reconcileAcceptedKafka_outcome:
  assumes "store_lawful (ks_db K) clusters kafkas" "reconcileAcceptedKafka K now k s = (r, s')" "row_of k (kafkas s)" "k_Status k = KafkaRequestStatusAccepted"
  shows "own_outcome clusters kafkas (accepted_outcome K now) k s r s'"
proof (cases "cluster_of_accepted K k s")
  case (Inl e)
  then show ?thesis using assms(2) own_outcome_error by (auto simp: reconcileAcceptedKafka_def)
next
  case (Inr co)
  have nd: "\<not> under_deletion k" using assms(4) by (simp add: under_deletion_iff kafka_statuses)
  note written = own_outcome_written[where Q = "accepted_outcome K now", OF assms(1) _ assms(3) _ nd]
  show ?thesis
  proof (cases co)
    case None
    note eq = assms(2)[unfolded reconcileAcceptedKafka_def Inr None sum.case option.case markTheUnassignedKafkaAsFailed_def]
    show ?thesis
    proof (cases "now - k_CreatedAt k < AcceptedKafkaMaxRetryDurationWhileWaitingForClusterAssignment")
      case True
      then show ?thesis using eq own_outcome_kept[of "accepted_outcome K now" s k clusters kafkas] Inr None by (simp add: accepted_outcome_def)
    next
      case False
      obtain w where w: "Sprintf ''Region %s in cloud provider %s cannot accept %s Kafka of size %s at the moment.''
          [FStr (k_Region k), FStr (k_CloudProvider k), FStr (k_InstanceType k), FStr (k_SizeId k)] = CHR ''R'' # w" using region_reason by blast
      let ?k = "k\<lparr>k_Status := KafkaRequestStatusFailed, k_FailedReason := CHR ''R'' # w\<rparr>"
      have "accepted_step now k (Kafka_nonzero ?k k)" using accepted_failed[of "CHR ''R'' # w" k now "k_ClusterID k"] False assms(4) by simp
      moreover have "k_Status (Kafka_nonzero ?k k) = KafkaRequestStatusFailed" by (simp add: Kafka_nonzero_def nz_def kafka_statuses)
      ultimately have "accepted_outcome K now s k (Kafka_nonzero ?k k)" using Inr None False by (simp add: accepted_outcome_def)
      from written[OF eq[unfolded if_not_P[OF False] w] _ this] show ?thesis by simp
    qed
  next
    case (Some cl)
    show ?thesis by (rule reconcileAccepted_placed[OF assms(1-4) Inr[unfolded Some]])
  qed
qed

section \<open>Removal\<close>

text \<open>The Kafkas a round of the deleting worker is to remove, and the laws of the services it calls: none of them
  touches the table of Kafkas.\<close>

definition removable :: "KafkaRequest \<Rightarrow> bool" where
  "removable k \<longleftrightarrow> k_Status k = KafkaRequestStatusDeleting \<or> (k_Status k = KafkaRequestStatusDeprovision \<and> k_BootstrapServerHost k = '''')"

definition release_frame :: "'s kafkaService \<Rightarrow> ('s \<Rightarrow> KafkaRequest list) \<Rightarrow> bool" where
  "release_frame K kafkas \<longleftrightarrow>
     (\<forall>t q i s. ks_quotaServiceFactory K t = Inr q \<longrightarrow> kafkas (snd (qs_DeleteQuota q i s)) = kafkas s) \<and>
     (\<forall>i s. kafkas (snd (kk_DeleteServiceAccountInternal (ks_keycloakService K) i s)) = kafkas s) \<and>
     (\<forall>i s. kafkas (snd (tl_RevokeCertificate (ks_kafkaTLSCertificateManagementService K) i s)) = kafkas s) \<and>
     (\<forall>r c z cs s. ks_dnsClientFactory K r = Inr c \<longrightarrow> kafkas (snd (dns_ChangeResourceRecordSets c z cs s)) = kafkas s)"

lemma ChangeKafkaCNAMErecords_frame:
  assumes "release_frame K kafkas" "ChangeKafkaCNAMErecords K k a s = (r, s')"
  shows "kafkas s' = kafkas s"
proof -
  have "kafkas (snd (ChangeKafkaCNAMErecords K k a s)) = kafkas s"
    using assms(1) unfolding release_frame_def ChangeKafkaCNAMErecords_def
    by (auto simp: Let_def split: sum.splits prod.splits) (metis snd_conv)+
  then show ?thesis using assms(2) by simp
qed

lemma release_kafka_frame:
  assumes "release_frame K kafkas" "release_kafka K k s = (r, s')"
  shows "kafkas s' = kafkas s"
proof -
  define account where "account = (if kk_EnableAuthenticationOnKafka (ks_keycloakService K) \<and> k_CanaryServiceAccountClientID k \<noteq> ''''
    then kk_DeleteServiceAccountInternal (ks_keycloakService K) (k_CanaryServiceAccountClientID k) s else (None, s))"
  obtain e s1 where a: "account = (e, s1)" by (rule prod.exhaust)
  have 1: "kafkas s1 = kafkas s" using a assms(1) unfolding account_def release_frame_def by (metis snd_conv)
  define change where "change = (if k_Routes k \<noteq> JNil \<and> kc_EnableKafkaCNAMERegistration (ks_kafkaConfig K)
    then ChangeKafkaCNAMErecords K k KafkaRoutesActionDelete s1 else (Inr \<lparr>ci_Id = '''', ci_Status = ''''\<rparr>, s1))"
  obtain c s2 where ch: "change = (c, s2)" by (rule prod.exhaust)
  have 2: "kafkas s2 = kafkas s1" using ch ChangeKafkaCNAMErecords_frame[OF assms(1)] unfolding change_def by (auto split: if_splits)
  obtain x s3 where t: "tl_RevokeCertificate (ks_kafkaTLSCertificateManagementService K) (k_KafkasRoutesBaseDomainName k) s2 = (x, s3)" by (rule prod.exhaust)
  have 3: "kafkas s3 = kafkas s2" using t assms(1) unfolding release_frame_def by (metis snd_conv)
  have "s' = s1 \<or> s' = s2 \<or> s' = s3"
    using assms(2) unfolding release_kafka_def Let_def account_def[symmetric] a prod.case change_def[symmetric] ch t
    by (auto split: option.splits sum.splits if_splits)
  then show ?thesis using 1 2 3 by auto
qed

text \<open>The handler removes the row, or reports an error and leaves the table alone.\<close>

lemma reconcileDeletingKafkas_rows:
  assumes "store_lawful (ks_db K) clusters kafkas" "release_frame K kafkas" "reconcileDeletingKafkas K k s = (r, s')"
  shows "(r = Ok () \<and> kafkas s' = filter (\<lambda>x. k_ID x \<noteq> k_ID k) (kafkas s)) \<or> (\<exists>e. r = Err e \<and> kafkas s' = kafkas s)"
proof (cases "ks_quotaServiceFactory K (k_QuotaType k)")
  case (Inr q)
  obtain e s1 where d: "qs_DeleteQuota q (k_SubscriptionId k) s = (e, s1)" by (rule prod.exhaust)
  have 1: "kafkas s1 = kafkas s" using d Inr assms(2) unfolding release_frame_def by (metis snd_conv)
  define rel where "rel = (if k_ClusterID k \<noteq> '''' then release_kafka K k s1 else (None, s1))"
  obtain e2 s2 where rel: "rel = (e2, s2)" by (rule prod.exhaust)
  have 2: "kafkas s2 = kafkas s1" using rel release_kafka_frame[OF assms(2)] unfolding rel_def by (auto split: if_splits)
  define del where "del = (if k_ID k = '''' then (Inl ErrMissingWhereClause, s2) else t_delete (kafkaT (ks_db K)) (\<lambda>r. k_ID r = k_ID k) s2)"
  obtain e3 s3 where del: "del = (e3, s3)" by (rule prod.exhaust)
  have 3: "kafkas s3 = (if isl e3 then kafkas s2 else filter (\<lambda>x. k_ID x \<noteq> k_ID k) (kafkas s2))"
    using del t_delete_rows[OF kafkaT_lawful[OF assms(1)]] t_delete_fail[OF kafkaT_lawful[OF assms(1)]] unfolding del_def
    by (cases e3) (auto split: if_splits)
  show ?thesis
    using assms(3) 1 2 3 unfolding reconcileDeletingKafkas_def Kafka_Delete_def Inr d rel_def[symmetric] rel sum.case prod.case del_def[symmetric] del
    by (cases e; cases e2; cases e3) (auto simp: Kafka_Delete_def rel_def[symmetric] rel del_def[symmetric] del)
qed (use assms(3) in \<open>auto simp: reconcileDeletingKafkas_def\<close>)

lemma deleting_each_rows:
  assumes "store_lawful (ks_db K) clusters kafkas" "release_frame K kafkas"
  shows "reconcile_each (reconcileDeletingKafkas K) wrap errs ks s = (r, s') \<Longrightarrow>
    \<exists>gone errs'. r = Ok (errs @ errs') \<and> gone \<subseteq> k_ID ` set ks \<and> kafkas s' = filter (\<lambda>x. k_ID x \<notin> gone) (kafkas s) \<and> (errs' = [] \<longrightarrow> gone = k_ID ` set ks)"
proof (induction ks arbitrary: errs s)
  case Nil
  then show ?case by (intro exI[of _ "{}"] exI[of _ "[]"]) simp
next
  case (Cons k ks)
  obtain r1 s1 where f: "reconcileDeletingKafkas K k s = (r1, s1)" by (rule prod.exhaust)
  from reconcileDeletingKafkas_rows[OF assms f] show ?case
  proof (elim disjE exE conjE)
    assume 1: "r1 = Ok ()" "kafkas s1 = filter (\<lambda>x. k_ID x \<noteq> k_ID k) (kafkas s)"
    then obtain gone errs' where "r = Ok (errs @ errs')" "gone \<subseteq> k_ID ` set ks" "kafkas s' = filter (\<lambda>x. k_ID x \<notin> gone) (kafkas s1)"
      "errs' = [] \<longrightarrow> gone = k_ID ` set ks" using Cons.IH[of errs s1] Cons.prems f by auto
    then show ?case using 1 by (intro exI[of _ "insert (k_ID k) gone"] exI[of _ errs']) (auto intro: filter_cong)
  next
    fix e assume 1: "r1 = Err e" "kafkas s1 = kafkas s"
    then obtain gone errs' where "r = Ok ((errs @ [wrap k e]) @ errs')" "gone \<subseteq> k_ID ` set ks" "kafkas s' = filter (\<lambda>x. k_ID x \<notin> gone) (kafkas s1)"
      using Cons.IH[of "errs @ [wrap k e]" s1] Cons.prems f by auto
    then show ?case using 1 by (intro exI[of _ gone] exI[of _ "wrap k e # errs'"]) auto
  qed
qed

section \<open>Promotion\<close>

text \<open>The laws of the quota service in a promotion, and of the object mapper: an update with a map leaves the object in
  memory as it was or assigns the values.\<close>

definition promotion_frame :: "'s quota_service \<Rightarrow> ('s \<Rightarrow> KafkaRequest list) \<Rightarrow> bool" where
  "promotion_frame q kafkas \<longleftrightarrow>
     (\<forall>k s. kafkas (snd (snd (qs_ReserveQuotaIfNotAlreadyReserved q k s))) = kafkas s) \<and>
     (\<forall>i bm s. kafkas (snd (qs_DeleteQuotaForBillingModel q i bm s)) = kafkas s)"

definition maps_object :: "((KafkaRequest \<Rightarrow> KafkaRequest) \<Rightarrow> KafkaRequest \<Rightarrow> KafkaRequest) \<Rightarrow> bool" where
  "maps_object assigned \<longleftrightarrow> (\<forall>f k. assigned f k = k \<or> assigned f k = f k)"

definition promoted :: "string \<Rightarrow> KafkaRequest \<Rightarrow> KafkaRequest" where
  "promoted sub k = k\<lparr>k_PromotionStatus := '''', k_PromotionDetails := '''', k_ActualKafkaBillingModel := k_DesiredKafkaBillingModel k,
     k_SubscriptionId := sub, k_ExpiresAt := None\<rparr>"

lemma Build_recoverable: "recoverable (Build (Recoverable (Wrap e NewServiceErrorBuilder)))"
  by (cases e) (simp add: Build_def Wrap_def NewServiceErrorBuilder_def Let_def)

lemma general_cause_not_recoverable: "\<not> recoverable (general_cause e m as)"
  by (simp add: general_cause_def New_simps)

text \<open>The three actions of a promotion, with the quota service and the billing model at hand.\<close>

lemma promote_reserve:
  assumes "ks_quotaServiceFactory K (qc_Type (kc_Quota (ks_kafkaConfig K))) = Inr q" "qs_ReserveQuotaIfNotAlreadyReserved q k s = (r, k1, s1)"
  shows "r = Panic m \<Longrightarrow> promote K assigned k s = (Panic m, k, s1)"
    and "r = Err e \<Longrightarrow> promote K assigned k s = (Err (ServiceErr (general_cause e ''unable to reserve quota'' [])), k, s1)"
    and "r = Ok sub \<Longrightarrow> promote K assigned k s =
      chain_Run [DeleteActualQuotaAction K, UpdateKafkaRequestAction K assigned] k \<lparr>hasValue = True, result_value = sub\<rparr> s1"
  using assms by (simp_all add: promote_def ReserveDesiredQuotaAction_def Let_def)

lemma promote_finish:
  fixes sub :: string
  assumes "ks_quotaServiceFactory K (qc_Type (kc_Quota (ks_kafkaConfig K))) = Inr q"
    and "GetKafkaInstanceTypeByID (k_InstanceType k) (kc_SupportedInstanceTypes (ks_kafkaConfig K)) = Inr t"
    and "GetKafkaSupportedBillingModelByID (k_ActualKafkaBillingModel k) t = Inr bm"
    and "qs_DeleteQuotaForBillingModel q (k_SubscriptionId k) bm s1 = (d, s2)"
  defines "f \<equiv> \<lambda>r. r\<lparr>k_PromotionStatus := '''', k_PromotionDetails := '''', k_ActualKafkaBillingModel := k_DesiredKafkaBillingModel k,
    k_SubscriptionId := sub, k_ExpiresAt := None\<rparr>"
  shows "chain_Run [DeleteActualQuotaAction K, UpdateKafkaRequestAction K assigned] k \<lparr>hasValue = True, result_value = sub\<rparr> s1 =
    (case d of Some e \<Rightarrow> (Err (ServiceErr (Build (Recoverable (Wrap e NewServiceErrorBuilder)))), k, s2)
     | None \<Rightarrow> (case Kafka_Updates (ks_db K) k f s2 of
          (Some e, s3) \<Rightarrow> (Err (ServiceErr (Build (Recoverable (Wrap e NewServiceErrorBuilder)))), assigned f k, s3)
        | (None, s3) \<Rightarrow> (Ok sub, assigned f k, s3)))"
  using assms(1-4) unfolding f_def
  by (simp add: DeleteActualQuotaAction_def UpdateKafkaRequestAction_def no_result_def Let_def split: option.splits prod.splits)

lemma promotion_single:
  assumes "promote K assigned k s = (p, k', s1)"
  shows "p = Panic m \<Longrightarrow> promotion_loop K assigned [] [k] s = (Panic m, s1)"
    and "p = Ok sub \<Longrightarrow> promotion_loop K assigned [] [k] s = (Ok [], s1)"
    and "p = Err e \<Longrightarrow> updateFailedPromotionDetails K k' e s1 = (u, s2) \<Longrightarrow> snd (promotion_loop K assigned [] [k] s) = s2"
  using assms by (simp_all del: AddErrors.simps)

declare promotion_loop.simps [simp del]

text \<open>What becomes of the row of a failed promotion: it is replaced, or the database refused to write the details.\<close>

definition noted :: "'s kafkaService \<Rightarrow> ('s \<Rightarrow> KafkaRequest list) \<Rightarrow> KafkaRequest \<Rightarrow> (KafkaRequest \<Rightarrow> bool) \<Rightarrow> 's \<Rightarrow> 's \<Rightarrow> bool" where
  "noted K kafkas k R s s' \<longleftrightarrow>
     (\<exists>k'. R k' \<and> kafkas s' = map (\<lambda>x. if x = k then k' else x) (kafkas s)) \<or>
     (kafkas s' = kafkas s \<and> (\<exists>k' e s1 err. updateFailedPromotionDetails K k' e s1 = (Some err, s')))"

definition marked :: "string \<Rightarrow> KafkaRequest \<Rightarrow> KafkaRequest \<Rightarrow> bool" where
  "marked st k k' \<longleftrightarrow> (\<exists>d. k' = k\<lparr>k_PromotionStatus := st, k_PromotionDetails := d\<rparr>)"

definition promotion_status_of :: "goerror \<Rightarrow> string" where
  "promotion_status_of e = (case e of
       ServiceErr x \<Rightarrow> if ServiceError_Recoverable x then KafkaPromotionStatusPromoting else KafkaPromotionStatusFailed
     | _ \<Rightarrow> KafkaPromotionStatusFailed)"

text \<open>The billing model under which a Kafka is billed, when its instance type is configured and supports it.\<close>

definition actual_billing_model :: "'s kafkaService \<Rightarrow> KafkaRequest \<Rightarrow> KafkaBillingModel option" where
  "actual_billing_model K k =
     (case GetKafkaInstanceTypeByID (k_InstanceType k) (kc_SupportedInstanceTypes (ks_kafkaConfig K)) of
        Inl e \<Rightarrow> None
      | Inr t \<Rightarrow> (case GetKafkaSupportedBillingModelByID (k_ActualKafkaBillingModel k) t of Inl e \<Rightarrow> None | Inr bm \<Rightarrow> Some bm))"

lemma noted_mono: "noted K kafkas k R s s' \<Longrightarrow> (\<And>x. R x \<Longrightarrow> R' x) \<Longrightarrow> noted K kafkas k R' s s'"
  unfolding noted_def by blast

lemma promotion_status_simps [simp]:
  "promotion_status_of (ServiceErr (Build (Recoverable (Wrap e NewServiceErrorBuilder)))) = KafkaPromotionStatusPromoting"
  "promotion_status_of (ServiceErr (general_cause err m as)) = KafkaPromotionStatusFailed"
  "promotion_status_of (ErrorString m) = KafkaPromotionStatusFailed"
  using Build_recoverable[of e] general_cause_not_recoverable[of err m as] by (simp_all add: promotion_status_of_def ServiceError_Recoverable_def)

lemma promotion_status_nonempty: "promotion_status_of e \<noteq> ''''"
  by (simp add: promotion_status_of_def KafkaPromotionStatusPromoting_def KafkaPromotionStatusFailed_def split: goerror.splits)

lemma marked_row:
  assumes "st \<noteq> ''''"
  shows "marked st k (Kafka_nonzero (k\<lparr>k_PromotionDetails := d, k_PromotionStatus := st\<rparr>) k)"
  unfolding marked_def using assms
  by (intro exI[of _ "nz '''' d (k_PromotionDetails k)"]) (simp add: Kafka_nonzero_def nz_def)

text \<open>A promotion that fails leaves the status its error stands for, on the object in memory.\<close>

lemma promotion_noted:
  assumes "store_lawful (ks_db K) clusters kafkas" "row_of k (kafkas s)" "\<not> under_deletion k"
    and "promote K assigned k s = (Err e, k', s1)" "k_ID k' = k_ID k" "kafkas s1 = kafkas s" "promotion_loop K assigned [] [k] s = (r, s')"
  shows "noted K kafkas k (\<lambda>x. k_PromotionStatus x = promotion_status_of e \<and> (k' = k \<longrightarrow> marked (promotion_status_of e) k x)) s s'"
proof -
  let ?k = "k'\<lparr>k_PromotionDetails := err_Error e, k_PromotionStatus := promotion_status_of e\<rparr>"
  obtain u s2 where u: "updateFailedPromotionDetails K k' e s1 = (u, s2)" by (rule prod.exhaust)
  have s2: "s' = s2" using promotion_single(3)[OF assms(4) refl u] assms(7) by simp
  have w: "Kafka_Updates (ks_db K) ?k (Kafka_nonzero ?k) s1 = (u, s')"
    using u s2 by (simp add: updateFailedPromotionDetails_def promotion_status_of_def Kafka_Update_Updates)
  have row: "row_of k (kafkas s1)" "k_ID ?k = k_ID k" using assms(2,5,6) by simp_all
  show ?thesis
  proof (cases u)
    case None
    have "k_PromotionStatus (Kafka_nonzero ?k k) = promotion_status_of e" using promotion_status_nonempty by (simp add: Kafka_nonzero_def nz_def)
    moreover have "k' = k \<longrightarrow> marked (promotion_status_of e) k (Kafka_nonzero ?k k)" using marked_row[OF promotion_status_nonempty] by simp
    ultimately show ?thesis using Kafka_Updates_done[OF assms(1) w[unfolded None] row assms(3)] assms(6) unfolding noted_def by metis
  next
    case (Some err)
    have "kafkas s' = kafkas s" using Kafka_Updates_failed[OF assms(1) w[unfolded Some]] assms(6) by simp
    then show ?thesis using u s2 Some unfolding noted_def by blast
  qed
qed

text \<open>The last two actions, once the new quota is reserved.\<close>

lemma promote_unsupported:
  assumes "ks_quotaServiceFactory K (qc_Type (kc_Quota (ks_kafkaConfig K))) = Inr q" "actual_billing_model K k = None"
  shows "\<exists>m. chain_Run [DeleteActualQuotaAction K, UpdateKafkaRequestAction K assigned] k \<lparr>hasValue = True, result_value = sub\<rparr> s1 = (Err (ErrorString m), k, s1)"
proof (cases "GetKafkaInstanceTypeByID (k_InstanceType k) (kc_SupportedInstanceTypes (ks_kafkaConfig K))")
  case (Inl e)
  then obtain m where "e = ErrorString m" by (auto simp: GetKafkaInstanceTypeByID_def split: option.splits)
  then show ?thesis using Inl assms(1) by (simp add: DeleteActualQuotaAction_def)
next
  case (Inr t)
  obtain e where e: "GetKafkaSupportedBillingModelByID (k_ActualKafkaBillingModel k) t = Inl e"
    using assms(2) Inr by (auto simp: actual_billing_model_def split: sum.splits)
  then obtain m where "e = ErrorString m" by (auto simp: GetKafkaSupportedBillingModelByID_def split: prod.splits option.splits)
  then show ?thesis using Inr e assms(1) by (simp add: DeleteActualQuotaAction_def)
qed

lemma promotion_reserved:
  assumes "store_lawful (ks_db K) clusters kafkas" "row_of k (kafkas s)" "\<not> under_deletion k"
    and q: "ks_quotaServiceFactory K (qc_Type (kc_Quota (ks_kafkaConfig K))) = Inr q" and "maps_object assigned"
    and res: "qs_ReserveQuotaIfNotAlreadyReserved q k s = (Ok sub, k1, s1)" and l: "promotion_loop K assigned [] [k] s = (r, s')"
    and bm: "actual_billing_model K k = Some bm" and d: "qs_DeleteQuotaForBillingModel q (k_SubscriptionId k) bm s1 = (d, s2)" "kafkas s2 = kafkas s"
  shows "d \<noteq> None \<Longrightarrow> noted K kafkas k (marked KafkaPromotionStatusPromoting k) s s'"
    and "d = None \<Longrightarrow> (r = Ok [] \<and> kafkas s' = map (\<lambda>x. if x = k then promoted sub k else x) (kafkas s)) \<or>
      ((\<exists>e f s3. Kafka_Updates (ks_db K) k f s2 = (Some e, s3)) \<and> noted K kafkas k (\<lambda>x. k_PromotionStatus x = KafkaPromotionStatusPromoting) s s')"
proof -
  let ?f = "\<lambda>r. r\<lparr>k_PromotionStatus := '''', k_PromotionDetails := '''', k_ActualKafkaBillingModel := k_DesiredKafkaBillingModel k,
    k_SubscriptionId := sub, k_ExpiresAt := None\<rparr>"
  obtain t where t: "GetKafkaInstanceTypeByID (k_InstanceType k) (kc_SupportedInstanceTypes (ks_kafkaConfig K)) = Inr t"
    "GetKafkaSupportedBillingModelByID (k_ActualKafkaBillingModel k) t = Inr bm"
    using bm by (auto simp: actual_billing_model_def split: sum.splits)
  note run = promote_reserve(3)[OF q res refl, of assigned, unfolded promote_finish[OF q t d(1)]]
  note fail = promotion_noted[OF assms(1-3) _ _ _ l]
  show "noted K kafkas k (marked KafkaPromotionStatusPromoting k) s s'" if some: "d \<noteq> None"
  proof -
    obtain e where "d = Some e" using some by blast
    then show ?thesis using noted_mono[OF fail[OF run[unfolded \<open>d = Some e\<close> option.case]]] d(2) by simp
  qed
  assume none: "d = None"
  obtain w s3 where w: "Kafka_Updates (ks_db K) k ?f s2 = (w, s3)" by (rule prod.exhaust)
  have ids: "k_ID (assigned ?f k) = k_ID k"
  proof -
    have "assigned ?f k = k \<or> assigned ?f k = ?f k" using assms(5) unfolding maps_object_def by blast
    then show ?thesis by (elim disjE) simp_all
  qed
  show "(r = Ok [] \<and> kafkas s' = map (\<lambda>x. if x = k then promoted sub k else x) (kafkas s)) \<or>
      ((\<exists>e f s3. Kafka_Updates (ks_db K) k f s2 = (Some e, s3)) \<and> noted K kafkas k (\<lambda>x. k_PromotionStatus x = KafkaPromotionStatusPromoting) s s')"
  proof (cases w)
    case (Some e)
    have "kafkas s3 = kafkas s" using Kafka_Updates_failed[OF assms(1) w[unfolded Some]] d(2) by simp
    from noted_mono[OF fail[OF run[unfolded none option.case w Some prod.case] ids this]] show ?thesis using w Some by auto
  next
    case None
    have "kafkas s3 = map (\<lambda>x. if x = k then promoted sub k else x) (kafkas s)"
      using Kafka_Updates_done[OF assms(1) w[unfolded None] _ refl assms(3)] assms(2) d(2) by (simp add: promoted_def)
    then show ?thesis using promotion_single(2)[OF run[unfolded none option.case w None prod.case] refl] l by simp
  qed
qed

lemma int32_bounds: "- (2 ^ 31) \<le> sint (x :: int32) \<and> sint x < 2 ^ 31"
  using sint_greater_eq[of x] sint_less[of x] by simp

lemma deleting_round_rows:
  assumes "store_lawful (ks_db K) clusters kafkas" "release_frame K kafkas"
  shows "\<exists>errs s' gone. Deleting_Reconcile K s = (Ok errs, s') \<and> gone \<subseteq> k_ID ` {k \<in> set (kafkas s). removable k} \<and>
           kafkas s' = filter (\<lambda>k. k_ID k \<notin> gone) (kafkas s) \<and> (errs = [] \<longrightarrow> (\<forall>k \<in> set (kafkas s'). \<not> removable k))"
proof -
  define list where "list st msg = (case Kafka_ListByStatus (ks_db K) [st] s of
      Inl e \<Rightarrow> ([WithMessage (ServiceErr e) msg], []) | Inr ks \<Rightarrow> ([], ks))" for st msg
  obtain e1 ks1 where l1: "list KafkaRequestStatusDeleting ''failed to list deleting kafka requests'' = (e1, ks1)" by (rule prod.exhaust)
  obtain e2 ks2 where l2: "list KafkaRequestStatusDeprovision ''failed to list kafka deprovisioning requests'' = (e2, ks2)" by (rule prod.exhaust)
  have listed: "set ks \<subseteq> {x \<in> set (kafkas s). k_Status x = st} \<and> (e = [] \<longrightarrow> set ks = {x \<in> set (kafkas s). k_Status x = st})"
    if "list st msg = (e, ks)" for st msg e ks
    using that listed_rows(2)[OF assms(1)] unfolding list_def by (cases "Kafka_ListByStatus (ks_db K) [st] s") auto
  let ?ks = "ks1 @ filter (\<lambda>k. k_BootstrapServerHost k = '''') ks2"
  have eq: "Deleting_Reconcile K s = reconcile_each (reconcileDeletingKafkas K) (wrapf ''failed to reconcile deleting kafka request %s'') (e1 @ e2) ?ks s"
    unfolding Deleting_Reconcile_def Let_def list_def[symmetric] l1 l2 by simp
  obtain r s' where r: "Deleting_Reconcile K s = (r, s')" by (rule prod.exhaust)
  obtain gone errs where g: "r = Ok ((e1 @ e2) @ errs)" "gone \<subseteq> k_ID ` set ?ks" "kafkas s' = filter (\<lambda>k. k_ID k \<notin> gone) (kafkas s)"
    "errs = [] \<longrightarrow> gone = k_ID ` set ?ks" using deleting_each_rows[OF assms r[unfolded eq]] by blast
  have "set ?ks \<subseteq> {k \<in> set (kafkas s). removable k}" using listed[OF l1] listed[OF l2] by (auto simp: removable_def)
  then have "gone \<subseteq> k_ID ` {k \<in> set (kafkas s). removable k}" by (rule order_trans[OF g(2) image_mono])
  moreover have "{k \<in> set (kafkas s). removable k} \<subseteq> set ?ks" if "e1 = []" "e2 = []" using listed[OF l1] listed[OF l2] that by (auto simp: removable_def)
  ultimately show ?thesis using g r by (intro exI[of _ "(e1 @ e2) @ errs"] exI[of _ s'] exI[of _ gone]) auto
qed

lemma accepted_round_rows:
  assumes "store_lawful (ks_db K) clusters kafkas" "distinct (map k_ID (kafkas s))" "\<forall>k \<in> set (kafkas s). k_ID k \<noteq> ''''"
    and "Accepted_Reconcile K now s = (r, s')"
  shows "evolves (\<lambda>x x'. k_Status x = KafkaRequestStatusAccepted \<and> accepted_step now x x') (kafkas s) (kafkas s')"
  by (rule reconcile_status_rows[OF assms(1-3) assms(4)[unfolded Accepted_Reconcile_def]]) (rule reconcileAcceptedKafka_rows[OF assms(1)])

section \<open>Properties\<close>

text \<open>C7. A round over the accepted Kafkas ends and changes no cluster and no Kafka in another status.  An accepted Kafka stays as
  it is when the list or its own handling gives an error, which is returned.  Otherwise the outcome is fixed by what is found for
  it in a state of the round: with a cluster and a ready Strimzi version it goes on to preparing with both assigned; without a cluster it
  waits for an hour after its creation and then fails, and without a Strimzi version it waits for five minutes and then
  fails, with a reason.  One that has a cluster keeps it, and owner, type, size, place, expiration and subscription stay.\<close>

theorem accepted_round:
  assumes "store_lawful (ks_db K) clusters kafkas" "distinct (map k_ID (kafkas s))" "\<forall>k \<in> set (kafkas s). k_ID k \<noteq> ''''"
  shows "\<exists>errs s'. Accepted_Reconcile K now s = (Ok errs, s') \<and> clusters s' = clusters s \<and>
    list_all2 (\<lambda>x x'.
      if k_Status x \<noteq> KafkaRequestStatusAccepted then x' = x
      else (x' = x \<and> ((\<exists>e. wrapf ''failed to reconcile accepted kafka %s'' x e \<in> set errs) \<or> isl (Kafka_ListByStatus (ks_db K) [KafkaRequestStatusAccepted] s))) \<or>
           (\<exists>s1. clusters s1 = clusters s \<and> accepted_outcome K now s1 x x')) (kafkas s) (kafkas s')"
proof (cases "Kafka_ListByStatus (ks_db K) [KafkaRequestStatusAccepted] s")
  case (Inl e)
  then show ?thesis by (intro exI conjI) (auto simp: Accepted_Reconcile_def reconcile_status_def intro: list_all2_refl)
next
  case (Inr ks)
  let ?w = "wrapf ''failed to reconcile accepted kafka %s''"
  obtain r s' where l: "reconcile_each (reconcileAcceptedKafka K now) ?w [] ks s = (r, s')" by (rule prod.exhaust)
  note set = listed_rows(2)[OF assms(1) Inr] and d = listed_rows(3)[OF assms(1) Inr assms(2)]
  have rows: "\<forall>k \<in> set ks. row_of k (kafkas s) \<and> k_Status k = KafkaRequestStatusAccepted" using set assms(2,3) by (auto simp: row_of_def)
  obtain errs g where g: "r = Ok ([] @ errs)" "clusters s' = clusters s" "kafkas s' = map (\<lambda>x. if x \<in> set ks then g x else x) (kafkas s)"
    "\<forall>x \<in> set ks. (g x = x \<and> (\<exists>e. ?w x e \<in> set errs)) \<or> (\<exists>s1. clusters s1 = clusters s \<and> accepted_outcome K now s1 x (g x))"
    using reconcile_each_outcome[where P = "\<lambda>k. k_Status k = KafkaRequestStatusAccepted",
      OF reconcileAcceptedKafka_outcome[OF assms(1)] l rows d] by blast
  have "Accepted_Reconcile K now s = (Ok errs, s')" using l g(1) Inr by (simp add: Accepted_Reconcile_def reconcile_status_def)
  moreover have "list_all2 (\<lambda>x x'. if k_Status x \<noteq> KafkaRequestStatusAccepted then x' = x
      else (x' = x \<and> ((\<exists>e. ?w x e \<in> set errs) \<or> isl (Kafka_ListByStatus (ks_db K) [KafkaRequestStatusAccepted] s))) \<or>
           (\<exists>s1. clusters s1 = clusters s \<and> accepted_outcome K now s1 x x')) (kafkas s) (kafkas s')"
    unfolding g(3) list.rel_map(2) using g(4) unfolding set by (intro list.rel_refl_strong) (simp, blast)
  ultimately show ?thesis using g(2) by blast
qed

definition waiting_state :: "Cluster list \<times> KafkaRequest list" where
  "waiting_state = ([sample_cluster], [(sample_kafka ''k1'' ''x1'' KafkaRequestStatusAccepted)\<lparr>k_ClusterID := ''''\<rparr>, sample_kafka ''k2'' ''x1'' KafkaRequestStatusReady])"

theorem accepted_round_witness:
  "\<exists>errs s'. Accepted_Reconcile sample_service (2 * Hour) waiting_state = (Ok errs, s') \<and> fst s' = fst waiting_state \<and>
     (\<exists>s1. fst s1 = fst waiting_state \<and> accepted_outcome sample_service (2 * Hour) s1 (hd (snd waiting_state)) (hd (snd s'))) \<and>
     map k_Status (snd s') = [KafkaRequestStatusFailed, KafkaRequestStatusReady]"
proof -
  have "distinct (map k_ID (snd waiting_state))" "\<forall>k \<in> set (snd waiting_state). k_ID k \<noteq> ''''" by code_simp+
  moreover have "store_lawful (ks_db sample_service) fst snd" using mem_db_lawful by (simp add: sample_service_def)
  moreover have st: "map k_Status (snd (snd (Accepted_Reconcile sample_service (2 * Hour) waiting_state))) = [KafkaRequestStatusFailed, KafkaRequestStatusReady]"
    by code_simp
  ultimately obtain errs s' where u: "Accepted_Reconcile sample_service (2 * Hour) waiting_state = (Ok errs, s')" "fst s' = fst waiting_state"
    and l: "list_all2 (\<lambda>x x'. if k_Status x \<noteq> KafkaRequestStatusAccepted then x' = x
      else (x' = x \<and> ((\<exists>e. wrapf ''failed to reconcile accepted kafka %s'' x e \<in> set errs) \<or> isl (Kafka_ListByStatus (ks_db sample_service) [KafkaRequestStatusAccepted] waiting_state))) \<or>
           (\<exists>s1. fst s1 = fst waiting_state \<and> accepted_outcome sample_service (2 * Hour) s1 x x')) (snd waiting_state) (snd s')"
    using accepted_round[of sample_service fst snd waiting_state "2 * Hour"] by blast
  have st': "map k_Status (snd s') = [KafkaRequestStatusFailed, KafkaRequestStatusReady]" using st u(1) by simp
  obtain x y where s': "snd s' = [x, y]" "k_Status x = KafkaRequestStatusFailed" using st' by auto
  have w: "k_Status (hd (snd waiting_state)) = KafkaRequestStatusAccepted" "length (snd waiting_state) = 2" by code_simp+
  then have "x \<noteq> hd (snd waiting_state)" using s'(2) by (auto simp: kafka_statuses)
  moreover obtain a b where "snd waiting_state = [a, b]" using w(2) by (metis length_0_conv length_Suc_conv numeral_2_eq_2)
  ultimately have out: "\<exists>s1. fst s1 = fst waiting_state \<and> accepted_outcome sample_service (2 * Hour) s1 (hd (snd waiting_state)) (hd (snd s'))"
    using l w(1) s'(1) by auto
  show ?thesis by (rule exI[of _ errs], rule exI[of _ s'], intro conjI; fact)
qed

text \<open>C5. A round of the deleting worker ends.  It removes only Kafkas in status deleting and deprovisioned ones that never
  got a host, every other row stays as it is, and a round without an error has removed all of them.\<close>

theorem deleting_round:
  assumes "store_lawful (ks_db K) clusters kafkas" "release_frame K kafkas"
  shows "\<exists>errs s' gone. Deleting_Reconcile K s = (Ok errs, s') \<and> gone \<subseteq> k_ID ` {k \<in> set (kafkas s). removable k} \<and>
           kafkas s' = filter (\<lambda>k. k_ID k \<notin> gone) (kafkas s) \<and> (errs = [] \<longrightarrow> (\<forall>k \<in> set (kafkas s'). \<not> removable k))"
  by (rule deleting_round_rows[OF assms])

lemma sample_release_frame: "release_frame sample_service snd"
  by (simp add: release_frame_def sample_service_def granting_quota_def)

theorem deleting_round_witness:
  "\<exists>errs s' gone. Deleting_Reconcile sample_service sample_state = (Ok errs, s') \<and> gone \<subseteq> k_ID ` {k \<in> set (snd sample_state). removable k} \<and>
     snd s' = filter (\<lambda>k. k_ID k \<notin> gone) (snd sample_state) \<and> errs = [] \<and> map k_ID (snd s') = [''k1'', ''k2'']"
proof -
  have law: "store_lawful (ks_db sample_service) fst snd" using mem_db_lawful by (simp add: sample_service_def)
  have "fst (Deleting_Reconcile sample_service sample_state) = Ok []" "map k_ID (snd (snd (Deleting_Reconcile sample_service sample_state))) = [''k1'', ''k2'']"
    by code_simp+
  moreover obtain errs s' gone where "Deleting_Reconcile sample_service sample_state = (Ok errs, s')"
    "gone \<subseteq> k_ID ` {k \<in> set (snd sample_state). removable k}" "snd s' = filter (\<lambda>k. k_ID k \<notin> gone) (snd sample_state)"
    using deleting_round[OF law sample_release_frame, of sample_state] by blast
  ultimately show ?thesis by (intro exI[of _ errs] exI[of _ s'] exI[of _ gone]) simp
qed

text \<open>C6. The outcome of one promotion of a Kafka that is not under deletion, with the quota service at hand.  If the
  reservation of the new quota fails, exactly the row of the Kafka is marked as failed and all its other fields stay, billing model
  and subscription among them.  The same happens after a reservation when the instance type of the Kafka is not configured or does not
  support its actual billing model.  Otherwise, a failure to delete the old quota marks the row as promoting and nothing else, and a
  deletion bills the Kafka under the desired model, with the new subscription and without an expiration, unless the database refuses
  the update, which marks it as promoting.  A mark is missing only when the database refuses to write it.\<close>

theorem promotion_outcome:
  assumes "store_lawful (ks_db K) clusters kafkas" "row_of k (kafkas s)" "\<not> under_deletion k"
    and "ks_quotaServiceFactory K (qc_Type (kc_Quota (ks_kafkaConfig K))) = Inr q" "promotion_frame q kafkas" "maps_object assigned"
    and "qs_ReserveQuotaIfNotAlreadyReserved q k s = (reserved, k1, s1)" "promotion_loop K assigned [] [k] s = (r, s')"
  shows "case reserved of
           Panic m \<Rightarrow> r = Panic m \<and> kafkas s' = kafkas s
         | Err e \<Rightarrow> noted K kafkas k (marked KafkaPromotionStatusFailed k) s s'
         | Ok sub \<Rightarrow>
            (case actual_billing_model K k of
               None \<Rightarrow> noted K kafkas k (marked KafkaPromotionStatusFailed k) s s'
             | Some bm \<Rightarrow>
                (case qs_DeleteQuotaForBillingModel q (k_SubscriptionId k) bm s1 of
                   (Some e, s2) \<Rightarrow> noted K kafkas k (marked KafkaPromotionStatusPromoting k) s s'
                 | (None, s2) \<Rightarrow>
                    (r = Ok [] \<and> kafkas s' = map (\<lambda>x. if x = k then promoted sub k else x) (kafkas s)) \<or>
                    ((\<exists>e f s3. Kafka_Updates (ks_db K) k f s2 = (Some e, s3)) \<and>
                     noted K kafkas k (\<lambda>x. k_PromotionStatus x = KafkaPromotionStatusPromoting) s s')))"
proof -
  have 1: "kafkas s1 = kafkas s" using assms(5,7) unfolding promotion_frame_def by (metis snd_conv)
  note fail = promotion_noted[OF assms(1-3) _ refl 1 assms(8)]
  show ?thesis
  proof (cases reserved)
    case (Panic m)
    then show ?thesis using promotion_single(1)[OF promote_reserve(1)[OF assms(4,7) Panic] refl] assms(8) 1 by simp
  next
    case (Err e)
    then show ?thesis using noted_mono[OF fail[OF promote_reserve(2)[OF assms(4,7) Err]]] by simp
  next
    case (Ok sub)
    show ?thesis
    proof (cases "actual_billing_model K k")
      case None
      obtain m where "promote K assigned k s = (Err (ErrorString m), k, s1)"
        using promote_unsupported[OF assms(4) None] promote_reserve(3)[OF assms(4,7) Ok] by metis
      from noted_mono[OF fail[OF this]] show ?thesis using Ok None by simp
    next
      case (Some bm)
      obtain d s2 where d: "qs_DeleteQuotaForBillingModel q (k_SubscriptionId k) bm s1 = (d, s2)" by (rule prod.exhaust)
      have 2: "kafkas s2 = kafkas s" using assms(5) d 1 unfolding promotion_frame_def by (metis snd_conv)
      show ?thesis using promotion_reserved[OF assms(1-4,6) assms(7)[unfolded Ok] assms(8) Some d 2] Ok Some d by (cases d) simp_all
    qed
  qed
qed

definition promotion_state :: "Cluster list \<times> KafkaRequest list" where
  "promotion_state = ([sample_cluster], [(sample_kafka ''k1'' ''x1'' KafkaRequestStatusReady)\<lparr>k_ActualKafkaBillingModel := ''standard'',
     k_DesiredKafkaBillingModel := ''marketplace'', k_SubscriptionId := ''old'', k_ExpiresAt := Some 5\<rparr>])"

definition standard_model :: KafkaBillingModel where
  "standard_model = \<lparr>bm_ID = ''standard'', bm_AMSResource = ''rhosak'', bm_AMSProduct = ''RHOSAK'', bm_AMSBillingModels = [''standard''], bm_GracePeriodDays = 5\<rparr>"

definition billed_service :: "(Cluster list \<times> KafkaRequest list) kafkaService" where
  "billed_service = sample_service\<lparr>ks_kafkaConfig := sample_config\<lparr>kc_SupportedInstanceTypes :=
     \<lparr>SupportedKafkaInstanceTypes = [sample_type\<lparr>it_SupportedBillingModels := [standard_model]\<rparr>]\<rparr>\<rparr>\<rparr>"

theorem promotion_outcome_witness:
  "\<exists>k r s'. k \<in> set (snd promotion_state) \<and> promotion_loop billed_service (\<lambda>f. f) [] [k] promotion_state = (r, s') \<and>
     r = Ok [] \<and> snd s' = map (\<lambda>x. if x = k then promoted '''' k else x) (snd promotion_state) \<and>
     map k_ActualKafkaBillingModel (snd s') = [''marketplace'']"
proof -
  let ?k = "hd (snd promotion_state)"
  obtain r s' where u: "promotion_loop billed_service (\<lambda>f. f) [] [?k] promotion_state = (r, s')" by (rule prod.exhaust)
  have law: "store_lawful (ks_db billed_service) fst snd" using mem_db_lawful by (simp add: billed_service_def sample_service_def)
  have row: "row_of ?k (snd promotion_state)" "\<not> under_deletion ?k" by code_simp+
  have q: "ks_quotaServiceFactory billed_service (qc_Type (kc_Quota (ks_kafkaConfig billed_service))) = Inr granting_quota" by (simp add: billed_service_def sample_service_def)
  have pf: "promotion_frame granting_quota snd" by (simp add: promotion_frame_def granting_quota_def)
  have mo: "maps_object (\<lambda>f. f)" by (simp add: maps_object_def)
  have res: "qs_ReserveQuotaIfNotAlreadyReserved granting_quota ?k promotion_state =
      (Ok '''', ?k\<lparr>k_ActualKafkaBillingModel := k_DesiredKafkaBillingModel ?k\<rparr>, promotion_state)" by (simp add: granting_quota_def)
  have del: "qs_DeleteQuotaForBillingModel granting_quota i bm s = (None, s)" for i bm s by (simp add: granting_quota_def)
  have bm: "actual_billing_model billed_service ?k = Some standard_model" by code_simp
  have "Kafka_Updates (ks_db billed_service) k f s \<noteq> (Some e, s3)" for k f s e s3
    by (simp add: Kafka_Updates_def billed_service_def sample_service_def mem_db_ops)
  then have "r = Ok [] \<and> snd s' = map (\<lambda>x. if x = ?k then promoted '''' ?k else x) (snd promotion_state)"
    using promotion_outcome[OF law row q pf mo res u] unfolding go.case bm option.case del prod.case by blast
  moreover have "map k_ActualKafkaBillingModel (snd (snd (promotion_loop billed_service (\<lambda>f. f) [] [?k] promotion_state))) = [''marketplace'']" by code_simp
  moreover have "?k \<in> set (snd promotion_state)" using row(1) by (simp add: row_of_def)
  ultimately show ?thesis using u by (intro exI[of _ ?k] exI[of _ r] exI[of _ s']) simp
qed

text \<open>C40. The capacities published for clusters under dynamic scaling are bounded: every published entry
  belongs to a counted cluster that is neither accepted nor an enterprise one, and its available units lie between zero and its maximum,
  which exceeds neither the units of the cluster nor the limit of the region.\<close>

theorem dynamic_capacity_bounds:
  assumes "\<forall>i. - (2 ^ 31) \<le> i \<and> i < 2 ^ 31 \<longrightarrow> sint (to32 i) = i"
    and "\<forall>u \<in> set units. 0 \<le> sint (su_Count u) \<and> 0 \<le> sint (su_MaxUnits u)"
    and "\<forall>u \<in> set units. \<forall>l. getRegionInstanceTypeLimit K (su_Region u) (su_CloudProvider u) (su_InstanceType u) = Inr l \<longrightarrow> 0 \<le> l"
    and "e \<in> set (snd (dynamic_capacity K to32 units))"
  shows "\<exists>u \<in> set units. \<exists>l. su_ClusterId e = su_ClusterId u \<and> su_Status u \<noteq> ClusterAccepted \<and> su_ClusterType u \<noteq> EnterpriseDataPlaneClusterType \<and>
           getRegionInstanceTypeLimit K (su_Region u) (su_CloudProvider u) (su_InstanceType u) = Inr l \<and>
           0 \<le> sint (su_Count e) \<and> sint (su_Count e) \<le> sint (su_MaxUnits e) \<and> sint (su_MaxUnits e) = min (sint (su_MaxUnits u)) l"
  using assms(2-4)
proof (induction units)
  case (Cons u us)
  show ?case
  proof (cases "su_Status u \<noteq> ClusterAccepted \<and> su_ClusterType u \<noteq> EnterpriseDataPlaneClusterType \<and>
      (\<exists>l. getRegionInstanceTypeLimit K (su_Region u) (su_CloudProvider u) (su_InstanceType u) = Inr l) \<and> e \<notin> set (snd (dynamic_capacity K to32 us))")
    case True
    then obtain l where l: "getRegionInstanceTypeLimit K (su_Region u) (su_CloudProvider u) (su_InstanceType u) = Inr l" by blast
    let ?m = "min (sint (su_MaxUnits u)) l" and ?a = "max 0 (min (sint (su_MaxUnits u)) l - sint (su_Count u))"
    have e: "e = capacity_entry (su_Region u) (su_InstanceType u) (su_ClusterId u) (to32 ?a) (su_CloudProvider u) (to32 ?m)"
      using Cons.prems(3) True l by (auto simp: calculateAvailableAndMaxCapacityForDynamicScaling_def Let_def split: prod.splits)
    have m: "0 \<le> ?m" "?m < 2 ^ 31" using Cons.prems(1,2) l int32_bounds[of "su_MaxUnits u"] by auto
    then have "sint (to32 ?m) = ?m" using assms(1) by auto
    moreover have "0 \<le> ?a" "?a \<le> ?m" using Cons.prems(1) m(1) by auto
    then have "- (2 ^ 31) \<le> ?a \<and> ?a < 2 ^ 31" using m(2) by linarith
    then have "sint (to32 ?a) = ?a" using assms(1) by blast
    ultimately show ?thesis using True l e \<open>?a \<le> ?m\<close> by (intro bexI[of _ u] exI[of _ l]) (simp_all add: capacity_entry_def)
  next
    case False
    then have "e \<in> set (snd (dynamic_capacity K to32 us))" using Cons.prems(3)
      by (cases "getRegionInstanceTypeLimit K (su_Region u) (su_CloudProvider u) (su_InstanceType u)")
        (auto simp: calculateAvailableAndMaxCapacityForDynamicScaling_def split: if_splits)
    then show ?thesis using Cons.IH Cons.prems(1,2) by auto
  qed
qed simp

definition low32 :: "int \<Rightarrow> int32" where
  "low32 i = word_of_int i"

lemma low32_exact: "- (2 ^ 31) \<le> i \<and> i < 2 ^ 31 \<longrightarrow> sint (low32 i) = i"
  by (simp add: low32_def sint_sbintrunc' signed_take_bit_int_eq_self)

definition counted_unit :: KafkaStreamingUnitCountPerCluster where
  "counted_unit = \<lparr>su_Region = ''us-east-1'', su_InstanceType = STANDARD, su_ID = ''id1'', su_ClusterId = ''c1'', su_Count = 1,
     su_CloudProvider = ''aws'', su_MaxUnits = 5, su_Status = ClusterReady, su_ClusterType = ManagedDataPlaneClusterType\<rparr>"

lemma counted_unit_limit: "getRegionInstanceTypeLimit sample_service (su_Region counted_unit) (su_CloudProvider counted_unit) (su_InstanceType counted_unit) = Inr 3"
  by code_simp

theorem dynamic_capacity_bounds_witness:
  "\<exists>e. snd (dynamic_capacity sample_service low32 [counted_unit]) = [e] \<and> 0 \<le> sint (su_Count e) \<and> sint (su_Count e) \<le> sint (su_MaxUnits e) \<and>
     sint (su_MaxUnits e) = 3"
proof -
  have "length (snd (dynamic_capacity sample_service low32 [counted_unit])) = 1"
    using counted_unit_limit
    by (simp add: calculateAvailableAndMaxCapacityForDynamicScaling_def Let_def)
      (simp add: counted_unit_def ClusterReady_def ClusterAccepted_def ManagedDataPlaneClusterType_def EnterpriseDataPlaneClusterType_def)
  then obtain e where e: "snd (dynamic_capacity sample_service low32 [counted_unit]) = [e]" by (auto simp: length_Suc_conv)
  have "\<forall>i. - (2 ^ 31) \<le> i \<and> i < 2 ^ 31 \<longrightarrow> sint (low32 i) = i" using low32_exact by blast
  moreover have "\<forall>u \<in> set [counted_unit]. 0 \<le> sint (su_Count u) \<and> 0 \<le> sint (su_MaxUnits u)" by (simp add: counted_unit_def)
  moreover have "\<forall>u \<in> set [counted_unit]. \<forall>l. getRegionInstanceTypeLimit sample_service (su_Region u) (su_CloudProvider u) (su_InstanceType u) = Inr l \<longrightarrow> 0 \<le> l"
    using counted_unit_limit by simp
  moreover have "e \<in> set (snd (dynamic_capacity sample_service low32 [counted_unit]))" unfolding e by simp
  ultimately have "\<exists>u \<in> set [counted_unit]. \<exists>l. su_ClusterId e = su_ClusterId u \<and> su_Status u \<noteq> ClusterAccepted \<and> su_ClusterType u \<noteq> EnterpriseDataPlaneClusterType \<and>
      getRegionInstanceTypeLimit sample_service (su_Region u) (su_CloudProvider u) (su_InstanceType u) = Inr l \<and>
      0 \<le> sint (su_Count e) \<and> sint (su_Count e) \<le> sint (su_MaxUnits e) \<and> sint (su_MaxUnits e) = min (sint (su_MaxUnits u)) l"
    by (rule dynamic_capacity_bounds)
  moreover have "sint (su_MaxUnits counted_unit) = 5" by (simp add: counted_unit_def)
  ultimately show ?thesis using e counted_unit_limit by auto
qed

end
