(* ===== verification/Cluster_Workers.thy ===== *)
theory Cluster_Workers
  imports Data_Plane "HOL-Library.AList"
begin

text \<open>
  Workers on clusters, \<^verbatim>\<open>internal/kafka/internal/workers/cluster_mgrs\<close>: the worker of deprovisioning clusters, the worker
  of clusters in cleanup, and of \<^verbatim>\<open>clusters_mgr.go\<close> the steps that decide which clusters are registered and removed and
  which instance types they serve.  The identity service and the service accounts of the operator are arguments.
\<close>

section \<open>Deprovisioning clusters\<close>

definition syncsetName :: string where "syncsetName = ''ext-managedservice-cluster-mgr''"

(* src/internal/kafka/internal/workers/cluster_mgrs/deprovisioning_clusters_mgr.go:95-102 DeprovisioningClustersManager.reconcileDeprovisioningEnterpriseCluster *)
definition reconcileDeprovisioningEnterpriseCluster :: "'s db \<Rightarrow> (string \<rightharpoonup> provider) \<Rightarrow> Cluster \<Rightarrow> 's \<Rightarrow> goerror option \<times> 's" where
  "reconcileDeprovisioningEnterpriseCluster db providers cluster s =
     (case RemoveResources providers cluster syncsetName of
        Some err \<Rightarrow> (Some (ServiceErr err), s)
      | None \<Rightarrow> UpdateStatus db cluster ClusterCleanup s)"

(* src/internal/kafka/internal/workers/cluster_mgrs/deprovisioning_clusters_mgr.go:104-133 DeprovisioningClustersManager.reconcileDeprovisioningCluster *)
definition reconcileDeprovisioningCluster :: "'s db \<Rightarrow> (string \<rightharpoonup> provider) \<Rightarrow> Cluster \<Rightarrow> 's \<Rightarrow> goerror option \<times> 's" where
  "reconcileDeprovisioningCluster db providers cluster s =
     (case FindNonEmptyClusterByID db (c_ClusterID cluster) s of
        Inl findClusterErr \<Rightarrow> (Some (ServiceErr findClusterErr), s)
      | Inr (Some nonEmptyCluster) \<Rightarrow> UpdateStatus db cluster ClusterReady s
      | Inr None \<Rightarrow>
        (case Cluster_Delete providers cluster of
           Inl deleteClusterErr \<Rightarrow> (Some (ServiceErr deleteClusterErr), s)
         | Inr deleted \<Rightarrow>
           if \<not> deleted then (None, s)
           else (case UpdateStatus db cluster ClusterCleanup s of
                   (Some err, s') \<Rightarrow> (Some (WithMessage err (Sprintf (''failed to update deprovisioning cluster %s status to 'cleanup'' @ [CHR 0x27]) [FStr (c_ClusterID cluster)])), s')
                 | (None, s') \<Rightarrow> (None, s'))))"

(* src/internal/kafka/internal/workers/cluster_mgrs/deprovisioning_clusters_mgr.go:72-86 DeprovisioningClustersManager.processDeprovisioningClusters *)
fun deprovisioning_loop :: "'s db \<Rightarrow> (string \<rightharpoonup> provider) \<Rightarrow> goerror list \<Rightarrow> Cluster list \<Rightarrow> 's \<Rightarrow> goerror list \<times> 's" where
  "deprovisioning_loop db providers errList [] s = (errList, s)"
| "deprovisioning_loop db providers errList (cluster # rest) s =
     (let (err, s') = (if c_ClusterType cluster \<noteq> EnterpriseDataPlaneClusterType then reconcileDeprovisioningCluster db providers cluster s
                       else reconcileDeprovisioningEnterpriseCluster db providers cluster s) in
      deprovisioning_loop db providers
        (case err of None \<Rightarrow> errList
         | Some e \<Rightarrow> AddErrors errList [WithMessage e (Sprintf ''failed to reconcile deprovisioning cluster %s'' [FStr (c_ClusterID cluster)])]) rest s')"

(* src/internal/kafka/internal/workers/cluster_mgrs/deprovisioning_clusters_mgr.go:60-93 DeprovisioningClustersManager.processDeprovisioningClusters *)
definition processDeprovisioningClusters :: "'s db \<Rightarrow> (string \<rightharpoonup> provider) \<Rightarrow> 's \<Rightarrow> goerror option \<times> 's" where
  "processDeprovisioningClusters db providers s =
     (case ListByStatus db ClusterDeprovisioning s of
        Inl serviceErr \<Rightarrow> (Some (ErrorListErr (AddErrors [] [ServiceErr serviceErr])), s)
      | Inr deprovisioningClusters \<Rightarrow>
        (let (errList, s') = deprovisioning_loop db providers [] deprovisioningClusters s in
         (if ErrorList_IsEmpty errList then None else Some (ErrorListErr errList), s')))"

(* src/internal/kafka/internal/workers/cluster_mgrs/deprovisioning_clusters_mgr.go:48-58 DeprovisioningClustersManager.Reconcile *)
definition Deprovisioning_Reconcile :: "'s db \<Rightarrow> (string \<rightharpoonup> provider) \<Rightarrow> 's \<Rightarrow> goerror list \<times> 's" where
  "Deprovisioning_Reconcile db providers s =
     (case processDeprovisioningClusters db providers s of
        (Some err, s') \<Rightarrow> (ToErrorSlice (AddErrors [] [err]), s')
      | (None, s') \<Rightarrow> (ToErrorSlice [], s'))"

section \<open>Clusters in cleanup\<close>

record 's cleanup_services =
  cs_EnableKafkaSreIdentityProviderConfiguration :: bool
  cs_DeRegisterClientInSSO :: "string \<Rightarrow> 's \<Rightarrow> ServiceError option \<times> 's"
  cs_DeRegisterKasFleetshardOperatorServiceAccount :: "string \<Rightarrow> 's \<Rightarrow> ServiceError option \<times> 's"

(* src/internal/kafka/internal/services/kas_fleetshard_operator_addon.go:197-200 kasFleetshardOperatorAddon.RemoveServiceAccount *)
definition RemoveServiceAccount :: "'s cleanup_services \<Rightarrow> Cluster \<Rightarrow> 's \<Rightarrow> ServiceError option \<times> 's" where
  "RemoveServiceAccount C cluster s = cs_DeRegisterKasFleetshardOperatorServiceAccount C (c_ClusterID cluster) s"

(* src/internal/kafka/internal/workers/cluster_mgrs/cleanup_clusters_mgr.go:104-116 CleanupClustersManager.reconcileCleanupEnterpriseCluster *)
definition reconcileCleanupEnterpriseCluster :: "'s db \<Rightarrow> 's cleanup_services \<Rightarrow> Cluster \<Rightarrow> 's \<Rightarrow> goerror option \<times> 's" where
  "reconcileCleanupEnterpriseCluster db C cluster s =
     (case RemoveServiceAccount C cluster s of
        (Some e, s') \<Rightarrow> (Some (WithMessage (ServiceErr e) (Sprintf ''failed to removed Dataplane cluster %s fleetshard service account'' [FStr (c_ClusterID cluster)])), s')
      | (None, s') \<Rightarrow>
        (case HardDeleteByClusterID db (c_ClusterID cluster) s' of
           (Some e, s'') \<Rightarrow> (Some (WithMessage (ServiceErr e) (Sprintf ''failed to hard delete Dataplane cluster %s from the database'' [FStr (c_ClusterID cluster)])), s'')
         | (None, s'') \<Rightarrow> (None, s'')))"

(* src/internal/kafka/internal/workers/cluster_mgrs/cleanup_clusters_mgr.go:118-138 CleanupClustersManager.reconcileCleanupCluster *)
definition reconcileCleanupCluster :: "'s db \<Rightarrow> 's cleanup_services \<Rightarrow> Cluster \<Rightarrow> 's \<Rightarrow> goerror option \<times> 's" where
  "reconcileCleanupCluster db C cluster s =
     (case (if cs_EnableKafkaSreIdentityProviderConfiguration C then cs_DeRegisterClientInSSO C (c_ID cluster) s else (None, s)) of
        (Some e, s') \<Rightarrow> (Some (WithMessage (ServiceErr e) (Sprintf ''failed to removed Dataplane cluster %s IDP client'' [FStr (c_ClusterID cluster)])), s')
      | (None, s') \<Rightarrow>
        (case RemoveServiceAccount C cluster s' of
           (Some e, s'') \<Rightarrow> (Some (WithMessage (ServiceErr e) (Sprintf ''failed to removed Dataplane cluster %s fleetshard service account'' [FStr (c_ClusterID cluster)])), s'')
         | (None, s'') \<Rightarrow>
           (case DeleteByClusterID db (c_ClusterID cluster) s'' of
              (Some e, s3) \<Rightarrow> (Some (WithMessage (ServiceErr e) (Sprintf ''failed to soft delete Dataplane cluster %s from the database'' [FStr (c_ClusterID cluster)])), s3)
            | (None, s3) \<Rightarrow> (None, s3))))"

(* src/internal/kafka/internal/workers/cluster_mgrs/cleanup_clusters_mgr.go:83-95 CleanupClustersManager.processCleanupClusters *)
fun cleanup_loop :: "'s db \<Rightarrow> 's cleanup_services \<Rightarrow> goerror list \<Rightarrow> Cluster list \<Rightarrow> 's \<Rightarrow> goerror list \<times> 's" where
  "cleanup_loop db C errList [] s = (errList, s)"
| "cleanup_loop db C errList (cluster # rest) s =
     (if c_ClusterType cluster \<noteq> EnterpriseDataPlaneClusterType then
        (case reconcileCleanupCluster db C cluster s of
           (Some e, s') \<Rightarrow> cleanup_loop db C (AddErrors errList [WithMessage e (Sprintf ''failed to reconcile cleanup cluster %s'' [FStr (c_ClusterID cluster)])]) rest s'
         | (None, s') \<Rightarrow> cleanup_loop db C errList rest s')
      else
        (case reconcileCleanupEnterpriseCluster db C cluster s of
           (Some e, s') \<Rightarrow> cleanup_loop db C (AddErrors errList [WithMessage e (Sprintf ''failed to reconcile cleanup enterprise cluster %s'' [FStr (c_ClusterID cluster)])]) rest s'
         | (None, s') \<Rightarrow> cleanup_loop db C errList rest s'))"

(* src/internal/kafka/internal/workers/cluster_mgrs/cleanup_clusters_mgr.go:72-102 CleanupClustersManager.processCleanupClusters *)
definition processCleanupClusters :: "'s db \<Rightarrow> 's cleanup_services \<Rightarrow> 's \<Rightarrow> goerror option \<times> 's" where
  "processCleanupClusters db C s =
     (case ListByStatus db ClusterCleanup s of
        Inl serviceErr \<Rightarrow> (Some (ErrorListErr (AddErrors [] [WithMessage (ServiceErr serviceErr) ''failed to list of cleanup clusters''])), s)
      | Inr cleanupClusters \<Rightarrow>
        (let (errList, s') = cleanup_loop db C [] cleanupClusters s in
         (if ErrorList_IsEmpty errList then None else Some (ErrorListErr errList), s')))"

(* src/internal/kafka/internal/workers/cluster_mgrs/cleanup_clusters_mgr.go:60-70 CleanupClustersManager.Reconcile *)
definition Cleanup_Reconcile :: "'s db \<Rightarrow> 's cleanup_services \<Rightarrow> 's \<Rightarrow> goerror list \<times> 's" where
  "Cleanup_Reconcile db C s =
     (case processCleanupClusters db C s of
        (Some err, s') \<Rightarrow> (ToErrorSlice (AddErrors [] [err]), s')
      | (None, s') \<Rightarrow> (ToErrorSlice [], s'))"

section \<open>The configured clusters\<close>

(* src/internal/kafka/internal/workers/cluster_mgrs/clusters_mgr.go:431-460 ClusterManager.reconcileClusterInstanceType *)
definition reconcileClusterInstanceType :: "'s db \<Rightarrow> DataplaneClusterConfig \<Rightarrow> Cluster \<Rightarrow> 's \<Rightarrow> goerror option \<times> 's" where
  "reconcileClusterInstanceType db dcc cluster s =
     (let manualScalingEnabled = IsDataPlaneManualScalingEnabled dcc;
          configured = (if manualScalingEnabled then GetClusterSupportedInstanceType (c_ClusterID cluster) (dc_ClusterConfig dcc) else None);
          supportedInstanceType = (case configured of Some t \<Rightarrow> t | None \<Rightarrow> AllInstanceTypeSupport) in
      if configured = None \<and> c_SupportedInstanceType cluster \<noteq> '''' then (None, s)
      else if c_SupportedInstanceType cluster \<noteq> supportedInstanceType then
        (case Update db (cluster\<lparr>c_SupportedInstanceType := supportedInstanceType\<rparr>) s of
           (Some err, s') \<Rightarrow> (Some (WithMessage (ServiceErr err) (Sprintf ''failed to update instance type in database for cluster %s'' [FStr (c_ClusterID cluster)])), s')
         | (None, s') \<Rightarrow> (None, s'))
      else (None, s))"

(* src/internal/kafka/internal/workers/cluster_mgrs/clusters_mgr.go:694-705 ClusterManager.reconcileClusterWithManualConfig *)
definition manual_cluster_request :: "ManualCluster \<Rightarrow> Cluster" where
  "manual_cluster_request p = zero_Cluster\<lparr>c_CloudProvider := mc_CloudProvider p, c_Region := mc_Region p, c_MultiAZ := mc_MultiAZ p,
     c_ClusterID := mc_ClusterId p, c_Status := mc_Status p, c_ProviderType := mc_ProviderType p, c_ClusterDNS := mc_ClusterDNS p,
     c_SupportedInstanceType := mc_SupportedInstanceType p, c_AccessKafkasViaPrivateNetwork := False, c_ClusterType := ManagedDataPlaneClusterType\<rparr>"

(* src/internal/kafka/internal/workers/cluster_mgrs/clusters_mgr.go:693-711 ClusterManager.reconcileClusterWithManualConfig *)
fun register_missing :: "'s db \<Rightarrow> (ManualCluster \<Rightarrow> string) \<Rightarrow> ManualCluster list \<Rightarrow> 's \<Rightarrow> goerror option \<times> 's" where
  "register_missing db newID [] s = (None, s)"
| "register_missing db newID (p # rest) s =
     (case RegisterClusterJob db (newID p) (manual_cluster_request p) s of
        (Some err, s') \<Rightarrow> (Some (WithMessage (ServiceErr err) (Sprintf ''failed to register new cluster %s with config file'' [FStr (mc_ClusterId p)])), s')
      | (None, s') \<Rightarrow> register_missing db newID rest s')"

text \<open>\<open>clusterIdsMap\<close> is the association list of the Go map; a later entry of a key replaces an earlier one.\<close>

(* src/internal/kafka/internal/workers/cluster_mgrs/clusters_mgr.go:674-746 ClusterManager.reconcileClusterWithManualConfig *)
definition reconcileClusterWithManualConfig ::
  "'s db \<Rightarrow> KafkaConfig \<Rightarrow> DataplaneClusterConfig \<Rightarrow> (ManualCluster \<Rightarrow> string) \<Rightarrow> 's \<Rightarrow> goerror list \<times> 's" where
  "reconcileClusterWithManualConfig db kafkaConfig dcc newID s =
     (if \<not> IsDataPlaneManualScalingEnabled dcc then ([], s)
      else case ListNonEnterpriseClusterIDs db s of
        Inl err \<Rightarrow> ([WithMessage (ServiceErr err) ''failed to retrieve cluster ids from clusters''], s)
      | Inr allClusterIds \<Rightarrow>
        (let clusterIdsMap = fold (\<lambda>v m. AList.update (c_ClusterID v) v m) allClusterIds [] in
         case register_missing db newID (MissingClusters clusterIdsMap (dc_ClusterConfig dcc)) s of
           (Some err, s') \<Rightarrow> ([err], s')
         | (None, s') \<Rightarrow>
           (let excessClusterIds = ExcessClusters clusterIdsMap (dc_ClusterConfig dcc);
                ids = (\<lambda>is. [FVal ''[]string'' (''['' @ Join is '' '' @ '']'')]) in
            if length excessClusterIds = 0 then ([], s')
            else case FindKafkaInstanceCount db kafkaConfig excessClusterIds s' of
              Inl err \<Rightarrow> ([WithMessage err (Sprintf ''failed to find kafka count for cluster: %s'' (ids excessClusterIds))], s')
            | Inr kafkaInstanceCount \<Rightarrow>
              (let idsOfClustersToDeprovision = map ic_ClusterID (filter (\<lambda>c. \<not> ic_Count c > 0) kafkaInstanceCount) in
               if length idsOfClustersToDeprovision = 0 then ([], s')
               else case UpdateMultiClusterStatus db idsOfClustersToDeprovision ClusterDeprovisioning s' of
                 (Some err, s'') \<Rightarrow> ([WithMessage (ServiceErr err) (Sprintf ''failed to deprovisioning a cluster: %s'' (ids idsOfClustersToDeprovision))], s'')
               | (None, s'') \<Rightarrow> ([], s'')))))"

section \<open>What the workers do to the clusters\<close>

text \<open>A cluster is occupied while a Kafka that is not in status deleting is assigned to it.\<close>

definition occupied :: "KafkaRequest list \<Rightarrow> Cluster \<Rightarrow> bool" where
  "occupied ks c \<longleftrightarrow> (\<exists>k \<in> set ks. k_ClusterID k = c_ClusterID c \<and> k_Status k \<noteq> KafkaRequestStatusDeleting)"

lemma FindNonEmptyClusterByID_occupied:
  assumes "store_lawful db clusters kafkas" "c \<in> set (clusters s)" "FindNonEmptyClusterByID db (c_ClusterID c) s = Inr r"
  shows "r = None \<longleftrightarrow> \<not> occupied (kafkas s) c"
proof -
  let ?p = "\<lambda>k. k_Status k \<noteq> KafkaRequestStatusDeleting \<and> k_ClusterID k = c_ClusterID c"
  obtain ks where ks: "t_scan (kafkaT db) ?p Unordered s = Inr ks"
    using assms(3) by (cases "t_scan (kafkaT db) ?p Unordered s") (simp_all add: FindNonEmptyClusterByID_def)
  have set: "set ks = {k \<in> set (kafkas s). ?p k}" by (rule t_scan_set[OF kafkaT_lawful[OF assms(1)] ks])
  let ?q = "\<lambda>r. (c_ClusterID c \<noteq> '''' \<longrightarrow> c_ClusterID r = c_ClusterID c) \<and> c_ClusterID r \<in> set (map k_ClusterID ks)"
  note first = t_first_laws[OF clusterT_lawful[OF assms(1)], of ?q ByPrimaryKey s]
  show ?thesis
  proof (cases "t_first (clusterT db) ?q ByPrimaryKey s")
    case (Inl e)
    then have "e = ErrRecordNotFound" "r = None" using assms(3) ks by (auto simp: FindNonEmptyClusterByID_def split: if_splits)
    then have "\<not> ?q c" using first(3) Inl assms(2) by blast
    then show ?thesis using set \<open>r = None\<close> by (auto simp: occupied_def)
  next
    case (Inr x)
    then have "r = Some x" using assms(3) ks by (simp add: FindNonEmptyClusterByID_def)
    moreover have "ks \<noteq> []" using first(1)[OF Inr] by auto
    ultimately show ?thesis using set by (auto simp: occupied_def neq_Nil_conv)
  qed
qed

text \<open>The moves of a deprovisioning cluster.\<close>

definition deprovisioning_step :: "KafkaRequest list \<Rightarrow> Cluster \<Rightarrow> Cluster \<Rightarrow> bool" where
  "deprovisioning_step ks c c' \<longleftrightarrow>
     (c' = c\<lparr>c_Status := ClusterReady\<rparr> \<and> occupied ks c \<and> c_ClusterType c \<noteq> EnterpriseDataPlaneClusterType) \<or>
     (c' = c\<lparr>c_Status := ClusterCleanup\<rparr> \<and> (c_ClusterType c = EnterpriseDataPlaneClusterType \<or> \<not> occupied ks c))"

definition cluster_row :: "Cluster \<Rightarrow> Cluster list \<Rightarrow> bool" where
  "cluster_row c cs \<longleftrightarrow> distinct (map c_ID cs) \<and> c \<in> set cs \<and> c_ID c \<noteq> ''''"

lemma UpdateStatus_row:
  assumes "store_lawful db clusters kafkas" "cluster_row c (clusters s)" "UpdateStatus db c st s = (r, s')"
  shows "kafkas s' = kafkas s" and "clusters s' = clusters s \<or> clusters s' = map (\<lambda>x. if x = c then c\<lparr>c_Status := st\<rparr> else x) (clusters s)"
proof -
  have "s' = s \<or> (\<exists>u. t_update (clusterT db) (\<lambda>r. c_ID r = c_ID c) (\<lambda>r. r\<lparr>c_Status := st\<rparr>) s = (u, s'))"
    using assms(2,3) by (auto simp: UpdateStatus_def cluster_row_def Let_def split: if_splits prod.splits sum.splits)
  then show "kafkas s' = kafkas s" "clusters s' = clusters s \<or> clusters s' = map (\<lambda>x. if x = c then c\<lparr>c_Status := st\<rparr> else x) (clusters s)"
    using cluster_update_row[OF assms(1)] assms(2) unfolding cluster_row_def by blast+
qed

lemma deprovisioning_one:
  assumes "store_lawful db clusters kafkas" "cluster_row c (clusters s)"
    and "(if c_ClusterType c \<noteq> EnterpriseDataPlaneClusterType then reconcileDeprovisioningCluster db providers c s
          else reconcileDeprovisioningEnterpriseCluster db providers c s) = (r, s')"
  shows "kafkas s' = kafkas s \<and> (clusters s' = clusters s \<or>
    (\<exists>c'. deprovisioning_step (kafkas s) c c' \<and> clusters s' = map (\<lambda>x. if x = c then c' else x) (clusters s)))"
proof -
  have "s' = s \<or> (\<exists>st u. UpdateStatus db c st s = (u, s') \<and> deprovisioning_step (kafkas s) c (c\<lparr>c_Status := st\<rparr>))"
  proof (cases "c_ClusterType c = EnterpriseDataPlaneClusterType")
    case True
    then show ?thesis using assms(3)
      by (auto simp: reconcileDeprovisioningEnterpriseCluster_def deprovisioning_step_def split: option.splits)
  next
    case False
    then have rec: "reconcileDeprovisioningCluster db providers c s = (r, s')" using assms(3) by simp
    show ?thesis
    proof (cases "FindNonEmptyClusterByID db (c_ClusterID c) s")
      case (Inr o')
      have occ: "o' = None \<longleftrightarrow> \<not> occupied (kafkas s) c"
        using FindNonEmptyClusterByID_occupied[OF assms(1) _ Inr] assms(2) by (simp add: cluster_row_def)
      obtain u s1 where u: "UpdateStatus db c ClusterCleanup s = (u, s1)" by (rule prod.exhaust)
      show ?thesis
      proof (cases o')
        case None
        then have "s' = s \<or> s' = s1" using rec Inr u
          by (auto simp: reconcileDeprovisioningCluster_def split: sum.splits if_splits option.splits)
        then show ?thesis using u occ None by (auto simp: deprovisioning_step_def)
      next
        case (Some x)
        then have "UpdateStatus db c ClusterReady s = (r, s')" using rec Inr by (simp add: reconcileDeprovisioningCluster_def)
        then show ?thesis using occ Some False by (auto simp: deprovisioning_step_def)
      qed
    qed (use rec in \<open>simp add: reconcileDeprovisioningCluster_def\<close>)
  qed
  then show ?thesis using UpdateStatus_row[OF assms(1,2)] by blast
qed

lemma deprovisioning_loop_rows:
  assumes "store_lawful db clusters kafkas"
  shows "deprovisioning_loop db providers errs cs s = (r, s') \<Longrightarrow> \<forall>c \<in> set cs. cluster_row c (clusters s) \<Longrightarrow> distinct (map c_ID cs) \<Longrightarrow>
    kafkas s' = kafkas s \<and> (\<exists>g. clusters s' = map g (clusters s) \<and> (\<forall>x. g x = x \<or> (x \<in> set cs \<and> deprovisioning_step (kafkas s) x (g x))))"
proof (induction cs arbitrary: errs s)
  case Nil
  then show ?case by (auto intro!: exI[of _ "\<lambda>x. x"])
next
  case (Cons c cs)
  obtain e s1 where one: "(if c_ClusterType c \<noteq> EnterpriseDataPlaneClusterType then reconcileDeprovisioningCluster db providers c s
          else reconcileDeprovisioningEnterpriseCluster db providers c s) = (e, s1)" by (rule prod.exhaust)
  obtain errs1 where rest: "deprovisioning_loop db providers errs1 cs s1 = (r, s')" using Cons.prems(1) unfolding deprovisioning_loop.simps one Let_def prod.case by blast
  have row: "cluster_row c (clusters s)" using Cons.prems(2) by simp
  obtain c' where k1: "kafkas s1 = kafkas s" and c1: "clusters s1 = map (\<lambda>x. if x = c then c' else x) (clusters s)"
    and st: "c' = c \<or> deprovisioning_step (kafkas s) c c'"
  proof -
    have same: "clusters s = map (\<lambda>x. if x = c then c else x) (clusters s)" by (induction "clusters s") simp_all
    from deprovisioning_one[OF assms row one] consider "kafkas s1 = kafkas s" "clusters s1 = clusters s"
      | c' where "kafkas s1 = kafkas s" "deprovisioning_step (kafkas s) c c'" "clusters s1 = map (\<lambda>x. if x = c then c' else x) (clusters s)" by blast
    then show ?thesis
    proof cases
      case 1
      show ?thesis by (rule that[of c, OF 1(1) trans[OF 1(2) same]]) simp
    next
      case (2 c')
      show ?thesis by (rule that[OF 2(1,3)]) (simp add: 2(2))
    qed
  qed
  have id: "c_ID c' = c_ID c" using st by (auto simp: deprovisioning_step_def)
  have ids: "map c_ID (clusters s1) = map c_ID (clusters s)" unfolding c1 using id by simp
  have other: "x \<noteq> c \<and> x \<noteq> c'" if "x \<in> set cs" for x
  proof -
    have "c_ID x \<noteq> c_ID c" using Cons.prems(3) imageI[OF that, of c_ID] by auto
    then show ?thesis using id by auto
  qed
  have "\<forall>x \<in> set cs. cluster_row x (clusters s1)"
  proof
    fix x assume x: "x \<in> set cs"
    then have "x \<in> set (clusters s1)" using Cons.prems(2) other[OF x] unfolding c1 cluster_row_def by auto
    then show "cluster_row x (clusters s1)" using Cons.prems(2) x ids by (simp add: cluster_row_def)
  qed
  then obtain g where g: "kafkas s' = kafkas s1" "clusters s' = map g (clusters s1)" "\<forall>x. g x = x \<or> (x \<in> set cs \<and> deprovisioning_step (kafkas s1) x (g x))"
    using Cons.IH[OF rest] Cons.prems(3) by auto
  have "g c' = c'" using g(3) other by blast
  then have "clusters s' = map (\<lambda>x. if x = c then c' else g x) (clusters s)" unfolding g(2) c1 by simp
  moreover have "\<forall>x. (if x = c then c' else g x) = x \<or> (x \<in> set (c # cs) \<and> deprovisioning_step (kafkas s) x (if x = c then c' else g x))"
    using st g(3) k1 by auto
  ultimately show ?case using g(1) k1 by (intro conjI exI[of _ "\<lambda>x. if x = c then c' else g x"]) simp_all
qed

text \<open>The outcome for one cluster when the statements of the database succeed: an enterprise cluster goes to cleanup once its
  resources are removed, an occupied cluster goes back to ready, and an empty one goes to cleanup once its provider has deleted
  it.\<close>

definition deprovisioned_cluster :: "(string \<rightharpoonup> provider) \<Rightarrow> KafkaRequest list \<Rightarrow> Cluster \<Rightarrow> Cluster" where
  "deprovisioned_cluster providers ks c =
     (if c_ClusterType c = EnterpriseDataPlaneClusterType
      then (if RemoveResources providers c syncsetName = None then c\<lparr>c_Status := ClusterCleanup\<rparr> else c)
      else if occupied ks c then c\<lparr>c_Status := ClusterReady\<rparr>
      else if Cluster_Delete providers c = Inr True then c\<lparr>c_Status := ClusterCleanup\<rparr> else c)"

lemma deprovisioned_cluster_id [simp]: "c_ID (deprovisioned_cluster providers ks c) = c_ID c"
  by (simp add: deprovisioned_cluster_def)

lemma UpdateStatus_works:
  assumes "store_lawful db clusters kafkas" "db_works db" "cluster_row c (clusters s)" "st \<noteq> ''''"
  obtains s' where "UpdateStatus db c st s = (None, s')" "kafkas s' = kafkas s"
    "clusters s' = map (\<lambda>x. if x = c then c\<lparr>c_Status := st\<rparr> else x) (clusters s)"
proof -
  obtain n s' where u: "t_update (clusterT db) (\<lambda>r. c_ID r = c_ID c) (\<lambda>r. r\<lparr>c_Status := st\<rparr>) s = (Inr n, s')"
    using assms(2) works_update[of "clusterT db" "\<lambda>r. c_ID r = c_ID c" "\<lambda>r. r\<lparr>c_Status := st\<rparr>" s] unfolding db_works_def by blast
  have row: "distinct (map c_ID (clusters s))" "c \<in> set (clusters s)" "c_ID c \<noteq> ''''" using assms(3) by (simp_all add: cluster_row_def)
  have "UpdateStatus db c st s = (None, s')" using u row(3) assms(4) by (simp add: UpdateStatus_def)
  moreover have "kafkas s' = kafkas s" by (rule clusterT_frame(1)[OF assms(1) u])
  moreover have "clusters s' = map (\<lambda>x. if x = c then c\<lparr>c_Status := st\<rparr> else x) (clusters s)"
    unfolding t_update_rows[OF clusterT_lawful[OF assms(1)] u] using row(1,2) by (auto simp: distinct_map dest: inj_onD)
  ultimately show ?thesis using that by blast
qed

lemma FindNonEmptyClusterByID_works:
  assumes "db_works db"
  shows "\<exists>o'. FindNonEmptyClusterByID db i s = Inr o'"
proof -
  obtain ks where k: "t_scan (kafkaT db) (\<lambda>k. k_Status k \<noteq> KafkaRequestStatusDeleting \<and> k_ClusterID k = i) Unordered s = Inr ks"
    using assms works_scan[of "kafkaT db" "\<lambda>k. k_Status k \<noteq> KafkaRequestStatusDeleting \<and> k_ClusterID k = i" Unordered s] unfolding db_works_def by blast
  have "t_first (clusterT db) p ord s = Inl e \<Longrightarrow> e = ErrRecordNotFound" for p ord e
    using assms works_first[of "clusterT db" p ord s e] unfolding db_works_def by blast
  then show ?thesis unfolding FindNonEmptyClusterByID_def k sum.case by (auto split: sum.splits)
qed

lemma unchanged_row: "map (\<lambda>x. if x = c then c else x) xs = xs"
  by (induction xs) simp_all

lemma deprovisioning_one_works:
  assumes "store_lawful db clusters kafkas" "db_works db" "cluster_row c (clusters s)"
    and "(if c_ClusterType c \<noteq> EnterpriseDataPlaneClusterType then reconcileDeprovisioningCluster db providers c s
          else reconcileDeprovisioningEnterpriseCluster db providers c s) = (r, s')"
  shows "kafkas s' = kafkas s \<and>
    clusters s' = map (\<lambda>x. if x = c then deprovisioned_cluster providers (kafkas s) c else x) (clusters s)"
proof -
  obtain s1 where ready: "UpdateStatus db c ClusterReady s = (None, s1)" "kafkas s1 = kafkas s"
    "clusters s1 = map (\<lambda>x. if x = c then c\<lparr>c_Status := ClusterReady\<rparr> else x) (clusters s)"
    using UpdateStatus_works[OF assms(1-3), of ClusterReady] by (auto simp: ClusterReady_def)
  obtain s2 where cleanup: "UpdateStatus db c ClusterCleanup s = (None, s2)" "kafkas s2 = kafkas s"
    "clusters s2 = map (\<lambda>x. if x = c then c\<lparr>c_Status := ClusterCleanup\<rparr> else x) (clusters s)"
    using UpdateStatus_works[OF assms(1-3), of ClusterCleanup] by (auto simp: ClusterCleanup_def)
  note same = unchanged_row[of c "clusters s"]
  show ?thesis
  proof (cases "c_ClusterType c = EnterpriseDataPlaneClusterType")
    case True
    then have "s' = (if RemoveResources providers c syncsetName = None then s2 else s)"
      using assms(4) cleanup(1) by (auto simp: reconcileDeprovisioningEnterpriseCluster_def split: option.splits)
    then show ?thesis using True cleanup(2,3) same by (simp add: deprovisioned_cluster_def cong: if_cong)
  next
    case False
    obtain o' where o: "FindNonEmptyClusterByID db (c_ClusterID c) s = Inr o'" using FindNonEmptyClusterByID_works[OF assms(2)] by blast
    have occ: "o' = None \<longleftrightarrow> \<not> occupied (kafkas s) c"
      using FindNonEmptyClusterByID_occupied[OF assms(1) _ o] assms(3) by (simp add: cluster_row_def)
    have "s' = (if occupied (kafkas s) c then s1 else if Cluster_Delete providers c = Inr True then s2 else s)"
      using assms(4) False o occ ready(1) cleanup(1)
      by (auto simp: reconcileDeprovisioningCluster_def split: option.splits sum.splits if_splits)
    then show ?thesis using False ready(2,3) cleanup(2,3) same by (simp add: deprovisioned_cluster_def cong: if_cong)
  qed
qed

lemma deprovisioning_loop_works:
  assumes "store_lawful db clusters kafkas" "db_works db"
  shows "deprovisioning_loop db providers errs cs s = (r, s') \<Longrightarrow> \<forall>c \<in> set cs. cluster_row c (clusters s) \<Longrightarrow> distinct (map c_ID cs) \<Longrightarrow>
    clusters s' = map (\<lambda>x. if x \<in> set cs then deprovisioned_cluster providers (kafkas s) x else x) (clusters s)"
proof (induction cs arbitrary: errs s)
  case (Cons c cs)
  let ?d = "deprovisioned_cluster providers (kafkas s)"
  obtain e s1 where one: "(if c_ClusterType c \<noteq> EnterpriseDataPlaneClusterType then reconcileDeprovisioningCluster db providers c s
          else reconcileDeprovisioningEnterpriseCluster db providers c s) = (e, s1)" by (rule prod.exhaust)
  obtain errs1 where rest: "deprovisioning_loop db providers errs1 cs s1 = (r, s')"
    using Cons.prems(1) unfolding deprovisioning_loop.simps one Let_def prod.case by blast
  have row: "cluster_row c (clusters s)" using Cons.prems(2) by simp
  have k1: "kafkas s1 = kafkas s" and c1: "clusters s1 = map (\<lambda>x. if x = c then ?d c else x) (clusters s)"
    using deprovisioning_one_works[OF assms row one] by blast+
  have other: "x \<noteq> c \<and> x \<noteq> ?d c" if "x \<in> set cs" for x
  proof -
    have "c_ID x \<noteq> c_ID c" using Cons.prems(3) imageI[OF that, of c_ID] by auto
    then show ?thesis by auto
  qed
  have ids: "map c_ID (clusters s1) = map c_ID (clusters s)" unfolding c1 by simp
  have "\<forall>x \<in> set cs. cluster_row x (clusters s1)"
  proof
    fix x assume x: "x \<in> set cs"
    then have "x \<in> set (clusters s1)" using Cons.prems(2) other[OF x] unfolding c1 cluster_row_def by auto
    then show "cluster_row x (clusters s1)" using Cons.prems(2) x ids by (simp add: cluster_row_def)
  qed
  then have "clusters s' = map (\<lambda>x. if x \<in> set cs then ?d x else x) (clusters s1)"
    using Cons.IH[OF rest] Cons.prems(3) k1 by simp
  then show ?case unfolding c1 using other by auto
qed simp

lemma deprovisioning_listed:
  assumes "store_lawful db clusters kafkas" "distinct (map c_ID (clusters s))" "\<forall>c \<in> set (clusters s). c_ID c \<noteq> ''''"
    and "ListByStatus db ClusterDeprovisioning s = Inr cs"
  shows "set cs = {c \<in> set (clusters s). c_Status c = ClusterDeprovisioning}" "distinct (map c_ID cs)" "\<forall>c \<in> set cs. cluster_row c (clusters s)"
proof -
  have scan: "t_scan (clusterT db) (\<lambda>r. c_Status r = ClusterDeprovisioning) Unordered s = Inr cs"
    using assms(4) by (auto simp: ListByStatus_def split: if_splits sum.splits)
  note law = clusterT_lawful[OF assms(1)]
  show set: "set cs = {c \<in> set (clusters s). c_Status c = ClusterDeprovisioning}" by (rule t_scan_set[OF law scan])
  have "mset (map c_ID cs) = mset (map c_ID (filter (\<lambda>r. c_Status r = ClusterDeprovisioning) (clusters s)))" unfolding mset_map t_scan_rows[OF law scan] ..
  then show "distinct (map c_ID cs)" using distinct_map_filter[OF assms(2)] mset_eq_imp_distinct_iff by blast
  show "\<forall>c \<in> set cs. cluster_row c (clusters s)" using set assms(2,3) by (auto simp: cluster_row_def)
qed

lemma deprovisioning_round_works:
  assumes "store_lawful db clusters kafkas" "distinct (map c_ID (clusters s))" "\<forall>c \<in> set (clusters s). c_ID c \<noteq> ''''"
    and "Deprovisioning_Reconcile db providers s = (errs, s')" "db_works db"
  shows "clusters s' = map (\<lambda>c. if c_Status c = ClusterDeprovisioning then deprovisioned_cluster providers (kafkas s) c else c) (clusters s)"
proof -
  obtain cs where cs: "ListByStatus db ClusterDeprovisioning s = Inr cs"
    using assms(5) works_scan[of "clusterT db" "\<lambda>r. c_Status r = ClusterDeprovisioning" Unordered s]
    by (auto simp: db_works_def ListByStatus_def ClusterDeprovisioning_def)
  note l = deprovisioning_listed[OF assms(1-3) cs]
  obtain es s1 where d: "deprovisioning_loop db providers [] cs s = (es, s1)" by (rule prod.exhaust)
  have "s1 = s'" using assms(4) cs d by (auto simp: Deprovisioning_Reconcile_def processDeprovisioningClusters_def split: if_splits)
  then show ?thesis using deprovisioning_loop_works[OF assms(1,5) d l(3,2)] l(1) by (auto intro: map_cong)
qed

section \<open>Properties\<close>

text \<open>C8. A round over the deprovisioning clusters touches no Kafka and no other cluster.  When the statements of the database
  succeed, every deprovisioning cluster ends as follows.  An enterprise cluster goes to cleanup, occupied or not, once its
  resources are removed.  Any other cluster goes back to ready when it has a Kafka that is not in status deleting, and to cleanup
  when it has none and its provider has deleted it.  Otherwise it stays.  Whatever fails, a cluster stays or takes one of these
  steps, so a managed cluster that is occupied never goes to cleanup.\<close>

theorem deprovisioning_round:
  assumes "store_lawful db clusters kafkas" "distinct (map c_ID (clusters s))" "\<forall>c \<in> set (clusters s). c_ID c \<noteq> ''''"
    and "Deprovisioning_Reconcile db providers s = (errs, s')"
  shows "kafkas s' = kafkas s \<and>
         list_all2 (\<lambda>c c'. c' = c \<or> (c_Status c = ClusterDeprovisioning \<and> deprovisioning_step (kafkas s) c c')) (clusters s) (clusters s') \<and>
         (db_works db \<longrightarrow>
            clusters s' = map (\<lambda>c. if c_Status c = ClusterDeprovisioning then deprovisioned_cluster providers (kafkas s) c else c) (clusters s))"
proof -
  have "kafkas s' = kafkas s \<and>
      list_all2 (\<lambda>c c'. c' = c \<or> (c_Status c = ClusterDeprovisioning \<and> deprovisioning_step (kafkas s) c c')) (clusters s) (clusters s')"
  proof (cases "ListByStatus db ClusterDeprovisioning s")
    case (Inr cs)
    note li = deprovisioning_listed[OF assms(1-3) Inr]
    obtain es s1 where l: "deprovisioning_loop db providers [] cs s = (es, s1)" by (rule prod.exhaust)
    have "s1 = s'" using assms(4) Inr l by (auto simp: Deprovisioning_Reconcile_def processDeprovisioningClusters_def split: if_splits)
    then obtain g where "kafkas s' = kafkas s" "clusters s' = map g (clusters s)" "\<forall>x. g x = x \<or> (x \<in> set cs \<and> deprovisioning_step (kafkas s) x (g x))"
      using deprovisioning_loop_rows[OF assms(1) l li(3,2)] by blast
    then show ?thesis using li(1) by (auto simp: list_all2_conv_all_nth)
  next
    case (Inl e)
    then have "s' = s" using assms(4) by (auto simp: Deprovisioning_Reconcile_def processDeprovisioningClusters_def)
    then show ?thesis by (simp add: list_all2_same)
  qed
  then show ?thesis using deprovisioning_round_works[OF assms] by blast
qed

definition leaving_state :: "Cluster list \<times> KafkaRequest list" where
  "leaving_state = ([sample_cluster\<lparr>c_Status := ClusterDeprovisioning\<rparr>], [sample_kafka ''k1'' ''x1'' KafkaRequestStatusReady])"

theorem deprovisioning_round_witness:
  "\<exists>errs s'. Deprovisioning_Reconcile mem_db Map.empty leaving_state = (errs, s') \<and> db_works mem_db \<and>
     snd s' = snd leaving_state \<and>
     fst s' = map (\<lambda>c. if c_Status c = ClusterDeprovisioning then deprovisioned_cluster Map.empty (snd leaving_state) c else c) (fst leaving_state) \<and>
     map c_Status (fst s') = [ClusterReady]"
proof -
  obtain errs s' where u: "Deprovisioning_Reconcile mem_db Map.empty leaving_state = (errs, s')" by (rule prod.exhaust)
  have "distinct (map c_ID (fst leaving_state))" "\<forall>c \<in> set (fst leaving_state). c_ID c \<noteq> ''''" by code_simp+
  note t = deprovisioning_round[OF mem_db_lawful this u]
  have "map c_Status (fst (snd (Deprovisioning_Reconcile mem_db Map.empty leaving_state))) = [ClusterReady]" by code_simp
  then show ?thesis using t u mem_db_works by auto
qed

end
