(* ===== verification/Lifecycle.thy ===== *)
theory Lifecycle
  imports Kafka_Workers Cluster_Workers
begin

text \<open>
  The composition of the components that change Kafkas: requests of users, reports of the data plane and the rounds of the
  workers, as the steps of one relation on the state.  The theorem at the end is about every interleaving of
  them: a Kafka under deletion never comes back.
\<close>

section \<open>Steps\<close>

text \<open>The steps of the fleet on its Kafkas.  \<open>written\<close> is any update through \<^verbatim>\<open>kafkaService.Updates\<close>, the way
  in which the workers of preparing, provisioning, ready and promoted Kafkas and of routes write a request;
  \<^verbatim>\<open>kafkaService.Update\<close> is such an update by \<open>Kafka_Update_Updates\<close>.  The registration of new Kafkas, which adds a row, and the
  update by an administrator are no steps.\<close>

inductive fleet_step :: "'s kafkaService \<Rightarrow> 's \<Rightarrow> 's \<Rightarrow> bool" for K where
  report: "UpdateDataPlaneKafkaService (ks_db K) (ks_clusterProviders K) newID clusterID reports s = (r, s') \<Longrightarrow> fleet_step K s s'"
| request: "RegisterKafkaDeprovisionJob (ks_db K) ctx i s = (e, s') \<Longrightarrow> fleet_step K s s'"
| accepted: "Accepted_Reconcile K now s = (r, s') \<Longrightarrow> fleet_step K s s'"
| deleting: "Deleting_Reconcile K s = (r, s') \<Longrightarrow> fleet_step K s s'"
| general: "maps_object assigned \<Longrightarrow> General_Reconcile K assigned to32 enableDenyList denyList now s = (errs, s') \<Longrightarrow> fleet_step K s s'"
| written: "(\<And>x. k_ID (f x) = k_ID x) \<Longrightarrow> Kafka_Updates (ks_db K) k f s = (e, s') \<Longrightarrow> fleet_step K s s'"

inductive_cases fleet_stepE: "fleet_step K s s'"

definition keeps_deletion :: "KafkaRequest \<Rightarrow> KafkaRequest \<Rightarrow> bool" where
  "keeps_deletion x x' \<longleftrightarrow> (under_deletion x \<longrightarrow> under_deletion x')"

section \<open>The general worker\<close>

text \<open>Before it suspends Kafkas the worker leaves a status or makes it deprovision.\<close>

definition deprovisions :: "KafkaRequest \<Rightarrow> KafkaRequest \<Rightarrow> bool" where
  "deprovisions x x' \<longleftrightarrow> k_Status x' = k_Status x \<or> k_Status x' = KafkaRequestStatusDeprovision"

lemma deprovisions_trans:
  "evolves deprovisions ks ks1 \<Longrightarrow> evolves deprovisions ks1 ks2 \<Longrightarrow> evolves deprovisions ks ks2"
  by (erule (1) evolves_trans[where W = deprovisions]) (auto simp: deprovisions_def)

lemma deprovision_update_rows:
  assumes "store_lawful db clusters kafkas" "t_update (kafkaT db) p (\<lambda>r. r\<lparr>k_Status := KafkaRequestStatusDeprovision\<rparr>) s = (r, s')"
  shows "evolves deprovisions (kafkas s) (kafkas s')"
  unfolding kafka_update_rows(2)[OF assms] by (auto simp: deprovisions_def intro!: evolves_map)

lemma denied_rows:
  assumes "store_lawful (ks_db K) clusters kafkas" "reconcileDeniedKafkaOwners K users s = (e, s')"
  shows "evolves deprovisions (kafkas s) (kafkas s')"
proof (cases "length users < 1")
  case False
  then obtain r where "t_update (kafkaT (ks_db K)) (\<lambda>r. k_Owner r \<in> set users \<and> k_Status r \<notin> set kafkaDeletionStatuses)
      (\<lambda>r. r\<lparr>k_Status := KafkaRequestStatusDeprovision\<rparr>) s = (r, s')"
    using assms(2) by (auto simp: reconcileDeniedKafkaOwners_def DeprovisionKafkaForUsers_def split: prod.splits sum.splits)
  from deprovision_update_rows[OF assms(1) this] show ?thesis .
qed (use assms(2) in \<open>simp add: reconcileDeniedKafkaOwners_def\<close>)

lemma expired_rows:
  assumes "store_lawful db clusters kafkas" "DeprovisionExpiredKafkas db now s = (e, s')"
  shows "evolves deprovisions (kafkas s) (kafkas s')"
proof -
  have "s' = s \<or> (\<exists>p r. t_update (kafkaT db) p (\<lambda>r. r\<lparr>k_Status := KafkaRequestStatusDeprovision\<rparr>) s = (r, s'))"
    using assms(2) by (auto simp: DeprovisionExpiredKafkas_def Let_def split: sum.splits if_splits prod.splits)
  then show ?thesis using deprovision_update_rows[OF assms(1)] by auto
qed

definition same_status :: "KafkaRequest \<Rightarrow> KafkaRequest \<Rightarrow> bool" where
  "same_status k k' \<longleftrightarrow> k_ID k' = k_ID k \<and> k_Status k' = k_Status k"

lemma expiration_rows:
  assumes "store_lawful (ks_db K) clusters kafkas" "maps_object assigned" "updateKafkaExpirationDate K assigned k t s = (e, k', s')"
  shows "evolves deprovisions (kafkas s) (kafkas s')" and "same_status k k'"
proof -
  let ?f = "\<lambda>r. r\<lparr>k_ExpiresAt := t\<rparr>"
  obtain w where w: "Kafka_Updates (ks_db K) k ?f s = (w, s')" and k': "k' = assigned ?f k"
    using assms(3) by (cases "Kafka_Updates (ks_db K) k ?f s") (auto simp: updateKafkaExpirationDate_def Let_def split: option.splits)
  have "evolves (\<lambda>x x'. same_key k x \<and> \<not> under_deletion x \<and> x' = ?f x) (kafkas s) (kafkas s')"
    by (rule Kafka_Updates_rows(2)[OF assms(1) w]) simp
  then show "evolves deprovisions (kafkas s) (kafkas s')" by (rule evolves_mono) (auto simp: deprovisions_def)
  have "assigned ?f k = k \<or> assigned ?f k = ?f k" using assms(2) unfolding maps_object_def by blast
  then show "same_status k k'" unfolding k' by (elim disjE) (simp_all add: same_status_def)
qed

lemma entitlement_rows:
  assumes "store_lawful (ks_db K) clusters kafkas" "maps_object assigned" "updateExpiresAtBasedOnQuotaEntitlement K assigned now k b s = (e, k', s')"
  shows "evolves deprovisions (kafkas s) (kafkas s') \<and> same_status k k'"
  using assms(3) expiration_rows[OF assms(1,2)] unfolding updateExpiresAtBasedOnQuotaEntitlement_def
  by (auto simp: same_status_def split: if_splits sum.splits)

lemma expires_loop_rows:
  assumes "store_lawful (ks_db K) clusters kafkas" "maps_object assigned"
  shows "reconcileKafkaExpiresAt K assigned now cache ks s = (errs, ks', s') \<Longrightarrow>
    evolves deprovisions (kafkas s) (kafkas s') \<and> list_all2 same_status ks ks'"
proof (induction ks arbitrary: cache s errs ks')
  case (Cons k ks)
  have "\<exists>cache1 k1 s1 errs1 ks1. evolves deprovisions (kafkas s) (kafkas s1) \<and> same_status k k1 \<and> ks' = k1 # ks1 \<and>
      reconcileKafkaExpiresAt K assigned now cache1 ks s1 = (errs1, ks1, s')"
    (is "\<exists>cache1 k1 s1 errs1 ks1. ?P cache1 k1 s1 errs1 ks1")
  proof -
    obtain errs0 ks0 s0 where skip: "reconcileKafkaExpiresAt K assigned now cache ks s = (errs0, ks0, s0)" by (metis prod.exhaust)
    have skipped: "\<exists>cache1 k1 s1 errs1 ks1. ?P cache1 k1 s1 errs1 ks1" if "s' = s0" "ks' = k # ks0"
      using that skip by (intro exI[of _ cache] exI[of _ k] exI[of _ s] exI[of _ errs0] exI[of _ ks0]) (simp add: same_status_def)
    let ?id = "Sprintf ''%s-%s'' [FStr (k_OrganisationId k), FStr (k_ActualKafkaBillingModel k)]"
    define act where "act = (case cache ?id of Some active \<Rightarrow> Inr active | None \<Rightarrow> Kafka_IsQuotaEntitlementActive K k s)"
    note eq = Cons.prems[unfolded reconcileKafkaExpiresAt.simps Let_def skip prod.case act_def[symmetric]]
    show ?thesis
    proof (cases "Contains GetDeletingStatuses (k_Status k) \<or> isl (GetKafkaInstanceSize (ks_kafkaConfig K) (k_InstanceType k) (k_SizeId k)) \<or>
        sz_LifespanSeconds (projr (GetKafkaInstanceSize (ks_kafkaConfig K) (k_InstanceType k) (k_SizeId k))) \<noteq> None \<or> isl act")
      case True
      then show ?thesis using eq by (intro skipped) (auto split: if_splits sum.splits)
    next
      case False
      then obtain sz a where sz: "GetKafkaInstanceSize (ks_kafkaConfig K) (k_InstanceType k) (k_SizeId k) = Inr sz" "sz_LifespanSeconds sz = None" "act = Inr a"
        by (cases "GetKafkaInstanceSize (ks_kafkaConfig K) (k_InstanceType k) (k_SizeId k)"; cases act) auto
      obtain e k1 s1 where u: "updateExpiresAtBasedOnQuotaEntitlement K assigned now k a s = (e, k1, s1)" by (metis prod.exhaust)
      obtain errs1 ks1 s2 where l: "reconcileKafkaExpiresAt K assigned now (cache(?id \<mapsto> a)) ks s1 = (errs1, ks1, s2)" by (metis prod.exhaust)
      have "ks' = k1 # ks1" "s' = s2" using eq False sz u l by simp_all
      then show ?thesis using entitlement_rows[OF assms u] l
        by (intro exI[of _ "cache(?id \<mapsto> a)"] exI[of _ k1] exI[of _ s1] exI[of _ errs1] exI[of _ ks1]) simp
    qed
  qed
  then show ?case using Cons.IH deprovisions_trans by blast
qed simp

text \<open>Suspension never meets a Kafka in status deleting: the worker looks at the status it has listed.\<close>

definition not_deleting :: "KafkaRequest list \<Rightarrow> KafkaRequest \<Rightarrow> bool" where
  "not_deleting rows k \<longleftrightarrow> (CanBeAutomaticallySuspended k \<longrightarrow> (\<forall>x \<in> set rows. k_ID x = k_ID k \<longrightarrow> k_Status x \<noteq> KafkaRequestStatusDeleting))"

lemma suspend_one:
  assumes "store_lawful (ks_db K) clusters kafkas" "Kafka_UpdateStatus (ks_db K) (k_ID k) KafkaRequestStatusSuspending s = (r, s')"
    and "distinct (map k_ID (kafkas s))" "not_deleting (kafkas s) k" "CanBeAutomaticallySuspended k"
  shows "evolves (\<lambda>x x'. \<not> under_deletion x \<and> k_Status x' = KafkaRequestStatusSuspending) (kafkas s) (kafkas s')"
proof -
  obtain tried err where "r = (tried, err)" by (rule prod.exhaust)
  from Kafka_UpdateStatus_rows(2)[OF assms(1) assms(2)[unfolded this] assms(3)] show ?thesis
    by (rule evolves_mono) (use assms(4,5) in \<open>auto simp: not_deleting_def under_deletion_iff kafka_statuses\<close>)
qed

lemma suspend_loop_rows:
  assumes "store_lawful (ks_db K) clusters kafkas"
  shows "suspend_loop K now ks s = (errs, s') \<Longrightarrow> distinct (map k_ID (kafkas s)) \<Longrightarrow> \<forall>k \<in> set ks. not_deleting (kafkas s) k \<Longrightarrow>
    evolves keeps_deletion (kafkas s) (kafkas s')"
proof (induction ks arbitrary: s errs)
  case (Cons k ks)
  obtain r s1 where u: "Kafka_UpdateStatus (ks_db K) (k_ID k) KafkaRequestStatusSuspending s = (r, s1)" by (rule prod.exhaust)
  have "(\<exists>errs1. suspend_loop K now ks s = (errs1, s')) \<or> (CanBeAutomaticallySuspended k \<and> (\<exists>errs1. suspend_loop K now ks s1 = (errs1, s')))"
    using Cons.prems(1) u by (auto simp: Let_def split: if_splits prod.splits sum.splits option.splits)
  then show ?case
  proof (elim disjE exE conjE)
    fix errs1 assume "suspend_loop K now ks s = (errs1, s')"
    then show ?thesis using Cons.IH Cons.prems(2,3) by simp
  next
    fix errs1 assume can: "CanBeAutomaticallySuspended k" and l: "suspend_loop K now ks s1 = (errs1, s')"
    have one: "evolves (\<lambda>x x'. \<not> under_deletion x \<and> k_Status x' = KafkaRequestStatusSuspending) (kafkas s) (kafkas s1)"
      using suspend_one[OF assms u Cons.prems(2) _ can] Cons.prems(3) by simp
    have d: "distinct (map k_ID (kafkas s1))" using evolves_ids[OF one] Cons.prems(2) by simp
    have "\<forall>k \<in> set ks. not_deleting (kafkas s1) k"
    proof
      fix k' assume k': "k' \<in> set ks"
      have "k_Status y \<noteq> KafkaRequestStatusDeleting" if "CanBeAutomaticallySuspended k'" "y \<in> set (kafkas s1)" "k_ID y = k_ID k'" for y
        using evolves_pre[OF one that(2)] Cons.prems(3) k' that unfolding not_deleting_def by (auto simp: kafka_statuses)
      then show "not_deleting (kafkas s1) k'" by (simp add: not_deleting_def)
    qed
    note rest = Cons.IH[OF l d this]
    show ?thesis by (rule evolves_trans[OF one rest]) (simp_all add: keeps_deletion_def)
  qed
qed simp

lemma deprovisions_keeps: "evolves deprovisions ks ks' \<Longrightarrow> evolves keeps_deletion ks ks'"
  by (erule evolves_mono) (auto simp: deprovisions_def keeps_deletion_def under_deletion_iff)

lemma keeps_trans: "evolves keeps_deletion ks ks1 \<Longrightarrow> evolves keeps_deletion ks1 ks2 \<Longrightarrow> evolves keeps_deletion ks ks2"
  by (erule (1) evolves_trans[where W = keeps_deletion]) (auto simp: keeps_deletion_def)

lemma listed_not_deleting:
  assumes "distinct (map k_ID rows)" "k \<in> set rows" "same_status k k'" "evolves deprovisions rows rows'"
  shows "not_deleting rows' k'"
  unfolding not_deleting_def
proof (intro impI ballI)
  fix y assume can: "CanBeAutomaticallySuspended k'" and y: "y \<in> set rows'" "k_ID y = k_ID k'"
  obtain x where x: "x \<in> set rows" "k_ID y = k_ID x" "y = x \<or> deprovisions x y" using evolves_pre[OF assms(4) y(1)] by blast
  have "x = k" using id_unique[OF assms(1) x(1) assms(2)] x(2) y(2) assms(3) by (simp add: same_status_def)
  then have "k_Status y = k_Status k' \<or> k_Status y = KafkaRequestStatusDeprovision" using x(3) assms(3) by (auto simp: deprovisions_def same_status_def)
  then show "k_Status y \<noteq> KafkaRequestStatusDeleting" using can by (auto simp: CanBeAutomaticallySuspended_def kafka_statuses)
qed

lemma general_rows:
  assumes "store_lawful (ks_db K) clusters kafkas" "distinct (map k_ID (kafkas s))" "maps_object assigned"
    and "General_Reconcile K assigned to32 enableDenyList denyList now s = (errs, s')"
  shows "evolves keeps_deletion (kafkas s) (kafkas s')"
proof -
  define ks where "ks = (case Kafka_ListAll (ks_db K) s of Inl err \<Rightarrow> [] | Inr ks \<Rightarrow> ks)"
  have ks: "set ks \<subseteq> set (kafkas s)"
    using t_scan_set[OF kafkaT_lawful[OF assms(1)]] unfolding ks_def Kafka_ListAll_def by (auto split: sum.splits)
  have ks': "snd (case Kafka_ListAll (ks_db K) s of Inl err \<Rightarrow> ([ServiceErr err], []) | Inr ks \<Rightarrow> ([], ks)) = ks"
    by (simp add: ks_def split: sum.splits)
  obtain e1 s1 where 1: "(if enableDenyList then reconcileDeniedKafkaOwners K denyList s else (None, s)) = (e1, s1)" by (rule prod.exhaust)
  obtain e2 ks2 s2 where 2: "reconcileKafkaExpiresAt K assigned now Map.empty ks s1 = (e2, ks2, s2)" by (metis prod.exhaust)
  obtain e3 s3 where 3: "suspend_loop K now ks2 s2 = (e3, s3)" by (rule prod.exhaust)
  obtain e4 s4 where 4: "DeprovisionExpiredKafkas (ks_db K) now s3 = (e4, s4)" by (rule prod.exhaust)
  have s': "s' = s4" using assms(4) 1 2 3 4 ks' by (auto simp: General_Reconcile_def Let_def split: prod.splits)
  have r1: "evolves deprovisions (kafkas s) (kafkas s1)" using denied_rows[OF assms(1)] 1 by (auto split: if_splits)
  note r2 = conjunct1[OF expires_loop_rows[OF assms(1,3) 2]] and same = conjunct2[OF expires_loop_rows[OF assms(1,3) 2]]
  note r12 = deprovisions_trans[OF r1 r2]
  have "\<forall>k \<in> set ks2. not_deleting (kafkas s2) k"
  proof
    fix k' assume "k' \<in> set ks2"
    then obtain k where "k \<in> set ks" "same_status k k'" using same by (metis in_set_conv_nth list_all2_conv_all_nth)
    then show "not_deleting (kafkas s2) k'" using listed_not_deleting[OF assms(2) _ _ r12] ks by blast
  qed
  moreover have "distinct (map k_ID (kafkas s2))" using evolves_ids[OF r12] assms(2) by simp
  ultimately have "evolves keeps_deletion (kafkas s2) (kafkas s3)" using suspend_loop_rows[OF assms(1) 3] by blast
  then show ?thesis unfolding s' using deprovisions_keeps[OF r12] deprovisions_keeps[OF expired_rows[OF assms(1) 4]] keeps_trans by blast
qed

section \<open>Every interleaving\<close>

text \<open>What one step does: rows keep their deletion, or only removable rows go.\<close>

definition rows_step :: "KafkaRequest list \<Rightarrow> KafkaRequest list \<Rightarrow> bool" where
  "rows_step ks ks' \<longleftrightarrow> evolves keeps_deletion ks ks' \<or> (\<exists>gone. gone \<subseteq> k_ID ` {k \<in> set ks. removable k} \<and> ks' = filter (\<lambda>k. k_ID k \<notin> gone) ks)"

lemma removable_under_deletion: "removable k \<Longrightarrow> under_deletion k"
  by (auto simp: removable_def under_deletion_iff)

lemma report_keeps:
  assumes "store_lawful db clusters kafkas" "distinct (map k_ID (kafkas s))"
    and "UpdateDataPlaneKafkaService db providers newID clusterID reports s = (r, s')"
  shows "evolves keeps_deletion (kafkas s) (kafkas s')"
proof (cases "\<exists>c. FindClusterByID db clusterID s = Inr (Some c)")
  case True
  then obtain c where "reports_loop db providers newID 0 c reports (empty_prewarming c) s = (r, s')" using assms(3) by (auto simp: UpdateDataPlaneKafkaService_def)
  from reports_loop_rows[OF assms(1) this assms(2)] show ?thesis
    by (rule evolves_mono) (auto simp: report_step_def report_moves_def keeps_deletion_def under_deletion_iff kafka_statuses)
next
  case False
  then have "s' = s" using assms(3) by (auto simp: UpdateDataPlaneKafkaService_def split: sum.splits option.splits)
  then show ?thesis by simp
qed

lemma request_keeps:
  assumes "store_lawful db clusters kafkas" "distinct (map k_ID (kafkas s))" "RegisterKafkaDeprovisionJob db ctx i s = (e, s')"
  shows "evolves keeps_deletion (kafkas s) (kafkas s')"
proof -
  obtain tried err s1 where u: "Kafka_UpdateStatus db i KafkaRequestStatusDeprovision s = ((tried, err), s1)" by (metis prod.exhaust)
  have "s' = s \<or> s' = s1" using assms(3) u by (auto simp: RegisterKafkaDeprovisionJob_def Let_def split: if_splits sum.splits option.splits bool.splits)
  moreover have "evolves keeps_deletion (kafkas s) (kafkas s1)"
    using Kafka_UpdateStatus_rows(2)[OF assms(1) u assms(2)] by (rule evolves_mono) (simp add: keeps_deletion_def under_deletion_iff)
  ultimately show ?thesis by auto
qed

lemma fleet_step_rows:
  assumes "store_lawful (ks_db K) clusters kafkas" "release_frame K kafkas" "distinct (map k_ID (kafkas s))" "\<forall>k \<in> set (kafkas s). k_ID k \<noteq> ''''" "fleet_step K s s'"
  shows "rows_step (kafkas s) (kafkas s')"
  using assms(5)
proof (cases rule: fleet_step.cases)
  case (report newID clusterID reports r)
  then show ?thesis using report_keeps[OF assms(1,3)] by (simp add: rows_step_def)
next
  case (request ctx i e)
  then show ?thesis using request_keeps[OF assms(1,3)] by (simp add: rows_step_def)
next
  case (accepted now r)
  have "evolves keeps_deletion (kafkas s) (kafkas s')" using accepted_round_rows[OF assms(1,3,4) accepted]
    by (rule evolves_mono) (auto simp: keeps_deletion_def under_deletion_iff kafka_statuses)
  then show ?thesis by (simp add: rows_step_def)
next
  case (deleting r)
  then show ?thesis using deleting_round_rows[OF assms(1,2), of s] by (auto simp: rows_step_def)
next
  case (general assigned to32 enableDenyList denyList now errs)
  then show ?thesis using general_rows[OF assms(1,3)] by (simp add: rows_step_def)
next
  case (written f k e)
  have "evolves (\<lambda>x x'. same_key k x \<and> \<not> under_deletion x \<and> x' = f x) (kafkas s) (kafkas s')" by (rule Kafka_Updates_rows(2)[OF assms(1) written(2)]) (rule written(1))
  then have "evolves keeps_deletion (kafkas s) (kafkas s')" by (rule evolves_mono) (simp add: keeps_deletion_def)
  then show ?thesis by (simp add: rows_step_def)
qed

definition fleet_invariant :: "KafkaRequest list \<Rightarrow> KafkaRequest list \<Rightarrow> bool" where
  "fleet_invariant ks ks' \<longleftrightarrow> distinct (map k_ID ks') \<and> (\<forall>k' \<in> set ks'. \<exists>k \<in> set ks. k_ID k = k_ID k' \<and> (under_deletion k \<longrightarrow> under_deletion k'))"

lemma fleet_invariant_step:
  assumes "fleet_invariant ks ks1" "rows_step ks1 ks2"
  shows "fleet_invariant ks ks2"
  using assms(2) unfolding rows_step_def
proof (elim disjE exE conjE)
  assume e: "evolves keeps_deletion ks1 ks2"
  have "distinct (map k_ID ks2)" using evolves_ids[OF e] assms(1) by (simp add: fleet_invariant_def)
  moreover have "\<exists>k \<in> set ks. k_ID k = k_ID k' \<and> (under_deletion k \<longrightarrow> under_deletion k')" if k': "k' \<in> set ks2" for k'
  proof -
    obtain x where x: "x \<in> set ks1" "k_ID k' = k_ID x" "k' = x \<or> keeps_deletion x k'" using evolves_pre[OF e k'] by blast
    then obtain k where "k \<in> set ks" "k_ID k = k_ID x" "under_deletion k \<longrightarrow> under_deletion x" using assms(1) unfolding fleet_invariant_def by blast
    then show ?thesis using x(2,3) by (intro bexI[of _ k]) (auto simp: keeps_deletion_def)
  qed
  ultimately show ?thesis by (simp add: fleet_invariant_def)
qed (use assms(1) in \<open>auto simp: fleet_invariant_def distinct_map_filter\<close>)

section \<open>Properties\<close>

text \<open>C1. Deletion is final.  Take any interleaving of requests to delete a Kafka, reports of the data plane, rounds of the
  workers of accepted and deleting Kafkas and of the general worker, and writes of the other workers.  A Kafka that is
  under deletion is under deletion for as long as its row exists, and identifiers stay unique and
  come from rows that were there.\<close>

theorem deletion_is_final:
  assumes "store_lawful (ks_db K) clusters kafkas" "release_frame K kafkas" "distinct (map k_ID (kafkas s))" "\<forall>k \<in> set (kafkas s). k_ID k \<noteq> ''''"
    and "(fleet_step K)\<^sup>*\<^sup>* s s'"
  shows "distinct (map k_ID (kafkas s')) \<and> k_ID ` set (kafkas s') \<subseteq> k_ID ` set (kafkas s) \<and>
         (\<forall>k \<in> set (kafkas s). \<forall>k' \<in> set (kafkas s'). k_ID k' = k_ID k \<and> under_deletion k \<longrightarrow> under_deletion k')"
proof -
  have inv: "fleet_invariant (kafkas s) (kafkas s')"
    using assms(5)
  proof (induction rule: rtranclp_induct)
    case base
    then show ?case using assms(3) by (auto simp: fleet_invariant_def)
  next
    case (step s1 s2)
    have "\<forall>k \<in> set (kafkas s1). k_ID k \<noteq> ''''" using step.IH assms(4) unfolding fleet_invariant_def by metis
    then have "rows_step (kafkas s1) (kafkas s2)" using fleet_step_rows[OF assms(1,2) _ _ step.hyps(2)] step.IH by (simp add: fleet_invariant_def)
    then show ?case by (rule fleet_invariant_step[OF step.IH])
  qed
  have "under_deletion k'" if "k \<in> set (kafkas s)" "k' \<in> set (kafkas s')" "k_ID k' = k_ID k" "under_deletion k" for k k'
  proof -
    obtain x where x: "x \<in> set (kafkas s)" "k_ID x = k_ID k'" "under_deletion x \<longrightarrow> under_deletion k'" using inv \<open>k' \<in> set (kafkas s')\<close> unfolding fleet_invariant_def by blast
    then show ?thesis using id_unique[OF assms(3) x(1) that(1)] that(3,4) by simp
  qed
  moreover have "k_ID ` set (kafkas s') \<subseteq> k_ID ` set (kafkas s)"
  proof
    fix i assume "i \<in> k_ID ` set (kafkas s')"
    then obtain k' where k': "k' \<in> set (kafkas s')" "i = k_ID k'" by blast
    then obtain k where "k \<in> set (kafkas s)" "k_ID k = k_ID k'" using inv unfolding fleet_invariant_def by blast
    then show "i \<in> k_ID ` set (kafkas s)" using imageI[of k "set (kafkas s)" k_ID] k'(2) by simp
  qed
  ultimately show ?thesis using inv by (auto simp: fleet_invariant_def)
qed

theorem deletion_is_final_witness:
  "\<exists>s'. (fleet_step sample_service)\<^sup>*\<^sup>* sample_state s' \<and> map k_ID (snd s') = [''k1'', ''k2''] \<and> distinct (map k_ID (snd s')) \<and>
     (\<forall>k \<in> set (snd sample_state). \<forall>k' \<in> set (snd s'). k_ID k' = k_ID k \<and> under_deletion k \<longrightarrow> under_deletion k')"
proof -
  obtain r s' where u: "Deleting_Reconcile sample_service sample_state = (r, s')" by (rule prod.exhaust)
  have step: "(fleet_step sample_service)\<^sup>*\<^sup>* sample_state s'" by (rule r_into_rtranclp) (rule fleet_step.deleting[OF u])
  have law: "store_lawful (ks_db sample_service) fst snd" using mem_db_lawful by (simp add: sample_service_def)
  have "distinct (map k_ID (snd sample_state))" "\<forall>k \<in> set (snd sample_state). k_ID k \<noteq> ''''" by code_simp+
  note t = deletion_is_final[OF law sample_release_frame this step]
  have "map k_ID (snd (snd (Deleting_Reconcile sample_service sample_state))) = [''k1'', ''k2'']" by code_simp
  then show ?thesis using t u step by (intro exI[of _ s']) simp
qed

end
