(* ===== verification/Spec2Isabelle.thy ===== *)
theory Spec2Isabelle
  imports Query_Parser Dynamic_Scaling Quota_List Lifecycle
begin

text \<open>
  A verification library for \<^verbatim>\<open>kas-fleet-manager\<close>, the control plane of a managed Kafka service written in Go.  The program takes
  requests for Kafka instances, admits them against region limits and quota, places them on data plane clusters, follows the
  reports of the operators on those clusters, and has workers that move requests and clusters through their life
  cycles, scale the clusters and clean up.  Paths below are relative to \<^verbatim>\<open>src/\<close>; \<^verbatim>\<open>K\<close> is \<^verbatim>\<open>internal/kafka/internal\<close>.

  \<^bold>\<open>How the parts fit.\<close>  The services (\<^verbatim>\<open>K/services\<close>) read and write two tables, clusters and Kafka requests.  The HTTP layer
  calls them for users, the data plane calls them with reports, and every worker (\<^verbatim>\<open>K/workers\<close>) repeats a round \<^verbatim>\<open>Reconcile\<close>
  that lists rows by status and handles them one after the other.  The configuration (\<^verbatim>\<open>K/config\<close>) says which instance
  types, sizes, regions and clusters there are.

  \<^bold>\<open>How code becomes definitions.\<close>  A struct is a record, an operation a function under its Go name (with a prefix where two
  types share a method name).  State is passed explicitly: an operation of type \<open>'s \<Rightarrow> r \<times> 's\<close> may change the state, one
  of type \<open>'s \<Rightarrow> r\<close> reads it.  Results with errors are sums, \<open>svc\<close> with a \<^verbatim>\<open>*ServiceError\<close> and \<open>err\<close> with an
  \<^verbatim>\<open>error\<close>; code that may also panic has the type \<open>go\<close>.  A comment before a definition names the lines it translates.

  \<^bold>\<open>Theories.\<close>
  \<^item> \<open>Prelude\<close>: Go strings, \<^verbatim>\<open>strings\<close>, \<^verbatim>\<open>fmt.Sprintf\<close>, 32 bit integers, shared lemmas.  \<open>Go_Errors\<close>: \<^verbatim>\<open>pkg/errors\<close>, with the table of
    codes, the builder and error lists, where adding errors is compared with the leaves of the nested lists.  \<open>Go_Arrays\<close>: \<^verbatim>\<open>pkg/shared/utils/arrays\<close>.  \<open>Go_Regexp\<close>: matching of the regular
    expressions the code uses.
  \<^item> \<open>String_Scanner\<close>, \<open>State_Machine\<close>, \<open>Query_Parser\<close>: the scanners, the grammar machine and \<^verbatim>\<open>pkg/services/queryparser\<close>.  An accepted filter
    yields SQL of grammar words, known columns and placeholders only, with balanced braces in its text; what is stored of a quoted value
    is given for every UTF-8 text; both scanners satisfy the locale
    \<open>token_stream\<close>, in which the draining loop is proved to see every token once.
  \<^item> \<open>Cluster_Types\<close>, \<open>Kafka_Types\<close>, \<open>Instance_Types\<close>, \<open>Provider_Config\<close>: \<^verbatim>\<open>pkg/api\<close>, \<^verbatim>\<open>K/api/dbapi\<close> and \<^verbatim>\<open>K/config\<close>.  Sorting of Strimzi
    versions, validation of configurations and what a valid configuration guarantees.  Both status orders interpret the
    locale \<open>status_order\<close>.
  \<^item> \<open>Store\<close>: the tables as an interface with laws (\<open>store_lawful\<close>): what a query returns and which rows a statement leaves, also
    when it fails.  Every statement may fail; \<open>db_works\<close> is the assumption that none does, under which the outcome of a round over the
    deprovisioning clusters is an equation.  \<open>mem_db\<close> is an instance used in the witnesses.
  \<^item> \<open>Cluster_Service\<close>, \<open>Placement\<close>, \<open>Dynamic_Scaling\<close>: \<^verbatim>\<open>K/services/clusters.go\<close>, the placement strategies and the scaling workers.  The
    three strategies and their choice interpret the locale \<open>placement\<close>; scaling down spares clusters with Kafkas and never
    undoes what scaling up would redo.
  \<^item> \<open>Kafka_Service\<close>, \<open>Quota_List\<close>: \<^verbatim>\<open>K/services/kafka.go\<close> and the quota list.  Registration keeps region limits and the quota of
    organisations; the quota list service interprets the locale \<open>quota_provider\<close> the registration relies on.
  \<^item> \<open>Data_Plane\<close>: reports of Kafkas and of clusters, and the status moves they may cause.
  \<^item> \<open>Kafka_Workers\<close>, \<open>Cluster_Workers\<close>: the rounds of the workers.  \<open>reconcile_each\<close> is the loop they share, and \<open>reconcile_status_rows\<close>
    and \<open>reconcile_each_outcome\<close> lift what a handler does to its row to the whole round.
  \<^item> \<open>Lifecycle\<close>: the steps that change Kafkas as one relation \<open>fleet_step\<close>, and that deletion is final over all interleavings of them.

  \<^bold>\<open>Relations on tables.\<close>  \<open>evolves T ks ks'\<close> says that each row is kept or changed along \<open>T\<close> under its identifier.  It allows a row to
  stay, so it is used where the claim is what may change; where the claim is what does change, as for accepted Kafkas, promotions and
  deprovisioning clusters, the property gives the outcome of each row, with the errors that excuse a row that stays.

  \<^bold>\<open>Arguments and hypotheses.\<close>  Code outside the sources is an argument: the database, the object mapper's effect on objects in
  memory (\<open>assigned\<close>, assumed to leave the object or assign the values), semantic versions, quantities and durations, DNS and identity
  clients, certificates, cluster providers, the clock and new identifiers.  Hypotheses on them say that they leave the tables of the
  program alone.  Each property with hypotheses has a witness at a concrete state.

  \<^bold>\<open>Bounds, fuel and termination.\<close>  There is no fuel: loops are structural recursion, or \<open>function\<close> with a termination proof (nested
  error lists by size, the scanners by what is left of the text).  Go's \<^verbatim>\<open>int\<close> is unbounded here; \<^verbatim>\<open>int32\<close> is a word of 32 bits and wraps.  Capacities
  the code computes in \<^verbatim>\<open>float64\<close> are integers, which is exact wherever the result fits 32 bits; the conversion is an argument.  Times are
  nanoseconds, and a calendar day has 24 hours.  \<^verbatim>\<open>sort.Slice\<close> is insertion sort at every length; the library leaves the order of equal
  elements open.  \<^verbatim>\<open>Create\<close> and \<^verbatim>\<open>Save\<close> share one operation of a table, and properties of \<^verbatim>\<open>Create\<close> are for new keys.  Chains of errors that end in
  a nil \<^verbatim>\<open>*ServiceError\<close> are not searched for lists, where Go would panic.

  \<^bold>\<open>Sequential reading.\<close>  An operation runs as one step.  Two workers or requests that interleave between a read and the write that
  depends on it are not covered, nor are transactions.

  \<^bold>\<open>Not modelled.\<close>  The connector service, the HTTP handlers, presenters and generated API types; the AMS quota service, cluster providers,
  certificate management and clients of remote services, which are reached through arguments; the framework of the workers with
  leader election, timers and goroutines; authentication; migrations, metrics, logging and dependency injection.  Of
  \<^verbatim>\<open>K/workers/cluster_mgrs/clusters_mgr.go\<close> the terraforming steps, the Kubernetes resources and the machine pools are left out.
\<close>

end
